(* ===== verification/Ei_Prelude.thy ===== *)
theory Ei_Prelude
  imports Complex_Main "HOL-Library.AList" "HOL-Library.List_Lexorder" "HOL-Library.Char_ord"
    "HOL-Library.Product_Lexorder" "HOL-Library.Multiset"
begin

section \<open>Shared vocabulary of the development\<close>

text \<open>
  What every component of the engine under \<^verbatim>\<open>src/src/ei\<close> uses: Python exceptions as
  values, the JSON-like values that cross the persistence boundaries, dictionaries with insertion
  order, sorted sets, the few regular expressions the code matches identifiers with, and rounding
  of scores.

  A Python \<open>str\<close> is a \<^typ>\<open>string\<close>: one \<^typ>\<open>char\<close> stands for one code point, so
  the model covers texts over the code points \<open>0..255\<close> and \<^const>\<open>length\<close> is the code's
  \<open>len\<close>. String comparison is the lexicographic order by code point, as in Python.
\<close>

named_theorems result_simps \<open>rewriting of the result monad\<close>
named_theorems dict_simps \<open>lookup in updated dictionaries\<close>

subsection \<open>Exceptions as values\<close>

text \<open>The exception classes the modelled code raises, with the code it passes as the message.\<close>

datatype exn =
    ValueError string
  | TypeError string
  | KeyError string
  | QueueError string
  | CaptureLedgerError string
  | ProviderSelectionError string
  | PrivacyError string
  | JournalIntegrityError string
  | CommandQuoteError string
  | OSError string
  | SpoolError string
  | AttributeError string

type_synonym 'a result = "exn + 'a"

text \<open>Sequencing: the first exception ends the computation.\<close>

definition rbind :: "'e + 'a \<Rightarrow> ('a \<Rightarrow> 'e + 'b) \<Rightarrow> 'e + 'b" where
  "rbind m f = (case m of Inl e \<Rightarrow> Inl e | Inr x \<Rightarrow> f x)"

lemma rbind_Inl [simp]: "rbind (Inl e) f = Inl e"
  by (simp add: rbind_def)

lemma rbind_Inr [simp]: "rbind (Inr x) f = f x"
  by (simp add: rbind_def)

lemma rbind_eq_Inr [result_simps]: "rbind m f = Inr y \<longleftrightarrow> (\<exists>x. m = Inr x \<and> f x = Inr y)"
  by (cases m) auto

lemma rbind_eq_Inl [result_simps]:
  "rbind m f = Inl e \<longleftrightarrow> m = Inl e \<or> (\<exists>x. m = Inr x \<and> f x = Inl e)"
  by (cases m) auto

lemma if_Inl_eq_Inr [result_simps]: "(if b then Inl e else m) = Inr y \<longleftrightarrow> \<not> b \<and> m = Inr y"
  by simp

lemma rbind_unit: "rbind m f = Inr y \<longleftrightarrow> m = Inr () \<and> f () = Inr y"
  by (cases m) auto

text \<open>The branches of an equation between a conditional and a value; the negative condition is dropped.\<close>

lemma if_eqE: "(if b then x else y) = z \<Longrightarrow> (b \<Longrightarrow> x = z \<Longrightarrow> P) \<Longrightarrow> (y = z \<Longrightarrow> P) \<Longrightarrow> P"
  by (cases b) simp_all

lemma map_sum_Inr: "map_sum f g m = Inr y \<Longrightarrow> \<exists>x. m = Inr x \<and> g x = y"
  by (cases m) auto

text \<open>A comprehension whose element expression may raise.\<close>

fun rmap :: "('a \<Rightarrow> 'e + 'b) \<Rightarrow> 'a list \<Rightarrow> 'e + 'b list" where
  "rmap f [] = Inr []"
| "rmap f (x # xs) = rbind (f x) (\<lambda>y. rbind (rmap f xs) (\<lambda>ys. Inr (y # ys)))"

lemma rmap_eq_Inr: "rmap f xs = Inr ys \<longleftrightarrow> list_all2 (\<lambda>x y. f x = Inr y) xs ys"
  by (induction xs arbitrary: ys) (auto simp: result_simps list_all2_Cons1)

lemma list_all2_sources: "list_all2 P xs ys \<Longrightarrow> y \<in> set ys \<Longrightarrow> \<exists>x \<in> set xs. P x y"
  by (induction rule: list_all2_induct) auto

lemma list_all2_images: "list_all2 P xs ys \<Longrightarrow> x \<in> set xs \<Longrightarrow> \<exists>y \<in> set ys. P x y"
  by (induction rule: list_all2_induct) auto

lemma rmap_cong_Inr: "(\<And>x. x \<in> set xs \<Longrightarrow> f x = Inr (g x)) \<Longrightarrow> rmap f xs = Inr (map g xs)"
  by (induction xs) auto

lemma rmap_map: "rmap f (map g xs) = rmap (f \<circ> g) xs"
  by (induction xs) simp_all

subsection \<open>JSON-like values and dictionaries\<close>

text \<open>
  The values a \<open>Mapping[str, Any]\<close> carries. A tuple and a list are different values, as
  \<open>isinstance\<close> tells them apart; a finite float is the rational it denotes.
\<close>

datatype pyval =
    PNone
  | PBool bool
  | PInt int
  | PFloat rat
  | PStr string
  | PList "pyval list"
  | PTuple "pyval list"
  | PDict "(string \<times> pyval) list"

type_synonym 'v dict = "(string \<times> 'v) list"
type_synonym pydict = "pyval dict"

text \<open>\<open>d.get(k, default)\<close>; \<open>d[k] = v\<close> keeps the position of a key that is there.\<close>

definition get_default :: "'v dict \<Rightarrow> string \<Rightarrow> 'v \<Rightarrow> 'v" where
  "get_default d k v = (case map_of d k of None \<Rightarrow> v | Some w \<Rightarrow> w)"

abbreviation dict_set :: "'k \<Rightarrow> 'v \<Rightarrow> ('k \<times> 'v) list \<Rightarrow> ('k \<times> 'v) list" where
  "dict_set \<equiv> AList.update"

definition has_key :: "('k \<times> 'v) list \<Rightarrow> 'k \<Rightarrow> bool" where
  "has_key d k \<longleftrightarrow> map_of d k \<noteq> None"

lemma map_of_dict_set [dict_simps]: "map_of (dict_set k v d) = (map_of d)(k \<mapsto> v)"
  by (simp add: update_conv')

lemma has_key_dict_set [dict_simps]: "has_key (dict_set k v d) l \<longleftrightarrow> l = k \<or> has_key d l"
  by (simp add: has_key_def update_conv')

lemma dict_set_same: "map_of d k = Some v \<Longrightarrow> dict_set k v d = d"
  by (induction d) (auto split: if_splits)

lemma set_keys_dict_set: "fst ` set (dict_set k v d) = insert k (fst ` set d)"
  by (induction d) auto

text \<open>Python truthiness of a value (\<open>bool(v)\<close>, \<open>if v:\<close>).\<close>

fun truthy :: "pyval \<Rightarrow> bool" where
  "truthy PNone = False"
| "truthy (PBool b) = b"
| "truthy (PInt i) = (i \<noteq> 0)"
| "truthy (PFloat q) = (q \<noteq> 0)"
| "truthy (PStr s) = (s \<noteq> [])"
| "truthy (PList xs) = (xs \<noteq> [])"
| "truthy (PTuple xs) = (xs \<noteq> [])"
| "truthy (PDict d) = (d \<noteq> [])"

fun is_str :: "pyval \<Rightarrow> bool" where
  "is_str (PStr _) = True"
| "is_str _ = False"

fun the_str :: "pyval \<Rightarrow> string" where
  "the_str (PStr s) = s"
| "the_str _ = []"

text \<open>\<open>isinstance(v, (list, tuple))\<close> with the items, \<^const>\<open>None\<close> otherwise.\<close>

fun seq_items :: "pyval \<Rightarrow> pyval list option" where
  "seq_items (PList xs) = Some xs"
| "seq_items (PTuple xs) = Some xs"
| "seq_items _ = None"

text \<open>
  \<open>dict(pairs)\<close>: a later pair overwrites an earlier one of the same key; and the merge loop that
  two operations of the capture ledger run, where a key with another value is a conflict.
\<close>

definition dict_of :: "('k \<times> 'v) list \<Rightarrow> ('k \<times> 'v) list" where
  "dict_of ps = fold (\<lambda>(k, v) d. dict_set k v d) ps []"

fun merge_into :: "'e \<Rightarrow> ('k \<times> 'v) list \<Rightarrow> ('k \<times> 'v) list \<Rightarrow> 'e + ('k \<times> 'v) list" where
  "merge_into e d [] = Inr d"
| "merge_into e d ((k, v) # ps) = (case map_of d k of
       Some w \<Rightarrow> if w \<noteq> v then Inl e else merge_into e (dict_set k v d) ps
     | None \<Rightarrow> merge_into e (dict_set k v d) ps)"

lemma distinct_fold_dict_set:
  "distinct (map fst d) \<Longrightarrow> distinct (map fst (fold (\<lambda>(k, v) d. dict_set k v d) ps d))"
  by (induction ps arbitrary: d) (auto simp: distinct_update)

lemma distinct_dict_of [simp]: "distinct (map fst (dict_of ps))"
  unfolding dict_of_def by (rule distinct_fold_dict_set) simp

lemma dict_set_new: "k \<notin> fst ` set d \<Longrightarrow> dict_set k v d = d @ [(k, v)]"
  by (induction d) auto

lemma fold_dict_set_distinct:
  "distinct (map fst (d @ ps)) \<Longrightarrow> fold (\<lambda>(k, v) d. dict_set k v d) ps d = d @ ps"
  by (induction ps arbitrary: d) (auto simp: dict_set_new)

lemma dict_of_id: "distinct (map fst ps) \<Longrightarrow> dict_of ps = ps"
  using fold_dict_set_distinct [of "[]" ps] by (simp add: dict_of_def)

lemma merge_into_Cons:
  "merge_into e d ((k, v) # ps) =
     (if map_of d k = None \<or> map_of d k = Some v then merge_into e (dict_set k v d) ps else Inl e)"
  by (simp split: option.splits)

declare merge_into.simps(2) [simp del]

lemma merge_into_le: "merge_into e d ps = Inr d' \<Longrightarrow> map_of d \<subseteq>\<^sub>m map_of d'"
proof (induction ps arbitrary: d)
  case (Cons p ps)
  obtain k v where p: "p = (k, v)" by (cases p)
  with Cons.prems have free: "map_of d k = None \<or> map_of d k = Some v"
    and rest: "merge_into e (dict_set k v d) ps = Inr d'"
    by (auto simp: merge_into_Cons split: if_splits)
  have "map_of d \<subseteq>\<^sub>m map_of (dict_set k v d)"
    using free by (auto simp: map_of_dict_set map_le_def)
  then show ?case using Cons.IH [OF rest] by (rule map_le_trans)
qed simp

lemma merge_into_new: "merge_into e d ps = Inr d' \<Longrightarrow> (k, v) \<in> set ps \<Longrightarrow> map_of d' k = Some v"
proof (induction ps arbitrary: d)
  case (Cons p ps)
  obtain l w where p: "p = (l, w)" by (cases p)
  with Cons.prems have rest: "merge_into e (dict_set l w d) ps = Inr d'"
    by (auto simp: merge_into_Cons split: if_splits)
  have "map_of d' l = Some w"
    using merge_into_le [OF rest] by (auto simp: map_of_dict_set map_le_def)
  then show ?case using Cons.IH [OF rest] Cons.prems(2) p by auto
qed simp

lemma merge_into_distinct:
  "merge_into e d ps = Inr d' \<Longrightarrow> distinct (map fst d) \<Longrightarrow> distinct (map fst d')"
proof (induction ps arbitrary: d)
  case (Cons p ps)
  obtain k v where p: "p = (k, v)" by (cases p)
  with Cons.prems have rest: "merge_into e (dict_set k v d) ps = Inr d'"
    by (auto simp: merge_into_Cons split: if_splits)
  then show ?case using Cons.IH [OF rest] Cons.prems(2) by (simp add: distinct_update)
qed simp

text \<open>Without a conflict the result holds exactly the pairs of both sides.\<close>

lemma set_dict_set_free:
  "map_of d k = None \<or> map_of d k = Some v \<Longrightarrow> set (dict_set k v d) = insert (k, v) (set d)"
  by (metis dict_set_new dict_set_same insert_absorb map_of_SomeD map_of_eq_None_iff set_append
      list.simps(15) list.set(1) Un_insert_right sup_bot_right)

lemma merge_into_set:
  "merge_into e d ps = Inr d' \<Longrightarrow> distinct (map fst d) \<Longrightarrow> set d' = set d \<union> set ps"
proof (induction ps arbitrary: d)
  case (Cons p ps)
  obtain k v where p: "p = (k, v)" by (cases p)
  with Cons.prems have free: "map_of d k = None \<or> map_of d k = Some v"
    and rest: "merge_into e (dict_set k v d) ps = Inr d'"
    by (auto simp: merge_into_Cons split: if_splits)
  then show ?case using Cons.IH [OF rest] Cons.prems(2) p
    by (auto simp: distinct_update set_dict_set_free)
qed simp

lemma merge_into_conflict:
  assumes "distinct (map fst d)" "distinct (map fst ps)"
  shows "merge_into e d ps = Inl e \<longleftrightarrow> (\<exists>k v w. (k, v) \<in> set d \<and> (k, w) \<in> set ps \<and> v \<noteq> w)"
  using assms
proof (induction ps arbitrary: d)
  case (Cons p ps)
  obtain k v where p: "p = (k, v)" by (cases p)
  show ?case
  proof (cases "map_of d k = None \<or> map_of d k = Some v")
    case True
    have "w = v" if "(k, w) \<in> set d" for w
      using map_of_is_SomeI [OF Cons.prems(1) that] True by auto
    moreover have "(k, w) \<notin> set ps" for w
      using Cons.prems(2) p by force
    ultimately show ?thesis
      using True Cons by (simp add: p merge_into_Cons distinct_update set_dict_set_free) blast
  next
    case False
    then obtain w where "map_of d k = Some w" "w \<noteq> v" by auto
    then show ?thesis using False by (auto simp: p merge_into_Cons dest: map_of_SomeD)
  qed
qed simp

lemma merge_into_Inl: "merge_into e d ps = Inl x \<Longrightarrow> x = e"
  by (induction ps arbitrary: d) (auto simp: merge_into_Cons split: if_splits)

text \<open>Merging what is there already changes nothing.\<close>

lemma merge_into_absorb:
  "(\<And>k v. (k, v) \<in> set ps \<Longrightarrow> map_of d k = Some v) \<Longrightarrow> merge_into e d ps = Inr d"
proof (induction ps)
  case (Cons p ps)
  obtain k v where p: "p = (k, v)" by (cases p)
  with Cons.prems have "map_of d k = Some v" by auto
  with Cons p show ?case by (auto simp: merge_into_Cons dict_set_same)
qed simp

text \<open>Sorting a dictionary's items keeps the mapping.\<close>

lemma distinct_keys_sort:
  fixes d :: "('k::linorder \<times> 'v::linorder) list"
  shows "distinct (map fst (sort d)) \<longleftrightarrow> distinct (map fst d)"
  by (metis mset_eq_imp_distinct_iff mset_map mset_sort)

lemma map_of_sort:
  fixes d :: "('k::linorder \<times> 'v::linorder) list"
  assumes "distinct (map fst d)"
  shows "map_of (sort d) = map_of d"
  using assms by (intro map_of_inject_set [THEN iffD2]) (simp_all add: distinct_keys_sort)

text \<open>Sorting by a key commutes with a map that keeps the key, and sorting by the keys keeps the mapping.\<close>

lemma insort_map: "(\<And>x. f (h x) = g x) \<Longrightarrow> insort_key f (h x) (map h ys) = map h (insort_key g x ys)"
  by (induction ys) auto

lemma sort_key_map: "(\<And>x. f (h x) = g x) \<Longrightarrow> sort_key f (map h xs) = map h (sort_key g xs)"
  by (induction xs) (simp_all add: insort_map)

lemma map_of_filter_key: "map_of (filter (\<lambda>x. fst x = k) d) k = map_of d k"
  by (induction d) auto

lemma map_of_sort_key: "map_of (sort_key fst d) k = map_of d k"
  using sort_key_stable [of fst k d] map_of_filter_key [of k d] map_of_filter_key [of k "sort_key fst d"] by simp

lemmas merge_into_facts = merge_into_le merge_into_new merge_into_set merge_into_distinct

subsection \<open>Sums over dictionary values\<close>

text \<open>
  The code aggregates a counter over all values of a dictionary that satisfy a test on key and
  value; changing one key changes the aggregate by the difference of that key's contribution.
\<close>

definition contrib :: "(string \<Rightarrow> 'v \<Rightarrow> bool) \<Rightarrow> ('v \<Rightarrow> int) \<Rightarrow> 'v dict \<Rightarrow> string \<Rightarrow> int" where
  "contrib p w d k = (case map_of d k of None \<Rightarrow> 0 | Some v \<Rightarrow> if p k v then w v else 0)"

definition dict_sum :: "(string \<Rightarrow> 'v \<Rightarrow> bool) \<Rightarrow> ('v \<Rightarrow> int) \<Rightarrow> 'v dict \<Rightarrow> int" where
  "dict_sum p w d = sum_list (map (\<lambda>(k, v). if p k v then w v else 0) d)"

lemma dict_sum_dict_set:
  assumes "distinct (map fst d)"
  shows "dict_sum p w (dict_set k v d) =
    dict_sum p w d - contrib p w d k + (if p k v then w v else 0)"
  using assms
  by (induction d) (auto simp: dict_sum_def contrib_def dest: weak_map_of_SomeI split: option.splits)

lemma dict_sum_nonneg: "(\<And>k v. (k, v) \<in> set d \<Longrightarrow> 0 \<le> w v) \<Longrightarrow> 0 \<le> dict_sum p w d"
  unfolding dict_sum_def by (intro sum_list_nonneg) auto

subsection \<open>Logs that merge\<close>

text \<open>
  A value that a sequence of deliveries is merged into: a delivery that conflicts, or whose merge
  is refused, leaves the value. The contract of such a merge is an information order it never
  descends in; then no history of deliveries does.
\<close>

fun merge_history :: "('r \<Rightarrow> 'r \<Rightarrow> 'e + 'r) \<Rightarrow> ('r \<Rightarrow> bool) \<Rightarrow> 'r \<Rightarrow> 'r list \<Rightarrow> 'r" where
  "merge_history merge ok r [] = r"
| "merge_history merge ok r (x # xs) =
     merge_history merge ok
       (case merge r x of Inl _ \<Rightarrow> r | Inr m \<Rightarrow> if ok m then m else r) xs"

locale merge_log =
  fixes merge :: "'r \<Rightarrow> 'r \<Rightarrow> 'e + 'r" and ok :: "'r \<Rightarrow> bool" and le :: "'r \<Rightarrow> 'r \<Rightarrow> bool"
  assumes le_refl: "le r r"
    and le_trans: "le a b \<Longrightarrow> le b c \<Longrightarrow> le a c"
    and merge_le: "ok old \<Longrightarrow> ok new \<Longrightarrow> merge old new = Inr m \<Longrightarrow> le old m"
begin

lemma history_ok: "ok r \<Longrightarrow> ok (merge_history merge ok r xs)"
  by (induction xs arbitrary: r) (auto split: sum.splits)

lemma history_le: "ok r \<Longrightarrow> list_all ok xs \<Longrightarrow> le r (merge_history merge ok r xs)"
proof (induction xs arbitrary: r)
  case Nil
  then show ?case by (simp add: le_refl)
next
  case (Cons x xs)
  define r' where "r' = (case merge r x of Inl _ \<Rightarrow> r | Inr m \<Rightarrow> if ok m then m else r)"
  have "ok r'" and "le r r'"
    using Cons.prems by (auto simp: r'_def le_refl intro: merge_le split: sum.splits)
  then show ?case using Cons le_trans by (simp add: r'_def [symmetric])
qed

end

subsection \<open>Invariants of step relations\<close>

text \<open>A predicate that every step of a system keeps holds in every state reachable from one where it holds.\<close>

locale invariant_system =
  fixes step :: "'s \<Rightarrow> 's \<Rightarrow> bool" and inv :: "'s \<Rightarrow> bool"
  assumes step_inv: "inv s \<Longrightarrow> step s s' \<Longrightarrow> inv s'"
begin

lemma reachable_inv: "step\<^sup>*\<^sup>* s s' \<Longrightarrow> inv s \<Longrightarrow> inv s'"
  by (induction rule: rtranclp_induct) (auto intro: step_inv)

end

subsection \<open>Sorted sets\<close>

text \<open>\<open>sorted(set(xs))\<close>, and \<open>tuple(dict.fromkeys(xs))\<close>: duplicates after the first are dropped.\<close>

definition sorted_set :: "'a::linorder list \<Rightarrow> 'a list" where
  "sorted_set xs = sort (remdups xs)"

lemma set_sorted_set [simp]: "set (sorted_set xs) = set xs"
  by (simp add: sorted_set_def)

lemma distinct_sorted_set [simp]: "distinct (sorted_set xs)"
  by (simp add: sorted_set_def)

lemma sorted_sorted_set [simp]: "sorted (sorted_set xs)"
  by (simp add: sorted_set_def)

lemma sorted_set_cong: "set xs = set ys \<Longrightarrow> sorted_set xs = sorted_set ys"
  by (intro sorted_distinct_set_unique) simp_all

lemma sorted_set_id: "sorted xs \<Longrightarrow> distinct xs \<Longrightarrow> sorted_set xs = xs"
  by (intro sorted_distinct_set_unique) simp_all

lemma sorted_set_eq_Nil [simp]: "sorted_set xs = [] \<longleftrightarrow> xs = []"
  by (metis set_empty set_sorted_set)

definition unique :: "'a list \<Rightarrow> 'a list" where
  "unique xs = rev (remdups (rev xs))"

lemma set_unique [simp]: "set (unique xs) = set xs"
  by (simp add: unique_def)

lemma unique_eq_Nil [simp]: "unique xs = [] \<longleftrightarrow> xs = []"
  by (simp add: unique_def)

subsection \<open>Characters and identifiers\<close>

definition ascii_digit :: "char \<Rightarrow> bool" where
  "ascii_digit c \<longleftrightarrow> CHR ''0'' \<le> c \<and> c \<le> CHR ''9''"

definition ascii_alpha :: "char \<Rightarrow> bool" where
  "ascii_alpha c \<longleftrightarrow> (CHR ''A'' \<le> c \<and> c \<le> CHR ''Z'') \<or> (CHR ''a'' \<le> c \<and> c \<le> CHR ''z'')"

definition hex_lower :: "char \<Rightarrow> bool" where
  "hex_lower c \<longleftrightarrow> ascii_digit c \<or> (CHR ''a'' \<le> c \<and> c \<le> CHR ''f'')"

text \<open>\<open>re.fullmatch(p + "[0-9a-f]{n}", s)\<close>, and the digest form \<open>sha256:[0-9a-f]{64}\<close>.\<close>

definition starts_with :: "string \<Rightarrow> string \<Rightarrow> bool" where
  "starts_with p s \<longleftrightarrow> take (length p) s = p"

definition prefixed_hex :: "string \<Rightarrow> nat \<Rightarrow> string \<Rightarrow> bool" where
  "prefixed_hex p n s \<longleftrightarrow>
     starts_with p s \<and> length s = length p + n \<and> list_all hex_lower (drop (length p) s)"

definition hash_re :: "string \<Rightarrow> bool" where
  "hash_re s \<longleftrightarrow> prefixed_hex ''sha256:'' 64 s"

lemma starts_with_append [simp]: "starts_with p (p @ s)"
  by (simp add: starts_with_def)

lemma prefixed_hex_append: "prefixed_hex p n (p @ s) \<longleftrightarrow> length s = n \<and> list_all hex_lower s"
  by (auto simp: prefixed_hex_def)

lemma starts_with_iff: "starts_with p s \<longleftrightarrow> (\<exists>r. s = p @ r)"
  by (metis append_eq_conv_conj append_take_drop_id starts_with_def)

text \<open>\<open>str.strip()\<close>: the white space of the code points \<open>0..255\<close>.\<close>

definition is_space :: "char \<Rightarrow> bool" where
  "is_space c \<longleftrightarrow> (let n = of_char c :: nat in
     (9 \<le> n \<and> n \<le> 13) \<or> (28 \<le> n \<and> n \<le> 32) \<or> n = 133 \<or> n = 160)"

definition strip :: "string \<Rightarrow> string" where
  "strip s = rev (dropWhile is_space (rev (dropWhile is_space s)))"

text \<open>
  \<open>t in s\<close>, and \<open>s.casefold()\<close>: the sharp s expands to two letters, the micro sign (whose fold lies
  outside the modelled range) stays.
\<close>

fun contains :: "string \<Rightarrow> string \<Rightarrow> bool" where
  "contains t [] = (t = [])"
| "contains t (c # cs) = (starts_with t (c # cs) \<or> contains t cs)"

definition fold_char :: "char \<Rightarrow> string" where
  "fold_char c = (let n = of_char c :: nat in
     if 65 \<le> n \<and> n \<le> 90 \<or> 192 \<le> n \<and> n \<le> 222 \<and> n \<noteq> 215 then [char_of (n + 32)]
     else if n = 223 then ''ss'' else [c])"

definition casefold :: "string \<Rightarrow> string" where
  "casefold s = concat (map fold_char s)"

text \<open>The bytes of the UTF-8 encoding of a text over the code points \<open>0..255\<close>.\<close>

definition utf8_length :: "string \<Rightarrow> nat" where
  "utf8_length s = sum_list (map (\<lambda>c. if (of_char c :: nat) < 128 then 1 else 2) s)"

subsection \<open>Rounded scores\<close>

text \<open>
  \<open>round(x, n)\<close> rounds half to even. A finite float is a rational, and two rounded values
  compare as the integers that count them in units of \<open>10 ^ -n\<close>.
\<close>

definition round_half_even :: "rat \<Rightarrow> int" where
  "round_half_even x = (let f = \<lfloor>x\<rfloor>; r = x - of_int f in
     if r < 1 / 2 then f else if r > 1 / 2 then f + 1 else if even f then f else f + 1)"

definition round_units :: "nat \<Rightarrow> rat \<Rightarrow> int" where
  "round_units n x = round_half_even (x * 10 ^ n)"

lemma round_half_even_mono: "x \<le> y \<Longrightarrow> round_half_even x \<le> round_half_even y"
proof -
  assume le: "x \<le> y"
  have fl: "\<lfloor>x\<rfloor> \<le> \<lfloor>y\<rfloor>" by (rule floor_mono [OF le])
  show ?thesis
  proof (cases "\<lfloor>x\<rfloor> = \<lfloor>y\<rfloor>")
    case True
    with le show ?thesis by (auto simp: round_half_even_def Let_def)
  next
    case False
    with fl have "\<lfloor>x\<rfloor> + 1 \<le> \<lfloor>y\<rfloor>" by simp
    then show ?thesis by (auto simp: round_half_even_def Let_def)
  qed
qed

lemma round_units_mono: "x \<le> y \<Longrightarrow> round_units n x \<le> round_units n y"
  unfolding round_units_def by (intro round_half_even_mono mult_right_mono) auto

end
