(* ===== verification/Host_Scope.thy ===== *)
theory Host_Scope
  imports Ei_Prelude
begin

section \<open>Host applicability of a knowledge item\<close>

text \<open>
  The validators of \<^verbatim>\<open>src/src/ei/models.py\<close> that guard every persistence boundary: a host
  label, a list of labels, and the five-field applicability mapping. Every reusable pattern is
  universal, bound to host families, or bound to host ids; retrieval, the gate and the queue all
  rely on what these functions accept.
\<close>

subsection \<open>Data\<close>

datatype host_scope = Universal | Family | Host

record HostApplicability =
  ha_scope :: host_scope
  ha_host_ids :: "string list"
  ha_host_families :: "string list"

definition scope_of :: "string \<Rightarrow> host_scope option" where
  "scope_of s =
     (if s = ''universal'' then Some Universal
      else if s = ''family'' then Some Family
      else if s = ''host'' then Some Host
      else None)"

fun scope_name :: "host_scope \<Rightarrow> string" where
  "scope_name Universal = ''universal''"
| "scope_name Family = ''family''"
| "scope_name Host = ''host''"

definition HOST_APPLICABILITY_FIELDS :: "string list" where
  "HOST_APPLICABILITY_FIELDS =
     [''source_host_id'', ''source_host_family'', ''applicability_scope'',
      ''applicable_host_ids'', ''applicable_host_families'']"

definition MAX_HOST_APPLICABILITY_ITEMS :: nat where
  "MAX_HOST_APPLICABILITY_ITEMS = 16"

subsection \<open>Labels and lists\<close>

definition label_char :: "char \<Rightarrow> bool" where
  "label_char c \<longleftrightarrow> ascii_alpha c \<or> ascii_digit c \<or> c \<in> set ''_.:@-''"

definition SAFE_HOST_LABEL_RE :: "string \<Rightarrow> bool" where
  "SAFE_HOST_LABEL_RE s = (case s of [] \<Rightarrow> False
     | c # cs \<Rightarrow> (ascii_alpha c \<or> ascii_digit c) \<and> length cs \<le> 159 \<and> list_all label_char cs)"

definition path_like :: "string \<Rightarrow> bool" where
  "path_like s \<longleftrightarrow> CHR ''/'' \<in> set s \<or> CHR 0x5C \<in> set s
     \<or> (length s \<ge> 2 \<and> s ! 1 = CHR '':'' \<and> ascii_alpha (s ! 0))"

fun validate_host_label :: "pyval \<Rightarrow> string \<Rightarrow> bool \<Rightarrow> string result" where
  "validate_host_label (PStr s) field allow_empty =
     (if s = [] \<and> allow_empty then Inr s
      else if s = [] \<or> length s > 160 \<or> \<not> SAFE_HOST_LABEL_RE s
        then Inl (ValueError (''HOST_LABEL_INVALID:'' @ field))
      else if path_like s then Inl (ValueError (''HOST_LABEL_INVALID:'' @ field))
      else Inr s)"
| "validate_host_label _ field allow_empty = Inl (ValueError (''HOST_LABEL_INVALID:'' @ field))"

definition validate_host_list :: "pyval \<Rightarrow> string \<Rightarrow> string list result" where
  "validate_host_list value field = (case seq_items value of
       None \<Rightarrow> Inl (ValueError (''HOST_LIST_INVALID:'' @ field))
     | Some items \<Rightarrow>
         if length items > MAX_HOST_APPLICABILITY_ITEMS
           then Inl (ValueError (''HOST_LIST_INVALID:'' @ field))
         else rbind (rmap (\<lambda>item. validate_host_label item field False) items) (\<lambda>labels.
           if \<not> distinct labels then Inl (ValueError (''HOST_LIST_INVALID:'' @ field))
           else Inr labels))"

subsection \<open>The five-field mapping\<close>

definition contradictory :: "string \<Rightarrow> string \<Rightarrow> HostApplicability \<Rightarrow> bool" where
  "contradictory source_id source_family a = (case ha_scope a of
       Universal \<Rightarrow> ha_host_ids a \<noteq> [] \<or> ha_host_families a \<noteq> []
     | Family \<Rightarrow> ha_host_families a = [] \<or> ha_host_ids a \<noteq> []
         \<or> (source_family \<noteq> [] \<and> source_family \<notin> set (ha_host_families a))
     | Host \<Rightarrow> ha_host_ids a = [] \<or> ha_host_families a \<noteq> []
         \<or> (source_id \<noteq> [] \<and> source_id \<notin> set (ha_host_ids a)))"

fun validate_host_applicability_mapping :: "pyval \<Rightarrow> bool \<Rightarrow> bool \<Rightarrow> HostApplicability result" where
  "validate_host_applicability_mapping (PDict value) allow_legacy require_source_pair =
     (if \<not> list_ex (has_key value) HOST_APPLICABILITY_FIELDS then
        (if allow_legacy then Inr \<lparr>ha_scope = Universal, ha_host_ids = [], ha_host_families = []\<rparr>
         else Inl (ValueError ''HOST_APPLICABILITY_REQUIRED''))
      else if \<not> list_all (has_key value) HOST_APPLICABILITY_FIELDS then
        Inl (ValueError ''HOST_APPLICABILITY_FIELDS_INCOMPLETE'')
      else
        rbind (validate_host_label (get_default value ''source_host_id'' PNone)
                 ''source_host_id'' (\<not> require_source_pair)) (\<lambda>source_id.
        rbind (validate_host_label (get_default value ''source_host_family'' PNone)
                 ''source_host_family'' (\<not> require_source_pair)) (\<lambda>source_family.
        if (source_id \<noteq> []) \<noteq> (source_family \<noteq> [])
          then Inl (ValueError ''HOST_SOURCE_PAIR_INVALID'')
        else if require_source_pair \<and> (source_id = [] \<or> source_family = [])
          then Inl (ValueError ''HOST_SOURCE_PAIR_REQUIRED'')
        else case get_default value ''applicability_scope'' PNone of
          PStr s \<Rightarrow> (case scope_of s of
              None \<Rightarrow> Inl (ValueError ''HOST_APPLICABILITY_SCOPE_INVALID'')
            | Some scope \<Rightarrow>
                rbind (validate_host_list (get_default value ''applicable_host_ids'' PNone)
                         ''applicable_host_ids'') (\<lambda>host_ids.
                rbind (validate_host_list (get_default value ''applicable_host_families'' PNone)
                         ''applicable_host_families'') (\<lambda>host_families.
                let a = \<lparr>ha_scope = scope, ha_host_ids = host_ids, ha_host_families = host_families\<rparr>
                in if contradictory source_id source_family a
                   then Inl (ValueError ''HOST_APPLICABILITY_SCOPE_CONTRADICTORY'')
                   else Inr a)))
        | _ \<Rightarrow> Inl (ValueError ''HOST_APPLICABILITY_SCOPE_INVALID''))))"
| "validate_host_applicability_mapping _ allow_legacy require_source_pair =
     Inl (ValueError ''HOST_APPLICABILITY_INVALID'')"

definition canonical_fields :: "pyval \<Rightarrow> pyval \<Rightarrow> HostApplicability \<Rightarrow> pydict" where
  "canonical_fields source_id source_family a =
     [(''source_host_id'', source_id),
      (''source_host_family'', source_family),
      (''applicability_scope'', PStr (scope_name (ha_scope a))),
      (''applicable_host_ids'', PList (map PStr (ha_host_ids a))),
      (''applicable_host_families'', PList (map PStr (ha_host_families a)))]"

definition host_applicability_fields :: "pyval \<Rightarrow> bool \<Rightarrow> bool \<Rightarrow> pydict result" where
  "host_applicability_fields value allow_legacy require_source_pair =
     rbind (validate_host_applicability_mapping value allow_legacy require_source_pair) (\<lambda>scope.
       let d = (case value of PDict d \<Rightarrow> d | _ \<Rightarrow> []) in
       if \<not> list_ex (has_key d) HOST_APPLICABILITY_FIELDS
       then Inr (canonical_fields (PStr '''') (PStr '''')
              \<lparr>ha_scope = Universal, ha_host_ids = [], ha_host_families = []\<rparr>)
       else Inr (canonical_fields (get_default d ''source_host_id'' PNone)
              (get_default d ''source_host_family'' PNone) scope))"

subsection \<open>What the validators accept\<close>

definition valid_label :: "string \<Rightarrow> bool" where
  "valid_label s \<longleftrightarrow> SAFE_HOST_LABEL_RE s \<and> \<not> path_like s"

definition valid_labels :: "string list \<Rightarrow> bool" where
  "valid_labels xs \<longleftrightarrow> length xs \<le> 16 \<and> distinct xs \<and> (\<forall>x \<in> set xs. valid_label x)"

definition valid_source :: "bool \<Rightarrow> string \<Rightarrow> string \<Rightarrow> bool" where
  "valid_source required i f \<longleftrightarrow> (valid_label i \<and> valid_label f) \<or> (\<not> required \<and> i = [] \<and> f = [])"

definition wf_applicability :: "string \<Rightarrow> string \<Rightarrow> HostApplicability \<Rightarrow> bool" where
  "wf_applicability i f a \<longleftrightarrow> valid_labels (ha_host_ids a) \<and> valid_labels (ha_host_families a)
     \<and> \<not> contradictory i f a"

lemma valid_label_nonempty [simp]: "\<not> valid_label []"
  by (simp add: valid_label_def SAFE_HOST_LABEL_RE_def)

lemma valid_label_length: "valid_label s \<Longrightarrow> length s \<le> 160"
  by (cases s) (auto simp: valid_label_def SAFE_HOST_LABEL_RE_def)

lemma validate_host_label_iff:
  "validate_host_label v field e = Inr s \<longleftrightarrow> v = PStr s \<and> (valid_label s \<or> (e \<and> s = []))"
proof (cases v)
  case (PStr t)
  have "length t \<le> 160" if "valid_label t" using that by (rule valid_label_length)
  then show ?thesis using PStr by (auto simp: valid_label_def SAFE_HOST_LABEL_RE_def)
qed simp_all

lemma list_all2_PStr:
  "list_all2 (\<lambda>x y. x = PStr y \<and> P y) xs ys \<longleftrightarrow> xs = map PStr ys \<and> (\<forall>y \<in> set ys. P y)"
  by (induction xs arbitrary: ys) (auto simp: list_all2_Cons1)

lemma validate_host_list_iff:
  "validate_host_list v field = Inr xs \<longleftrightarrow> seq_items v = Some (map PStr xs) \<and> valid_labels xs"
  by (auto simp: validate_host_list_def MAX_HOST_APPLICABILITY_ITEMS_def valid_labels_def
        result_simps rmap_eq_Inr validate_host_label_iff list_all2_PStr split: option.splits)

lemma scope_of_name [simp]: "scope_of (scope_name s) = Some s"
  by (cases s) (simp_all add: scope_of_def)

lemma scope_name_eq [simp]: "scope_name x = scope_name y \<longleftrightarrow> x = y"
  by (cases x; cases y) simp_all

lemma scope_of_eq_Some: "scope_of s = Some x \<longleftrightarrow> s = scope_name x"
  by (cases x) (auto simp: scope_of_def)

definition encodes :: "pydict \<Rightarrow> string \<Rightarrow> string \<Rightarrow> HostApplicability \<Rightarrow> bool" where
  "encodes d i f a \<longleftrightarrow>
     map_of d ''source_host_id'' = Some (PStr i)
   \<and> map_of d ''source_host_family'' = Some (PStr f)
   \<and> map_of d ''applicability_scope'' = Some (PStr (scope_name (ha_scope a)))
   \<and> (\<exists>v. map_of d ''applicable_host_ids'' = Some v
          \<and> seq_items v = Some (map PStr (ha_host_ids a)))
   \<and> (\<exists>v. map_of d ''applicable_host_families'' = Some v
          \<and> seq_items v = Some (map PStr (ha_host_families a)))"


lemma has_key_fields_of_encodes:
  "encodes d i f a \<Longrightarrow> list_all (has_key d) HOST_APPLICABILITY_FIELDS"
  by (auto simp: encodes_def has_key_def HOST_APPLICABILITY_FIELDS_def)

lemma list_all_ex_fields:
  "list_all (has_key d) HOST_APPLICABILITY_FIELDS \<Longrightarrow> list_ex (has_key d) HOST_APPLICABILITY_FIELDS"
  by (simp add: HOST_APPLICABILITY_FIELDS_def)

declare validate_host_applicability_mapping.simps [simp del]

lemmas validate_mapping_unfold = validate_host_applicability_mapping.simps(1)

text \<open>One validation step of the mapping, with all five keys present.\<close>

lemma validate_mapping_present:
  assumes "list_all (has_key d) HOST_APPLICABILITY_FIELDS"
  shows "validate_host_applicability_mapping (PDict d) legacy req = Inr a \<longleftrightarrow>
    (\<exists>i f. encodes d i f a \<and> valid_source req i f \<and> wf_applicability i f a)"
proof -
  obtain si sf sc ids fams where keys:
    "map_of d ''source_host_id'' = Some si" "map_of d ''source_host_family'' = Some sf"
    "map_of d ''applicability_scope'' = Some sc" "map_of d ''applicable_host_ids'' = Some ids"
    "map_of d ''applicable_host_families'' = Some fams"
    using assms by (auto simp: has_key_def HOST_APPLICABILITY_FIELDS_def)
  have ex: "list_ex (has_key d) HOST_APPLICABILITY_FIELDS" by (rule list_all_ex_fields [OF assms])
  have src: "(valid_label i \<or> (\<not> req \<and> i = [])) \<and> (valid_label f \<or> (\<not> req \<and> f = []))
      \<and> (i \<noteq> []) = (f \<noteq> []) \<and> \<not> (req \<and> (i = [] \<or> f = [])) \<longleftrightarrow> valid_source req i f" for i f
    by (auto simp: valid_source_def)
  show ?thesis
  proof (cases sc)
    case (PStr s)
    have "validate_host_applicability_mapping (PDict d) legacy req = Inr a \<longleftrightarrow>
      (\<exists>i f. si = PStr i \<and> sf = PStr f \<and> valid_source req i f \<and> s = scope_name (ha_scope a)
        \<and> seq_items ids = Some (map PStr (ha_host_ids a))
        \<and> seq_items fams = Some (map PStr (ha_host_families a))
        \<and> wf_applicability i f a)"
      using assms ex keys PStr
      by (cases a) (auto simp: validate_mapping_unfold get_default_def result_simps validate_host_label_iff
        validate_host_list_iff scope_of_eq_Some wf_applicability_def Let_def src [symmetric]
        split: option.splits if_splits)
    then show ?thesis using keys PStr by (auto simp: encodes_def)
  qed (use assms ex keys in
      \<open>auto simp: validate_mapping_unfold get_default_def result_simps encodes_def split: option.splits\<close>)
qed

lemma validate_mapping_iff:
  "validate_host_applicability_mapping (PDict d) legacy req = Inr a \<longleftrightarrow>
    (if list_ex (has_key d) HOST_APPLICABILITY_FIELDS
     then \<exists>i f. encodes d i f a \<and> valid_source req i f \<and> wf_applicability i f a
     else legacy \<and> a = \<lparr>ha_scope = Universal, ha_host_ids = [], ha_host_families = []\<rparr>)"
proof (cases "list_all (has_key d) HOST_APPLICABILITY_FIELDS")
  case True
  then show ?thesis by (simp add: validate_mapping_present list_all_ex_fields)
next
  case False
  then show ?thesis using has_key_fields_of_encodes [of d]
    by (auto simp: validate_mapping_unfold)
qed

lemma encodes_canonical_fields: "encodes (canonical_fields (PStr i) (PStr f) a) i f a"
  by (simp add: encodes_def canonical_fields_def)

lemma list_ex_canonical_fields [simp]:
  "list_ex (has_key (canonical_fields i f a)) HOST_APPLICABILITY_FIELDS"
  by (simp add: HOST_APPLICABILITY_FIELDS_def has_key_def canonical_fields_def)

lemma encodes_source:
  "encodes d i f a \<Longrightarrow> get_default d ''source_host_id'' PNone = PStr i"
  "encodes d i f a \<Longrightarrow> get_default d ''source_host_family'' PNone = PStr f"
  by (simp_all add: encodes_def get_default_def)

lemma valid_source_weaken: "valid_source req i f \<Longrightarrow> valid_source False i f"
  by (auto simp: valid_source_def)

subsection \<open>Properties\<close>

text \<open>
  Exactness of the persistence boundary: with all five keys present, the validator accepts a
  mapping and returns an applicability exactly when the mapping encodes it, the source pair is
  valid (both labels, or both empty where that is allowed) and the applicability is well formed:
  at most 16 distinct valid labels per list, no list beside a universal scope, only a non-empty
  family (host) list that contains the source family (host) beside a family (host) scope. A mapping
  with none of the keys is accepted only as legacy, as universal; a partial one never.
\<close>

theorem host_applicability_exact:
  "validate_host_applicability_mapping (PDict d) legacy req = Inr a \<longleftrightarrow>
    (if list_ex (has_key d) HOST_APPLICABILITY_FIELDS
     then \<exists>i f. encodes d i f a \<and> valid_source req i f \<and> wf_applicability i f a
     else legacy \<and> a = \<lparr>ha_scope = Universal, ha_host_ids = [], ha_host_families = []\<rparr>)"
  by (rule validate_mapping_iff)

text \<open>
  Canonicalisation is stable: what \<open>host_applicability_fields\<close> writes is accepted again and
  denotes the same applicability as the mapping it was computed from.
\<close>

theorem host_applicability_fields_roundtrip:
  assumes "host_applicability_fields (PDict d) legacy req = Inr out"
  shows "\<exists>a. validate_host_applicability_mapping (PDict d) legacy req = Inr a
    \<and> validate_host_applicability_mapping (PDict out) legacy False = Inr a"
proof -
  from assms obtain a where a: "validate_host_applicability_mapping (PDict d) legacy req = Inr a"
    by (auto simp: host_applicability_fields_def result_simps)
  show ?thesis
  proof (cases "list_ex (has_key d) HOST_APPLICABILITY_FIELDS")
    case True
    with a obtain i f where if_: "encodes d i f a" "valid_source req i f" "wf_applicability i f a"
      by (auto simp: validate_mapping_iff)
    with True assms a have "out = canonical_fields (PStr i) (PStr f) a"
      by (simp add: host_applicability_fields_def encodes_source)
    then have "validate_host_applicability_mapping (PDict out) legacy False = Inr a"
      using if_ encodes_canonical_fields [of i f a] valid_source_weaken [OF if_(2)]
      unfolding validate_mapping_iff by (simp, blast)
    with a show ?thesis by blast
  next
    case False
    let ?u = "\<lparr>ha_scope = Universal, ha_host_ids = [], ha_host_families = []\<rparr>"
    from False a assms have "a = ?u" "out = canonical_fields (PStr []) (PStr []) ?u"
      by (auto simp: validate_mapping_iff host_applicability_fields_def result_simps)
    moreover have "wf_applicability [] [] ?u"
      by (simp add: wf_applicability_def valid_labels_def contradictory_def)
    ultimately have "validate_host_applicability_mapping (PDict out) legacy False = Inr a"
      using encodes_canonical_fields [of "[]" "[]" ?u]
      unfolding validate_mapping_iff by (auto simp: valid_source_def)
    with a show ?thesis by blast
  qed
qed

definition example_mapping :: pydict where
  "example_mapping = [(''source_host_id'', PStr ''codex-cli''),
     (''source_host_family'', PStr ''codex-compatible''), (''applicability_scope'', PStr ''host''),
     (''applicable_host_ids'', PTuple [PStr ''codex-cli'']), (''applicable_host_families'', PList [])]"

theorem host_applicability_fields_roundtrip_witness:
  "\<exists>a. validate_host_applicability_mapping (PDict example_mapping) False True = Inr a
    \<and> validate_host_applicability_mapping
        (PDict (canonical_fields (PStr ''codex-cli'') (PStr ''codex-compatible'')
          \<lparr>ha_scope = Host, ha_host_ids = [''codex-cli''], ha_host_families = []\<rparr>)) False False = Inr a"
proof -
  have "host_applicability_fields (PDict example_mapping) False True =
      Inr (canonical_fields (PStr ''codex-cli'') (PStr ''codex-compatible'')
          \<lparr>ha_scope = Host, ha_host_ids = [''codex-cli''], ha_host_families = []\<rparr>)"
    by code_simp
  then show ?thesis by (rule host_applicability_fields_roundtrip)
qed

end
