(* ===== verification/Capture_Ledger.thy ===== *)
theory Capture_Ledger
  imports Host_Scope
begin

section \<open>Capture contract and capture ledger\<close>

text \<open>
  \<^verbatim>\<open>src/src/ei/capture_contract.py\<close> and \<^verbatim>\<open>src/src/ei/capture_ledger.py\<close>, with the
  receipt validator of \<^verbatim>\<open>src/src/ei/journal.py\<close>: the identity of a captured record, the
  receipt that says what became of it, and the ledger of receipts under
  \<^verbatim>\<open>state/capture\<close>, one file per capture id. Receipts of one capture are merged under the
  ledger lock, so the ledger is a function from capture ids to receipts that only grows.

  Instants (\<open>datetime\<close> values that the code forces to UTC) are integers (microseconds).
  \<open>hashlib.sha256(...).hexdigest()\<close> and \<open>secrets.token_hex\<close> are parameters.
\<close>

subsection \<open>Data\<close>

datatype CaptureState = WAITING | SECURED | EVALUATED_NONE | UNAVAILABLE | UNKNOWN

record CaptureIdentity =
  ci_host_id :: string
  ci_instance_hash :: string
  ci_store_id :: string
  ci_session_hash :: "string option"
  ci_turn_hash :: "string option"
  ci_record_hash :: "string option"

record CloseoutProofRef =
  pr_record_id :: string
  pr_target_set_hash :: string
  pr_content_hash :: string
  pr_binding_digest :: string
  pr_result_digest :: string

record CaptureReceipt =
  cr_capture_id :: string
  cr_state :: CaptureState
  cr_candidate_ids :: "string list"
  cr_covered_target_ids :: "string list"
  cr_reason_code :: string
  cr_updated_at :: int
  cr_candidate_hashes :: "(string \<times> string) list"
  cr_closeout_proofs :: "CloseoutProofRef list"

record PendingPolicy =
  pp_ttl_seconds :: int
  pp_max_items :: int
  pp_max_bytes :: int

subsection \<open>Capture keys\<close>

definition quote :: "string \<Rightarrow> string" where
  "quote s = CHR 0x22 # s @ [CHR 0x22]"

definition json_opt :: "string option \<Rightarrow> string" where
  "json_opt v = (case v of None \<Rightarrow> ''null'' | Some s \<Rightarrow> quote s)"

text \<open>
  \<open>json.dumps(asdict(identity), sort_keys=True, separators=(",", ":"))\<close>: the keys in sorted
  order. The texts are matched by the regular expressions before, so none needs escaping.
\<close>

definition identity_json :: "CaptureIdentity \<Rightarrow> string" where
  "identity_json i =
     ''{'' @ quote ''host_id'' @ '':'' @ quote (ci_host_id i)
   @ '','' @ quote ''instance_hash'' @ '':'' @ quote (ci_instance_hash i)
   @ '','' @ quote ''record_hash'' @ '':'' @ json_opt (ci_record_hash i)
   @ '','' @ quote ''session_hash'' @ '':'' @ json_opt (ci_session_hash i)
   @ '','' @ quote ''store_id'' @ '':'' @ quote (ci_store_id i)
   @ '','' @ quote ''turn_hash'' @ '':'' @ json_opt (ci_turn_hash i) @ ''}''"

definition opt_hash_ok :: "string option \<Rightarrow> bool" where
  "opt_hash_ok v = (case v of None \<Rightarrow> True | Some s \<Rightarrow> hash_re s)"

definition capture_key :: "(string \<Rightarrow> string) \<Rightarrow> CaptureIdentity \<Rightarrow> string option result" where
  "capture_key hexdigest i =
     (if \<not> SAFE_HOST_LABEL_RE (ci_host_id i) then Inl (ValueError ''CAPTURE_HOST_INVALID'')
      else if \<not> (hash_re (ci_instance_hash i) \<and> hash_re (ci_store_id i)
        \<and> opt_hash_ok (ci_session_hash i) \<and> opt_hash_ok (ci_turn_hash i)
        \<and> opt_hash_ok (ci_record_hash i)) then Inl (ValueError ''CAPTURE_ID_INVALID'')
      else if ci_record_hash i = None then Inr None
      else Inr (Some (''sha256:'' @ hexdigest (identity_json i))))"

subsection \<open>Retention policy\<close>

definition pending_value :: "pydict \<Rightarrow> pydict \<Rightarrow> string \<Rightarrow> int \<Rightarrow> int result" where
  "pending_value selected mapping name dflt =
     (case get_default selected name (get_default mapping name (PInt dflt)) of
        PInt v \<Rightarrow> if v \<le> 0 then Inl (ValueError ''PENDING_POLICY_INVALID'') else Inr v
      | _ \<Rightarrow> Inl (ValueError ''PENDING_POLICY_INVALID''))"

fun pending_policy :: "pyval \<Rightarrow> PendingPolicy result" where
  "pending_policy (PDict mapping) = (case get_default mapping ''pending'' (PDict []) of
       PDict selected \<Rightarrow>
         rbind (pending_value selected mapping ''ttl_seconds'' 2592000) (\<lambda>ttl.
         rbind (pending_value selected mapping ''max_items'' 1000) (\<lambda>items.
         rbind (pending_value selected mapping ''max_bytes'' 67108864) (\<lambda>bytes.
           Inr \<lparr>pp_ttl_seconds = ttl, pp_max_items = items, pp_max_bytes = bytes\<rparr>)))
     | _ \<Rightarrow> Inl (ValueError ''PENDING_POLICY_INVALID''))"
| "pending_policy _ = Inl (ValueError ''PENDING_POLICY_INVALID'')"

subsection \<open>The receipt validator\<close>

definition schema_error :: "string \<Rightarrow> string \<Rightarrow> 'a result" where
  "schema_error name reason = Inl (ValueError (''EVENT_SCHEMA_INVALID:'' @ name @ ''.'' @ reason))"

definition EVENT_ID_RE :: "string \<Rightarrow> bool" where
  "EVENT_ID_RE s \<longleftrightarrow> (let r = drop 4 s; n = length r - 13 in
     starts_with ''evt_'' s \<and> length r \<ge> 14
     \<and> list_all (\<lambda>c. ascii_digit c \<or> c = CHR ''T'' \<or> c = CHR ''Z'') (take n r)
     \<and> r ! n = CHR ''_'' \<and> list_all hex_lower (drop (Suc n) r))"

definition candidate_id_ok :: "string \<Rightarrow> bool" where
  "candidate_id_ok s \<longleftrightarrow> hash_re s \<or> prefixed_hex ''queue_'' 32 s \<or> EVENT_ID_RE s
     \<or> prefixed_hex ''cand_'' 20 s"

definition REASON_CODE_RE :: "string \<Rightarrow> bool" where
  "REASON_CODE_RE s = (case s of [] \<Rightarrow> False
     | c # cs \<Rightarrow> CHR ''A'' \<le> c \<and> c \<le> CHR ''Z'' \<and> length cs \<le> 63
         \<and> list_all (\<lambda>d. (CHR ''A'' \<le> d \<and> d \<le> CHR ''Z'') \<or> ascii_digit d \<or> d = CHR ''_'') cs)"

definition validate_proof_hashes :: "CloseoutProofRef \<Rightarrow> unit result" where
  "validate_proof_hashes p =
     (let name = ''capture-receipt'' in
      if \<not> hash_re (pr_target_set_hash p) then schema_error name ''closeout_proofs.target_set_hash''
      else if \<not> hash_re (pr_content_hash p) then schema_error name ''closeout_proofs.content_hash''
      else if \<not> hash_re (pr_binding_digest p) then schema_error name ''closeout_proofs.binding_digest''
      else if \<not> hash_re (pr_result_digest p) then schema_error name ''closeout_proofs.result_digest''
      else Inr ())"

fun validate_proofs :: "string list \<Rightarrow> CloseoutProofRef list \<Rightarrow> unit result" where
  "validate_proofs seen [] = Inr ()"
| "validate_proofs seen (p # ps) =
     (if \<not> prefixed_hex ''co_'' 64 (pr_record_id p) \<or> pr_record_id p \<in> set seen
        then schema_error ''capture-receipt'' ''closeout_proofs.record_id''
      else rbind (validate_proof_hashes p) (\<lambda>_. validate_proofs (pr_record_id p # seen) ps))"

definition validate_capture_receipt :: "CaptureReceipt \<Rightarrow> unit result" where
  "validate_capture_receipt r =
     (let name = ''capture-receipt'' in
      if \<not> hash_re (cr_capture_id r) then schema_error name ''capture_id''
      else if \<not> list_all candidate_id_ok (cr_candidate_ids r) \<or> \<not> distinct (cr_candidate_ids r)
        then schema_error name ''candidate_ids''
      else if \<not> list_all hash_re (cr_covered_target_ids r) \<or> \<not> distinct (cr_covered_target_ids r)
        then schema_error name ''covered_target_ids''
      else if cr_state r = SECURED \<and> cr_candidate_ids r = [] then schema_error name ''candidate_ids''
      else if \<not> REASON_CODE_RE (cr_reason_code r) then schema_error name ''reason_code''
      else if \<not> list_all (\<lambda>(c, h). candidate_id_ok c \<and> hash_re h \<and> c \<in> set (cr_candidate_ids r))
                 (cr_candidate_hashes r)
              \<or> \<not> distinct (map fst (cr_candidate_hashes r))
        then schema_error name ''candidate_hashes''
      else if length (cr_closeout_proofs r) > 8 then schema_error name ''closeout_proofs''
      else validate_proofs [] (cr_closeout_proofs r))"

subsection \<open>Merging two receipts of one capture\<close>

definition proof_dict :: "CloseoutProofRef list \<Rightarrow> (string \<times> CloseoutProofRef) list" where
  "proof_dict ps = map (\<lambda>p. (pr_record_id p, p)) ps"

definition sorted_values :: "(string \<times> 'v) list \<Rightarrow> 'v list" where
  "sorted_values d = map (\<lambda>k. the (map_of d k)) (sort (map fst d))"

text \<open>The receipt that results when neither the hashes nor the proofs conflict.\<close>

definition merged_receipt ::
  "CaptureReceipt \<Rightarrow> CaptureReceipt \<Rightarrow> (string \<times> string) list \<Rightarrow> (string \<times> CloseoutProofRef) list
     \<Rightarrow> CaptureReceipt" where
  "merged_receipt old new hashes proofs =
     (let candidates = sorted_set (cr_candidate_ids old @ cr_candidate_ids new);
          covered = sorted_set (cr_covered_target_ids old @ cr_covered_target_ids new);
          candidate_hashes = sort hashes;
          closeout_proofs = sorted_values proofs
      in if cr_reason_code old = ''PENDING_EXPIRED'' \<or> cr_reason_code new = ''PENDING_EXPIRED'' then
           old\<lparr>cr_state := UNAVAILABLE, cr_reason_code := ''PENDING_EXPIRED'',
               cr_candidate_ids := candidates, cr_covered_target_ids := covered,
               cr_updated_at := max (cr_updated_at old) (cr_updated_at new),
               cr_candidate_hashes := candidate_hashes,
               cr_closeout_proofs := cr_closeout_proofs old\<rparr>
         else
           let state = (if candidates \<noteq> [] then SECURED
                        else if cr_state new = WAITING then cr_state old else cr_state new)
           in new\<lparr>cr_state := state, cr_candidate_ids := candidates,
                  cr_covered_target_ids := covered,
                  cr_updated_at := max (cr_updated_at old) (cr_updated_at new),
                  cr_candidate_hashes := candidate_hashes,
                  cr_closeout_proofs := closeout_proofs\<rparr>)"

definition merge_receipt :: "CaptureReceipt \<Rightarrow> CaptureReceipt \<Rightarrow> CaptureReceipt result" where
  "merge_receipt old new =
     (if cr_capture_id old \<noteq> cr_capture_id new then Inl (ValueError ''CAPTURE_ID_CONFLICT'')
      else if cr_state old = UNKNOWN then Inr old
      else
        rbind (merge_into (ValueError ''CAPTURE_CONTENT_CONFLICT'')
                 (dict_of (cr_candidate_hashes old)) (cr_candidate_hashes new)) (\<lambda>hashes.
        rbind (merge_into (ValueError ''CAPTURE_CLOSEOUT_PROOF_CONFLICT'')
                 (dict_of (proof_dict (cr_closeout_proofs old)))
                 (proof_dict (cr_closeout_proofs new))) (\<lambda>proofs.
          Inr (merged_receipt old new hashes proofs))))"

subsection \<open>The ledger\<close>

text \<open>A receipt file holds a receipt that deserialises, or bytes that do not.\<close>

datatype receipt_file = Stored CaptureReceipt | Garbled

type_synonym ledger = "receipt_file dict"

definition receipt_path :: "string \<Rightarrow> string result" where
  "receipt_path capture_id =
     (if hash_re capture_id then Inr capture_id else Inl (ValueError ''CAPTURE_ID_INVALID''))"

definition read_path :: "string \<Rightarrow> receipt_file \<Rightarrow> CaptureReceipt result" where
  "read_path path file = (case file of
       Garbled \<Rightarrow> Inl (CaptureLedgerError ''CAPTURE_RECEIPT_CORRUPT'')
     | Stored r \<Rightarrow> (case rbind (validate_capture_receipt r) (\<lambda>_. receipt_path (cr_capture_id r)) of
           Inl e \<Rightarrow> Inl (CaptureLedgerError ''CAPTURE_RECEIPT_CORRUPT'')
         | Inr p \<Rightarrow> if p \<noteq> path then Inl (CaptureLedgerError ''CAPTURE_RECEIPT_CORRUPT'') else Inr r))"

definition record_receipt_locked :: "ledger \<Rightarrow> CaptureReceipt \<Rightarrow> (ledger \<times> CaptureReceipt) result" where
  "record_receipt_locked led receipt =
     rbind (validate_capture_receipt receipt) (\<lambda>_.
     rbind (receipt_path (cr_capture_id receipt)) (\<lambda>path.
     rbind (case map_of led path of
              None \<Rightarrow> Inr receipt
            | Some file \<Rightarrow> rbind (read_path path file) (\<lambda>old. merge_receipt old receipt)) (\<lambda>merged.
     rbind (validate_capture_receipt merged) (\<lambda>_.
       Inr (dict_set path (Stored merged) led, merged)))))"

definition record_receipt :: "ledger \<Rightarrow> CaptureReceipt \<Rightarrow> (ledger \<times> CaptureReceipt) result" where
  "record_receipt led receipt =
     rbind (validate_capture_receipt receipt) (\<lambda>_. record_receipt_locked led receipt)"

definition waiting_receipt :: "string \<Rightarrow> int \<Rightarrow> CaptureReceipt" where
  "waiting_receipt capture_id now =
     \<lparr>cr_capture_id = capture_id, cr_state = WAITING, cr_candidate_ids = [],
      cr_covered_target_ids = [capture_id], cr_reason_code = ''CAPTURE_WAITING'',
      cr_updated_at = now, cr_candidate_hashes = [], cr_closeout_proofs = []\<rparr>"

definition legacy_receipt :: "string \<Rightarrow> int \<Rightarrow> CaptureReceipt" where
  "legacy_receipt token now =
     \<lparr>cr_capture_id = ''sha256:'' @ token, cr_state = UNKNOWN, cr_candidate_ids = [],
      cr_covered_target_ids = [], cr_reason_code = ''LEGACY_EVIDENCE_UNKNOWN'',
      cr_updated_at = now, cr_candidate_hashes = [], cr_closeout_proofs = []\<rparr>"

definition register_target ::
  "(string \<Rightarrow> string) \<Rightarrow> string \<Rightarrow> ledger \<Rightarrow> CaptureIdentity option \<Rightarrow> int
     \<Rightarrow> (ledger \<times> CaptureReceipt) result" where
  "register_target hexdigest token led identity now =
     rbind (case identity of None \<Rightarrow> Inr None | Some i \<Rightarrow> capture_key hexdigest i) (\<lambda>capture_id.
       record_receipt led (case capture_id of
           None \<Rightarrow> legacy_receipt token now
         | Some c \<Rightarrow> waiting_receipt c now))"

definition read_receipt :: "ledger \<Rightarrow> string \<Rightarrow> CaptureReceipt option result" where
  "read_receipt led capture_id =
     rbind (receipt_path capture_id) (\<lambda>path.
       case map_of led path of
         None \<Rightarrow> Inr None
       | Some file \<Rightarrow> rbind (read_path path file) (\<lambda>r. Inr (Some r)))"

definition list_receipts :: "ledger \<Rightarrow> CaptureReceipt list result" where
  "list_receipts led =
     rmap (\<lambda>path. read_path path (the (map_of led path))) (sort (map fst led))"


subsection \<open>What the validator accepts\<close>

definition proof_ok :: "CloseoutProofRef \<Rightarrow> bool" where
  "proof_ok p \<longleftrightarrow> prefixed_hex ''co_'' 64 (pr_record_id p) \<and> hash_re (pr_target_set_hash p)
     \<and> hash_re (pr_content_hash p) \<and> hash_re (pr_binding_digest p) \<and> hash_re (pr_result_digest p)"

definition receipt_ok :: "CaptureReceipt \<Rightarrow> bool" where
  "receipt_ok r \<longleftrightarrow> validate_capture_receipt r = Inr ()"

lemma validate_proofs_iff:
  "validate_proofs seen ps = Inr () \<longleftrightarrow>
     list_all proof_ok ps \<and> distinct (map pr_record_id ps) \<and> set seen \<inter> pr_record_id ` set ps = {}"
  by (induction ps arbitrary: seen)
     (auto simp: validate_proof_hashes_def schema_error_def proof_ok_def result_simps Let_def)

lemma receipt_ok_iff:
  "receipt_ok r \<longleftrightarrow> hash_re (cr_capture_id r)
     \<and> list_all candidate_id_ok (cr_candidate_ids r) \<and> distinct (cr_candidate_ids r)
     \<and> list_all hash_re (cr_covered_target_ids r) \<and> distinct (cr_covered_target_ids r)
     \<and> \<not> (cr_state r = SECURED \<and> cr_candidate_ids r = [])
     \<and> REASON_CODE_RE (cr_reason_code r)
     \<and> (\<forall>(c, h) \<in> set (cr_candidate_hashes r).
          candidate_id_ok c \<and> hash_re h \<and> c \<in> set (cr_candidate_ids r))
     \<and> distinct (map fst (cr_candidate_hashes r))
     \<and> length (cr_closeout_proofs r) \<le> 8
     \<and> list_all proof_ok (cr_closeout_proofs r) \<and> distinct (map pr_record_id (cr_closeout_proofs r))"
  unfolding receipt_ok_def validate_capture_receipt_def Let_def
  by (simp add: schema_error_def validate_proofs_iff list_all_iff)

subsection \<open>The shape of a merge\<close>

lemma map_fst_proof_dict [simp]: "map fst (proof_dict ps) = map pr_record_id ps"
  by (simp add: proof_dict_def)

lemma map_snd_proof_dict [simp]: "map snd (proof_dict ps) = ps"
  by (simp add: proof_dict_def o_def)

lemma in_set_proof_dict [simp]:
  "(k, p) \<in> set (proof_dict ps) \<longleftrightarrow> p \<in> set ps \<and> k = pr_record_id p"
  by (auto simp: proof_dict_def)

lemma snd_set_proof_dict [simp]: "snd ` set (proof_dict ps) = set ps"
  by (simp flip: set_map)

lemma map_of_proof_dict:
  "distinct (map pr_record_id ps) \<Longrightarrow> map_of (proof_dict ps) k = Some p \<longleftrightarrow> p \<in> set ps \<and> pr_record_id p = k"
  by (auto simp: proof_dict_def map_of_eq_Some_iff o_def)

lemma set_sorted_values: "distinct (map fst d) \<Longrightarrow> set (sorted_values d) = snd ` set d"
  by (force simp: sorted_values_def)

lemma merge_receiptE:
  assumes "merge_receipt old new = Inr m"
  obtains (unknown) "cr_capture_id old = cr_capture_id new" "cr_state old = UNKNOWN" "m = old"
  | (merged) hashes proofs where
      "cr_capture_id old = cr_capture_id new" "cr_state old \<noteq> UNKNOWN"
      "merge_into (ValueError ''CAPTURE_CONTENT_CONFLICT'') (dict_of (cr_candidate_hashes old))
         (cr_candidate_hashes new) = Inr hashes"
      "merge_into (ValueError ''CAPTURE_CLOSEOUT_PROOF_CONFLICT'')
         (dict_of (proof_dict (cr_closeout_proofs old))) (proof_dict (cr_closeout_proofs new)) = Inr proofs"
      "m = merged_receipt old new hashes proofs"
  using assms unfolding merge_receipt_def by (auto simp: result_simps split: if_splits)

abbreviation expired :: "CaptureReceipt \<Rightarrow> bool" where
  "expired r \<equiv> cr_reason_code r = ''PENDING_EXPIRED''"

lemma merged_receipt_fields [simp]:
  "cr_candidate_ids (merged_receipt old new hashes proofs) = sorted_set (cr_candidate_ids old @ cr_candidate_ids new)"
  "cr_covered_target_ids (merged_receipt old new hashes proofs) = sorted_set (cr_covered_target_ids old @ cr_covered_target_ids new)"
  "cr_updated_at (merged_receipt old new hashes proofs) = max (cr_updated_at old) (cr_updated_at new)"
  "cr_candidate_hashes (merged_receipt old new hashes proofs) = sort hashes"
  by (simp_all add: merged_receipt_def Let_def)

lemma merged_receipt_expired [simp]:
  assumes "expired old \<or> expired new"
  shows "cr_capture_id (merged_receipt old new hashes proofs) = cr_capture_id old"
    and "cr_state (merged_receipt old new hashes proofs) = UNAVAILABLE"
    and "cr_reason_code (merged_receipt old new hashes proofs) = ''PENDING_EXPIRED''"
    and "cr_closeout_proofs (merged_receipt old new hashes proofs) = cr_closeout_proofs old"
  using assms by (auto simp: merged_receipt_def Let_def)

lemma merged_receipt_live [simp]:
  assumes "\<not> expired old" "\<not> expired new"
  shows "cr_capture_id (merged_receipt old new hashes proofs) = cr_capture_id new"
    and "cr_state (merged_receipt old new hashes proofs) =
      (if cr_candidate_ids old @ cr_candidate_ids new \<noteq> [] then SECURED
       else if cr_state new = WAITING then cr_state old else cr_state new)"
    and "cr_reason_code (merged_receipt old new hashes proofs) = cr_reason_code new"
    and "cr_closeout_proofs (merged_receipt old new hashes proofs) = sorted_values proofs"
  using assms by (auto simp: merged_receipt_def Let_def simp del: append_is_Nil_conv)


subsection \<open>The information order on receipts\<close>

text \<open>
  What a later receipt of the same capture must keep of an earlier one: every candidate and every
  covered target, the content hash of each candidate, every closeout proof, the latest time; an
  unknown receipt is final, an expired one stays expired and unavailable, a secured one stays
  secured unless it expires.
\<close>

definition receipt_le :: "CaptureReceipt \<Rightarrow> CaptureReceipt \<Rightarrow> bool" where
  "receipt_le a b \<longleftrightarrow>
     cr_capture_id b = cr_capture_id a
   \<and> set (cr_candidate_ids a) \<subseteq> set (cr_candidate_ids b)
   \<and> set (cr_covered_target_ids a) \<subseteq> set (cr_covered_target_ids b)
   \<and> map_of (cr_candidate_hashes a) \<subseteq>\<^sub>m map_of (cr_candidate_hashes b)
   \<and> set (cr_closeout_proofs a) \<subseteq> set (cr_closeout_proofs b)
   \<and> cr_updated_at a \<le> cr_updated_at b
   \<and> (cr_state a = UNKNOWN \<longrightarrow> b = a)
   \<and> (expired a \<longrightarrow> expired b \<and> (cr_state b = UNAVAILABLE \<or> b = a))
   \<and> (cr_state a = SECURED \<longrightarrow> cr_state b = SECURED \<or> expired b)"

lemma receipt_le_refl [simp]: "receipt_le a a"
  by (simp add: receipt_le_def)

lemma receipt_le_trans: "receipt_le a b \<Longrightarrow> receipt_le b c \<Longrightarrow> receipt_le a c"
  unfolding receipt_le_def by (elim conjE, intro conjI) (auto intro: map_le_trans)

lemma merged_hashes_le:
  assumes "distinct (map fst (cr_candidate_hashes old))"
    and "merge_into e (dict_of (cr_candidate_hashes old)) (cr_candidate_hashes new) = Inr hashes"
  shows "map_of (cr_candidate_hashes old) \<subseteq>\<^sub>m map_of (sort hashes)"
    and "distinct (map fst (sort hashes))"
proof -
  have "distinct (map fst hashes)" using assms(2) by (rule merge_into_distinct) simp
  then show "distinct (map fst (sort hashes))" by (simp add: distinct_keys_sort)
  show "map_of (cr_candidate_hashes old) \<subseteq>\<^sub>m map_of (sort hashes)"
    using merge_into_le [OF assms(2)] assms(1) \<open>distinct (map fst hashes)\<close>
    by (simp add: dict_of_id map_of_sort)
qed

lemma merged_proofs:
  assumes "distinct (map pr_record_id (cr_closeout_proofs old))"
    and "merge_into e (dict_of (proof_dict (cr_closeout_proofs old)))
           (proof_dict (cr_closeout_proofs new)) = Inr proofs"
  shows "distinct (map fst proofs)"
    and "set proofs = set (proof_dict (cr_closeout_proofs old)) \<union> set (proof_dict (cr_closeout_proofs new))"
    and "set (sorted_values proofs) = set (cr_closeout_proofs old) \<union> set (cr_closeout_proofs new)"
proof -
  show d: "distinct (map fst proofs)" using assms(2) by (rule merge_into_distinct) simp
  show s: "set proofs = set (proof_dict (cr_closeout_proofs old)) \<union> set (proof_dict (cr_closeout_proofs new))"
    using merge_into_set [OF assms(2)] assms(1) by (simp add: dict_of_id)
  show "set (sorted_values proofs) = set (cr_closeout_proofs old) \<union> set (cr_closeout_proofs new)"
    unfolding set_sorted_values [OF d] s by (simp add: image_Un)
qed

lemma merge_receipt_le:
  assumes ok: "receipt_ok old" "receipt_ok new" and m: "merge_receipt old new = Inr m"
  shows "receipt_le old m"
  using m
proof (cases rule: merge_receiptE)
  case unknown
  then show ?thesis by simp
next
  case (merged hashes proofs)
  have d: "distinct (map fst (cr_candidate_hashes old))"
      "distinct (map pr_record_id (cr_closeout_proofs old))"
      and cand: "cr_state old = SECURED \<Longrightarrow> cr_candidate_ids old \<noteq> []"
    using ok(1) by (auto simp: receipt_ok_iff)
  note hl = merged_hashes_le(1) [OF d(1) merged(3)] and pf = merged_proofs [OF d(2) merged(4)]
  show ?thesis
  proof (cases "expired old \<or> expired new")
    case True
    then show ?thesis using merged(1,2) hl unfolding merged(5) receipt_le_def by auto
  next
    case False
    then show ?thesis using merged(1,2) hl pf cand
      unfolding merged(5) receipt_le_def by auto
  qed
qed

interpretation receipts: merge_log merge_receipt receipt_ok receipt_le
  by unfold_locales (auto intro: receipt_le_trans merge_receipt_le)


subsection \<open>A merge of valid receipts is valid, and repeating it changes nothing\<close>

lemma merged_hashes_set:
  assumes "receipt_ok old"
    and "merge_into e (dict_of (cr_candidate_hashes old)) (cr_candidate_hashes new) = Inr hashes"
  shows "set hashes = set (cr_candidate_hashes old) \<union> set (cr_candidate_hashes new)"
  using merge_into_set [OF assms(2)] assms(1) by (simp add: dict_of_id receipt_ok_iff)

lemma proof_keys_distinct:
  assumes "distinct (map fst proofs)" "\<forall>(k, p) \<in> set proofs. k = pr_record_id p"
  shows "distinct (map pr_record_id (sorted_values proofs))"
    and "sort (map fst proofs) = map pr_record_id (sorted_values proofs)"
proof -
  have "pr_record_id (the (map_of proofs k)) = k" if "k \<in> set (map fst proofs)" for k
    using that assms by (force simp: map_of_eq_Some_iff)
  then show eq: "sort (map fst proofs) = map pr_record_id (sorted_values proofs)"
    by (auto simp: sorted_values_def o_def intro!: map_idI [symmetric])
  show "distinct (map pr_record_id (sorted_values proofs))"
    unfolding eq [symmetric] by (simp add: assms(1))
qed

lemma merge_receipt_ok:
  assumes ok: "receipt_ok old" "receipt_ok new" and m: "merge_receipt old new = Inr m"
    and few: "length (cr_closeout_proofs m) \<le> 8"
  shows "receipt_ok m"
  using m
proof (cases rule: merge_receiptE)
  case unknown
  with ok show ?thesis by simp
next
  case (merged hashes proofs)
  have d: "distinct (map fst (cr_candidate_hashes old))"
      "distinct (map pr_record_id (cr_closeout_proofs old))"
    using ok(1) by (auto simp: receipt_ok_iff)
  note h = merged_hashes_le(2) [OF d(1) merged(3)] merged_hashes_set [OF ok(1) merged(3)]
    and pf = merged_proofs [OF d(2) merged(4)]
  have pd: "distinct (map pr_record_id (sorted_values proofs))"
    using pf(1,2) by (intro proof_keys_distinct) auto
  have expired_code: "REASON_CODE_RE ''PENDING_EXPIRED''" by code_simp
  show ?thesis
  proof (cases "expired old \<or> expired new")
    case True
    then show ?thesis using ok few h merged(1) expired_code
      unfolding merged(5) receipt_ok_iff by (auto simp: list_all_iff)
  next
    case False
    then show ?thesis using ok few h merged(1) pf(3) pd
      unfolding merged(5) receipt_ok_iff by (auto simp: list_all_iff)
  qed
qed

lemma merge_receipt_same_id: "merge_receipt old new = Inr m \<Longrightarrow> cr_capture_id m = cr_capture_id new"
  by (auto elim!: merge_receiptE simp: merged_receipt_def Let_def)


lemma sorted_values_proof_dict:
  assumes "sorted (map pr_record_id ps)" "distinct (map pr_record_id ps)"
  shows "sorted_values (proof_dict ps) = ps"
proof -
  have "the (map_of (proof_dict ps) (pr_record_id p)) = p" if "p \<in> set ps" for p
    using that assms(2) by (simp add: map_of_proof_dict)
  then show ?thesis using assms(1)
    by (auto simp: sorted_values_def sorted_sort_id o_def intro!: map_idI)
qed

lemma sorted_set_absorb: "sorted_set (sorted_set (xs @ ys) @ ys) = sorted_set (xs @ ys)"
  by (rule sorted_set_cong) auto

lemma merge_receipt_again:
  assumes ok: "receipt_ok old" "receipt_ok new" and m: "merge_receipt old new = Inr m"
  shows "merge_receipt m new = Inr m"
  using m
proof (cases rule: merge_receiptE)
  case unknown
  then show ?thesis by (simp add: merge_receipt_def)
next
  case (merged hashes proofs)
  have d: "distinct (map fst (cr_candidate_hashes old))"
      "distinct (map pr_record_id (cr_closeout_proofs old))"
      "distinct (map fst (cr_candidate_hashes new))"
      "distinct (map pr_record_id (cr_closeout_proofs new))"
    using ok by (auto simp: receipt_ok_iff)
  note hd = merged_hashes_le(2) [OF d(1) merged(3)] and hs = merged_hashes_set [OF ok(1) merged(3)]
    and pf = merged_proofs [OF d(2) merged(4)]
  have "\<forall>(k, p) \<in> set proofs. k = pr_record_id p" using pf(2) by auto
  note pk = proof_keys_distinct [OF pf(1) this]
  then have pd: "distinct (map pr_record_id (sorted_values proofs))"
      "sorted (map pr_record_id (sorted_values proofs))"
    by (simp, metis sorted_sort)
  have hashes: "merge_into e (dict_of (cr_candidate_hashes m)) (cr_candidate_hashes new) =
      Inr (sort hashes)" for e :: exn
    using hd hs by (simp add: merged(5) dict_of_id merge_into_absorb)
  have id: "cr_capture_id m = cr_capture_id new" using m by (rule merge_receipt_same_id)
  show ?thesis
  proof (cases "expired old \<or> expired new")
    case True
    then have "merged_receipt m new (sort hashes) proofs = m"
      by (intro CaptureReceipt.equality) (simp_all add: merged(5) sorted_set_absorb max_def sorted_sort_id)
    then show ?thesis using True merged(4) hashes id
      by (simp add: merge_receipt_def merged(5))
  next
    case False
    let ?ps = "proof_dict (sorted_values proofs)"
    have live: "cr_closeout_proofs m = sorted_values proofs" "\<not> expired m"
      using False by (simp_all add: merged(5))
    have proofs: "merge_into e (dict_of (proof_dict (cr_closeout_proofs m)))
        (proof_dict (cr_closeout_proofs new)) = Inr ?ps" for e :: exn
      unfolding live using pd pf(3)
      by (subst dict_of_id) (auto intro!: merge_into_absorb simp: map_of_proof_dict)
    have "merged_receipt m new (sort hashes) ?ps = m"
      using False live pd
      by (intro CaptureReceipt.equality)
         (simp_all add: merged(5) sorted_set_absorb max_def sorted_sort_id sorted_values_proof_dict)
    then show ?thesis using hashes proofs id by (simp add: merge_receipt_def)
  qed
qed

subsection \<open>The ledger as a whole\<close>

definition ledger_ok :: "ledger \<Rightarrow> bool" where
  "ledger_ok led \<longleftrightarrow> distinct (map fst led)
     \<and> (\<forall>(path, file) \<in> set led. \<exists>r. file = Stored r \<and> receipt_ok r \<and> cr_capture_id r = path)"

lemma ledger_ok_lookup:
  "ledger_ok led \<Longrightarrow> map_of led path = Some file \<Longrightarrow>
     \<exists>r. file = Stored r \<and> receipt_ok r \<and> cr_capture_id r = path"
  by (auto simp: ledger_ok_def dest!: map_of_SomeD)

lemma receipt_path_ok: "receipt_ok r \<Longrightarrow> receipt_path (cr_capture_id r) = Inr (cr_capture_id r)"
  by (simp add: receipt_path_def receipt_ok_iff)

lemma read_path_ok: "receipt_ok r \<Longrightarrow> read_path (cr_capture_id r) (Stored r) = Inr r"
  by (simp add: read_path_def receipt_path_ok) (simp add: receipt_ok_def)

lemma read_receipt_ok:
  "ledger_ok led \<Longrightarrow> hash_re c \<Longrightarrow> read_receipt led c =
     Inr (case map_of led c of Some (Stored r) \<Rightarrow> Some r | _ \<Rightarrow> None)"
  by (auto simp: read_receipt_def receipt_path_def read_path_ok dest: ledger_ok_lookup split: option.splits)

lemma record_receiptE:
  assumes "record_receipt led r = Inr (led', m)" "ledger_ok led"
  obtains "receipt_ok r" "receipt_ok m" "cr_capture_id m = cr_capture_id r"
      "led' = dict_set (cr_capture_id r) (Stored m) led"
      "map_of led (cr_capture_id r) = None" "m = r"
  | old where "receipt_ok r" "receipt_ok m" "cr_capture_id m = cr_capture_id r"
      "led' = dict_set (cr_capture_id r) (Stored m) led"
      "map_of led (cr_capture_id r) = Some (Stored old)" "receipt_ok old" "merge_receipt old r = Inr m"
proof -
  from assms(1) have ok: "receipt_ok r" "receipt_ok m"
      and led': "led' = dict_set (cr_capture_id r) (Stored m) led"
      and how: "(case map_of led (cr_capture_id r) of None \<Rightarrow> Inr r
          | Some file \<Rightarrow> rbind (read_path (cr_capture_id r) file) (\<lambda>old. merge_receipt old r)) = Inr m"
    by (auto simp: record_receipt_def record_receipt_locked_def result_simps receipt_ok_def
          receipt_path_def split: if_splits)
  show thesis
  proof (cases "map_of led (cr_capture_id r)")
    case None
    with that(1) ok led' how show thesis by simp
  next
    case (Some f)
    with assms(2) obtain old where old: "f = Stored old" "receipt_ok old"
        "cr_capture_id old = cr_capture_id r"
      using ledger_ok_lookup by blast
    with how Some have "merge_receipt old r = Inr m"
      by (metis option.simps(5) rbind_Inr read_path_ok)
    with that(2) ok led' Some old show thesis by (simp add: merge_receipt_same_id)
  qed
qed

lemma record_receipt_keeps_ok:
  assumes "record_receipt led r = Inr (led', m)" "ledger_ok led"
  shows "ledger_ok led'"
proof -
  have m: "receipt_ok m" "cr_capture_id m = cr_capture_id r"
    and led': "led' = dict_set (cr_capture_id r) (Stored m) led"
    using assms by (auto elim: record_receiptE)
  let ?good = "\<lambda>(path, f). \<exists>r. f = Stored r \<and> receipt_ok r \<and> cr_capture_id r = path"
  have "set led' \<subseteq> insert (cr_capture_id r, Stored m) (set led)"
    unfolding led' by (induction led) auto
  moreover have "?good x" if "x \<in> insert (cr_capture_id r, Stored m) (set led)" for x
    using that m assms(2) by (auto simp: ledger_ok_def)
  ultimately have "\<forall>x \<in> set led'. ?good x" by blast
  moreover have "distinct (map fst led')"
    using assms(2) by (simp add: led' ledger_ok_def distinct_update)
  ultimately show ?thesis by (simp add: ledger_ok_def)
qed


text \<open>A sequence of records: one that raises leaves the ledger as it is.\<close>

fun record_all :: "ledger \<Rightarrow> CaptureReceipt list \<Rightarrow> ledger" where
  "record_all led [] = led"
| "record_all led (r # rs) =
     record_all (case record_receipt led r of Inl _ \<Rightarrow> led | Inr (led', _) \<Rightarrow> led') rs"

lemma record_all_ok: "ledger_ok led \<Longrightarrow> ledger_ok (record_all led rs)"
  by (induction rs arbitrary: led) (auto split: sum.splits intro: record_receipt_keeps_ok)

text \<open>At one capture id, a sequence of records is the history of merges of its valid receipts.\<close>

lemma record_receipt_at:
  assumes "ledger_ok led" "map_of led c = Some (Stored old)"
  shows "map_of (case record_receipt led r of Inl _ \<Rightarrow> led | Inr (led', _) \<Rightarrow> led') c =
    Some (Stored (if receipt_ok r \<and> cr_capture_id r = c
      then (case merge_receipt old r of Inl _ \<Rightarrow> old | Inr m \<Rightarrow> if receipt_ok m then m else old)
      else old))"
proof -
  obtain old' where o: "receipt_ok old" "cr_capture_id old = c"
    using ledger_ok_lookup [OF assms] by auto
  then have p: "receipt_ok r \<Longrightarrow> cr_capture_id r = c \<Longrightarrow> receipt_path c = Inr c"
    using receipt_path_ok by force
  show ?thesis
  proof (cases "receipt_ok r \<and> cr_capture_id r = c")
    case True
    then show ?thesis using assms(2) read_path_ok [OF o(1)] o(2) p
      by (auto simp: record_receipt_def record_receipt_locked_def receipt_ok_def dict_simps
            result_simps split: sum.splits)
  next
    case False
    then show ?thesis using assms
      by (auto simp: dict_simps split: sum.splits elim!: record_receiptE)
  qed
qed

lemma record_all_at:
  assumes "ledger_ok led" "map_of led c = Some (Stored old)"
  shows "map_of (record_all led rs) c = Some (Stored (merge_history merge_receipt receipt_ok old
    (filter (\<lambda>r. receipt_ok r \<and> cr_capture_id r = c) rs)))"
  using assms
proof (induction rs arbitrary: led old)
  case (Cons r rs)
  let ?led = "case record_receipt led r of Inl _ \<Rightarrow> led | Inr (led', _) \<Rightarrow> led'"
  have "ledger_ok ?led"
    using Cons.prems(1) by (auto split: sum.splits intro: record_receipt_keeps_ok)
  from Cons.IH [OF this record_receipt_at [OF Cons.prems]] show ?case by simp
qed simp


subsection \<open>Texts of identities\<close>

definition quote_free :: "string \<Rightarrow> bool" where
  "quote_free s \<longleftrightarrow> CHR 0x22 \<notin> set s"

lemma split_at_unique:
  "c \<notin> set s \<Longrightarrow> c \<notin> set t \<Longrightarrow> s @ c # xs = t @ c # ys \<Longrightarrow> s = t \<and> xs = ys"
proof (induction s arbitrary: t)
  case Nil
  then show ?case by (cases t) auto
next
  case (Cons a s)
  then show ?case by (cases t) auto
qed

lemma quote_inject:
  assumes "quote_free s" "quote_free t" "quote s @ xs = quote t @ ys"
  shows "s = t \<and> xs = ys"
proof -
  from assms(3) have "s @ CHR 0x22 # xs = t @ CHR 0x22 # ys" by (simp add: quote_def)
  then show ?thesis using assms(1,2) unfolding quote_free_def by (intro split_at_unique)
qed

lemma json_opt_inject:
  assumes "\<And>s. v = Some s \<Longrightarrow> quote_free s" "\<And>s. w = Some s \<Longrightarrow> quote_free s"
    "json_opt v @ xs = json_opt w @ ys"
  shows "v = w \<and> xs = ys"
proof (cases v)
  case None
  with assms(3) show ?thesis by (cases w) (simp_all add: json_opt_def quote_def)
next
  case (Some s)
  show ?thesis
  proof (cases w)
    case None
    with assms(3) Some show ?thesis by (simp add: json_opt_def quote_def)
  next
    case (Some t)
    with \<open>v = Some s\<close> assms(3) have "quote s @ xs = quote t @ ys" by (simp add: json_opt_def)
    from quote_inject [OF assms(1) [OF \<open>v = Some s\<close>] assms(2) [OF Some] this]
    show ?thesis using \<open>v = Some s\<close> Some by simp
  qed
qed

lemma quote_free_hash: "hash_re s \<Longrightarrow> quote_free s"
proof -
  assume "hash_re s"
  then obtain r where r: "s = ''sha256:'' @ r" "list_all hex_lower r"
    by (auto simp: hash_re_def prefixed_hex_def starts_with_iff)
  have "\<not> hex_lower (CHR 0x22)" by code_simp
  with r show ?thesis by (auto simp: quote_free_def list_all_iff)
qed

lemma quote_free_label: "SAFE_HOST_LABEL_RE s \<Longrightarrow> quote_free s"
proof -
  assume label: "SAFE_HOST_LABEL_RE s"
  have "\<not> label_char (CHR 0x22)" "\<not> (ascii_alpha (CHR 0x22) \<or> ascii_digit (CHR 0x22))"
    by code_simp+
  with label show ?thesis
    by (auto simp: SAFE_HOST_LABEL_RE_def quote_free_def list_all_iff split: list.splits)
qed

definition identity_ok :: "CaptureIdentity \<Rightarrow> bool" where
  "identity_ok i \<longleftrightarrow> SAFE_HOST_LABEL_RE (ci_host_id i) \<and> hash_re (ci_instance_hash i)
     \<and> hash_re (ci_store_id i) \<and> opt_hash_ok (ci_session_hash i) \<and> opt_hash_ok (ci_turn_hash i)
     \<and> opt_hash_ok (ci_record_hash i)"

lemma opt_hash_quote_free: "opt_hash_ok v \<Longrightarrow> v = Some s \<Longrightarrow> quote_free s"
  by (simp add: opt_hash_ok_def quote_free_hash)

lemmas label_step = quote_inject [OF quote_free_label quote_free_label]
lemmas hash_step = quote_inject [OF quote_free_hash quote_free_hash]

lemma opt_step:
  "opt_hash_ok v \<Longrightarrow> opt_hash_ok w \<Longrightarrow> json_opt v @ xs = json_opt w @ ys \<Longrightarrow> v = w \<and> xs = ys"
  using json_opt_inject opt_hash_quote_free by blast

lemma identity_json_inject:
  assumes ok: "identity_ok i" "identity_ok j" and eq: "identity_json i = identity_json j"
  shows "i = j"
proof -
  note oks = ok [unfolded identity_ok_def]
  let ?t = "\<lambda>i. '','' @ quote ''turn_hash'' @ '':'' @ json_opt (ci_turn_hash i) @ ''}''"
  let ?s = "\<lambda>i. '','' @ quote ''store_id'' @ '':'' @ quote (ci_store_id i) @ ?t i"
  let ?e = "\<lambda>i. '','' @ quote ''session_hash'' @ '':'' @ json_opt (ci_session_hash i) @ ?s i"
  let ?r = "\<lambda>i. '','' @ quote ''record_hash'' @ '':'' @ json_opt (ci_record_hash i) @ ?e i"
  let ?n = "\<lambda>i. '','' @ quote ''instance_hash'' @ '':'' @ quote (ci_instance_hash i) @ ?r i"
  have "quote (ci_host_id i) @ ?n i = quote (ci_host_id j) @ ?n j"
    using eq by (simp add: identity_json_def)
  then have 1: "ci_host_id i = ci_host_id j \<and> ?n i = ?n j"
    using oks by (intro label_step) blast+
  then have "quote (ci_instance_hash i) @ ?r i = quote (ci_instance_hash j) @ ?r j" by simp
  then have 2: "ci_instance_hash i = ci_instance_hash j \<and> ?r i = ?r j"
    using oks by (intro hash_step) blast+
  then have "json_opt (ci_record_hash i) @ ?e i = json_opt (ci_record_hash j) @ ?e j" by simp
  then have 3: "ci_record_hash i = ci_record_hash j \<and> ?e i = ?e j"
    using oks by (intro opt_step) blast+
  then have "json_opt (ci_session_hash i) @ ?s i = json_opt (ci_session_hash j) @ ?s j" by simp
  then have 4: "ci_session_hash i = ci_session_hash j \<and> ?s i = ?s j"
    using oks by (intro opt_step) blast+
  then have "quote (ci_store_id i) @ ?t i = quote (ci_store_id j) @ ?t j" by simp
  then have 5: "ci_store_id i = ci_store_id j \<and> ?t i = ?t j"
    using oks by (intro hash_step) blast+
  then have "json_opt (ci_turn_hash i) @ ''}'' = json_opt (ci_turn_hash j) @ ''}''" by simp
  then have "ci_turn_hash i = ci_turn_hash j \<and> ''}'' = ''}''"
    using oks by (intro opt_step) blast+
  with 1 2 3 4 5 show ?thesis by (intro CaptureIdentity.equality) simp_all
qed

lemma capture_key_Some:
  "capture_key h i = Inr (Some k) \<Longrightarrow> identity_ok i \<and> k = ''sha256:'' @ h (identity_json i)"
  by (auto simp: capture_key_def identity_ok_def split: if_splits)


subsection \<open>Properties\<close>

definition sample_hash :: "char \<Rightarrow> string" where
  "sample_hash c = ''sha256:'' @ replicate 64 c"

definition secured_receipt :: "char \<Rightarrow> int \<Rightarrow> CaptureReceipt" where
  "secured_receipt c now =
     (waiting_receipt (sample_hash (CHR ''a'')) now)\<lparr>cr_state := SECURED,
        cr_candidate_ids := [sample_hash c], cr_reason_code := ''CAPTURE_SECURED'',
        cr_candidate_hashes := [(sample_hash c, sample_hash (CHR ''f''))]\<rparr>"

definition sample_ledger :: ledger where
  "sample_ledger = [(sample_hash (CHR ''a''), Stored (secured_receipt (CHR ''b'') 1))]"

lemma receipt_ok_samples:
  "receipt_ok (secured_receipt (CHR ''b'') 1)" "receipt_ok (secured_receipt (CHR ''c'') 2)"
  unfolding receipt_ok_def by code_simp+

lemma ledger_ok_sample: "ledger_ok sample_ledger"
  using receipt_ok_samples(1)
  by (simp add: ledger_ok_def sample_ledger_def secured_receipt_def waiting_receipt_def)

text \<open>
  C23. No history of records loses knowledge: whatever receipts are recorded, in whatever order,
  failing ones included, the receipt stored for a capture only grows in the information order; its
  candidates, targets, content hashes and proofs stay, an unknown receipt is final, an expired one
  stays expired, a secured one stays secured unless it expires; and it can be read back.
\<close>

theorem ledger_history_grows:
  assumes "ledger_ok led" and "map_of led c = Some (Stored old)"
  shows "\<exists>m. read_receipt (record_all led rs) c = Inr (Some m) \<and> receipt_le old m"
proof -
  let ?m = "merge_history merge_receipt receipt_ok old
    (filter (\<lambda>r. receipt_ok r \<and> cr_capture_id r = c) rs)"
  have ok: "receipt_ok old" and c: "cr_capture_id old = c"
    using ledger_ok_lookup [OF assms] by auto
  then have "receipt_le old ?m" by (intro receipts.history_le) (auto simp: list_all_iff)
  moreover have "hash_re c" using ok c by (simp add: receipt_ok_iff)
  ultimately show ?thesis
    using record_all_at [OF assms] record_all_ok [OF assms(1)] by (simp add: read_receipt_ok)
qed

theorem ledger_history_grows_witness:
  "\<exists>m. read_receipt (record_all sample_ledger [secured_receipt (CHR ''c'') 2]) (sample_hash (CHR ''a''))
      = Inr (Some m) \<and> receipt_le (secured_receipt (CHR ''b'') 1) m"
  by (rule ledger_history_grows [OF ledger_ok_sample]) (simp add: sample_ledger_def)

text \<open>
  Recording is idempotent: when a capture already has a receipt, recording the same receipt
  again stores and returns what the first record stored, so a repeated delivery is harmless.
\<close>

theorem record_receipt_idempotent:
  assumes "ledger_ok led" and "has_key led (cr_capture_id r)"
    and "record_receipt led r = Inr (led', m)"
  shows "record_receipt led' r = Inr (led', m)"
  using assms(3,1)
proof (cases rule: record_receiptE)
  case 1
  with assms(2) show ?thesis by (simp add: has_key_def)
next
  case (2 old)
  have "merge_receipt m r = Inr m" using 2 by (intro merge_receipt_again)
  moreover have look: "map_of led' (cr_capture_id r) = Some (Stored m)" using 2 by (simp add: dict_simps)
  ultimately show ?thesis
    using 2 read_path_ok [of m] receipt_path_ok [of r] dict_set_same [OF look]
    by (simp add: record_receipt_def record_receipt_locked_def receipt_ok_def)
qed

theorem record_receipt_idempotent_witness:
  "\<exists>led' m. record_receipt sample_ledger (secured_receipt (CHR ''c'') 2) = Inr (led', m)
     \<and> record_receipt led' (secured_receipt (CHR ''c'') 2) = Inr (led', m)"
proof -
  let ?r = "secured_receipt (CHR ''c'') 2"
  have "isl (record_receipt sample_ledger ?r) = False" by code_simp
  then obtain led' m where eq: "record_receipt sample_ledger ?r = Inr (led', m)"
    by (metis isl_def surj_pair sum.exhaust)
  have "has_key sample_ledger (cr_capture_id ?r)" by code_simp
  from record_receipt_idempotent [OF ledger_ok_sample this eq] eq show ?thesis by blast
qed

text \<open>
  A candidate never gets a second content: two valid receipts of one known capture conflict
  exactly when some candidate carries different content hashes in them.
\<close>

theorem merge_receipt_content_conflict:
  assumes "receipt_ok old" and "receipt_ok new"
  shows "merge_receipt old new = Inl (ValueError ''CAPTURE_CONTENT_CONFLICT'') \<longleftrightarrow>
    cr_capture_id old = cr_capture_id new \<and> cr_state old \<noteq> UNKNOWN \<and>
    (\<exists>c h h'. (c, h) \<in> set (cr_candidate_hashes old) \<and> (c, h') \<in> set (cr_candidate_hashes new) \<and> h \<noteq> h')"
proof -
  have "distinct (map fst (cr_candidate_hashes old))" "distinct (map fst (cr_candidate_hashes new))"
    using assms by (simp_all add: receipt_ok_iff)
  note conflict = merge_into_conflict [OF this, of "ValueError ''CAPTURE_CONTENT_CONFLICT''"]
  show ?thesis
    using \<open>distinct (map fst (cr_candidate_hashes old))\<close>
    by (auto simp: merge_receipt_def result_simps dict_of_id conflict dest: merge_into_Inl)
qed

theorem merge_receipt_content_conflict_witness:
  "merge_receipt (secured_receipt (CHR ''b'') 1)
     ((secured_receipt (CHR ''b'') 2)\<lparr>cr_candidate_hashes := [(sample_hash (CHR ''b''), sample_hash (CHR ''e''))]\<rparr>)
   = Inl (ValueError ''CAPTURE_CONTENT_CONFLICT'')"
proof -
  let ?n = "(secured_receipt (CHR ''b'') 2)\<lparr>cr_candidate_hashes := [(sample_hash (CHR ''b''), sample_hash (CHR ''e''))]\<rparr>"
  have "receipt_ok ?n" unfolding receipt_ok_def by code_simp
  from merge_receipt_content_conflict [OF receipt_ok_samples(1) this] show ?thesis
    by (simp add: secured_receipt_def waiting_receipt_def sample_hash_def)
qed

text \<open>
  Capture keys separate captures: two identities with the same key are the same identity, or
  the digest function maps two different texts to one digest.
\<close>

theorem capture_key_separates:
  assumes "capture_key hexdigest i = Inr (Some k)" and "capture_key hexdigest j = Inr (Some k)"
  shows "i = j \<or> (\<exists>x y. x \<noteq> y \<and> hexdigest x = hexdigest y)"
  using capture_key_Some [OF assms(1)] capture_key_Some [OF assms(2)] identity_json_inject
  by (metis same_append_eq)

definition sample_identity :: CaptureIdentity where
  "sample_identity = \<lparr>ci_host_id = ''codex-cli'', ci_instance_hash = sample_hash (CHR ''1''),
     ci_store_id = sample_hash (CHR ''2''), ci_session_hash = None, ci_turn_hash = None,
     ci_record_hash = Some (sample_hash (CHR ''3''))\<rparr>"

theorem capture_key_separates_witness:
  "\<exists>k. capture_key id sample_identity = Inr (Some k)
     \<and> (\<forall>j. capture_key id j = Inr (Some k) \<longrightarrow> sample_identity = j)"
proof -
  have "capture_key id sample_identity = Inr (Some (''sha256:'' @ identity_json sample_identity))"
    by code_simp
  then show ?thesis using capture_key_separates [of id sample_identity] by (metis id_apply)
qed

end
