(* ===== verification/Setup_Contract.thy ===== *)
theory Setup_Contract
  imports Ei_Prelude
begin

section \<open>Selection of the one organizer\<close>

text \<open>
  \<^verbatim>\<open>src/src/ei/setup_contract.py\<close>: which provider organizes knowledge is an explicit choice.
  The resolver and the migration of older installations either return one valid selection or say
  that a selection is required; they never pick one out of several.
\<close>

record OrganizerSelection =
  os_status :: string
  os_provider_id :: "string option"
  os_host_id :: "string option"
  os_reason_code :: "string option"

definition ORGANIZER_SAFE_ID :: "string \<Rightarrow> bool" where
  "ORGANIZER_SAFE_ID s = (case s of [] \<Rightarrow> False
     | c # cs \<Rightarrow> (ascii_alpha c \<or> ascii_digit c) \<and> length cs \<le> 159
         \<and> list_all (\<lambda>d. ascii_alpha d \<or> ascii_digit d \<or> d \<in> set ''_.:-'') cs)"

text \<open>\<open>OrganizerSelection.__post_init__\<close>: a selection, or the error its construction raises.\<close>

definition make_selection ::
  "string \<Rightarrow> string option \<Rightarrow> string option \<Rightarrow> string option \<Rightarrow> OrganizerSelection result" where
  "make_selection status provider_id host_id reason_code =
     (let selection = \<lparr>os_status = status, os_provider_id = provider_id, os_host_id = host_id,
            os_reason_code = reason_code\<rparr> in
      if status \<notin> {''READY'', ''SELECTION_REQUIRED''} then Inl (ValueError ''ORGANIZER_STATUS_INVALID'')
      else if status = ''SELECTION_REQUIRED'' then
        if provider_id \<noteq> None \<or> host_id \<noteq> None
          then Inl (ValueError ''ORGANIZER_SELECTION_REQUIRED_FIELDS_INVALID'')
        else if reason_code = None \<or> reason_code = Some [] then Inl (ValueError ''ORGANIZER_REASON_REQUIRED'')
        else Inr selection
      else (case provider_id of
          None \<Rightarrow> Inl (ValueError ''ORGANIZER_PROVIDER_ID_INVALID'')
        | Some provider \<Rightarrow>
            if \<not> ORGANIZER_SAFE_ID provider then Inl (ValueError ''ORGANIZER_PROVIDER_ID_INVALID'')
            else if provider = ''subscription-cli''
                 \<and> (case host_id of None \<Rightarrow> True | Some h \<Rightarrow> \<not> ORGANIZER_SAFE_ID h)
              then Inl (ValueError ''ORGANIZER_HOST_REQUIRED'')
            else if provider \<noteq> ''subscription-cli'' \<and> host_id \<noteq> None
              then Inl (ValueError ''ORGANIZER_HOST_MUST_BE_EMPTY'')
            else if reason_code \<noteq> None then Inl (ValueError ''ORGANIZER_READY_REASON_INVALID'')
            else Inr selection))"

definition required :: "string \<Rightarrow> OrganizerSelection result" where
  "required reason_code = make_selection ''SELECTION_REQUIRED'' None None (Some reason_code)"

definition SELECTION_REQUIRED :: string where
  "SELECTION_REQUIRED = ''ORGANIZER_SELECTION_REQUIRED''"

definition normalise_id :: "string \<Rightarrow> string option" where
  "normalise_id value = (if ORGANIZER_SAFE_ID value then Some value else None)"

text \<open>Lists of ids: without repetitions, or with them for the legacy lists. One bad id spoils the list.\<close>

definition normalise_ids :: "string list \<Rightarrow> string list option" where
  "normalise_ids values = (if list_all ORGANIZER_SAFE_ID values then Some (unique values) else None)"

definition normalise_values_preserving_multiplicity :: "string list \<Rightarrow> string list option" where
  "normalise_values_preserving_multiplicity values =
     (if list_all ORGANIZER_SAFE_ID values then Some values else None)"

definition resolve_organizer ::
  "string option \<Rightarrow> string option \<Rightarrow> string list \<Rightarrow> string list \<Rightarrow> OrganizerSelection result" where
  "resolve_organizer provider_id host_id work_hosts configured_provider_ids =
     (let provider = Option.bind provider_id normalise_id; host = Option.bind host_id normalise_id in
      case (normalise_ids work_hosts, normalise_ids configured_provider_ids) of
        (Some hosts, Some configured) \<Rightarrow>
          if (provider_id \<noteq> None \<and> provider = None) \<or> (host_id \<noteq> None \<and> host = None)
            then required ''ORGANIZER_ID_INVALID''
          else if hosts = [] then required SELECTION_REQUIRED
          else (case provider of
              None \<Rightarrow> required SELECTION_REQUIRED
            | Some p \<Rightarrow>
                if p \<notin> set configured then required ''ORGANIZER_PROVIDER_NOT_CONFIGURED''
                else if p = ''subscription-cli'' then
                  (case host of None \<Rightarrow> required ''ORGANIZER_HOST_REQUIRED''
                   | Some h \<Rightarrow> make_selection ''READY'' (Some p) (Some h) None)
                else make_selection ''READY'' (Some p) None None)
      | _ \<Rightarrow> required ''ORGANIZER_ID_INVALID'')"

definition migrate_legacy_organizer :: "string list \<Rightarrow> string list \<Rightarrow> OrganizerSelection result" where
  "migrate_legacy_organizer providers work_hosts =
     (case (normalise_values_preserving_multiplicity providers,
            normalise_values_preserving_multiplicity work_hosts) of
        (Some ps, Some hosts) \<Rightarrow>
          if hosts = [] then required SELECTION_REQUIRED
          else (case ps of
              [provider] \<Rightarrow>
                if provider = ''subscription-cli'' then
                  (case hosts of [host] \<Rightarrow> make_selection ''READY'' (Some provider) (Some host) None
                   | _ \<Rightarrow> required SELECTION_REQUIRED)
                else make_selection ''READY'' (Some provider) None None
            | _ \<Rightarrow> required SELECTION_REQUIRED)
      | _ \<Rightarrow> required ''ORGANIZER_ID_INVALID'')"

text \<open>
  \<open>organizer_from_mapping\<close> and \<open>to_dict\<close>. A field that is neither a text nor null fails one of the
  checks, and every failure becomes the same error.
\<close>

definition text_field :: "pydict \<Rightarrow> string \<Rightarrow> string option result" where
  "text_field d key = (case get_default d key PNone of
       PNone \<Rightarrow> Inr None | PStr s \<Rightarrow> Inr (Some s) | _ \<Rightarrow> Inl (ValueError ''ORGANIZER_INVALID''))"

definition organizer_from_mapping :: "pyval \<Rightarrow> OrganizerSelection result" where
  "organizer_from_mapping value = (case value of
     PDict d \<Rightarrow>
       (case rbind (text_field d ''status'') (\<lambda>status.
             rbind (text_field d ''provider_id'') (\<lambda>provider_id.
             rbind (text_field d ''host_id'') (\<lambda>host_id.
             rbind (text_field d ''reason_code'') (\<lambda>reason_code.
               case status of None \<Rightarrow> Inl (ValueError ''ORGANIZER_STATUS_INVALID'')
               | Some s \<Rightarrow> make_selection s provider_id host_id reason_code)))) of
          Inl _ \<Rightarrow> Inl (ValueError ''ORGANIZER_INVALID'')
        | Inr selection \<Rightarrow> Inr selection)
   | _ \<Rightarrow> Inl (ValueError ''ORGANIZER_INVALID''))"

definition opt_value :: "string option \<Rightarrow> pyval" where
  "opt_value v = (case v of None \<Rightarrow> PNone | Some s \<Rightarrow> PStr s)"

definition organizer_to_dict :: "OrganizerSelection \<Rightarrow> pydict" where
  "organizer_to_dict sel = [(''status'', PStr (os_status sel)), (''provider_id'', opt_value (os_provider_id sel)),
     (''host_id'', opt_value (os_host_id sel)), (''reason_code'', opt_value (os_reason_code sel))]"

subsection \<open>Valid selections\<close>

definition organizer_ok :: "OrganizerSelection \<Rightarrow> bool" where
  "organizer_ok sel \<longleftrightarrow>
     make_selection (os_status sel) (os_provider_id sel) (os_host_id sel) (os_reason_code sel) = Inr sel"

lemma make_selection_ok:
  assumes "make_selection s p h r = Inr sel"
  shows "organizer_ok sel"
    and "sel = \<lparr>os_status = s, os_provider_id = p, os_host_id = h, os_reason_code = r\<rparr>"
proof -
  show sel: "sel = \<lparr>os_status = s, os_provider_id = p, os_host_id = h, os_reason_code = r\<rparr>"
    using assms unfolding make_selection_def Let_def by (simp split: if_split_asm option.split_asm)
  show "organizer_ok sel" unfolding organizer_ok_def using assms sel by simp
qed

lemma required_ok:
  assumes "r \<noteq> []"
  shows "\<exists>sel. required r = Inr sel \<and> organizer_ok sel \<and> os_status sel \<noteq> ''READY''"
proof -
  have "required r = Inr \<lparr>os_status = ''SELECTION_REQUIRED'', os_provider_id = None, os_host_id = None,
      os_reason_code = Some r\<rparr>"
    using assms by (simp add: required_def make_selection_def)
  then show ?thesis using make_selection_ok(1) unfolding required_def by (intro exI conjI) (assumption | simp)+
qed

lemma ready_ok:
  assumes "ORGANIZER_SAFE_ID p" "p = ''subscription-cli'' \<Longrightarrow> \<exists>x. h = Some x \<and> ORGANIZER_SAFE_ID x"
    "p \<noteq> ''subscription-cli'' \<Longrightarrow> h = None"
  shows "\<exists>sel. make_selection ''READY'' (Some p) h None = Inr sel \<and> organizer_ok sel
    \<and> os_provider_id sel = Some p \<and> os_host_id sel = h"
proof -
  have "\<exists>sel. make_selection ''READY'' (Some p) h None = Inr sel"
    using assms by (cases "p = ''subscription-cli''") (auto simp: make_selection_def Let_def)
  then show ?thesis using make_selection_ok by (metis OrganizerSelection.select_convs(2,3))
qed

lemma settled_organizer: "organizer_ok sel \<Longrightarrow> os_provider_id sel \<noteq> Some []"
  by (auto simp: organizer_ok_def make_selection_def Let_def ORGANIZER_SAFE_ID_def split: if_split_asm option.split_asm)

lemma organizer_roundtrip:
  assumes "organizer_ok sel"
  shows "organizer_from_mapping (PDict (organizer_to_dict sel)) = Inr sel"
proof -
  have "text_field (organizer_to_dict sel) ''status'' = Inr (Some (os_status sel))"
    "text_field (organizer_to_dict sel) ''provider_id'' = Inr (os_provider_id sel)"
    "text_field (organizer_to_dict sel) ''host_id'' = Inr (os_host_id sel)"
    "text_field (organizer_to_dict sel) ''reason_code'' = Inr (os_reason_code sel)"
    by (simp_all add: text_field_def organizer_to_dict_def get_default_def opt_value_def split: option.split)
  then show ?thesis using assms by (simp add: organizer_from_mapping_def organizer_ok_def)
qed

subsection \<open>Properties\<close>

text \<open>
  The resolver is total and never guesses: it returns a valid selection for every input, and a
  ready one only for the very provider that was asked for, which is configured, with a host exactly
  when it is the subscription provider, and then the host that was asked for.
\<close>

theorem resolve_never_guesses:
  "\<exists>sel. resolve_organizer provider_id host_id work_hosts configured = Inr sel \<and> organizer_ok sel
     \<and> (os_status sel = ''READY'' \<longrightarrow> os_provider_id sel = provider_id \<and> provider_id \<noteq> None
         \<and> the provider_id \<in> set configured \<and> work_hosts \<noteq> []
         \<and> os_host_id sel = (if provider_id = Some ''subscription-cli'' then host_id else None))"
proof (cases "\<exists>r. r \<noteq> [] \<and> resolve_organizer provider_id host_id work_hosts configured = required r")
  case True
  then show ?thesis using required_ok by metis
next
  case False
  then have "resolve_organizer provider_id host_id work_hosts configured \<noteq> required ''ORGANIZER_ID_INVALID''"
    "resolve_organizer provider_id host_id work_hosts configured \<noteq> required SELECTION_REQUIRED"
    "resolve_organizer provider_id host_id work_hosts configured \<noteq> required ''ORGANIZER_PROVIDER_NOT_CONFIGURED''"
    "resolve_organizer provider_id host_id work_hosts configured \<noteq> required ''ORGANIZER_HOST_REQUIRED''"
    by (simp_all add: SELECTION_REQUIRED_def) blast+
  then obtain p where p: "provider_id = Some p" "ORGANIZER_SAFE_ID p" "p \<in> set configured" "work_hosts \<noteq> []"
    and h: "host_id \<noteq> None \<longrightarrow> ORGANIZER_SAFE_ID (the host_id)" "p = ''subscription-cli'' \<longrightarrow> host_id \<noteq> None"
    and run: "resolve_organizer provider_id host_id work_hosts configured
        = make_selection ''READY'' (Some p) (if p = ''subscription-cli'' then host_id else None) None"
    unfolding resolve_organizer_def Let_def normalise_ids_def normalise_id_def
    by (auto split: option.split_asm if_split_asm bind_split_asm)
  then show ?thesis
    using ready_ok [of p "if p = ''subscription-cli'' then host_id else None"] by (auto split: if_splits)
qed

theorem resolve_never_guesses_witness:
  "\<exists>sel. resolve_organizer (Some ''ollama'') None [''codex-cli''] [''other'', ''ollama''] = Inr sel
     \<and> os_provider_id sel = Some ''ollama'' \<and> os_host_id sel = None"
proof -
  have "(case resolve_organizer (Some ''ollama'') None [''codex-cli''] [''other'', ''ollama''] of
      Inr sel \<Rightarrow> os_status sel = ''READY'' | Inl _ \<Rightarrow> False)" by code_simp
  then show ?thesis
    using resolve_never_guesses [of "Some ''ollama''" None "[''codex-cli'']" "[''other'', ''ollama'']"]
    by (auto split: sum.splits)
qed

text \<open>
  Migration never chooses among several: a legacy provider list becomes a ready selection only
  when it has exactly one entry, and for the subscription provider only with exactly one work host;
  the selection is valid, and read back from its stored form it is the same.
\<close>

theorem migration_never_chooses:
  "\<exists>sel. migrate_legacy_organizer providers work_hosts = Inr sel \<and> organizer_ok sel
     \<and> organizer_from_mapping (PDict (organizer_to_dict sel)) = Inr sel
     \<and> (os_status sel = ''READY'' \<longrightarrow> (\<exists>p. providers = [p] \<and> os_provider_id sel = Some p
         \<and> (p = ''subscription-cli'' \<longrightarrow> (\<exists>h. work_hosts = [h] \<and> os_host_id sel = Some h))))"
proof (cases "\<exists>r. r \<noteq> [] \<and> migrate_legacy_organizer providers work_hosts = required r")
  case True
  then show ?thesis using required_ok organizer_roundtrip by metis
next
  case False
  then have "migrate_legacy_organizer providers work_hosts \<noteq> required ''ORGANIZER_ID_INVALID''"
    "migrate_legacy_organizer providers work_hosts \<noteq> required SELECTION_REQUIRED"
    by (simp_all add: SELECTION_REQUIRED_def) blast+
  then obtain p where p: "providers = [p]" "ORGANIZER_SAFE_ID p" "list_all ORGANIZER_SAFE_ID work_hosts"
    and h: "p = ''subscription-cli'' \<longrightarrow> (\<exists>x. work_hosts = [x])"
    and run: "migrate_legacy_organizer providers work_hosts
        = make_selection ''READY'' (Some p) (if p = ''subscription-cli'' then Some (hd work_hosts) else None) None"
    unfolding migrate_legacy_organizer_def normalise_values_preserving_multiplicity_def
    by (auto split: if_split_asm list.split_asm)
  then show ?thesis
    using ready_ok [of p "if p = ''subscription-cli'' then Some (hd work_hosts) else None"] organizer_roundtrip
    by (auto split: if_splits)
qed

end
