(* ===== verification/Work_Queue.thy ===== *)
theory Work_Queue
  imports Capture_Ledger Setup_Contract
begin

section \<open>The durable work queue\<close>

text \<open>
  \<^verbatim>\<open>src/src/ei/queue.py\<close>: one file per queued candidate under the queue root, leases for
  the single organizer, terminal states that own their spooled bodies until both are deleted, and
  the emergency spool that takes an item when the queue cannot be written. The catalog of
  \<^verbatim>\<open>src/src/ei/runtime_catalog.py\<close> appears through what the queue uses of it: pages in id
  order after a cursor, lookup by tag, write and delete.

  A queue world is what is durable on disk. Every operation runs under the queue lock, so it is a
  function on worlds; an operation that releases the lock between writes returns the list of worlds
  it makes durable, one after the other, so that an interruption is a prefix of that list. Times
  are instants (microseconds, UTC): the code stores them as ISO texts and compares parsed values.
\<close>

subsection \<open>States and transitions\<close>

datatype QueueState = READY | IN_PROGRESS | DEFERRED | FAILED_RETRYABLE | FAILED_NEEDS_ATTENTION
  | YES_CURATING | NO_DISCARDED | DONE | FAILED | QUARANTINED

text \<open>The members in the order \<open>for state in QueueState\<close> visits them.\<close>

instantiation QueueState :: enum
begin

definition enum_QueueState :: "QueueState list" where
  "enum_QueueState = [READY, IN_PROGRESS, DEFERRED, FAILED_RETRYABLE, FAILED_NEEDS_ATTENTION,
     YES_CURATING, NO_DISCARDED, DONE, FAILED, QUARANTINED]"

definition enum_all_QueueState :: "(QueueState \<Rightarrow> bool) \<Rightarrow> bool" where
  "enum_all_QueueState P \<longleftrightarrow> list_all P enum_class.enum"

definition enum_ex_QueueState :: "(QueueState \<Rightarrow> bool) \<Rightarrow> bool" where
  "enum_ex_QueueState P \<longleftrightarrow> list_ex P enum_class.enum"

instance
proof
  show univ: "(UNIV :: QueueState set) = set enum_class.enum"
    unfolding enum_QueueState_def using QueueState.exhaust by auto
  show "distinct (enum_class.enum :: QueueState list)"
    by (simp add: enum_QueueState_def)
  show "enum_class.enum_all P \<longleftrightarrow> Ball UNIV P" for P :: "QueueState \<Rightarrow> bool"
    unfolding enum_all_QueueState_def list_all_iff univ [symmetric] by simp
  show "enum_class.enum_ex P \<longleftrightarrow> Bex UNIV P" for P :: "QueueState \<Rightarrow> bool"
    unfolding enum_ex_QueueState_def list_ex_iff univ [symmetric] by simp
qed

end

definition TERMINAL :: "QueueState set" where
  "TERMINAL = {NO_DISCARDED, DONE, FAILED_NEEDS_ATTENTION, FAILED, QUARANTINED}"

fun ALLOWED_TRANSITIONS :: "QueueState \<Rightarrow> QueueState set" where
  "ALLOWED_TRANSITIONS READY = {IN_PROGRESS, DEFERRED, YES_CURATING, NO_DISCARDED, FAILED_RETRYABLE,
     FAILED_NEEDS_ATTENTION, QUARANTINED}"
| "ALLOWED_TRANSITIONS DEFERRED = {IN_PROGRESS, YES_CURATING, NO_DISCARDED, FAILED_RETRYABLE,
     FAILED_NEEDS_ATTENTION, QUARANTINED}"
| "ALLOWED_TRANSITIONS IN_PROGRESS = {READY, DEFERRED, YES_CURATING, NO_DISCARDED, DONE,
     FAILED_RETRYABLE, FAILED_NEEDS_ATTENTION, QUARANTINED}"
| "ALLOWED_TRANSITIONS FAILED_RETRYABLE = {READY, IN_PROGRESS, DEFERRED, FAILED_NEEDS_ATTENTION,
     QUARANTINED}"
| "ALLOWED_TRANSITIONS FAILED_NEEDS_ATTENTION = {READY, QUARANTINED}"
| "ALLOWED_TRANSITIONS YES_CURATING = {READY, DEFERRED, DONE, FAILED_RETRYABLE,
     FAILED_NEEDS_ATTENTION, QUARANTINED}"
| "ALLOWED_TRANSITIONS NO_DISCARDED = {}"
| "ALLOWED_TRANSITIONS DONE = {}"
| "ALLOWED_TRANSITIONS FAILED = {READY, QUARANTINED}"
| "ALLOWED_TRANSITIONS QUARANTINED = {}"

subsection \<open>Items\<close>

datatype spool_purpose = Legacy | Pending | Validated_Result

record SpoolRef =
  sr_spool_id :: string
  sr_content_hash :: string
  sr_classification :: string
  sr_created_at :: int
  sr_expires_at :: int
  sr_key_id :: "string option"
  sr_encrypted :: bool
  sr_purpose :: spool_purpose

record QueueItem =
  qi_queue_id :: string
  qi_event_id :: string
  qi_idempotency_key :: string
  qi_stage :: string
  qi_state :: QueueState
  qi_attempts :: int
  qi_created_at :: int
  qi_next_eligible_at :: "int option"
  qi_source_ref :: "string option"
  qi_source_hash :: string
  qi_host_id :: string
  qi_session_id_hash :: string
  qi_turn_id_hash :: string
  qi_payload_ref :: "SpoolRef option"
  qi_provider_preference :: "string list"
  qi_privacy_classification :: string
  qi_lease_owner :: "string option"
  qi_lease_expires_at :: "int option"
  qi_last_error_code :: "string option"
  qi_source_host_id :: string
  qi_source_host_family :: string
  qi_capture_id :: "string option"
  qi_validated_result_ref :: "SpoolRef option"

text \<open>
  \<open>SpoolRef.__post_init__\<close>: a reference that exists has passed these checks. Instants are parsed
  already, the purpose is one of the three by its type.
\<close>

definition SAFE_ID :: "string \<Rightarrow> bool" where
  "SAFE_ID s = (case s of [] \<Rightarrow> False
     | c # cs \<Rightarrow> (ascii_alpha c \<or> ascii_digit c) \<and> length cs \<le> 127
         \<and> list_all (\<lambda>d. ascii_alpha d \<or> ascii_digit d \<or> d \<in> set ''_.-'') cs)"

definition spool_ref_ok :: "SpoolRef \<Rightarrow> bool" where
  "spool_ref_ok ref \<longleftrightarrow> SAFE_ID (sr_spool_id ref) \<and> hash_re (sr_content_hash ref)
   \<and> sr_classification ref \<in> {''public'', ''private-reusable'', ''client-confidential''}
   \<and> sr_encrypted ref"

text \<open>
  \<open>_validate_queue_item\<close>: every caller turns its error into one of its own, so only success
  matters. The checks on types and on unknown keys hold by the record's type.
\<close>

definition opt_nonempty :: "string option \<Rightarrow> bool" where
  "opt_nonempty v = (case v of None \<Rightarrow> True | Some s \<Rightarrow> s \<noteq> [])"

definition opt_all :: "('a \<Rightarrow> bool) \<Rightarrow> 'a option \<Rightarrow> bool" where
  "opt_all P v = (case v of None \<Rightarrow> True | Some x \<Rightarrow> P x)"

definition host_label_ok :: "bool \<Rightarrow> string \<Rightarrow> bool" where
  "host_label_ok allow_empty s \<longleftrightarrow> \<not> isl (validate_host_label (PStr s) [] allow_empty)"

definition validate_queue_item :: "QueueItem \<Rightarrow> bool" where
  "validate_queue_item item \<longleftrightarrow>
     opt_all hash_re (qi_capture_id item)
   \<and> opt_all (\<lambda>ref. sr_purpose ref = Validated_Result) (qi_validated_result_ref item)
   \<and> qi_queue_id item \<noteq> [] \<and> EVENT_ID_RE (qi_event_id item) \<and> hash_re (qi_idempotency_key item)
   \<and> qi_stage item \<noteq> [] \<and> 0 \<le> qi_attempts item
   \<and> opt_nonempty (qi_source_ref item) \<and> hash_re (qi_source_hash item)
   \<and> qi_host_id item \<noteq> [] \<and> hash_re (qi_session_id_hash item) \<and> hash_re (qi_turn_id_hash item)
   \<and> list_all (\<lambda>provider. provider \<noteq> []) (qi_provider_preference item)
   \<and> qi_privacy_classification item \<noteq> []
   \<and> opt_nonempty (qi_lease_owner item) \<and> opt_nonempty (qi_last_error_code item)
   \<and> (qi_source_host_id item = [] \<and> qi_source_host_family item = []
      \<or> host_label_ok False (qi_source_host_id item) \<and> host_label_ok True (qi_source_host_family item))"

text \<open>\<open>QueueItem.from_dict\<close> on what \<open>to_dict\<close> wrote.\<close>

definition from_dict_ok :: "QueueItem \<Rightarrow> bool" where
  "from_dict_ok item \<longleftrightarrow> validate_queue_item item
   \<and> (qi_source_host_id item = []) = (qi_source_host_family item = [])
   \<and> opt_all spool_ref_ok (qi_payload_ref item) \<and> opt_all spool_ref_ok (qi_validated_result_ref item)"

fun reread :: "QueueState \<Rightarrow> QueueState" where
  "reread FAILED = FAILED_NEEDS_ATTENTION"
| "reread s = s"

subsection \<open>Settings and durable state\<close>

text \<open>The capture policy file: absent, unreadable, or a JSON value.\<close>

datatype policy_file = Absent | Unreadable | Parsed pyval

record QueueSettings =
  qs_organizer :: "OrganizerSelection option"
  qs_provider_order :: "string list"
  qs_capture_policy :: policy_file

text \<open>
  A queue file: one that decodes to an item, or one that does not, with the tag the catalog
  recorded when it was written.
\<close>

datatype queue_file = Item QueueItem | Corrupt string

text \<open>An emergency envelope; its id is the key it is stored under.\<close>

record envelope =
  en_item :: QueueItem
  en_reason_code :: string
  en_created_at :: int
  en_expires_at :: int

text \<open>
  What is durable: the queue files by id with the claim cursor of their catalog, the ids of the
  spooled bodies, the emergency envelopes (\<^term>\<open>None\<close>: a file that does not decode) with the
  recovery cursor of theirs, and the status of the emergency health file.
\<close>

record queue_world =
  qw_items :: "queue_file dict"
  qw_claim_cursor :: string
  qw_bodies :: "string list"
  qw_emergency :: "envelope option dict"
  qw_recovery_cursor :: string
  qw_emergency_health :: "string option"

definition provider_preference :: "QueueSettings \<Rightarrow> string list option \<Rightarrow> string list" where
  "provider_preference settings explicit = (case qs_organizer settings of
       Some organizer \<Rightarrow>
         (case os_provider_id organizer of
            Some provider \<Rightarrow> if os_status organizer = ''READY'' then [provider] else []
          | None \<Rightarrow> [])
     | None \<Rightarrow>
         take 1 (filter (\<lambda>item. item \<noteq> [])
           (case explicit of Some values \<Rightarrow> values | None \<Rightarrow> qs_provider_order settings)))"

definition page :: "'v dict \<Rightarrow> string \<Rightarrow> nat \<Rightarrow> string list" where
  "page entries cursor limit =
     (let ids = sort (map fst entries); rows = take limit (filter (\<lambda>i. i > cursor) ids)
      in if rows = [] then take limit ids else rows)"

definition advance :: "string \<Rightarrow> queue_world \<Rightarrow> queue_world" where
  "advance entry_id w = w\<lparr>qw_claim_cursor := entry_id\<rparr>"

text \<open>Reading decodes and validates again; every failure is the same error.\<close>

definition read_item :: "queue_world \<Rightarrow> string \<Rightarrow> QueueItem result" where
  "read_item w path = (case map_of (qw_items w) path of
       Some (Item item) \<Rightarrow>
         if from_dict_ok item then Inr (item\<lparr>qi_state := reread (qi_state item)\<rparr>)
         else Inl (QueueError ''QUEUE_ITEM_CORRUPT'')
     | _ \<Rightarrow> Inl (QueueError ''QUEUE_ITEM_CORRUPT''))"

text \<open>\<open>_safe_queue_path\<close>: ids that cannot leave the queue directory.\<close>

definition safe_queue_path :: "string \<Rightarrow> bool" where
  "safe_queue_path queue_id \<longleftrightarrow> starts_with ''queue_'' queue_id
   \<and> list_all (\<lambda>c. ascii_alpha c \<or> ascii_digit c \<or> c \<in> set ''_-.'') queue_id"

definition store_item :: "QueueItem \<Rightarrow> queue_world \<Rightarrow> queue_world" where
  "store_item item w = w\<lparr>qw_items := dict_set (qi_queue_id item) (Item item) (qw_items w)\<rparr>"

definition delete_spool :: "SpoolRef \<Rightarrow> queue_world \<Rightarrow> queue_world" where
  "delete_spool ref w = w\<lparr>qw_bodies := filter (\<lambda>b. b \<noteq> sr_spool_id ref) (qw_bodies w)\<rparr>"

subsection \<open>Transition of an item\<close>

definition seconds :: "int \<Rightarrow> int" where
  "seconds n = n * 1000000"

fun target_state :: "QueueState \<Rightarrow> QueueState" where
  "target_state FAILED = FAILED_RETRYABLE"
| "target_state s = s"

definition expiry_of_quarantined :: "QueueItem \<Rightarrow> QueueState \<Rightarrow> string option \<Rightarrow> int \<Rightarrow> bool" where
  "expiry_of_quarantined current target reason_code moment \<longleftrightarrow>
     qi_state current = QUARANTINED \<and> target = FAILED_NEEDS_ATTENTION
   \<and> reason_code = Some ''PENDING_EXPIRED'' \<and> qi_capture_id current \<noteq> None
   \<and> (case qi_payload_ref current of None \<Rightarrow> False
      | Some ref \<Rightarrow> sr_purpose ref = Pending \<and> sr_expires_at ref \<le> moment)"

definition transition_allowed :: "QueueItem \<Rightarrow> QueueState \<Rightarrow> string option \<Rightarrow> int \<Rightarrow> bool" where
  "transition_allowed item target reason_code moment \<longleftrightarrow>
     target = qi_state item \<or> target \<in> ALLOWED_TRANSITIONS (qi_state item)
   \<or> expiry_of_quarantined item target reason_code moment"

definition discards :: "QueueState \<Rightarrow> bool" where
  "discards target \<longleftrightarrow> target = NO_DISCARDED \<or> target = DONE"

definition transitioned ::
  "QueueSettings \<Rightarrow> QueueItem \<Rightarrow> QueueState \<Rightarrow> int \<Rightarrow> string option \<Rightarrow> int option \<Rightarrow> QueueItem" where
  "transitioned settings current target moment reason_code next_eligible_at =
     (let has_refs = qi_payload_ref current \<noteq> None \<or> qi_validated_result_ref current \<noteq> None;
          cleanup_due = (if discards target \<and> has_refs then
              (case next_eligible_at of Some t \<Rightarrow> Some t
               | None \<Rightarrow> (case qi_next_eligible_at current of Some t \<Rightarrow> Some t
                         | None \<Rightarrow> Some (moment + seconds 300)))
            else None)
      in current\<lparr>
        qi_state := target,
        qi_provider_preference := provider_preference settings (Some (qi_provider_preference current)),
        qi_next_eligible_at :=
          (if discards target then cleanup_due
           else if next_eligible_at \<noteq> None then next_eligible_at
           else if target \<in> {DEFERRED, FAILED_RETRYABLE, READY} then qi_next_eligible_at current
           else None),
        qi_lease_owner := (if target \<in> {IN_PROGRESS, YES_CURATING} then qi_lease_owner current else None),
        qi_lease_expires_at :=
          (if target \<in> {IN_PROGRESS, YES_CURATING} then qi_lease_expires_at current else None),
        qi_last_error_code :=
          (if reason_code \<noteq> None then reason_code
           else if target = qi_state current \<and> discards target then qi_last_error_code current
           else None)\<rparr>)"

text \<open>The first locked section: check, then make the new state durable.\<close>

definition transition_store ::
  "QueueSettings \<Rightarrow> queue_world \<Rightarrow> QueueItem \<Rightarrow> QueueState \<Rightarrow> int \<Rightarrow> string option \<Rightarrow> int option
     \<Rightarrow> (queue_world \<times> QueueItem) result" where
  "transition_store settings w item target moment reason_code next_eligible_at =
     (if \<not> transition_allowed item target reason_code moment
        then Inl (QueueError ''QUEUE_TRANSITION_INVALID'')
      else if \<not> safe_queue_path (qi_queue_id item) then Inl (QueueError ''QUEUE_ID_INVALID'')
      else rbind (read_item w (qi_queue_id item)) (\<lambda>current.
        if qi_idempotency_key current \<noteq> qi_idempotency_key item
          then Inl (QueueError ''QUEUE_IDEMPOTENCY_COLLISION'')
        else if \<not> transition_allowed current target reason_code moment
          then Inl (QueueError ''QUEUE_TRANSITION_INVALID'')
        else let updated = transitioned settings current target moment reason_code next_eligible_at
             in Inr (store_item updated w, updated)))"

text \<open>
  After a body has been deleted: a second locked section checks that the stored item still is the
  one whose cleanup this is, and clears the reference.
\<close>

definition clear_payload ::
  "queue_world \<Rightarrow> QueueItem \<Rightarrow> SpoolRef \<Rightarrow> QueueState \<Rightarrow> int \<Rightarrow> (queue_world \<times> QueueItem) result" where
  "clear_payload w updated ref target moment =
     rbind (read_item w (qi_queue_id updated)) (\<lambda>current.
       if qi_idempotency_key current \<noteq> qi_idempotency_key updated \<or> qi_state current \<noteq> target
         then Inl (QueueError ''QUEUE_TERMINAL_CLEANUP_BINDING_INVALID'')
       else if qi_payload_ref current = Some ref then
         let cleared = current\<lparr>qi_payload_ref := None,
               qi_next_eligible_at :=
                 (if qi_validated_result_ref current \<noteq> None then Some (moment + seconds 300) else None)\<rparr>
         in Inr (store_item cleared w, cleared)
       else if qi_payload_ref current = None then Inr (w, current)
       else Inl (QueueError ''QUEUE_TERMINAL_CLEANUP_BINDING_INVALID''))"

definition clear_result ::
  "queue_world \<Rightarrow> QueueItem \<Rightarrow> SpoolRef \<Rightarrow> QueueState \<Rightarrow> int \<Rightarrow> (queue_world \<times> QueueItem) result" where
  "clear_result w updated ref target moment =
     rbind (read_item w (qi_queue_id updated)) (\<lambda>current.
       if qi_idempotency_key current \<noteq> qi_idempotency_key updated \<or> qi_state current \<noteq> target
         then Inl (QueueError ''QUEUE_TERMINAL_CLEANUP_BINDING_INVALID'')
       else if qi_validated_result_ref current = Some ref then
         let cleared = current\<lparr>qi_validated_result_ref := None,
               qi_next_eligible_at :=
                 (if qi_payload_ref current \<noteq> None then Some (moment + seconds 300) else None)\<rparr>
         in Inr (store_item cleared w, cleared)
       else if qi_validated_result_ref current = None then Inr (w, current)
       else Inl (QueueError ''QUEUE_TERMINAL_CLEANUP_BINDING_INVALID''))"

text \<open>
  The whole operation: the durable worlds in order, and the item it returns. The loop over the two
  reference fields is unrolled.
\<close>

definition cleanup_payload ::
  "queue_world \<Rightarrow> QueueItem \<Rightarrow> QueueState \<Rightarrow> int \<Rightarrow> (queue_world list \<times> queue_world \<times> QueueItem) result" where
  "cleanup_payload w updated target moment = (case qi_payload_ref updated of
       None \<Rightarrow> Inr ([], w, updated)
     | Some ref \<Rightarrow> let w1 = delete_spool ref w in
         rbind (clear_payload w1 updated ref target moment) (\<lambda>(w2, updated2).
           Inr ([w1, w2], w2, updated2)))"

definition cleanup_result ::
  "queue_world \<Rightarrow> QueueItem \<Rightarrow> QueueState \<Rightarrow> int \<Rightarrow> (queue_world list \<times> queue_world \<times> QueueItem) result" where
  "cleanup_result w updated target moment = (case qi_validated_result_ref updated of
       None \<Rightarrow> Inr ([], w, updated)
     | Some ref \<Rightarrow> let w1 = delete_spool ref w in
         rbind (clear_result w1 updated ref target moment) (\<lambda>(w2, updated2).
           Inr ([w1, w2], w2, updated2)))"

definition transition_queue_item ::
  "QueueSettings \<Rightarrow> queue_world \<Rightarrow> QueueItem \<Rightarrow> QueueState \<Rightarrow> int \<Rightarrow> string option \<Rightarrow> int option
     \<Rightarrow> (queue_world list \<times> QueueItem) result" where
  "transition_queue_item settings w item state moment reason_code next_eligible_at =
     (let target = target_state state in
      rbind (transition_store settings w item target moment reason_code next_eligible_at)
        (\<lambda>(w1, updated1).
        if \<not> discards target then Inr ([w1], updated1)
        else rbind (cleanup_payload w1 updated1 target moment) (\<lambda>(ws2, w2, updated2).
             rbind (cleanup_result w2 updated2 target moment) (\<lambda>(ws3, w3, updated3).
               Inr (w1 # ws2 @ ws3, updated3)))))"

subsection \<open>Claiming\<close>

text \<open>A discarded or finished item that still owns a body, and whose cleanup is due.\<close>

definition needs_cleanup :: "int \<Rightarrow> QueueItem \<Rightarrow> bool" where
  "needs_cleanup moment item \<longleftrightarrow> discards (qi_state item)
   \<and> (qi_payload_ref item \<noteq> None \<or> qi_validated_result_ref item \<noteq> None)
   \<and> (case qi_next_eligible_at item of None \<Rightarrow> True | Some eligible \<Rightarrow> eligible \<le> moment)"

definition pending_expired :: "int \<Rightarrow> QueueItem \<Rightarrow> bool" where
  "pending_expired moment item = (case qi_payload_ref item of None \<Rightarrow> False
     | Some ref \<Rightarrow> sr_purpose ref = Pending \<and> sr_expires_at ref \<le> moment)"

text \<open>
  The guards of the scan on one item: \<^term>\<open>None\<close> when the scan passes over it, else the item
  after a stale lease has been taken back.
\<close>

definition claim_candidate :: "int \<Rightarrow> QueueItem \<Rightarrow> QueueItem option" where
  "claim_candidate moment item =
     (if qi_state item \<in> TERMINAL then None
      else if pending_expired moment item then None
      else if qi_state item \<in> {IN_PROGRESS, YES_CURATING}
           \<and> (case qi_lease_expires_at item of None \<Rightarrow> True | Some expiry \<Rightarrow> expiry > moment) then None
      else let item' = (if qi_state item \<in> {IN_PROGRESS, YES_CURATING}
             then item\<lparr>qi_state := READY, qi_lease_owner := None, qi_lease_expires_at := None,
                       qi_last_error_code := Some ''STALE_LEASE_RECLAIMED''\<rparr>
             else item) in
        if qi_state item' \<notin> {READY, DEFERRED, FAILED_RETRYABLE} then None
        else case qi_next_eligible_at item' of
            None \<Rightarrow> Some item'
          | Some eligible \<Rightarrow> if eligible > moment then None else Some item')"

definition claimed_item :: "QueueSettings \<Rightarrow> string \<Rightarrow> int \<Rightarrow> int \<Rightarrow> QueueItem \<Rightarrow> QueueItem" where
  "claimed_item settings worker_id moment lease_seconds item = item\<lparr>
     qi_state := IN_PROGRESS,
     qi_attempts := qi_attempts item + 1,
     qi_provider_preference := provider_preference settings (Some (qi_provider_preference item)),
     qi_lease_owner := Some worker_id,
     qi_lease_expires_at := Some (moment + seconds lease_seconds),
     qi_last_error_code := None\<rparr>"

text \<open>
  The one cleanup a scan attempts. It may fail after any number of its durable steps
  (\<open>fault = Some n\<close>: an error of the file system or of the spool after \<open>n\<close> of them); then what was
  made durable stays and the cursor is not advanced.
\<close>

definition claim_cleanup ::
  "QueueSettings \<Rightarrow> int \<Rightarrow> nat option \<Rightarrow> QueueItem \<Rightarrow> queue_world \<Rightarrow> queue_world" where
  "claim_cleanup settings moment fault item w =
     (case transition_queue_item settings w item (qi_state item) moment (qi_last_error_code item)
             (Some (moment + seconds 300)) of
        Inl _ \<Rightarrow> w
      | Inr (ws, _) \<Rightarrow>
          (case fault of None \<Rightarrow> advance (qi_queue_id item) (last (w # ws))
           | Some n \<Rightarrow> last (w # take n ws)))"

fun claim_scan ::
  "QueueSettings \<Rightarrow> string \<Rightarrow> int \<Rightarrow> int \<Rightarrow> nat option \<Rightarrow> bool \<Rightarrow> queue_world \<Rightarrow> string list
     \<Rightarrow> queue_world \<times> QueueItem option" where
  "claim_scan settings worker_id moment lease_seconds fault cleanup_attempted w [] = (w, None)"
| "claim_scan settings worker_id moment lease_seconds fault cleanup_attempted w (path # paths) =
     (case read_item w path of
        Inl _ \<Rightarrow> claim_scan settings worker_id moment lease_seconds fault cleanup_attempted
                   (advance path w) paths
      | Inr item \<Rightarrow>
          if \<not> cleanup_attempted \<and> needs_cleanup moment item then
            claim_scan settings worker_id moment lease_seconds fault True
              (claim_cleanup settings moment fault item w) paths
          else (case claim_candidate moment item of
              None \<Rightarrow> claim_scan settings worker_id moment lease_seconds fault cleanup_attempted
                        (advance path w) paths
            | Some candidate \<Rightarrow>
                let claimed = claimed_item settings worker_id moment lease_seconds candidate
                in (advance path (store_item claimed w), Some claimed)))"

definition claim_queue_item ::
  "QueueSettings \<Rightarrow> queue_world \<Rightarrow> string \<Rightarrow> int \<Rightarrow> int \<Rightarrow> nat \<Rightarrow> nat option
     \<Rightarrow> (queue_world \<times> QueueItem option) result" where
  "claim_queue_item settings w worker_id moment lease_seconds max_records fault =
     (if worker_id = [] \<or> length worker_id > 120 then Inl (QueueError ''QUEUE_WORKER_INVALID'')
      else if lease_seconds \<le> 0 then Inl (QueueError ''QUEUE_LEASE_INVALID'')
      else if max_records = 0 then Inl (ValueError ''RUNTIME_PAGE_LIMIT_INVALID'')
      else Inr (claim_scan settings worker_id moment lease_seconds fault False w
                  (page (qw_items w) (qw_claim_cursor w) max_records)))"

subsection \<open>Attaching a validated result\<close>

definition attach_validated_result ::
  "queue_world \<Rightarrow> QueueItem \<Rightarrow> SpoolRef \<Rightarrow> (queue_world \<times> QueueItem) result" where
  "attach_validated_result w item ref =
     (if sr_purpose ref \<noteq> Validated_Result then Inl (QueueError ''QUEUE_RESULT_PURPOSE_INVALID'')
      else if (case qi_payload_ref item of None \<Rightarrow> False
               | Some payload \<Rightarrow> sr_expires_at ref > sr_expires_at payload)
        then Inl (QueueError ''QUEUE_RESULT_EXPIRY_INVALID'')
      else if \<not> safe_queue_path (qi_queue_id item) then Inl (QueueError ''QUEUE_ID_INVALID'')
      else rbind (read_item w (qi_queue_id item)) (\<lambda>current.
        if current \<noteq> item \<or> qi_state current \<noteq> IN_PROGRESS
          then Inl (QueueError ''QUEUE_RESULT_CLAIM_CHANGED'')
        else let updated = current\<lparr>qi_validated_result_ref := Some ref\<rparr>
             in Inr (store_item updated w, updated)))"

subsection \<open>Enqueueing\<close>

text \<open>
  What the queue reads of the two kinds of events. \<open>sha256\<close> is the hexadecimal digest of a text; the
  payload entries the queue reads are texts.
\<close>

record NormalizedHookEvent =
  nh_event_id :: string
  nh_idempotency_key :: string
  nh_host_id :: string
  nh_session_id_hash :: string
  nh_turn_id_hash :: string
  nh_source_ref :: "string option"
  nh_source_hash :: string
  nh_privacy_classification :: string
  nh_source_host_id :: string
  nh_source_host_family :: string

record JournalEvent =
  je_event_id :: string
  je_idempotency_key :: string
  je_actor :: string
  je_payload :: "string dict"

datatype queue_event = Hook_Event NormalizedHookEvent | Journal_Event JournalEvent

record event_fields =
  ef_event_id :: string
  ef_idempotency_key :: string
  ef_source_ref :: "string option"
  ef_source_hash :: string
  ef_host_id :: string
  ef_session_id_hash :: string
  ef_turn_id_hash :: string
  ef_privacy_classification :: string
  ef_source_host_id :: string
  ef_source_host_family :: string

text \<open>\<open>payload.get(key) or digest\<close>\<close>

definition text_or :: "string dict \<Rightarrow> string \<Rightarrow> string \<Rightarrow> string" where
  "text_or payload key alternative = (case map_of payload key of
       Some v \<Rightarrow> if v = [] then alternative else v | None \<Rightarrow> alternative)"

definition event_fields_of :: "(string \<Rightarrow> string) \<Rightarrow> queue_event \<Rightarrow> event_fields result" where
  "event_fields_of sha256 event = (case event of
     Hook_Event e \<Rightarrow>
       if nh_source_host_id e = [] \<or> nh_source_host_family e = []
         then Inl (QueueError ''QUEUE_SOURCE_HOST_PAIR_REQUIRED'')
       else Inr \<lparr>ef_event_id = nh_event_id e, ef_idempotency_key = nh_idempotency_key e,
         ef_source_ref = nh_source_ref e, ef_source_hash = nh_source_hash e,
         ef_host_id = nh_host_id e, ef_session_id_hash = nh_session_id_hash e,
         ef_turn_id_hash = nh_turn_id_hash e,
         ef_privacy_classification = nh_privacy_classification e,
         ef_source_host_id = nh_source_host_id e, ef_source_host_family = nh_source_host_family e\<rparr>
   | Journal_Event e \<Rightarrow>
       let digest = ''sha256:'' @ sha256 (je_event_id e);
           source_host_id = get_default (je_payload e) ''source_host_id'' [];
           source_host_family = get_default (je_payload e) ''source_host_family'' []
       in if source_host_id = [] \<or> source_host_family = []
            then Inl (QueueError ''QUEUE_SOURCE_HOST_PAIR_REQUIRED'')
          else Inr \<lparr>ef_event_id = je_event_id e,
            ef_idempotency_key = (if je_idempotency_key e = [] then digest else je_idempotency_key e),
            ef_source_ref = map_of (je_payload e) ''source_ref'',
            ef_source_hash = text_or (je_payload e) ''source_hash'' digest,
            ef_host_id = je_actor e,
            ef_session_id_hash = text_or (je_payload e) ''session_id_hash'' digest,
            ef_turn_id_hash = text_or (je_payload e) ''turn_id_hash'' digest,
            ef_privacy_classification = get_default (je_payload e) ''classification'' ''private-reusable'',
            ef_source_host_id = source_host_id, ef_source_host_family = source_host_family\<rparr>)"

definition new_queue_id :: "(string \<Rightarrow> string) \<Rightarrow> string \<Rightarrow> string \<Rightarrow> string \<Rightarrow> string" where
  "new_queue_id sha256 event_id idempotency_key source_host_id =
     ''queue_'' @ take 32 (sha256 (event_id @ ''|'' @ idempotency_key @ ''|'' @ source_host_id))"

text \<open>
  \<open>json.dumps([key, host])\<close>: both texts match patterns that leave nothing to escape.
\<close>

definition tag :: "(string \<Rightarrow> string) \<Rightarrow> string \<Rightarrow> string \<Rightarrow> string" where
  "tag sha256 key host = sha256 (''['' @ quote key @ '', '' @ quote host @ '']'')"

fun file_tag :: "(string \<Rightarrow> string) \<Rightarrow> queue_file \<Rightarrow> string" where
  "file_tag sha256 (Item item) = tag sha256 (qi_idempotency_key item) (qi_source_host_id item)"
| "file_tag sha256 (Corrupt t) = t"

definition find_tag :: "(string \<Rightarrow> string) \<Rightarrow> queue_world \<Rightarrow> string \<Rightarrow> string option result" where
  "find_tag sha256 w t =
     (case map fst (filter (\<lambda>(_, f). file_tag sha256 f = t) (qw_items w)) of
        [] \<Rightarrow> Inr None
      | [entry_id] \<Rightarrow> Inr (Some entry_id)
      | _ \<Rightarrow> Inl (ValueError ''RUNTIME_DUPLICATE_MISMATCH''))"

definition existing_by_source_idempotency ::
  "(string \<Rightarrow> string) \<Rightarrow> queue_world \<Rightarrow> string \<Rightarrow> string \<Rightarrow> QueueItem option result" where
  "existing_by_source_idempotency sha256 w key source_host_id =
     rbind (find_tag sha256 w (tag sha256 key source_host_id)) (\<lambda>path. case path of
        None \<Rightarrow> Inr None
      | Some entry_id \<Rightarrow> rbind (read_item w entry_id) (\<lambda>item. Inr (Some item)))"

text \<open>\<open>_emergency_limits\<close>: items, bytes and seconds, each a positive integer.\<close>

definition emergency_defaults :: "int \<times> int \<times> int" where
  "emergency_defaults = (1000, 64 * 1024 * 1024, 86400)"

definition positive_int :: "pyval \<Rightarrow> int option" where
  "positive_int v = (case v of PInt n \<Rightarrow> if n \<le> 0 then None else Some n | _ \<Rightarrow> None)"

definition emergency_limits :: "QueueSettings \<Rightarrow> (int \<times> int \<times> int) result" where
  "emergency_limits settings =
     (let (items, bytes, ttl) = emergency_defaults in
      case qs_capture_policy settings of
        Absent \<Rightarrow> Inr emergency_defaults
      | Unreadable \<Rightarrow> Inl (QueueError ''CAPTURE_POLICY_INVALID'')
      | Parsed policy \<Rightarrow>
          (case (case policy of PDict d \<Rightarrow> get_default d ''emergency_spool'' (PDict []) | _ \<Rightarrow> PDict []) of
             PDict emergency \<Rightarrow>
               (case (positive_int (get_default emergency ''max_items'' (PInt items)),
                      positive_int (get_default emergency ''max_bytes'' (PInt bytes)),
                      positive_int (get_default emergency ''ttl_seconds'' (PInt ttl))) of
                  (Some a, Some b, Some c) \<Rightarrow> Inr (a, b, c)
                | _ \<Rightarrow> Inl (QueueError ''CAPTURE_POLICY_INVALID''))
           | _ \<Rightarrow> Inl (QueueError ''CAPTURE_POLICY_INVALID'')))"

definition emergency_id_of :: "(string \<Rightarrow> string) \<Rightarrow> QueueItem \<Rightarrow> string" where
  "emergency_id_of sha256 item =
     ''emergency_'' @ take 32 (sha256 (qi_queue_id item @ ''|'' @ qi_idempotency_key item))"

text \<open>
  \<open>_read_emergency\<close> on a stored envelope; \<open>capacity\<close> is the number and the bytes of what is stored,
  with \<open>encoded_len\<close> the length of the encoding of one envelope.
\<close>

definition read_emergency :: "queue_world \<Rightarrow> string \<Rightarrow> envelope result" where
  "read_emergency w emergency_id = (case map_of (qw_emergency w) emergency_id of
       Some (Some e) \<Rightarrow> if from_dict_ok (en_item e) then Inr e
         else Inl (QueueError ''QUEUE_ITEM_INVALID'')
     | _ \<Rightarrow> Inl (QueueError ''EMERGENCY_ENVELOPE_INVALID''))"

definition emergency_bytes :: "(envelope option \<Rightarrow> int) \<Rightarrow> queue_world \<Rightarrow> int" where
  "emergency_bytes encoded_len w = sum_list (map (\<lambda>(_, e). encoded_len e) (qw_emergency w))"

definition write_emergency_envelope ::
  "(string \<Rightarrow> string) \<Rightarrow> (envelope option \<Rightarrow> int) \<Rightarrow> QueueSettings \<Rightarrow> queue_world \<Rightarrow> QueueItem
     \<Rightarrow> string \<Rightarrow> int \<Rightarrow> queue_world \<times> string result" where
  "write_emergency_envelope sha256 encoded_len settings w item reason_code created =
     (case emergency_limits settings of
        Inl e \<Rightarrow> (w, Inl e)
      | Inr (max_items, max_bytes, ttl) \<Rightarrow>
          let emergency_id = emergency_id_of sha256 item in
          if has_key (qw_emergency w) emergency_id then
            (case read_emergency w emergency_id of
               Inl e \<Rightarrow> (w, Inl e)
             | Inr existing \<Rightarrow>
                 if en_item existing \<noteq> item then (w, Inl (QueueError ''QUEUE_IDEMPOTENCY_COLLISION''))
                 else (w, Inr emergency_id))
          else
            let env = \<lparr>en_item = item, en_reason_code = reason_code, en_created_at = created,
                       en_expires_at = created + seconds ttl\<rparr> in
            if int (length (qw_emergency w)) \<ge> max_items
               \<or> emergency_bytes encoded_len w + encoded_len (Some env) > max_bytes
              then (w\<lparr>qw_emergency_health := Some ''EMERGENCY_SPOOL_FULL''\<rparr>,
                    Inl (QueueError ''EMERGENCY_SPOOL_FULL''))
            else (w\<lparr>qw_emergency := dict_set emergency_id (Some env) (qw_emergency w)\<rparr>, Inr emergency_id))"

definition new_item ::
  "(string \<Rightarrow> string) \<Rightarrow> QueueSettings \<Rightarrow> event_fields \<Rightarrow> SpoolRef option \<Rightarrow> string list option
     \<Rightarrow> string \<Rightarrow> int \<Rightarrow> string option \<Rightarrow> QueueItem" where
  "new_item sha256 settings flds payload_ref explicit stage created capture_id = \<lparr>
     qi_queue_id = new_queue_id sha256 (ef_event_id flds) (ef_idempotency_key flds)
                     (ef_source_host_id flds),
     qi_event_id = ef_event_id flds, qi_idempotency_key = ef_idempotency_key flds,
     qi_stage = stage, qi_state = READY, qi_attempts = 0, qi_created_at = created,
     qi_next_eligible_at = None, qi_source_ref = ef_source_ref flds,
     qi_source_hash = ef_source_hash flds, qi_host_id = ef_host_id flds,
     qi_session_id_hash = ef_session_id_hash flds, qi_turn_id_hash = ef_turn_id_hash flds,
     qi_payload_ref = payload_ref, qi_provider_preference = provider_preference settings explicit,
     qi_privacy_classification = ef_privacy_classification flds,
     qi_lease_owner = None, qi_lease_expires_at = None, qi_last_error_code = None,
     qi_source_host_id = ef_source_host_id flds, qi_source_host_family = ef_source_host_family flds,
     qi_capture_id = capture_id, qi_validated_result_ref = None\<rparr>"

definition same_identity :: "QueueItem \<Rightarrow> QueueItem \<Rightarrow> bool" where
  "same_identity existing item \<longleftrightarrow> qi_event_id existing = qi_event_id item
   \<and> qi_source_hash existing = qi_source_hash item \<and> qi_host_id existing = qi_host_id item
   \<and> qi_capture_id existing = qi_capture_id item \<and> qi_payload_ref existing = qi_payload_ref item"

text \<open>\<open>write_ok\<close>: whether the queue file could be written; if not, the emergency spool takes the item.\<close>

definition enqueue_receipt ::
  "(string \<Rightarrow> string) \<Rightarrow> (envelope option \<Rightarrow> int) \<Rightarrow> QueueSettings \<Rightarrow> bool \<Rightarrow> queue_world \<Rightarrow> queue_event
     \<Rightarrow> SpoolRef option \<Rightarrow> string list option \<Rightarrow> string \<Rightarrow> int \<Rightarrow> string option
     \<Rightarrow> queue_world \<times> QueueItem result" where
  "enqueue_receipt sha256 encoded_len settings write_ok w event payload_ref explicit stage created capture_id =
     (case event_fields_of sha256 event of
        Inl e \<Rightarrow> (w, Inl e)
      | Inr flds \<Rightarrow>
          let item = new_item sha256 settings flds payload_ref explicit stage created capture_id in
          if \<not> validate_queue_item item then (w, Inl (QueueError ''QUEUE_ITEM_INVALID''))
          else (case existing_by_source_idempotency sha256 w (qi_idempotency_key item)
                       (qi_source_host_id item) of
              Inl e \<Rightarrow> (w, Inl e)
            | Inr (Some existing) \<Rightarrow>
                if same_identity existing item then (w, Inr existing)
                else (w, Inl (QueueError ''QUEUE_IDEMPOTENCY_COLLISION''))
            | Inr None \<Rightarrow>
                if \<not> safe_queue_path (qi_queue_id item) then (w, Inl (QueueError ''QUEUE_ID_INVALID''))
                else if write_ok then (store_item item w, Inr item)
                else (case write_emergency_envelope sha256 encoded_len settings w item
                             ''QUEUE_WRITE_FAILED'' created of
                    (w', Inl e) \<Rightarrow> (w', Inl e)
                  | (w', Inr emergency_id) \<Rightarrow>
                      (w', Inr (item\<lparr>qi_state := QUARANTINED,
                         qi_last_error_code := Some (''EMERGENCY:'' @ emergency_id @ ''.json'')\<rparr>)))))"

subsection \<open>Recovery of the emergency spool\<close>

definition emergency_delete :: "string \<Rightarrow> queue_world \<Rightarrow> queue_world" where
  "emergency_delete emergency_id w =
     w\<lparr>qw_emergency := filter (\<lambda>(k, _). k \<noteq> emergency_id) (qw_emergency w)\<rparr>"

text \<open>One envelope: the new world and the item recovered, if any.\<close>

definition recover_one ::
  "(string \<Rightarrow> string) \<Rightarrow> QueueSettings \<Rightarrow> int \<Rightarrow> queue_world \<Rightarrow> string
     \<Rightarrow> (queue_world \<times> QueueItem list) result" where
  "recover_one sha256 settings moment w path =
     rbind (read_emergency w path) (\<lambda>env.
       let item = (en_item env)\<lparr>qi_state := reread (qi_state (en_item env))\<rparr> in
       if en_expires_at env > moment then
         rbind (existing_by_source_idempotency sha256 w (qi_idempotency_key item)
                  (qi_source_host_id item)) (\<lambda>found. case found of
             Some existing \<Rightarrow>
               if qi_event_id existing \<noteq> qi_event_id item \<or> qi_source_hash existing \<noteq> qi_source_hash item
                  \<or> qi_capture_id existing \<noteq> qi_capture_id item
                  \<or> qi_payload_ref existing \<noteq> qi_payload_ref item
                 then Inl (QueueError ''QUEUE_IDEMPOTENCY_COLLISION'')
               else Inr (emergency_delete path w, [existing])
           | None \<Rightarrow>
               let existing = item\<lparr>qi_provider_preference :=
                     provider_preference settings (Some (qi_provider_preference item))\<rparr>
               in Inr (emergency_delete path (store_item existing w), [existing]))
       else Inr (emergency_delete path w, []))"

text \<open>
  The first envelope that cannot be handled ends the pass: what was recovered stays, and the
  emergency health file says so.
\<close>

fun recover_scan ::
  "(string \<Rightarrow> string) \<Rightarrow> QueueSettings \<Rightarrow> int \<Rightarrow> queue_world \<Rightarrow> string list \<Rightarrow> queue_world \<times> QueueItem list" where
  "recover_scan sha256 settings moment w [] = (w, [])"
| "recover_scan sha256 settings moment w (path # paths) =
     (case recover_one sha256 settings moment w path of
        Inl _ \<Rightarrow> (w\<lparr>qw_emergency_health := Some ''EMERGENCY_INVENTORY_UNKNOWN''\<rparr>, [])
      | Inr (w1, items) \<Rightarrow>
          let (w2, rest) = recover_scan sha256 settings moment (w1\<lparr>qw_recovery_cursor := path\<rparr>) paths
          in (w2, items @ rest))"

definition recover_emergency_spool ::
  "(string \<Rightarrow> string) \<Rightarrow> QueueSettings \<Rightarrow> queue_world \<Rightarrow> int \<Rightarrow> nat \<Rightarrow> queue_world \<times> QueueItem list" where
  "recover_emergency_spool sha256 settings w moment max_records =
     (if max_records = 0 then (w\<lparr>qw_emergency_health := Some ''EMERGENCY_INVENTORY_UNKNOWN''\<rparr>, [])
      else recover_scan sha256 settings moment w
             (page (qw_emergency w) (qw_recovery_cursor w) max_records))"

subsection \<open>Listing, reading and health\<close>

definition readable_items :: "queue_world \<Rightarrow> QueueItem list" where
  "readable_items w = concat (map (\<lambda>(path, _). case read_item w path of Inl _ \<Rightarrow> [] | Inr item \<Rightarrow> [item])
     (qw_items w))"

definition list_queue_items :: "queue_world \<Rightarrow> bool \<Rightarrow> QueueItem list" where
  "list_queue_items w include_terminal =
     filter (\<lambda>item. include_terminal \<or> qi_state item \<notin> TERMINAL) (readable_items w)"

definition read_queue_item :: "queue_world \<Rightarrow> string \<Rightarrow> QueueItem result" where
  "read_queue_item w queue_id =
     (if \<not> safe_queue_path queue_id then Inl (QueueError ''QUEUE_ID_INVALID'')
      else if \<not> has_key (qw_items w) queue_id then Inl (QueueError ''QUEUE_ITEM_NOT_FOUND'')
      else read_item w queue_id)"

record QueueHealth =
  qh_ready :: nat
  qh_in_progress :: nat
  qh_deferred :: nat
  qh_retryable :: nat
  qh_needs_attention :: nat
  qh_terminal :: nat
  qh_corrupt :: nat
  qh_emergency_items :: nat
  qh_emergency_bytes :: int
  qh_organizer :: OrganizerSelection

definition state_count :: "queue_world \<Rightarrow> QueueState \<Rightarrow> nat" where
  "state_count w state = length (filter (\<lambda>item. qi_state item = state) (readable_items w))"

definition queue_health :: "(envelope option \<Rightarrow> int) \<Rightarrow> QueueSettings \<Rightarrow> queue_world \<Rightarrow> QueueHealth" where
  "queue_health encoded_len settings w = \<lparr>
     qh_ready = state_count w READY, qh_in_progress = state_count w IN_PROGRESS,
     qh_deferred = state_count w DEFERRED, qh_retryable = state_count w FAILED_RETRYABLE,
     qh_needs_attention = state_count w FAILED_NEEDS_ATTENTION,
     qh_terminal = sum_list (map (state_count w) (filter (\<lambda>s. s \<in> TERMINAL) enum_class.enum)),
     qh_corrupt = length (filter (\<lambda>(path, _). isl (read_item w path)) (qw_items w)),
     qh_emergency_items = length (qw_emergency w), qh_emergency_bytes = emergency_bytes encoded_len w,
     qh_organizer = (case qs_organizer settings of Some organizer \<Rightarrow> organizer
       | None \<Rightarrow> \<lparr>os_status = ''SELECTION_REQUIRED'', os_provider_id = None, os_host_id = None,
                  os_reason_code = Some ''ORGANIZER_SELECTION_REQUIRED''\<rparr>)\<rparr>"

subsection \<open>Reading after writing\<close>

lemma read_item_eq_Inr:
  "read_item w path = Inr item \<longleftrightarrow>
     (\<exists>stored. map_of (qw_items w) path = Some (Item stored) \<and> from_dict_ok stored
        \<and> item = stored\<lparr>qi_state := reread (qi_state stored)\<rparr>)"
  unfolding read_item_def by (auto split: option.splits queue_file.splits)

lemma read_item_store:
  "read_item (store_item item w) path =
     (if path = qi_queue_id item
      then if from_dict_ok item then Inr (item\<lparr>qi_state := reread (qi_state item)\<rparr>)
           else Inl (QueueError ''QUEUE_ITEM_CORRUPT'')
      else read_item w path)"
  by (simp add: read_item_def store_item_def map_of_dict_set)

lemma read_item_advance [simp]: "read_item (advance p w) path = read_item w path"
  by (simp add: read_item_def advance_def)

lemma read_item_delete_spool [simp]: "read_item (delete_spool ref w) path = read_item w path"
  by (simp add: read_item_def delete_spool_def)

lemma bodies_simps [simp]:
  "qw_bodies (store_item item w) = qw_bodies w"
  "qw_bodies (advance p w) = qw_bodies w"
  "qw_bodies (delete_spool ref w) = filter (\<lambda>b. b \<noteq> sr_spool_id ref) (qw_bodies w)"
  "qw_items (advance p w) = qw_items w"
  "qw_items (delete_spool ref w) = qw_items w"
  by (simp_all add: store_item_def advance_def delete_spool_def)

lemma reread_noop: "reread (reread s) = reread s" "s \<noteq> FAILED \<Longrightarrow> reread s = s"
  by (cases s; simp)+

lemma target_not_failed: "target_state s \<noteq> FAILED"
  by (cases s) simp_all

lemma from_dict_ok_state [simp]: "from_dict_ok (item\<lparr>qi_state := s\<rparr>) = from_dict_ok item"
  by (simp add: from_dict_ok_def validate_queue_item_def)

lemma read_item_ok: "read_item w path = Inr item \<Longrightarrow> from_dict_ok item"
  by (auto simp: read_item_eq_Inr)

lemma reread_not_failed: "reread s \<noteq> FAILED"
  by (cases s) simp_all

lemma read_item_not_failed: "read_item w path = Inr item \<Longrightarrow> qi_state item \<noteq> FAILED"
  by (auto simp: read_item_eq_Inr reread_not_failed)

lemma opt_simps [simp]:
  "opt_all P None" "opt_all P (Some x) = P x" "opt_nonempty None" "opt_nonempty (Some s) = (s \<noteq> [])"
  by (simp_all add: opt_all_def opt_nonempty_def)

text \<open>Clearing a reference keeps an item readable.\<close>

lemma from_dict_ok_clear:
  "from_dict_ok item \<Longrightarrow> from_dict_ok (item\<lparr>qi_payload_ref := None, qi_next_eligible_at := t\<rparr>)"
  "from_dict_ok item \<Longrightarrow> from_dict_ok (item\<lparr>qi_validated_result_ref := None, qi_next_eligible_at := t\<rparr>)"
  by (auto simp: from_dict_ok_def validate_queue_item_def)

text \<open>Settings under which every item the queue writes can be read back.\<close>

definition settings_ok :: "QueueSettings \<Rightarrow> bool" where
  "settings_ok settings = (case qs_organizer settings of None \<Rightarrow> True
     | Some organizer \<Rightarrow> opt_nonempty (os_provider_id organizer))"

lemma settings_ok_organizer: "qs_organizer settings = Some sel \<Longrightarrow> organizer_ok sel \<Longrightarrow> settings_ok settings"
  using settled_organizer by (auto simp: settings_ok_def opt_nonempty_def split: option.split)

lemma provider_preference_ok:
  "settings_ok settings \<Longrightarrow> list_all (\<lambda>p. p \<noteq> []) (provider_preference settings explicit)"
  by (auto simp: provider_preference_def settings_ok_def opt_nonempty_def list_all_iff
      split: option.splits dest: in_set_takeD)

lemma transitioned_ok:
  assumes "settings_ok settings" "from_dict_ok current" "opt_nonempty reason_code"
  shows "from_dict_ok (transitioned settings current target moment reason_code next_eligible_at)"
  using assms provider_preference_ok [of settings "Some (qi_provider_preference current)"]
  by (auto simp: transitioned_def Let_def from_dict_ok_def validate_queue_item_def)

lemma transitioned_simps [simp]:
  "qi_state (transitioned settings current target moment reason_code t) = target"
  "qi_queue_id (transitioned settings current target moment reason_code t) = qi_queue_id current"
  "qi_idempotency_key (transitioned settings current target moment reason_code t)
     = qi_idempotency_key current"
  "qi_payload_ref (transitioned settings current target moment reason_code t) = qi_payload_ref current"
  "qi_validated_result_ref (transitioned settings current target moment reason_code t)
     = qi_validated_result_ref current"
  "qi_attempts (transitioned settings current target moment reason_code t) = qi_attempts current"
  by (simp_all add: transitioned_def Let_def)

subsection \<open>Cleanup of a discarded item\<close>

text \<open>
  The bodies an item owns, and what remains of the spool once they are gone. The cleanup steps keep
  the second: a body is deleted while the durable item still names it, and the name is dropped only
  when the body is gone.
\<close>

definition owned :: "QueueItem \<Rightarrow> string set" where
  "owned item = sr_spool_id ` (set_option (qi_payload_ref item) \<union> set_option (qi_validated_result_ref item))"

definition residual :: "queue_world \<Rightarrow> QueueItem \<Rightarrow> string list" where
  "residual w item = filter (\<lambda>b. b \<notin> owned item) (qw_bodies w)"

text \<open>The durable item is \<open>item\<close>, discarded in state \<open>target\<close>, with \<open>rest\<close> the spool without its bodies.\<close>

definition discarded_at :: "QueueState \<Rightarrow> string list \<Rightarrow> queue_world \<Rightarrow> QueueItem \<Rightarrow> bool" where
  "discarded_at target rest w item \<longleftrightarrow> read_item w (qi_queue_id item) = Inr item
     \<and> qi_state item = target \<and> residual w item = rest"

text \<open>
  A durable world with the item discarded and nothing else of the queue changed since \<open>w\<close>; a run of
  such worlds.
\<close>

definition discarded_world ::
  "QueueState \<Rightarrow> string list \<Rightarrow> queue_world \<Rightarrow> QueueItem \<Rightarrow> queue_world \<Rightarrow> bool" where
  "discarded_world target rest w item x \<longleftrightarrow>
     (\<exists>i. discarded_at target rest x i \<and> qi_queue_id i = qi_queue_id item
        \<and> qi_idempotency_key i = qi_idempotency_key item \<and> owned i \<subseteq> owned item)
   \<and> (\<forall>path. path \<noteq> qi_queue_id item \<longrightarrow> map_of (qw_items x) path = map_of (qw_items w) path)"

definition cleanup_run ::
  "QueueState \<Rightarrow> string list \<Rightarrow> queue_world \<Rightarrow> QueueItem \<Rightarrow> queue_world list \<Rightarrow> bool" where
  "cleanup_run target rest w item ws \<longleftrightarrow> (\<forall>x\<in>set ws. discarded_world target rest w item x)"

lemma discarded_worldI:
  assumes "discarded_at target rest x i" "qi_queue_id i = qi_queue_id item"
    "qi_idempotency_key i = qi_idempotency_key item" "owned i \<subseteq> owned item"
    "\<And>path. path \<noteq> qi_queue_id item \<Longrightarrow> map_of (qw_items x) path = map_of (qw_items w) path"
  shows "discarded_world target rest w item x"
  using assms unfolding discarded_world_def by blast

lemma discarded_world_trans:
  assumes "discarded_world target rest w' item' x"
    "qi_queue_id item' = qi_queue_id item" "qi_idempotency_key item' = qi_idempotency_key item"
    "owned item' \<subseteq> owned item"
    "\<And>path. path \<noteq> qi_queue_id item \<Longrightarrow> map_of (qw_items w') path = map_of (qw_items w) path"
  shows "discarded_world target rest w item x"
proof -
  from assms(1) obtain i where i: "discarded_at target rest x i" "qi_queue_id i = qi_queue_id item'"
      "qi_idempotency_key i = qi_idempotency_key item'" "owned i \<subseteq> owned item'"
    and other: "\<And>path. path \<noteq> qi_queue_id item' \<Longrightarrow> map_of (qw_items x) path = map_of (qw_items w') path"
    unfolding discarded_world_def by blast
  show ?thesis
  proof (rule discarded_worldI)
    show "discarded_at target rest x i" by (rule i(1))
    show "map_of (qw_items x) path = map_of (qw_items w) path" if "path \<noteq> qi_queue_id item" for path
      using other [of path] assms(5) [of path] that assms(2) by simp
  qed (use i assms in auto)
qed

lemma read_item_cleared:
  assumes "read_item w (qi_queue_id item) = Inr item" "from_dict_ok cleared"
    "qi_queue_id cleared = qi_queue_id item" "qi_state cleared = qi_state item"
  shows "read_item (store_item cleared w') (qi_queue_id item) = Inr cleared"
  using assms read_item_not_failed [OF assms(1)] by (simp add: read_item_store reread_noop)

lemma items_store_other:
  "path \<noteq> qi_queue_id item \<Longrightarrow> map_of (qw_items (store_item item w)) path = map_of (qw_items w) path"
  by (simp add: store_item_def map_of_dict_set)

lemma cleanup_step:
  assumes at: "discarded_at target rest w item" and ok: "from_dict_ok cleared"
    and same: "qi_queue_id cleared = qi_queue_id item" "qi_idempotency_key cleared = qi_idempotency_key item"
      "qi_state cleared = qi_state item"
    and own: "owned item = insert (sr_spool_id ref) (owned cleared)"
  shows "discarded_at target rest (store_item cleared (delete_spool ref w)) cleared"
    and "cleanup_run target rest w item [delete_spool ref w, store_item cleared (delete_spool ref w)]"
proof -
  let ?w1 = "delete_spool ref w" and ?w2 = "store_item cleared (delete_spool ref w)"
  from at have read: "read_item w (qi_queue_id item) = Inr item" and st: "qi_state item = target"
    and res: "residual w item = rest" by (auto simp: discarded_at_def)
  have "residual ?w1 item = rest" "residual ?w2 cleared = rest"
    using res own by (auto simp: residual_def intro!: filter_cong)
  moreover have "read_item ?w2 (qi_queue_id item) = Inr cleared"
    by (rule read_item_cleared [OF read ok same(1,3)])
  ultimately have at1: "discarded_at target rest ?w1 item" and at2: "discarded_at target rest ?w2 cleared"
    using read st same by (simp_all add: discarded_at_def)
  show "discarded_at target rest ?w2 cleared" by (rule at2)
  have "discarded_world target rest w item ?w1" "discarded_world target rest w item ?w2"
    by (rule discarded_worldI [OF at1], simp_all add: own)
      (rule discarded_worldI [OF at2], simp_all add: own same items_store_other subset_insertI)
  then show "cleanup_run target rest w item [?w1, ?w2]" by (simp add: cleanup_run_def)
qed

lemma cleanup_payload_run:
  assumes at: "discarded_at target rest w item"
  shows "\<exists>ws item'. cleanup_payload w item target moment = Inr (ws, last (w # ws), item')
     \<and> discarded_at target rest (last (w # ws)) item' \<and> qi_queue_id item' = qi_queue_id item
     \<and> qi_idempotency_key item' = qi_idempotency_key item \<and> qi_payload_ref item' = None
     \<and> qi_validated_result_ref item' = qi_validated_result_ref item
     \<and> cleanup_run target rest w item ws"
proof (cases "qi_payload_ref item")
  case None
  with at show ?thesis by (auto simp: cleanup_payload_def cleanup_run_def)
next
  case (Some ref)
  define cleared where "cleared = item\<lparr>qi_payload_ref := None,
    qi_next_eligible_at := (if qi_validated_result_ref item \<noteq> None then Some (moment + seconds 300) else None)\<rparr>"
  from at have read: "read_item w (qi_queue_id item) = Inr item" and st: "qi_state item = target"
    by (auto simp: discarded_at_def)
  have "from_dict_ok cleared"
    unfolding cleared_def by (rule from_dict_ok_clear) (rule read_item_ok [OF read])
  moreover have "owned item = insert (sr_spool_id ref) (owned cleared)"
    using Some by (auto simp: owned_def cleared_def)
  moreover have "cleanup_payload w item target moment =
      Inr ([delete_spool ref w, store_item cleared (delete_spool ref w)],
           store_item cleared (delete_spool ref w), cleared)"
    using read st Some by (simp add: cleanup_payload_def clear_payload_def cleared_def Let_def)
  ultimately show ?thesis
    using cleanup_step [OF at, of cleared ref] by (simp add: cleared_def)
qed

lemma cleanup_result_run:
  assumes at: "discarded_at target rest w item"
  shows "\<exists>ws item'. cleanup_result w item target moment = Inr (ws, last (w # ws), item')
     \<and> discarded_at target rest (last (w # ws)) item' \<and> qi_queue_id item' = qi_queue_id item
     \<and> qi_payload_ref item' = qi_payload_ref item
     \<and> qi_validated_result_ref item' = None \<and> cleanup_run target rest w item ws"
proof (cases "qi_validated_result_ref item")
  case None
  with at show ?thesis by (auto simp: cleanup_result_def cleanup_run_def)
next
  case (Some ref)
  define cleared where "cleared = item\<lparr>qi_validated_result_ref := None,
    qi_next_eligible_at := (if qi_payload_ref item \<noteq> None then Some (moment + seconds 300) else None)\<rparr>"
  from at have read: "read_item w (qi_queue_id item) = Inr item" and st: "qi_state item = target"
    by (auto simp: discarded_at_def)
  have "from_dict_ok cleared"
    unfolding cleared_def by (rule from_dict_ok_clear) (rule read_item_ok [OF read])
  moreover have "owned item = insert (sr_spool_id ref) (owned cleared)"
    using Some by (auto simp: owned_def cleared_def)
  moreover have "cleanup_result w item target moment =
      Inr ([delete_spool ref w, store_item cleared (delete_spool ref w)],
           store_item cleared (delete_spool ref w), cleared)"
    using read st Some by (simp add: cleanup_result_def clear_result_def cleared_def Let_def)
  ultimately show ?thesis
    using cleanup_step [OF at, of cleared ref] by (simp add: cleared_def)
qed

lemma cleanup_run_append:
  assumes "cleanup_run target rest w item ws" "cleanup_run target rest w' item' ws'"
    "qi_queue_id item' = qi_queue_id item" "qi_idempotency_key item' = qi_idempotency_key item"
    "owned item' \<subseteq> owned item"
    "\<And>path. path \<noteq> qi_queue_id item \<Longrightarrow> map_of (qw_items w') path = map_of (qw_items w) path"
  shows "cleanup_run target rest w item (ws @ ws')"
  using assms(1,2) discarded_world_trans [OF _ assms(3-6)] unfolding cleanup_run_def by auto

lemma cleanup_run_last:
  assumes "cleanup_run target rest w item ws" "path \<noteq> qi_queue_id item"
  shows "map_of (qw_items (last (w # ws))) path = map_of (qw_items w) path"
  using assms by (cases "ws = []") (simp_all add: cleanup_run_def discarded_world_def)

text \<open>
  The conditions under which a transition is accepted: the durable item \<open>current\<close> is the one the
  caller means, both copies allow the transition, and the reason code is not the empty text.
\<close>

definition transition_ready ::
  "QueueSettings \<Rightarrow> queue_world \<Rightarrow> QueueItem \<Rightarrow> QueueItem \<Rightarrow> QueueState \<Rightarrow> int \<Rightarrow> string option \<Rightarrow> bool" where
  "transition_ready settings w item current target moment reason_code \<longleftrightarrow>
     settings_ok settings \<and> opt_nonempty reason_code \<and> safe_queue_path (qi_queue_id item)
   \<and> read_item w (qi_queue_id item) = Inr current \<and> qi_queue_id current = qi_queue_id item
   \<and> qi_idempotency_key current = qi_idempotency_key item
   \<and> transition_allowed item target reason_code moment
   \<and> transition_allowed current target reason_code moment"

lemma transition_store_ready:
  fixes t :: "int option"
  assumes "transition_ready settings w item current target moment reason_code" "target \<noteq> FAILED"
  defines "u \<equiv> transitioned settings current target moment reason_code t"
  shows "transition_store settings w item target moment reason_code t = Inr (store_item u w, u)"
    and "read_item (store_item u w) (qi_queue_id u) = Inr u"
proof -
  have "from_dict_ok u"
    using assms unfolding u_def transition_ready_def by (intro transitioned_ok) (auto dest: read_item_ok)
  then show "read_item (store_item u w) (qi_queue_id u) = Inr u"
    using assms(2) by (simp add: read_item_store u_def reread_noop)
  show "transition_store settings w item target moment reason_code t = Inr (store_item u w, u)"
    using assms by (simp add: transition_store_def transition_ready_def Let_def)
qed

lemma discarding_transition:
  assumes ready: "transition_ready settings w item current (target_state state) moment reason_code"
    and disc: "discards (target_state state)"
  obtains ws final where
    "transition_queue_item settings w item state moment reason_code t = Inr (ws, final)"
    "ws \<noteq> []" "cleanup_run (target_state state) (residual w current) w current ws"
    "discarded_at (target_state state) (residual w current) (last ws) final"
    "qi_queue_id final = qi_queue_id item" "owned final = {}"
proof -
  let ?target = "target_state state"
  define u where "u = transitioned settings current ?target moment reason_code t"
  let ?w1 = "store_item u w" and ?rest = "residual w current"
  note store = transition_store_ready [OF ready target_not_failed, of t, folded u_def]
  have own: "owned u = owned current" and ids: "qi_queue_id u = qi_queue_id current"
    "qi_idempotency_key u = qi_idempotency_key current" "qi_queue_id current = qi_queue_id item"
    using ready by (simp_all add: u_def owned_def transition_ready_def)
  have at1: "discarded_at ?target ?rest ?w1 u"
    using store(2) own by (simp add: discarded_at_def residual_def) (simp add: u_def)
  have run1: "cleanup_run ?target ?rest w current [?w1]"
    using discarded_worldI [OF at1] own ids by (auto simp: cleanup_run_def items_store_other)
  obtain ws2 u2 where pay: "cleanup_payload ?w1 u ?target moment = Inr (ws2, last (?w1 # ws2), u2)"
    and at2: "discarded_at ?target ?rest (last (?w1 # ws2)) u2" and run2: "cleanup_run ?target ?rest ?w1 u ws2"
    and u2: "qi_queue_id u2 = qi_queue_id u" "qi_idempotency_key u2 = qi_idempotency_key u"
      "qi_payload_ref u2 = None" "qi_validated_result_ref u2 = qi_validated_result_ref u"
    using cleanup_payload_run [OF at1] by blast
  let ?w2 = "last (?w1 # ws2)"
  obtain ws3 u3 where res: "cleanup_result ?w2 u2 ?target moment = Inr (ws3, last (?w2 # ws3), u3)"
    and at3: "discarded_at ?target ?rest (last (?w2 # ws3)) u3" and run3: "cleanup_run ?target ?rest ?w2 u2 ws3"
    and u3: "qi_queue_id u3 = qi_queue_id u2" "qi_payload_ref u3 = qi_payload_ref u2"
      "qi_validated_result_ref u3 = None"
    using cleanup_result_run [OF at2] by blast
  have own2: "owned u2 \<subseteq> owned u" using u2 by (auto simp: owned_def)
  have "cleanup_run ?target ?rest ?w1 u (ws2 @ ws3)"
    using run2 run3 u2(1,2) own2 cleanup_run_last [OF run2] by (rule cleanup_run_append)
  then have "cleanup_run ?target ?rest w current ([?w1] @ ws2 @ ws3)"
    by (rule cleanup_run_append [OF run1]) (use own ids in \<open>auto simp: items_store_other\<close>)
  moreover have "last (?w2 # ws3) = last (?w1 # ws2 @ ws3)" by (simp add: last_append)
  moreover have "transition_queue_item settings w item state moment reason_code t
      = Inr (?w1 # ws2 @ ws3, u3)"
    unfolding transition_queue_item_def Let_def store(1) rbind_Inr prod.case pay res using disc by simp
  ultimately show thesis
    using at3 u2 u3 ids by (intro that [of "?w1 # ws2 @ ws3" u3]) (simp_all add: owned_def last_append split: if_splits)
qed

lemma owned_empty: "owned item = {} \<longleftrightarrow> qi_payload_ref item = None \<and> qi_validated_result_ref item = None"
  by (cases "qi_payload_ref item"; cases "qi_validated_result_ref item") (auto simp: owned_def)

lemma discarded_last: "discarded_at target rest w item \<Longrightarrow> owned item = {} \<Longrightarrow> qw_bodies w = rest"
  by (auto simp: discarded_at_def residual_def)

lemma discarded_again:
  assumes ready: "transition_ready settings w item current (target_state state) moment reason_code"
    and world: "discarded_world (target_state state) rest w current x"
    and read: "read_item x (qi_queue_id item) = Inr i" and reason: "opt_nonempty reason_code'"
  shows "transition_ready settings x i i (target_state state) moment' reason_code'"
    and "residual x i = rest" and "qi_queue_id i = qi_queue_id item"
proof -
  obtain j where j: "discarded_at (target_state state) rest x j" "qi_queue_id j = qi_queue_id item"
    using world ready by (auto simp: discarded_world_def transition_ready_def)
  then have "i = j" using read by (simp add: discarded_at_def)
  then show "transition_ready settings x i i (target_state state) moment' reason_code'"
    "residual x i = rest" "qi_queue_id i = qi_queue_id item"
    using j read ready reason
    by (simp_all add: discarded_at_def transition_ready_def transition_allowed_def)
qed

subsection \<open>A sample queue\<close>

definition sample_ref :: "string \<Rightarrow> spool_purpose \<Rightarrow> SpoolRef" where
  "sample_ref i purpose = \<lparr>sr_spool_id = i, sr_content_hash = sample_hash (CHR ''a''),
     sr_classification = ''private-reusable'', sr_created_at = 0, sr_expires_at = seconds 1000,
     sr_key_id = None, sr_encrypted = True, sr_purpose = purpose\<rparr>"

definition sample_item :: "string \<Rightarrow> QueueState \<Rightarrow> QueueItem" where
  "sample_item i state = \<lparr>qi_queue_id = ''queue_'' @ i, qi_event_id = ''evt_20260101T000000Z_0123456789ab'',
     qi_idempotency_key = sample_hash (CHR ''b''), qi_stage = ''inheritance-gate'', qi_state = state,
     qi_attempts = 1, qi_created_at = 0, qi_next_eligible_at = None, qi_source_ref = None,
     qi_source_hash = sample_hash (CHR ''c''), qi_host_id = ''codex'',
     qi_session_id_hash = sample_hash (CHR ''d''), qi_turn_id_hash = sample_hash (CHR ''e''),
     qi_payload_ref = Some (sample_ref (''spool-'' @ i) Pending), qi_provider_preference = [],
     qi_privacy_classification = ''private-reusable'', qi_lease_owner = None,
     qi_lease_expires_at = None, qi_last_error_code = None, qi_source_host_id = ''codex'',
     qi_source_host_family = ''openai'', qi_capture_id = None, qi_validated_result_ref = None\<rparr>"

definition sample_settings :: QueueSettings where
  "sample_settings = \<lparr>qs_organizer = None, qs_provider_order = [''ollama''], qs_capture_policy = Absent\<rparr>"

definition sample_queue :: "QueueItem list \<Rightarrow> string list \<Rightarrow> queue_world" where
  "sample_queue items bodies = \<lparr>qw_items = map (\<lambda>i. (qi_queue_id i, Item i)) items,
     qw_claim_cursor = [], qw_bodies = bodies, qw_emergency = [], qw_recovery_cursor = [],
     qw_emergency_health = None\<rparr>"

definition curated_item :: QueueItem where
  "curated_item = (sample_item ''1'' YES_CURATING)\<lparr>qi_validated_result_ref :=
     Some (sample_ref ''result-1'' Validated_Result)\<rparr>"

definition curated_queue :: queue_world where
  "curated_queue = sample_queue [curated_item] [''spool-1'', ''result-1'', ''spool-2'']"

lemma curated_ready:
  "transition_ready sample_settings curated_queue curated_item curated_item (target_state DONE) 0 None"
  by code_simp

subsection \<open>Properties of transitions\<close>

text \<open>
  C5. A transition to \<open>NO_DISCARDED\<close> or \<open>DONE\<close> that is accepted completes, and is safe at every
  interruption: in each world it makes durable the item is already stored in the terminal state,
  and the spool without the bodies that item still names is the spool before without the bodies the
  item owned, so no body is gone whose loss the durable item does not explain, and no other body is
  touched. At the end the item names no body, and exactly its bodies are gone.
\<close>

theorem discard_is_crash_safe:
  assumes "transition_ready settings w item current (target_state state) moment reason_code"
    and "discards (target_state state)"
  shows "\<exists>ws final. transition_queue_item settings w item state moment reason_code next_eligible_at
           = Inr (ws, final)
     \<and> ws \<noteq> []
     \<and> (\<forall>x\<in>set ws. \<exists>i. read_item x (qi_queue_id item) = Inr i \<and> qi_state i = target_state state
            \<and> residual x i = residual w current)
     \<and> read_item (last ws) (qi_queue_id item) = Inr final
     \<and> qi_payload_ref final = None \<and> qi_validated_result_ref final = None
     \<and> qw_bodies (last ws) = residual w current"
proof -
  obtain ws final where *:
    "transition_queue_item settings w item state moment reason_code next_eligible_at = Inr (ws, final)"
    "ws \<noteq> []" "cleanup_run (target_state state) (residual w current) w current ws"
    "discarded_at (target_state state) (residual w current) (last ws) final"
    "qi_queue_id final = qi_queue_id item" "owned final = {}"
    using discarding_transition [OF assms] by blast
  have "\<exists>i. read_item x (qi_queue_id item) = Inr i \<and> qi_state i = target_state state
            \<and> residual x i = residual w current" if "x \<in> set ws" for x
    using *(3) that assms(1)
    by (auto simp: cleanup_run_def discarded_world_def discarded_at_def transition_ready_def)
  then show ?thesis
    using * discarded_last [OF *(4,6)] owned_empty [of final] by (auto simp: discarded_at_def)
qed

theorem discard_is_crash_safe_witness:
  "\<exists>ws final. transition_queue_item sample_settings curated_queue curated_item DONE 0 None None
       = Inr (ws, final) \<and> qw_bodies (last ws) = [''spool-2'']"
proof -
  have "residual curated_queue curated_item = [''spool-2'']" by code_simp
  moreover have "discards (target_state DONE)" by code_simp
  ultimately show ?thesis
    using discard_is_crash_safe [OF curated_ready, of None] by auto
qed

text \<open>
  A discarding transition that was interrupted after any of its durable steps is completed by
  running it again on what is stored: the second run is accepted, the item ends without bodies, and
  the spool ends as it would have without the interruption.
\<close>

theorem discard_resumes:
  assumes "transition_ready settings w item current (target_state state) moment reason_code"
    and "discards (target_state state)"
    and "transition_queue_item settings w item state moment reason_code t = Inr (ws, final)"
    and "x \<in> set ws" and "read_item x (qi_queue_id item) = Inr i" and "opt_nonempty reason_code'"
  shows "\<exists>ws' final'. transition_queue_item settings x i state moment' reason_code' t' = Inr (ws', final')
     \<and> qi_payload_ref final' = None \<and> qi_validated_result_ref final' = None
     \<and> qw_bodies (last ws') = qw_bodies (last ws)"
proof -
  have first: "cleanup_run (target_state state) (residual w current) w current ws"
    "qw_bodies (last ws) = residual w current"
    using discarding_transition [OF assms(1,2), of t] assms(3) discarded_last by (metis Inr_inject prod.inject)+
  then have world: "discarded_world (target_state state) (residual w current) w current x"
    using assms(4) by (simp add: cleanup_run_def)
  note again = discarded_again [OF assms(1) world assms(5,6)]
  obtain ws' final' where
    "transition_queue_item settings x i state moment' reason_code' t' = Inr (ws', final')"
    "discarded_at (target_state state) (residual x i) (last ws') final'" "owned final' = {}"
    using discarding_transition [OF again(1) assms(2)] by blast
  then show ?thesis
    using discarded_last owned_empty again(2) first(2) by metis
qed

definition curated_run :: "queue_world list \<times> QueueItem" where
  "curated_run = projr (transition_queue_item sample_settings curated_queue curated_item DONE 0 None None)"

definition interrupted :: queue_world where
  "interrupted = fst curated_run ! 1"

theorem discard_resumes_witness:
  "qw_bodies interrupted = [''result-1'', ''spool-2''] \<and>
   (\<exists>ws' final'. transition_queue_item sample_settings interrupted
        (projr (read_item interrupted ''queue_1'')) DONE 7 (Some ''RETRY'') None = Inr (ws', final')
      \<and> qi_payload_ref final' = None \<and> qi_validated_result_ref final' = None
      \<and> qw_bodies (last ws') = [''spool-2''])"
proof -
  have "transition_queue_item sample_settings curated_queue curated_item DONE 0 None None
      = Inr (fst curated_run, snd curated_run)" "discards (target_state DONE)" "interrupted \<in> set (fst curated_run)"
    "read_item interrupted (qi_queue_id curated_item) = Inr (projr (read_item interrupted ''queue_1''))"
    "opt_nonempty (Some ''RETRY'')" "qw_bodies (last (fst curated_run)) = [''spool-2'']"
    "qw_bodies interrupted = [''result-1'', ''spool-2'']"
    by code_simp+
  then show ?thesis
    using discard_resumes [OF curated_ready, of None "fst curated_run" "snd curated_run" interrupted] by metis
qed

text \<open>
  A transition to any other state deletes nothing: every spooled body and every other item stays,
  the item keeps its references, its identity and its attempts, and only a transition that the
  durable item allows is made.
\<close>

theorem transition_keeps_payload:
  assumes "transition_queue_item settings w item state moment reason_code t = Inr (ws, updated)"
    and "\<not> discards (target_state state)"
  shows "\<exists>w1 current. ws = [w1] \<and> read_item w (qi_queue_id item) = Inr current
     \<and> transition_allowed current (target_state state) reason_code moment
     \<and> qi_idempotency_key current = qi_idempotency_key item
     \<and> qw_bodies w1 = qw_bodies w
     \<and> qi_payload_ref updated = qi_payload_ref current
     \<and> qi_validated_result_ref updated = qi_validated_result_ref current
     \<and> qi_attempts updated = qi_attempts current \<and> qi_queue_id updated = qi_queue_id current
     \<and> qi_state updated = target_state state
     \<and> map_of (qw_items w1) (qi_queue_id current) = Some (Item updated)
     \<and> (\<forall>path. path \<noteq> qi_queue_id current \<longrightarrow> map_of (qw_items w1) path = map_of (qw_items w) path)"
proof -
  obtain current where "read_item w (qi_queue_id item) = Inr current"
    "qi_idempotency_key current = qi_idempotency_key item"
    "transition_allowed current (target_state state) reason_code moment"
    and u: "updated = transitioned settings current (target_state state) moment reason_code t"
    and ws: "ws = [store_item updated w]"
    using assms
    by (auto simp: transition_queue_item_def transition_store_def Let_def result_simps split: if_splits)
  moreover have "map_of (qw_items (store_item updated w)) (qi_queue_id current) = Some (Item updated)"
    using u by (simp add: store_item_def map_of_dict_set)
  moreover have "\<forall>path. path \<noteq> qi_queue_id current \<longrightarrow>
      map_of (qw_items (store_item updated w)) path = map_of (qw_items w) path"
    using u by (simp add: items_store_other)
  ultimately show ?thesis by (intro exI [of _ "store_item updated w"] exI [of _ current]) simp
qed

theorem transition_keeps_payload_witness:
  "\<exists>ws updated. transition_queue_item sample_settings curated_queue curated_item DEFERRED 0
       (Some ''PROVIDER_UNAVAILABLE'') (Some 9) = Inr (ws, updated)
     \<and> qi_payload_ref updated = Some (sample_ref ''spool-1'' Pending)
     \<and> qi_validated_result_ref updated = Some (sample_ref ''result-1'' Validated_Result)
     \<and> qw_bodies (last ws) = qw_bodies curated_queue"
proof -
  have "\<not> isl (transition_queue_item sample_settings curated_queue curated_item DEFERRED 0
       (Some ''PROVIDER_UNAVAILABLE'') (Some 9))" by code_simp
  then obtain ws updated where run: "transition_queue_item sample_settings curated_queue curated_item
      DEFERRED 0 (Some ''PROVIDER_UNAVAILABLE'') (Some 9) = Inr (ws, updated)"
    by (metis isl_def obj_sumE surj_pair)
  have "read_item curated_queue (qi_queue_id curated_item) = Inr curated_item"
    "\<not> discards (target_state DEFERRED)" "qi_payload_ref curated_item = Some (sample_ref ''spool-1'' Pending)"
      "qi_validated_result_ref curated_item = Some (sample_ref ''result-1'' Validated_Result)"
    by code_simp+
  then show ?thesis using transition_keeps_payload [OF run] run by auto
qed

end
