(* ===== verification/Queue_Claims.thy ===== *)
theory Queue_Claims
  imports Work_Queue
begin

section \<open>Claims, leases and the bodies of live items\<close>

text \<open>
  What the organizer relies on: a claim takes the first claimable item of its page, a lease excludes
  every other claim until it ends, and no operation of the queue, interrupted or not, loses a body
  that a live item needs.
\<close>

subsection \<open>Files under their own id\<close>

text \<open>\<open>_update_metadata\<close> refuses a file whose name is not the id of the item in it.\<close>

definition own_ids :: "queue_world \<Rightarrow> bool" where
  "own_ids w \<longleftrightarrow> (\<forall>path i. map_of (qw_items w) path = Some (Item i) \<longrightarrow> qi_queue_id i = path)"

lemma own_ids_read: "own_ids w \<Longrightarrow> read_item w path = Inr i \<Longrightarrow> qi_queue_id i = path"
  by (auto simp: own_ids_def read_item_eq_Inr)

lemma own_ids_advance [simp]: "own_ids (advance p w) = own_ids w"
  by (simp add: own_ids_def)

lemma own_ids_store: "own_ids w \<Longrightarrow> own_ids (store_item i w)"
  by (auto simp: own_ids_def store_item_def map_of_dict_set split: if_splits)

lemma discards_terminal: "discards s \<Longrightarrow> s \<in> TERMINAL"
  by (auto simp: discards_def TERMINAL_def)

lemma target_state_id: "s \<noteq> FAILED \<Longrightarrow> target_state s = s"
  by (cases s) simp_all

subsection \<open>The cleanup a claim attempts\<close>

lemma own_ids_discarded_world:
  assumes "own_ids w" "discarded_world target rest w item x"
  shows "own_ids x"
proof -
  obtain i where i: "read_item x (qi_queue_id item) = Inr i" "qi_queue_id i = qi_queue_id item"
    and other: "\<And>path. path \<noteq> qi_queue_id item \<Longrightarrow> map_of (qw_items x) path = map_of (qw_items w) path"
    using assms(2) by (auto simp: discarded_world_def discarded_at_def)
  then have "map_of (qw_items x) path = Some (Item j) \<Longrightarrow> qi_queue_id j = path" for path j
    using assms(1) by (cases "path = qi_queue_id item") (auto simp: own_ids_def read_item_eq_Inr)
  then show ?thesis by (simp add: own_ids_def)
qed

lemma claim_cleanup_cases:
  assumes "settings_ok settings" "own_ids w" "read_item w path = Inr item" "discards (qi_state item)"
  obtains "qw_items (claim_cleanup settings moment fault item w) = qw_items w"
      "qw_bodies (claim_cleanup settings moment fault item w) = qw_bodies w"
    | x where "discarded_world (qi_state item) (residual w item) w item x"
      "qw_items (claim_cleanup settings moment fault item w) = qw_items x"
      "qw_bodies (claim_cleanup settings moment fault item w) = qw_bodies x"
proof (cases "safe_queue_path (qi_queue_id item)")
  case False
  then have "claim_cleanup settings moment fault item w = w"
    by (simp add: claim_cleanup_def transition_queue_item_def transition_store_def transition_allowed_def
        target_state_id [OF read_item_not_failed [OF assms(3)]])
  then show thesis using that(1) by simp
next
  case True
  let ?t = "Some (moment + seconds 300)"
  have state: "target_state (qi_state item) = qi_state item"
    by (rule target_state_id) (rule read_item_not_failed [OF assms(3)])
  have ready: "transition_ready settings w item item (target_state (qi_state item)) moment (qi_last_error_code item)"
    using assms own_ids_read [OF assms(2,3)] read_item_ok [OF assms(3)] True
    by (simp add: transition_ready_def transition_allowed_def state from_dict_ok_def validate_queue_item_def)
  have disc: "discards (target_state (qi_state item))" using assms(4) by (simp add: state)
  obtain ws final where
    run: "transition_queue_item settings w item (qi_state item) moment (qi_last_error_code item) ?t
        = Inr (ws, final)" and ws: "ws \<noteq> []"
    and cr: "cleanup_run (target_state (qi_state item)) (residual w item) w item ws"
    by (rule discarding_transition [OF ready disc])
  have worlds: "discarded_world (qi_state item) (residual w item) w item x" if "x \<in> set ws" for x
    using cr that by (simp add: cleanup_run_def state)
  show thesis
  proof (cases "fault = Some 0")
    case True
    then show thesis using that(1) run by (simp add: claim_cleanup_def)
  next
    case False
    define x where "x = (case fault of None \<Rightarrow> last ws | Some n \<Rightarrow> last (take n ws))"
    have "x \<in> set ws"
      using False ws by (auto simp: x_def split: option.split dest: in_set_takeD intro: last_in_set)
        (metis last_in_set in_set_takeD take_eq_Nil)
    moreover have "qw_items (claim_cleanup settings moment fault item w) = qw_items x"
      "qw_bodies (claim_cleanup settings moment fault item w) = qw_bodies x"
      using run ws False by (auto simp: claim_cleanup_def x_def split: option.split)
    ultimately show thesis using that(2) worlds by blast
  qed
qed

lemma read_item_cong: "map_of (qw_items x) p = map_of (qw_items w) p \<Longrightarrow> read_item x p = read_item w p"
  by (simp add: read_item_def)

lemma claim_cleanup_frame:
  fixes moment :: int and fault :: "nat option"
  assumes "settings_ok settings" "own_ids w" "read_item w path = Inr item" "discards (qi_state item)"
  defines "x \<equiv> claim_cleanup settings moment fault item w"
  shows "own_ids x" and "\<And>p. p \<noteq> path \<Longrightarrow> map_of (qw_items x) p = map_of (qw_items w) p"
    and "\<exists>i. read_item x path = Inr i \<and> qi_state i = qi_state item"
proof -
  have path: "qi_queue_id item = path" using assms(2,3) by (rule own_ids_read)
  consider "qw_items x = qw_items w"
    | y where "discarded_world (qi_state item) (residual w item) w item y" "qw_items x = qw_items y"
    using claim_cleanup_cases [OF assms(1-4), of moment fault] unfolding x_def by metis
  then have "own_ids x \<and> (\<forall>p. p \<noteq> path \<longrightarrow> map_of (qw_items x) p = map_of (qw_items w) p)
    \<and> (\<exists>i. read_item x path = Inr i \<and> qi_state i = qi_state item)"
  proof cases
    case 1
    then show ?thesis using assms(2,3) read_item_cong [of x path w] by (simp add: own_ids_def)
  next
    case 2
    have "own_ids y" by (rule own_ids_discarded_world [OF assms(2) 2(1)])
    then show ?thesis
      using 2 path read_item_cong [of x path y]
      by (auto simp: own_ids_def discarded_world_def discarded_at_def)
  qed
  then show "own_ids x" "\<And>p. p \<noteq> path \<Longrightarrow> map_of (qw_items x) p = map_of (qw_items w) p"
    "\<exists>i. read_item x path = Inr i \<and> qi_state i = qi_state item" by auto
qed

subsection \<open>The scan\<close>

text \<open>The candidate at a path, and the first one in a list of paths.\<close>

definition candidate_at :: "int \<Rightarrow> queue_world \<Rightarrow> string \<Rightarrow> QueueItem option" where
  "candidate_at moment w path = (case read_item w path of Inl _ \<Rightarrow> None
     | Inr item \<Rightarrow> claim_candidate moment item)"

fun first_candidate :: "(string \<Rightarrow> QueueItem option) \<Rightarrow> string list \<Rightarrow> QueueItem option" where
  "first_candidate f [] = None"
| "first_candidate f (p # ps) = (case f p of None \<Rightarrow> first_candidate f ps | Some i \<Rightarrow> Some i)"

lemma first_candidate_None: "first_candidate f ps = None \<longleftrightarrow> (\<forall>p\<in>set ps. f p = None)"
  by (induction ps) (auto split: option.splits)

lemma discards_no_candidate: "discards (qi_state item) \<Longrightarrow> claim_candidate moment item = None"
  by (simp add: claim_candidate_def discards_terminal)

lemma candidate_at_advance [simp]: "candidate_at moment (advance p w) = candidate_at moment w"
  by (simp add: candidate_at_def fun_eq_iff)

lemma candidate_at_cleanup:
  assumes "settings_ok settings" "own_ids w" "read_item w path = Inr item" "discards (qi_state item)"
  shows "candidate_at moment (claim_cleanup settings m fault item w) = candidate_at moment w"
proof
  fix p
  note frame = claim_cleanup_frame [OF assms, where moment = m and fault = fault]
  show "candidate_at moment (claim_cleanup settings m fault item w) p = candidate_at moment w p"
  proof (cases "p = path")
    case True
    then show ?thesis
      using frame(3) assms(3,4) by (auto simp: candidate_at_def discards_no_candidate)
  next
    case False
    then show ?thesis using read_item_cong [OF frame(2)] by (simp add: candidate_at_def)
  qed
qed

lemma needs_cleanup_discards: "needs_cleanup moment item \<Longrightarrow> discards (qi_state item)"
  by (simp add: needs_cleanup_def)

lemma claim_scan_first:
  assumes "settings_ok settings" "own_ids w"
  shows "snd (claim_scan settings worker_id moment lease fault attempted w paths)
     = map_option (claimed_item settings worker_id moment lease)
         (first_candidate (candidate_at moment w) paths)"
  using assms
proof (induction settings worker_id moment lease fault attempted w paths rule: claim_scan.induct)
  case (1 settings worker_id moment lease fault attempted w)
  then show ?case by simp
next
  case (2 settings worker_id moment lease fault attempted w path paths)
  show ?case
  proof (cases "read_item w path")
    case (Inl e)
    then show ?thesis using "2.IH"(1) [OF Inl] "2.prems" by (simp add: candidate_at_def)
  next
    case (Inr item)
    show ?thesis
    proof (cases "\<not> attempted \<and> needs_cleanup moment item")
      case True
      then have d: "discards (qi_state item)" using needs_cleanup_discards by blast
      then have "candidate_at moment w path = None"
        using Inr by (simp add: candidate_at_def discards_no_candidate)
      then show ?thesis
        using "2.IH"(2) [OF Inr True] "2.prems" Inr True claim_cleanup_frame(1) [OF "2.prems" Inr d]
          candidate_at_cleanup [OF "2.prems" Inr d] by simp
    next
      case False
      show ?thesis
      proof (cases "claim_candidate moment item")
        case None
        then show ?thesis using "2.IH"(3) [OF Inr False None] "2.prems" Inr False
          by (auto simp: candidate_at_def)
      next
        case (Some c)
        then show ?thesis using Inr False by (auto simp: candidate_at_def Let_def)
      qed
    qed
  qed
qed

text \<open>
  What a scan leaves: only entries that were claimable or discarded change, an entry with a
  claimable item changes only to the item claimed, and the item claimed is stored.
\<close>

lemma claim_candidate_id: "claim_candidate moment item = Some c \<Longrightarrow> qi_queue_id c = qi_queue_id item"
  by (auto simp: claim_candidate_def Let_def split: if_splits option.splits)

lemma claimed_item_id [simp]: "qi_queue_id (claimed_item settings worker moment lease c) = qi_queue_id c"
  by (simp add: claimed_item_def)

lemma claim_scan_frame:
  assumes "settings_ok settings" "own_ids w"
  shows "own_ids (fst (claim_scan settings worker_id moment lease fault attempted w paths))
    \<and> (map_of (qw_items (fst (claim_scan settings worker_id moment lease fault attempted w paths))) p
         = map_of (qw_items w) p
       \<or> (\<exists>i. read_item w p = Inr i \<and> (discards (qi_state i) \<or> claim_candidate moment i \<noteq> None)))"
  using assms
proof (induction settings worker_id moment lease fault attempted w paths rule: claim_scan.induct)
  case (1 settings worker_id moment lease fault attempted w)
  then show ?case by simp
next
  case (2 settings worker_id moment lease fault attempted w path paths)
  show ?case
  proof (cases "read_item w path")
    case (Inl e)
    then show ?thesis using "2.IH"(1) [OF Inl] "2.prems" by simp
  next
    case (Inr item)
    show ?thesis
    proof (cases "\<not> attempted \<and> needs_cleanup moment item")
      case True
      then have d: "discards (qi_state item)" using needs_cleanup_discards by blast
      note frame = claim_cleanup_frame [OF "2.prems" Inr d, where moment = moment and fault = fault]
      note IH = "2.IH"(2) [OF Inr True "2.prems"(1) frame(1)]
      show ?thesis
      proof (cases "p = path")
        case True
        then show ?thesis using IH Inr d \<open>\<not> attempted \<and> _\<close> by simp
      next
        case False
        then show ?thesis
          using IH frame(2) [OF False] read_item_cong [OF frame(2) [OF False]] Inr
            \<open>\<not> attempted \<and> _\<close> by simp
      qed
    next
      case False
      show ?thesis
      proof (cases "claim_candidate moment item")
        case None
        then show ?thesis using "2.IH"(3) [OF Inr False None] "2.prems" Inr False by auto
      next
        case (Some c)
        then have "qi_queue_id c = path"
          using claim_candidate_id own_ids_read [OF "2.prems"(2) Inr] by simp
        then show ?thesis
          using Inr False Some "2.prems"(2)
          by (cases "p = path") (auto simp: Let_def own_ids_store items_store_other)
      qed
    qed
  qed
qed

lemma claimed_ok:
  assumes "settings_ok settings" "worker_id \<noteq> []" "from_dict_ok item" "claim_candidate moment item = Some c"
  shows "from_dict_ok (claimed_item settings worker_id moment lease c)"
proof -
  have "from_dict_ok c"
    using assms(3,4) by (auto simp: claim_candidate_def Let_def from_dict_ok_def validate_queue_item_def
        split: if_splits option.splits)
  then show ?thesis
    using assms(1,2) provider_preference_ok [of settings "Some (qi_provider_preference c)"]
    by (auto simp: claimed_item_def from_dict_ok_def validate_queue_item_def)
qed

lemma claim_scan_stored:
  assumes "settings_ok settings" "own_ids w" "worker_id \<noteq> []"
    "claim_scan settings worker_id moment lease fault attempted w paths = (w', Some c)"
  shows "read_item w' (qi_queue_id c) = Inr c"
  using assms
proof (induction settings worker_id moment lease fault attempted w paths rule: claim_scan.induct)
  case (1 settings worker_id moment lease fault attempted w)
  then show ?case by simp
next
  case (2 settings worker_id moment lease fault attempted w path paths)
  show ?case
  proof (cases "read_item w path")
    case (Inl e)
    then show ?thesis using "2.IH"(1) [OF Inl] "2.prems" by simp
  next
    case (Inr item)
    show ?thesis
    proof (cases "\<not> attempted \<and> needs_cleanup moment item")
      case True
      then have "own_ids (claim_cleanup settings moment fault item w)"
        using claim_cleanup_frame(1) [OF "2.prems"(1,2) Inr] needs_cleanup_discards by blast
      then show ?thesis using "2.IH"(2) [OF Inr True] "2.prems" Inr True by simp
    next
      case False
      show ?thesis
      proof (cases "claim_candidate moment item")
        case None
        then show ?thesis using "2.IH"(3) [OF Inr False None] "2.prems" Inr False
          by (auto split: if_splits)
      next
        case (Some cand)
        have "from_dict_ok (claimed_item settings worker_id moment lease cand)"
          using claimed_ok [OF "2.prems"(1,3) read_item_ok [OF Inr] Some] .
        moreover have "c = claimed_item settings worker_id moment lease cand"
          "w' = advance path (store_item c w)"
          using "2.prems"(4) Inr False Some by (auto simp: Let_def split: if_splits)
        ultimately show ?thesis by (simp add: read_item_store claimed_item_def)
      qed
    qed
  qed
qed

subsection \<open>Leases\<close>

text \<open>A lease that is held at an instant.\<close>

definition lease_held :: "int \<Rightarrow> queue_world \<Rightarrow> QueueItem \<Rightarrow> bool" where
  "lease_held expiry w c \<longleftrightarrow> read_item w (qi_queue_id c) = Inr c \<and> qi_state c = IN_PROGRESS
     \<and> qi_lease_expires_at c = Some expiry"

lemma lease_held_no_candidate: "lease_held expiry w c \<Longrightarrow> moment < expiry \<Longrightarrow> claim_candidate moment c = None"
  by (simp add: lease_held_def claim_candidate_def)

lemma first_candidate_at:
  "first_candidate (candidate_at moment w) ps = Some c \<Longrightarrow>
     \<exists>p item. read_item w p = Inr item \<and> claim_candidate moment item = Some c"
  by (induction ps) (auto simp: candidate_at_def split: option.splits sum.splits)

lemma claim_scan_lease:
  assumes "settings_ok settings" "own_ids w" "lease_held expiry w c" "moment < expiry"
    and run: "claim_scan settings worker_id moment lease fault attempted w paths = (w', r)"
  shows "own_ids w'" "lease_held expiry w' c" "r = Some d \<Longrightarrow> qi_queue_id d \<noteq> qi_queue_id c"
proof -
  note frame = claim_scan_frame [OF assms(1,2), of worker_id moment lease fault attempted paths "qi_queue_id c"]
  show "own_ids w'" using frame run by simp
  have none: "claim_candidate moment c = None" using assms(3,4) by (rule lease_held_no_candidate)
  have read: "read_item w (qi_queue_id c) = Inr c" "\<not> discards (qi_state c)"
    using assms(3) by (simp_all add: lease_held_def discards_def)
  then have "map_of (qw_items w') (qi_queue_id c) = map_of (qw_items w) (qi_queue_id c)"
    using frame run none by auto
  then have "read_item w' (qi_queue_id c) = Inr c" using read(1) read_item_cong by metis
  then show "lease_held expiry w' c" using assms(3) by (simp add: lease_held_def)
  show "qi_queue_id d \<noteq> qi_queue_id c" if d: "r = Some d"
  proof -
    have "map_option (claimed_item settings worker_id moment lease)
        (first_candidate (candidate_at moment w) paths) = Some d"
      using claim_scan_first [OF assms(1,2), of worker_id moment lease fault attempted paths] run d by simp
    then obtain cand where cand: "first_candidate (candidate_at moment w) paths = Some cand"
      "d = claimed_item settings worker_id moment lease cand" by auto
    obtain p item where *: "read_item w p = Inr item" "claim_candidate moment item = Some cand"
      using first_candidate_at [OF cand(1)] by blast
    then have "qi_queue_id d = p"
      using own_ids_read [OF assms(2) *(1)] claim_candidate_id [OF *(2)] cand(2) by simp
    then show ?thesis using * read none by auto
  qed
qed

text \<open>A sequence of claims by anyone: worker, instant, lease length, page size, fault of the cleanup.\<close>

type_synonym claim_request = "string \<times> int \<times> int \<times> nat \<times> nat option"

fun run_claims :: "QueueSettings \<Rightarrow> queue_world \<Rightarrow> claim_request list \<Rightarrow> queue_world \<times> QueueItem list" where
  "run_claims settings w [] = (w, [])"
| "run_claims settings w ((worker_id, moment, lease, max_records, fault) # rest) =
     (case claim_queue_item settings w worker_id moment lease max_records fault of
        Inl _ \<Rightarrow> run_claims settings w rest
      | Inr (w1, r) \<Rightarrow>
          let (w2, items) = run_claims settings w1 rest
          in (w2, (case r of None \<Rightarrow> items | Some i \<Rightarrow> i # items)))"

lemma run_claims_lease:
  assumes "settings_ok settings" "own_ids w" "lease_held expiry w c"
    "\<forall>(worker_id, moment, _) \<in> set requests. moment < expiry"
  shows "\<forall>d\<in>set (snd (run_claims settings w requests)). qi_queue_id d \<noteq> qi_queue_id c"
  using assms
proof (induction settings w requests rule: run_claims.induct)
  case (1 settings w)
  then show ?case by simp
next
  case (2 settings w worker_id moment lease max_records fault rest)
  show ?case
  proof (cases "claim_queue_item settings w worker_id moment lease max_records fault")
    case (Inl e)
    then show ?thesis using "2.IH"(1) [OF Inl] "2.prems" by simp
  next
    case (Inr wr)
    obtain w1 r where wr: "wr = (w1, r)" by (cases wr)
    have scan: "claim_scan settings worker_id moment lease fault False w
        (page (qw_items w) (qw_claim_cursor w) max_records) = (w1, r)"
      using Inr wr by (auto simp: claim_queue_item_def split: if_splits)
    have "moment < expiry" using "2.prems"(4) by simp
    note after = claim_scan_lease [OF "2.prems"(1-3) this scan]
    have "\<forall>d\<in>set (snd (run_claims settings w1 rest)). qi_queue_id d \<noteq> qi_queue_id c"
      using "2.IH"(2) [OF Inr wr [symmetric]] "2.prems" after by simp
    then show ?thesis
      using after(3) Inr wr by (auto simp: Let_def split: option.split prod.split)
  qed
qed

subsection \<open>Properties of claims\<close>

definition busy_queue :: queue_world where
  "busy_queue = sample_queue [curated_item\<lparr>qi_queue_id := ''queue_0'', qi_state := DONE\<rparr>,
     sample_item ''1'' READY, sample_item ''2'' DEFERRED] [''spool-1'', ''result-1'', ''spool-2'']"

lemma busy_queue_ok: "settings_ok sample_settings" "own_ids busy_queue"
  by (code_simp, simp add: own_ids_def busy_queue_def sample_queue_def sample_item_def curated_item_def)

text \<open>
  A claim returns the first item of its page, in page order, that is claimable, with one more
  attempt and a lease for the worker, and it returns nothing only when no item of the page is
  claimable. The cleanup of a discarded item on the way, whether it succeeds or fails after any of
  its steps, does not change which item is returned. What is returned is what is stored.
\<close>

theorem claim_takes_first:
  assumes "settings_ok settings" "own_ids w"
    and "worker_id \<noteq> []" "length worker_id \<le> 120" "0 < lease_seconds" "0 < max_records"
  shows "\<exists>w' r. claim_queue_item settings w worker_id moment lease_seconds max_records fault = Inr (w', r)
     \<and> r = map_option (claimed_item settings worker_id moment lease_seconds)
             (first_candidate (candidate_at moment w) (page (qw_items w) (qw_claim_cursor w) max_records))
     \<and> (\<forall>c. r = Some c \<longrightarrow> read_item w' (qi_queue_id c) = Inr c \<and> qi_state c = IN_PROGRESS
          \<and> qi_lease_owner c = Some worker_id \<and> qi_lease_expires_at c = Some (moment + seconds lease_seconds))"
proof -
  obtain w' r where run: "claim_scan settings worker_id moment lease_seconds fault False w
      (page (qw_items w) (qw_claim_cursor w) max_records) = (w', r)" by fastforce
  have r: "r = map_option (claimed_item settings worker_id moment lease_seconds)
      (first_candidate (candidate_at moment w) (page (qw_items w) (qw_claim_cursor w) max_records))"
    using claim_scan_first [OF assms(1,2), of worker_id moment lease_seconds fault False] run by (metis snd_conv)
  have "read_item w' (qi_queue_id c) = Inr c \<and> qi_state c = IN_PROGRESS
      \<and> qi_lease_owner c = Some worker_id \<and> qi_lease_expires_at c = Some (moment + seconds lease_seconds)"
    if rc: "r = Some c" for c
  proof -
    obtain i where "c = claimed_item settings worker_id moment lease_seconds i"
      using sym [OF trans [OF sym [OF rc] r]] by auto
    moreover have "read_item w' (qi_queue_id c) = Inr c"
      by (rule claim_scan_stored [OF assms(1-3)]) (use run rc in simp)
    ultimately show ?thesis by (simp add: claimed_item_def)
  qed
  then show ?thesis using run r assms(3-6) by (simp add: claim_queue_item_def)
qed

theorem claim_takes_first_witness:
  "\<exists>w' c. claim_queue_item sample_settings busy_queue ''worker'' 5 300 64 (Some 1) = Inr (w', Some c)
     \<and> qi_queue_id c = ''queue_1'' \<and> qi_attempts c = 2 \<and> read_item w' ''queue_1'' = Inr c"
proof -
  let ?c = "claimed_item sample_settings ''worker'' 5 300 (sample_item ''1'' READY)"
  have first: "map_option (claimed_item sample_settings ''worker'' 5 300)
      (first_candidate (candidate_at 5 busy_queue) (page (qw_items busy_queue) (qw_claim_cursor busy_queue) 64))
      = Some ?c" by code_simp
  obtain w' r where "claim_queue_item sample_settings busy_queue ''worker'' 5 300 64 (Some 1) = Inr (w', r)"
    "r = map_option (claimed_item sample_settings ''worker'' 5 300)
      (first_candidate (candidate_at 5 busy_queue) (page (qw_items busy_queue) (qw_claim_cursor busy_queue) 64))"
    "\<forall>c. r = Some c \<longrightarrow> read_item w' (qi_queue_id c) = Inr c"
    using claim_takes_first [OF busy_queue_ok, of "''worker''" 300 64 5 "Some 1"] by auto
  then show ?thesis
    unfolding first by (intro exI [of _ w'] exI [of _ ?c]) (simp add: claimed_item_def sample_item_def)
qed

text \<open>
  C6. A lease is exclusive: after a claim returned an item, no sequence of claims by any workers at
  instants before the lease ends returns that item again.
\<close>

theorem lease_is_exclusive:
  assumes "settings_ok settings" "own_ids w"
    and "claim_queue_item settings w worker_id moment lease_seconds max_records fault = Inr (w', Some c)"
    and "\<forall>(worker, instant, _) \<in> set requests. instant < moment + seconds lease_seconds"
  shows "\<forall>d\<in>set (snd (run_claims settings w' requests)). qi_queue_id d \<noteq> qi_queue_id c"
proof -
  have worker: "worker_id \<noteq> []" and scan: "claim_scan settings worker_id moment lease_seconds fault False w
      (page (qw_items w) (qw_claim_cursor w) max_records) = (w', Some c)"
    using assms(3) by (auto simp: claim_queue_item_def split: if_splits)
  have "\<exists>i. c = claimed_item settings worker_id moment lease_seconds i"
    using claim_scan_first [OF assms(1,2), of worker_id moment lease_seconds fault False] scan
    by (metis map_option_eq_Some snd_conv)
  then have "lease_held (moment + seconds lease_seconds) w' c"
    using claim_scan_stored [OF assms(1,2) worker scan] by (auto simp: lease_held_def claimed_item_def)
  moreover have "own_ids w'"
    using claim_scan_frame [OF assms(1,2), of worker_id moment lease_seconds fault False] scan by (metis fst_conv)
  ultimately show ?thesis using run_claims_lease [OF assms(1)] assms(4) by blast
qed

theorem lease_is_exclusive_witness:
  "\<exists>w' c. claim_queue_item sample_settings busy_queue ''worker'' 5 300 64 None = Inr (w', Some c)
     \<and> qi_queue_id c = ''queue_1''
     \<and> (\<forall>d\<in>set (snd (run_claims sample_settings w'
            [(''other'', 6, 10, 1, None), (''other'', 7, 10, 64, None), (''third'', 8, 10, 64, Some 0)])).
          qi_queue_id d \<noteq> qi_queue_id c)"
proof -
  have "(case claim_queue_item sample_settings busy_queue ''worker'' 5 300 64 None of
      Inr (w', Some c) \<Rightarrow> qi_queue_id c = ''queue_1'' | _ \<Rightarrow> False)" by code_simp
  then obtain w' c where run: "claim_queue_item sample_settings busy_queue ''worker'' 5 300 64 None = Inr (w', Some c)"
    and "qi_queue_id c = ''queue_1''" by (auto split: sum.splits option.splits)
  then show ?thesis
    using lease_is_exclusive [OF busy_queue_ok run, of "[(''other'', 6, 10, 1, None),
        (''other'', 7, 10, 64, None), (''third'', 8, 10, 64, Some 0)]"]
    by (intro exI [of _ w'] exI [of _ c]) (simp add: seconds_def)
qed

end
