(* ===== verification/Queue_Bodies.thy ===== *)
theory Queue_Bodies
  imports Queue_Claims
begin

section \<open>No body of a live item is lost\<close>

text \<open>
  The operations of the queue as one step relation on durable worlds, interruptions included, and
  the invariant that ties items to the bodies they own: files stand under their own id, two items
  never share a body, and the bodies of every item that is not discarded are in the spool. The spool
  itself (\<^verbatim>\<open>src/src/ei/spool.py\<close>) hands out new bodies under ids not in use.
\<close>

definition bodies_disjoint :: "queue_world \<Rightarrow> bool" where
  "bodies_disjoint w \<longleftrightarrow> (\<forall>p q i j. p \<noteq> q \<longrightarrow> map_of (qw_items w) p = Some (Item i)
     \<longrightarrow> map_of (qw_items w) q = Some (Item j) \<longrightarrow> owned i \<inter> owned j = {})"

definition live_bodies :: "queue_world \<Rightarrow> bool" where
  "live_bodies w \<longleftrightarrow> (\<forall>p i. map_of (qw_items w) p = Some (Item i) \<longrightarrow> \<not> discards (qi_state i)
     \<longrightarrow> owned i \<subseteq> set (qw_bodies w))"

definition queue_inv :: "queue_world \<Rightarrow> bool" where
  "queue_inv w \<longleftrightarrow> own_ids w \<and> bodies_disjoint w \<and> live_bodies w"

text \<open>A body that is in the spool and that no item owns.\<close>

definition free_body :: "queue_world \<Rightarrow> string \<Rightarrow> bool" where
  "free_body w b \<longleftrightarrow> b \<in> set (qw_bodies w)
     \<and> (\<forall>p i. map_of (qw_items w) p = Some (Item i) \<longrightarrow> b \<notin> owned i)"

inductive queue_step :: "queue_world \<Rightarrow> queue_world \<Rightarrow> bool" where
  spool: "\<forall>p i. map_of (qw_items w) p = Some (Item i) \<longrightarrow> b \<notin> owned i \<Longrightarrow>
    queue_step w (w\<lparr>qw_bodies := b # qw_bodies w\<rparr>)"
| enqueue: "settings_ok settings \<Longrightarrow> (\<forall>b\<in>sr_spool_id ` set_option payload_ref. free_body w b) \<Longrightarrow>
    queue_step w (fst (enqueue_receipt sha256 encoded_len settings write_ok w event payload_ref explicit
      stage created capture_id))"
| claim: "settings_ok settings \<Longrightarrow>
    claim_queue_item settings w worker_id moment lease_seconds max_records fault = Inr (w', r) \<Longrightarrow>
    queue_step w w'"
| transition: "settings_ok settings \<Longrightarrow> opt_nonempty reason_code \<Longrightarrow>
    transition_queue_item settings w item state moment reason_code next_eligible_at = Inr (ws, final) \<Longrightarrow>
    x \<in> set ws \<Longrightarrow> queue_step w x"
| attach: "attach_validated_result w item ref = Inr (w', updated) \<Longrightarrow> free_body w (sr_spool_id ref) \<Longrightarrow>
    queue_step w w'"
| recover: "recover_one sha256 settings moment w path = Inr (w', items) \<Longrightarrow>
    (\<forall>e. map_of (qw_emergency w) path = Some (Some e) \<longrightarrow> (\<forall>b\<in>owned (en_item e). free_body w b)) \<Longrightarrow>
    queue_step w w'"

subsection \<open>Updating one item\<close>

lemma queue_invI:
  assumes "own_ids w"
    "\<And>p q i j. p \<noteq> q \<Longrightarrow> map_of (qw_items w) p = Some (Item i) \<Longrightarrow> map_of (qw_items w) q = Some (Item j)
       \<Longrightarrow> owned i \<inter> owned j = {}"
    "\<And>p i. map_of (qw_items w) p = Some (Item i) \<Longrightarrow> \<not> discards (qi_state i) \<Longrightarrow> owned i \<subseteq> set (qw_bodies w)"
  shows "queue_inv w"
  unfolding queue_inv_def bodies_disjoint_def live_bodies_def
  by (intro conjI allI impI; rule assms; assumption)

lemma queue_inv_own: "queue_inv w \<Longrightarrow> own_ids w"
  by (simp add: queue_inv_def)

lemma queue_inv_disjoint:
  "queue_inv w \<Longrightarrow> p \<noteq> q \<Longrightarrow> map_of (qw_items w) p = Some (Item i) \<Longrightarrow> map_of (qw_items w) q = Some (Item j)
     \<Longrightarrow> owned i \<inter> owned j = {}"
  unfolding queue_inv_def bodies_disjoint_def by blast

lemma queue_inv_live:
  "queue_inv w \<Longrightarrow> map_of (qw_items w) p = Some (Item i) \<Longrightarrow> \<not> discards (qi_state i) \<Longrightarrow>
     owned i \<subseteq> set (qw_bodies w)"
  unfolding queue_inv_def live_bodies_def by blast

lemma queue_inv_cong:
  assumes "queue_inv w" "qw_items x = qw_items w" "set (qw_bodies w) \<subseteq> set (qw_bodies x)"
  shows "queue_inv x"
proof (rule queue_invI)
  show "own_ids x" using queue_inv_own [OF assms(1)] assms(2) by (simp add: own_ids_def)
  show "owned i \<inter> owned j = {}" if "p \<noteq> q" "map_of (qw_items x) p = Some (Item i)"
    "map_of (qw_items x) q = Some (Item j)" for p q i j
    using queue_inv_disjoint [OF assms(1)] that unfolding assms(2) by blast
  show "owned i \<subseteq> set (qw_bodies x)" if "map_of (qw_items x) p = Some (Item i)" "\<not> discards (qi_state i)" for p i
    using queue_inv_live [OF assms(1)] that assms(3) unfolding assms(2) by blast
qed

text \<open>
  Replacing the item at one path keeps the invariant if no other item owns what the new one owns,
  what it owns is there unless it is discarded, and the bodies of the other live items stay.
\<close>

lemma queue_inv_replace:
  assumes inv: "queue_inv w"
    and look: "\<And>p. map_of (qw_items x) p = (if p = path then Some (Item s) else map_of (qw_items w) p)"
    and s: "qi_queue_id s = path" "\<not> discards (qi_state s) \<Longrightarrow> owned s \<subseteq> set (qw_bodies x)"
    and excl: "\<And>p i. p \<noteq> path \<Longrightarrow> map_of (qw_items w) p = Some (Item i) \<Longrightarrow> owned s \<inter> owned i = {}"
    and stay: "\<And>p i. p \<noteq> path \<Longrightarrow> map_of (qw_items w) p = Some (Item i) \<Longrightarrow> \<not> discards (qi_state i)
       \<Longrightarrow> owned i \<subseteq> set (qw_bodies x)"
  shows "queue_inv x"
proof (rule queue_invI)
  show "own_ids x" using queue_inv_own [OF inv] s(1) unfolding own_ids_def look by auto
  show "owned i \<inter> owned j = {}" if pq: "p \<noteq> q" "map_of (qw_items x) p = Some (Item i)"
    "map_of (qw_items x) q = Some (Item j)" for p q i j
  proof -
    consider (left) "p = path" "i = s" "q \<noteq> path" "map_of (qw_items w) q = Some (Item j)"
      | (right) "q = path" "j = s" "p \<noteq> path" "map_of (qw_items w) p = Some (Item i)"
      | (neither) "map_of (qw_items w) p = Some (Item i)" "map_of (qw_items w) q = Some (Item j)"
      using pq look [of p] look [of q]
      by (cases "p = path"; cases "q = path") simp_all
    then show ?thesis
    proof cases
      case left
      then show ?thesis using excl by simp
    next
      case right
      then show ?thesis using excl [OF right(3,4)] by (simp add: Int_commute)
    next
      case neither
      then show ?thesis by (rule queue_inv_disjoint [OF inv pq(1)])
    qed
  qed
  show "owned i \<subseteq> set (qw_bodies x)" if "map_of (qw_items x) p = Some (Item i)" "\<not> discards (qi_state i)" for p i
    using that s(2) stay unfolding look by (auto split: if_splits)
qed

lemma stored_of_read:
  assumes "read_item w path = Inr i"
  obtains s where "map_of (qw_items w) path = Some (Item s)" "owned s = owned i"
    "discards (qi_state s) = discards (qi_state i)" "qi_queue_id s = qi_queue_id i"
proof -
  obtain s where "map_of (qw_items w) path = Some (Item s)" "i = s\<lparr>qi_state := reread (qi_state s)\<rparr>"
    using assms by (auto simp: read_item_eq_Inr)
  moreover have "discards (reread (qi_state s)) = discards (qi_state s)"
    by (cases "qi_state s") (simp_all add: discards_def)
  ultimately show thesis using that by (simp add: owned_def)
qed

text \<open>Storing a fresh item, and a new version of a stored item that owns what the old one did.\<close>

lemma queue_inv_store:
  assumes "queue_inv w"
    and "\<And>p i. p \<noteq> qi_queue_id u \<Longrightarrow> map_of (qw_items w) p = Some (Item i) \<Longrightarrow> owned u \<inter> owned i = {}"
    and "\<not> discards (qi_state u) \<Longrightarrow> owned u \<subseteq> set (qw_bodies w)"
  shows "queue_inv (store_item u w)"
proof (rule queue_inv_replace [OF assms(1)])
  show "map_of (qw_items (store_item u w)) p
      = (if p = qi_queue_id u then Some (Item u) else map_of (qw_items w) p)" for p
    by (simp add: store_item_def map_of_dict_set)
qed (use assms(2,3) queue_inv_live [OF assms(1)] in auto)

lemma queue_inv_update:
  assumes inv: "queue_inv w" and read: "read_item w path = Inr i"
    and u: "qi_queue_id u = path" "owned u \<subseteq> owned i"
    and live: "\<not> discards (qi_state u) \<Longrightarrow> \<not> discards (qi_state i)"
  shows "queue_inv (store_item u w)"
proof (rule queue_inv_store [OF inv])
  obtain s where s: "map_of (qw_items w) path = Some (Item s)" "owned s = owned i"
    "discards (qi_state s) = discards (qi_state i)"
    using read by (rule stored_of_read)
  show "owned u \<inter> owned j = {}" if "p \<noteq> qi_queue_id u" "map_of (qw_items w) p = Some (Item j)" for p j
    using queue_inv_disjoint [OF inv that(1) that(2)] s(1,2) u by blast
  show "owned u \<subseteq> set (qw_bodies w)" if "\<not> discards (qi_state u)"
    using queue_inv_live [OF inv s(1)] live [OF that] s(2,3) u(2) by blast
qed

subsection \<open>Every step keeps the invariant\<close>

lemma queue_inv_discarded:
  assumes inv: "queue_inv w" and read: "read_item w path = Inr cur" and path: "qi_queue_id cur = path"
    and world: "discarded_world target (residual w cur) w cur x" and disc: "discards target"
  shows "queue_inv x"
proof -
  obtain i where i: "read_item x path = Inr i" "qi_state i = target" "residual x i = residual w cur"
    "owned i \<subseteq> owned cur" "qi_queue_id i = path"
    and other: "\<And>p. p \<noteq> path \<Longrightarrow> map_of (qw_items x) p = map_of (qw_items w) p"
    using world path by (auto simp: discarded_world_def discarded_at_def)
  obtain s where s: "map_of (qw_items x) path = Some (Item s)" "owned s = owned i"
    "discards (qi_state s) = discards (qi_state i)" "qi_queue_id s = qi_queue_id i"
    using i(1) by (rule stored_of_read)
  obtain s0 where s0: "map_of (qw_items w) path = Some (Item s0)" "owned s0 = owned cur"
    using read by (rule stored_of_read)
  have dis: "owned cur \<inter> owned j = {}" if "p \<noteq> path" "map_of (qw_items w) p = Some (Item j)" for p j
    using queue_inv_disjoint [OF inv that(1) that(2) s0(1)] s0(2) by blast
  show ?thesis
  proof (rule queue_inv_replace [OF inv])
    show "map_of (qw_items x) p = (if p = path then Some (Item s) else map_of (qw_items w) p)" for p
      using s(1) other by simp
    show "qi_queue_id s = path" using s(4) i(5) by simp
    show "owned s \<subseteq> set (qw_bodies x)" if "\<not> discards (qi_state s)"
      using that s(3) i(2) disc by simp
    show "owned s \<inter> owned j = {}" if "p \<noteq> path" "map_of (qw_items w) p = Some (Item j)" for p j
      using dis [OF that] s(2) i(4) by blast
    show "owned j \<subseteq> set (qw_bodies x)"
      if "p \<noteq> path" "map_of (qw_items w) p = Some (Item j)" "\<not> discards (qi_state j)" for p j
    proof -
      have "owned j \<subseteq> set (residual w cur)"
        using queue_inv_live [OF inv that(2,3)] dis [OF that(1,2)] by (auto simp: residual_def)
      then show ?thesis unfolding i(3) [symmetric] by (auto simp: residual_def)
    qed
  qed
qed

lemma transition_result:
  assumes "transition_queue_item settings w item state moment reason_code t = Inr (ws, final)"
  obtains current where "read_item w (qi_queue_id item) = Inr current"
    "qi_idempotency_key current = qi_idempotency_key item" "safe_queue_path (qi_queue_id item)"
    "transition_allowed item (target_state state) reason_code moment"
    "transition_allowed current (target_state state) reason_code moment"
  using assms
  by (auto simp: transition_queue_item_def transition_store_def Let_def result_simps split: if_splits)

lemma discards_absorbing:
  "transition_allowed current target reason_code moment \<Longrightarrow> discards (qi_state current) \<Longrightarrow> target = qi_state current"
  by (auto simp: transition_allowed_def discards_def expiry_of_quarantined_def)

lemma queue_inv_transition:
  assumes "queue_inv w" "settings_ok settings" "opt_nonempty reason_code"
    and run: "transition_queue_item settings w item state moment reason_code t = Inr (ws, final)"
    and "x \<in> set ws"
  shows "queue_inv x"
proof -
  obtain current where cur: "read_item w (qi_queue_id item) = Inr current"
    "qi_idempotency_key current = qi_idempotency_key item" "safe_queue_path (qi_queue_id item)"
    "transition_allowed item (target_state state) reason_code moment"
    "transition_allowed current (target_state state) reason_code moment"
    using run by (rule transition_result)
  have path: "qi_queue_id current = qi_queue_id item"
    using assms(1) cur(1) by (auto simp: queue_inv_def own_ids_read)
  show ?thesis
  proof (cases "discards (target_state state)")
    case True
    have ready: "transition_ready settings w item current (target_state state) moment reason_code"
      using cur path assms(2,3) by (simp add: transition_ready_def)
    obtain ws' final' where "transition_queue_item settings w item state moment reason_code t = Inr (ws', final')"
      "cleanup_run (target_state state) (residual w current) w current ws'"
      by (rule discarding_transition [OF ready True])
    then have "discarded_world (target_state state) (residual w current) w current x"
      using run assms(5) by (simp add: cleanup_run_def)
    then show ?thesis using queue_inv_discarded [OF assms(1) cur(1) path] True by blast
  next
    case False
    then have "x = store_item (transitioned settings current (target_state state) moment reason_code t) w"
      using run assms(5) cur
      by (auto simp: transition_queue_item_def transition_store_def Let_def result_simps split: if_splits)
    moreover have "\<not> discards (qi_state current)"
      using False discards_absorbing [OF cur(5)] by auto
    ultimately show ?thesis
      using path by (auto intro!: queue_inv_update [OF assms(1) cur(1)] simp: owned_def)
  qed
qed

lemma queue_inv_cleanup:
  assumes "queue_inv w" "settings_ok settings" "read_item w path = Inr item" "discards (qi_state item)"
  shows "queue_inv (claim_cleanup settings moment fault item w)"
proof -
  have path: "qi_queue_id item = path" using queue_inv_own [OF assms(1)] assms(3) by (rule own_ids_read)
  show ?thesis
  proof (rule claim_cleanup_cases [OF assms(2) queue_inv_own [OF assms(1)] assms(3,4), of moment fault])
    assume "qw_items (claim_cleanup settings moment fault item w) = qw_items w"
      "qw_bodies (claim_cleanup settings moment fault item w) = qw_bodies w"
    then show ?thesis using queue_inv_cong [OF assms(1)] by simp
  next
    fix x assume x: "discarded_world (qi_state item) (residual w item) w item x"
      "qw_items (claim_cleanup settings moment fault item w) = qw_items x"
      "qw_bodies (claim_cleanup settings moment fault item w) = qw_bodies x"
    have "queue_inv x" by (rule queue_inv_discarded [OF assms(1,3) path x(1) assms(4)])
    then show ?thesis using queue_inv_cong x(2,3) by simp
  qed
qed

lemma claim_candidate_owned:
  "claim_candidate moment item = Some c \<Longrightarrow> owned c = owned item \<and> \<not> discards (qi_state item)"
  by (auto simp: claim_candidate_def Let_def owned_def split: if_splits option.splits dest: discards_terminal)

lemma queue_inv_claim:
  assumes "queue_inv w" "settings_ok settings"
  shows "queue_inv (fst (claim_scan settings worker_id moment lease fault attempted w paths))"
  using assms
proof (induction settings worker_id moment lease fault attempted w paths rule: claim_scan.induct)
  case (1 settings worker_id moment lease fault attempted w)
  then show ?case by simp
next
  case (2 settings worker_id moment lease fault attempted w path paths)
  have adv: "queue_inv (advance path w)" by (rule queue_inv_cong [OF "2.prems"(1)]) simp_all
  show ?case
  proof (cases "read_item w path")
    case (Inl e)
    then show ?thesis using "2.IH"(1) [OF Inl adv "2.prems"(2)] by simp
  next
    case (Inr item)
    show ?thesis
    proof (cases "\<not> attempted \<and> needs_cleanup moment item")
      case True
      then have "queue_inv (claim_cleanup settings moment fault item w)"
        using queue_inv_cleanup [OF "2.prems" Inr] needs_cleanup_discards by blast
      then show ?thesis using "2.IH"(2) [OF Inr True _ "2.prems"(2)] Inr True by simp
    next
      case False
      show ?thesis
      proof (cases "claim_candidate moment item")
        case None
        then show ?thesis using "2.IH"(3) [OF Inr False None adv "2.prems"(2)] Inr False by auto
      next
        case (Some c)
        have "queue_inv (store_item (claimed_item settings worker_id moment lease c) w)"
        proof (rule queue_inv_update [OF "2.prems"(1) Inr])
          show "qi_queue_id (claimed_item settings worker_id moment lease c) = path"
            using claim_candidate_id [OF Some] own_ids_read [OF queue_inv_own [OF "2.prems"(1)] Inr] by simp
          show "owned (claimed_item settings worker_id moment lease c) \<subseteq> owned item"
            using claim_candidate_owned [OF Some] by (simp add: claimed_item_def owned_def)
        qed (use claim_candidate_owned [OF Some] in simp)
        then have "queue_inv (advance path (store_item (claimed_item settings worker_id moment lease c) w))"
          by (rule queue_inv_cong) simp_all
        then show ?thesis using Inr False Some by (auto simp: Let_def)
      qed
    qed
  qed
qed

lemma queue_inv_attach:
  assumes "queue_inv w" "attach_validated_result w item ref = Inr (w', updated)"
    and free: "free_body w (sr_spool_id ref)"
  shows "queue_inv w'"
proof -
  have read: "read_item w (qi_queue_id item) = Inr item" and st: "qi_state item = IN_PROGRESS"
    and w': "w' = store_item (item\<lparr>qi_validated_result_ref := Some ref\<rparr>) w"
    using assms(2) by (auto simp: attach_validated_result_def Let_def result_simps split: if_splits option.splits)
  obtain s where s: "map_of (qw_items w) (qi_queue_id item) = Some (Item s)" "owned s = owned item"
    "discards (qi_state s) = discards (qi_state item)"
    using read by (rule stored_of_read)
  have own: "owned (item\<lparr>qi_validated_result_ref := Some ref\<rparr>) \<subseteq> insert (sr_spool_id ref) (owned item)"
    by (auto simp: owned_def)
  show ?thesis unfolding w'
  proof (rule queue_inv_store [OF assms(1)])
    show "owned (item\<lparr>qi_validated_result_ref := Some ref\<rparr>) \<inter> owned j = {}"
      if "p \<noteq> qi_queue_id (item\<lparr>qi_validated_result_ref := Some ref\<rparr>)"
        "map_of (qw_items w) p = Some (Item j)" for p j
      using queue_inv_disjoint [OF assms(1) _ s(1) that(2)] that free own s(2) unfolding free_body_def by fastforce
    show "owned (item\<lparr>qi_validated_result_ref := Some ref\<rparr>) \<subseteq> set (qw_bodies w)"
      using queue_inv_live [OF assms(1) s(1)] s(2,3) st own free by (auto simp: free_body_def discards_def)
  qed
qed

lemma queue_inv_store_free:
  assumes "queue_inv w" "\<forall>b\<in>owned u. free_body w b"
  shows "queue_inv (store_item u w)"
  by (rule queue_inv_store [OF assms(1)]) (use assms(2) in \<open>auto simp: free_body_def\<close>)

lemma emergency_keeps:
  "write_emergency_envelope sha256 encoded_len settings w item reason_code created = (w', r) \<Longrightarrow>
     qw_items w' = qw_items w \<and> qw_bodies w' = qw_bodies w"
  by (auto simp: write_emergency_envelope_def Let_def split: sum.splits if_splits prod.splits)

lemma queue_inv_enqueue:
  assumes "queue_inv w" "\<forall>b\<in>sr_spool_id ` set_option payload_ref. free_body w b"
  shows "queue_inv (fst (enqueue_receipt sha256 encoded_len settings write_ok w event payload_ref explicit
      stage created capture_id))"
proof -
  have "queue_inv (store_item (new_item sha256 settings f payload_ref explicit stage created capture_id) w)" for f
    by (rule queue_inv_store_free [OF assms(1)]) (use assms(2) in \<open>simp add: new_item_def owned_def\<close>)
  moreover have "queue_inv w'" if "write_emergency_envelope sha256 encoded_len settings w item code created = (w', r)"
    for w' item code r
    using emergency_keeps [OF that] queue_inv_cong [OF assms(1)] by simp
  ultimately show ?thesis
    using assms(1) by (auto simp: enqueue_receipt_def Let_def split: sum.split option.split prod.split)
qed

lemma queue_inv_recover:
  assumes "queue_inv w" "recover_one sha256 settings moment w path = Inr (w', items)"
    and free: "\<forall>e. map_of (qw_emergency w) path = Some (Some e) \<longrightarrow> (\<forall>b\<in>owned (en_item e). free_body w b)"
  shows "queue_inv w'"
proof -
  obtain e where e: "map_of (qw_emergency w) path = Some (Some e)"
    using assms(2) by (auto simp: recover_one_def read_emergency_def split: option.splits if_splits)
  define u where "u = (en_item e)\<lparr>qi_state := reread (qi_state (en_item e)),
    qi_provider_preference := provider_preference settings (Some (qi_provider_preference (en_item e)))\<rparr>"
  have "queue_inv (store_item u w)"
    by (rule queue_inv_store_free [OF assms(1)]) (use free e in \<open>simp add: u_def owned_def\<close>)
  then have new: "queue_inv (emergency_delete path (store_item u w))"
    by (rule queue_inv_cong) (simp_all add: emergency_delete_def)
  have same: "queue_inv (emergency_delete path w)"
    by (rule queue_inv_cong [OF assms(1)]) (simp_all add: emergency_delete_def)
  have "w' = emergency_delete path (store_item u w) \<or> w' = emergency_delete path w"
    using assms(2) e
    by (auto simp: recover_one_def read_emergency_def u_def Let_def result_simps
        split: option.splits if_splits)
  then show ?thesis using new same by auto
qed

lemma queue_inv_step: "queue_step w w' \<Longrightarrow> queue_inv w \<Longrightarrow> queue_inv w'"
proof (induction rule: queue_step.induct)
  case (spool w b)
  then show ?case by (auto intro: queue_inv_cong)
next
  case (enqueue settings payload_ref w sha256 encoded_len write_ok event explicit stage created capture_id)
  then show ?case by (intro queue_inv_enqueue)
next
  case (claim settings w worker_id moment lease_seconds max_records fault w' r)
  then show ?case
    using queue_inv_claim [of w settings worker_id moment lease_seconds fault False
        "page (qw_items w) (qw_claim_cursor w) max_records"]
    by (auto simp: claim_queue_item_def split: if_splits)
next
  case (transition settings reason_code w item state moment next_eligible_at ws final x)
  then show ?case by (blast intro: queue_inv_transition)
next
  case (attach w item ref w' updated)
  then show ?case by (blast intro: queue_inv_attach)
next
  case (recover sha256 settings moment w path w' items)
  then show ?case by (blast intro: queue_inv_recover)
qed

interpretation queue: invariant_system queue_step queue_inv
  by unfold_locales (rule queue_inv_step)


lemma curated_queue_inv: "queue_inv curated_queue"
  by (rule queue_invI)
    (auto simp: own_ids_def curated_queue_def sample_queue_def curated_item_def sample_item_def owned_def
      sample_ref_def split: if_splits)


end
