(* ===== verification/Queue_Intake.thy ===== *)
theory Queue_Intake
  imports Work_Queue
begin

section \<open>Intake: enqueueing, the emergency spool and health\<close>

text \<open>
  Exactly-once enqueueing by idempotency key and source host, the recovery pass over the emergency
  spool, and the accounting of the health report.
\<close>

subsection \<open>The tag index after a write\<close>

lemma filter_dict_set_new:
  assumes "filter (\<lambda>(_, f). P f) E = []" "P v"
  shows "map fst (filter (\<lambda>(_, f). P f) (dict_set k v E)) = [k]"
  using assms by (induction E) (auto split: if_splits)

lemma find_tag_None: "find_tag sha256 w t = Inr None \<longleftrightarrow> filter (\<lambda>(_, f). file_tag sha256 f = t) (qw_items w) = []"
  by (auto simp: find_tag_def split: list.splits)

lemma find_tag_store:
  assumes "find_tag sha256 w (file_tag sha256 (Item item)) = Inr None"
  shows "find_tag sha256 (store_item item w) (file_tag sha256 (Item item)) = Inr (Some (qi_queue_id item))"
  using filter_dict_set_new [OF assms [unfolded find_tag_None] refl]
  by (simp add: find_tag_def store_item_def)

lemma existing_None:
  "existing_by_source_idempotency sha256 w key host = Inr None \<longleftrightarrow> find_tag sha256 w (tag sha256 key host) = Inr None"
  by (auto simp: existing_by_source_idempotency_def result_simps split: option.splits)

lemma existing_after_store:
  assumes "existing_by_source_idempotency sha256 w (qi_idempotency_key item) (qi_source_host_id item) = Inr None"
    and "from_dict_ok item" "qi_state item \<noteq> FAILED"
  shows "existing_by_source_idempotency sha256 (store_item item w) (qi_idempotency_key item)
           (qi_source_host_id item) = Inr (Some item)"
proof -
  have "find_tag sha256 (store_item item w) (tag sha256 (qi_idempotency_key item) (qi_source_host_id item))
      = Inr (Some (qi_queue_id item))"
    using find_tag_store [of sha256 w item] assms(1) by (simp add: existing_None)
  then show ?thesis
    using assms(2,3) by (simp add: existing_by_source_idempotency_def read_item_store reread_noop)
qed

subsection \<open>Enqueueing twice\<close>

lemma event_fields_host:
  "event_fields_of sha256 event = Inr f \<Longrightarrow> ef_source_host_id f \<noteq> [] \<and> ef_source_host_family f \<noteq> []"
  by (auto simp: event_fields_of_def Let_def split: queue_event.splits if_splits)

lemma list_all_take_filter: "list_all P (take n (filter P xs))"
  by (auto simp: list_all_iff dest: in_set_takeD)

lemma provider_preference_explicit:
  "list_all (\<lambda>p. p \<noteq> []) (provider_preference settings e) \<Longrightarrow>
     list_all (\<lambda>p. p \<noteq> []) (provider_preference settings e')"
  by (cases "qs_organizer settings") (simp_all add: provider_preference_def list_all_take_filter)

lemma new_item_simps [simp]:
  "qi_idempotency_key (new_item sha256 settings f payload_ref explicit stage created capture_id) = ef_idempotency_key f"
  "qi_source_host_id (new_item sha256 settings f payload_ref explicit stage created capture_id) = ef_source_host_id f"
  "qi_queue_id (new_item sha256 settings f payload_ref explicit stage created capture_id)
     = new_queue_id sha256 (ef_event_id f) (ef_idempotency_key f) (ef_source_host_id f)"
  "qi_state (new_item sha256 settings f payload_ref explicit stage created capture_id) = READY"
  by (simp_all add: new_item_def)

lemma new_item_valid_again:
  assumes "validate_queue_item (new_item sha256 settings f payload_ref explicit stage created capture_id)"
    and "stage' \<noteq> []"
  shows "validate_queue_item (new_item sha256 settings f payload_ref explicit' stage' created' capture_id)"
  using assms provider_preference_explicit [of settings explicit explicit']
  by (auto simp: validate_queue_item_def new_item_def)

lemma new_item_readable:
  assumes "validate_queue_item (new_item sha256 settings f payload_ref explicit stage created capture_id)"
    and "event_fields_of sha256 event = Inr f" and "opt_all spool_ref_ok payload_ref"
  shows "from_dict_ok (new_item sha256 settings f payload_ref explicit stage created capture_id)"
  using assms event_fields_host [OF assms(2)] by (simp add: from_dict_ok_def new_item_def)

lemma same_identity_new:
  "same_identity x (new_item sha256 settings f payload_ref explicit stage created capture_id) \<longleftrightarrow>
   same_identity x (new_item sha256 settings f payload_ref explicit' stage' created' capture_id)"
  by (simp add: same_identity_def new_item_def)

lemma same_identity_self: "same_identity i i"
  by (simp add: same_identity_def)

text \<open>What an accepted enqueue leaves: the item is found under its tag, with the identity of the event.\<close>

lemma enqueue_accepted:
  assumes "opt_all spool_ref_ok payload_ref"
    and "enqueue_receipt sha256 encoded_len settings True w event payload_ref explicit stage created capture_id
       = (w1, Inr item)"
  obtains f where "event_fields_of sha256 event = Inr f"
    "validate_queue_item (new_item sha256 settings f payload_ref explicit stage created capture_id)"
    "existing_by_source_idempotency sha256 w1 (ef_idempotency_key f) (ef_source_host_id f) = Inr (Some item)"
    "same_identity item (new_item sha256 settings f payload_ref explicit stage created capture_id)"
proof -
  obtain f where f: "event_fields_of sha256 event = Inr f"
    and valid: "validate_queue_item (new_item sha256 settings f payload_ref explicit stage created capture_id)"
    using assms(2) by (auto simp: enqueue_receipt_def Let_def split: sum.splits if_splits)
  let ?new = "new_item sha256 settings f payload_ref explicit stage created capture_id"
  have ok: "from_dict_ok ?new" by (rule new_item_readable [OF valid f assms(1)])
  show thesis
  proof (cases "existing_by_source_idempotency sha256 w (ef_idempotency_key f) (ef_source_host_id f)")
    case (Inl e)
    then show thesis using assms(2) f valid by (simp add: enqueue_receipt_def Let_def)
  next
    case (Inr found)
    show thesis
    proof (cases found)
      case None
      then have "w1 = store_item ?new w" "item = ?new"
        using assms(2) f valid Inr by (auto simp: enqueue_receipt_def Let_def split: if_splits)
      then show thesis
        using that [OF f valid] existing_after_store [of sha256 w ?new] Inr None ok same_identity_self by simp
    next
      case (Some existing)
      then have "w1 = w" "item = existing" "same_identity existing ?new"
        using assms(2) f valid Inr by (auto simp: enqueue_receipt_def Let_def split: if_splits)
      then show thesis using that [OF f valid] Inr Some by simp
    qed
  qed
qed

definition sample_event :: NormalizedHookEvent where
  "sample_event = \<lparr>nh_event_id = ''evt_20260101T000000Z_0123456789ab'',
     nh_idempotency_key = sample_hash (CHR ''b''), nh_host_id = ''codex'',
     nh_session_id_hash = sample_hash (CHR ''d''), nh_turn_id_hash = sample_hash (CHR ''e''),
     nh_source_ref = None, nh_source_hash = sample_hash (CHR ''c''),
     nh_privacy_classification = ''private-reusable'', nh_source_host_id = ''codex'',
     nh_source_host_family = ''openai''\<rparr>"

definition empty_queue :: queue_world where
  "empty_queue = sample_queue [] [''spool-1'']"

definition toy_digest :: "string \<Rightarrow> string" where
  "toy_digest s = replicate 31 (CHR ''0'') @ (if CHR ''['' \<in> set s then ''1'' else ''2'')"

text \<open>
  C21. Enqueueing is exactly once per idempotency key and source host: after an accepted enqueue,
  enqueueing the same event with the same body again, at any later time, with any provider
  preference or stage, and whether or not the queue can be written then, returns the item of the
  first time and changes nothing; with another body it is refused and changes nothing.
\<close>

theorem enqueue_exactly_once:
  assumes "opt_all spool_ref_ok payload_ref" and "stage' \<noteq> []"
    and "enqueue_receipt sha256 encoded_len settings True w event payload_ref explicit stage created capture_id
       = (w1, Inr item)"
  shows "enqueue_receipt sha256 encoded_len settings write_ok' w1 event payload_ref explicit' stage' created'
           capture_id = (w1, Inr item)
    \<and> (other_ref \<noteq> payload_ref \<longrightarrow>
         enqueue_receipt sha256 encoded_len settings write_ok' w1 event other_ref explicit' stage' created'
           capture_id = (w1, Inl (QueueError ''QUEUE_IDEMPOTENCY_COLLISION'')))"
proof -
  obtain f where f: "event_fields_of sha256 event = Inr f"
    and valid: "validate_queue_item (new_item sha256 settings f payload_ref explicit stage created capture_id)"
    and found: "existing_by_source_idempotency sha256 w1 (ef_idempotency_key f) (ef_source_host_id f) = Inr (Some item)"
    and same: "same_identity item (new_item sha256 settings f payload_ref explicit stage created capture_id)"
    using assms(1,3) by (rule enqueue_accepted)
  have "validate_queue_item (new_item sha256 settings f payload_ref explicit' stage' created' capture_id)"
    using valid assms(2) by (rule new_item_valid_again)
  moreover have "same_identity item (new_item sha256 settings f payload_ref explicit' stage' created' capture_id)"
    using same same_identity_new by blast
  ultimately have "enqueue_receipt sha256 encoded_len settings write_ok' w1 event payload_ref explicit' stage'
      created' capture_id = (w1, Inr item)"
    using f found by (simp add: enqueue_receipt_def Let_def)
  moreover have "enqueue_receipt sha256 encoded_len settings write_ok' w1 event other_ref explicit' stage' created'
      capture_id = (w1, Inl (QueueError ''QUEUE_IDEMPOTENCY_COLLISION''))" if "other_ref \<noteq> payload_ref"
  proof -
    have "validate_queue_item (new_item sha256 settings f other_ref explicit' stage' created' capture_id)"
      using new_item_valid_again [OF valid assms(2), of explicit' created']
      by (simp add: validate_queue_item_def new_item_def)
    moreover have "\<not> same_identity item (new_item sha256 settings f other_ref explicit' stage' created' capture_id)"
      using same that by (auto simp: same_identity_def new_item_def)
    ultimately show ?thesis using f found by (simp add: enqueue_receipt_def Let_def)
  qed
  ultimately show ?thesis by blast
qed

theorem enqueue_exactly_once_witness:
  "\<exists>w1 item. enqueue_receipt toy_digest (\<lambda>_. 100) sample_settings True empty_queue (Hook_Event sample_event)
       (Some (sample_ref ''spool-1'' Pending)) None ''inheritance-gate'' 5 None = (w1, Inr item)
     \<and> length (qw_items w1) = 1
     \<and> enqueue_receipt toy_digest (\<lambda>_. 100) sample_settings False w1 (Hook_Event sample_event)
         (Some (sample_ref ''spool-1'' Pending)) (Some [''x'']) ''other'' 9 None = (w1, Inr item)
     \<and> enqueue_receipt toy_digest (\<lambda>_. 100) sample_settings False w1 (Hook_Event sample_event)
         None (Some [''x'']) ''other'' 9 None = (w1, Inl (QueueError ''QUEUE_IDEMPOTENCY_COLLISION''))"
proof -
  let ?ref = "Some (sample_ref ''spool-1'' Pending)"
  have "(case enqueue_receipt toy_digest (\<lambda>_. 100) sample_settings True empty_queue (Hook_Event sample_event)
       ?ref None ''inheritance-gate'' 5 None of (w1, Inr item) \<Rightarrow> length (qw_items w1) = 1 | _ \<Rightarrow> False)"
    by code_simp
  then obtain w1 item where run: "enqueue_receipt toy_digest (\<lambda>_. 100) sample_settings True empty_queue
      (Hook_Event sample_event) ?ref None ''inheritance-gate'' 5 None = (w1, Inr item)"
    and "length (qw_items w1) = 1" by (auto split: prod.splits sum.splits)
  moreover have "opt_all spool_ref_ok ?ref" by code_simp
  ultimately show ?thesis
    using enqueue_exactly_once [OF _ _ run, of "''other''" False "Some [''x'']" 9 None]
    by (intro exI [of _ w1] exI [of _ item]) simp
qed

subsection \<open>Recovery\<close>

text \<open>An item that stands for the item of an envelope.\<close>

definition stands_for :: "QueueItem \<Rightarrow> QueueItem \<Rightarrow> bool" where
  "stands_for i item \<longleftrightarrow> qi_event_id i = qi_event_id item \<and> qi_source_hash i = qi_source_hash item
   \<and> qi_capture_id i = qi_capture_id item \<and> qi_payload_ref i = qi_payload_ref item"

lemma recover_one_result:
  assumes "recover_one sha256 settings moment w path = Inr (w', items)"
    and "map_of (qw_emergency w) path = Some (Some e)" "en_expires_at e > moment"
  shows "\<exists>i. items = [i] \<and> stands_for i (en_item e)"
  using assms
  by (auto simp: recover_one_def read_emergency_def stands_for_def Let_def result_simps
      split: option.splits if_splits)

lemma recover_one_others:
  assumes "recover_one sha256 settings moment w path = Inr (w', items)" "p \<noteq> path"
  shows "map_of (qw_emergency w') p = map_of (qw_emergency w) p"
proof -
  have del: "map_of (filter (\<lambda>(k, _). k \<noteq> path) xs) p = map_of xs p" for xs :: "envelope option dict"
    using assms(2) by (induction xs) auto
  have "qw_emergency w' = filter (\<lambda>(k, _). k \<noteq> path) (qw_emergency w)"
    using assms(1) by (auto simp: recover_one_def emergency_delete_def store_item_def Let_def result_simps
        split: option.splits if_splits)
  then show ?thesis using del by simp
qed

lemma recover_scan_keeps:
  assumes "recover_scan sha256 settings moment w paths = (w', items)"
    and "map_of (qw_emergency w) path = Some (Some e)" "en_expires_at e > moment"
  shows "map_of (qw_emergency w') path = Some (Some e) \<or> (\<exists>i\<in>set items. stands_for i (en_item e))"
  using assms
proof (induction paths arbitrary: w items)
  case Nil
  then show ?case by simp
next
  case (Cons p ps)
  show ?case
  proof (cases "recover_one sha256 settings moment w p")
    case (Inl err)
    then show ?thesis using Cons.prems by auto
  next
    case (Inr r)
    then obtain w1 found where r: "recover_one sha256 settings moment w p = Inr (w1, found)" by (cases r) auto
    obtain rest where rest: "recover_scan sha256 settings moment (w1\<lparr>qw_recovery_cursor := p\<rparr>) ps = (w', rest)"
      "items = found @ rest"
      using Cons.prems(1) r by (auto split: prod.splits)
    show ?thesis
    proof (cases "p = path")
      case True
      then show ?thesis using recover_one_result [OF r] Cons.prems(2,3) rest(2) by auto
    next
      case False
      then have "map_of (qw_emergency (w1\<lparr>qw_recovery_cursor := p\<rparr>)) path = Some (Some e)"
        using recover_one_others [OF r] Cons.prems(2) by simp
      then show ?thesis using Cons.IH [OF rest(1)] Cons.prems(3) rest(2) by auto
    qed
  qed
qed


definition emergency_queue :: queue_world where
  "emergency_queue = (fst (enqueue_receipt toy_digest (\<lambda>_. 100) sample_settings False empty_queue
     (Hook_Event sample_event) (Some (sample_ref ''spool-1'' Pending)) None ''inheritance-gate'' 5 None))"


subsection \<open>Health\<close>

lemma sum_state_counts:
  fixes f :: "'a \<Rightarrow> QueueState"
  shows "length xs = sum_list (map (\<lambda>s. length (filter (\<lambda>x. f x = s) xs)) enum_class.enum)"
proof (induction xs)
  case Nil
  then show ?case by (simp add: enum_QueueState_def)
next
  case (Cons x xs)
  then show ?case by (cases "f x") (simp_all add: enum_QueueState_def)
qed

lemma readable_and_corrupt:
  "length (concat (map (\<lambda>(path, _). case read_item w path of Inl _ \<Rightarrow> [] | Inr item \<Rightarrow> [item]) E))
   + length (filter (\<lambda>(path, _). isl (read_item w path)) E) = length E"
proof (induction E)
  case (Cons pf E)
  obtain p f where "pf = (p, f)" by (cases pf)
  then show ?case using Cons by (cases "read_item w p") auto
qed simp

lemma no_failed_items: "state_count w FAILED = 0"
proof -
  have "qi_state i \<noteq> FAILED" if "i \<in> set (readable_items w)" for i
    using that read_item_not_failed by (auto simp: readable_items_def split: sum.splits)
  then show ?thesis by (simp add: state_count_def filter_empty_conv)
qed

text \<open>
  The health report accounts for every queue file: ready, in progress, deferred, retryable,
  terminal and corrupt files, together with the items under curation, which the report has no field
  for, are all the files; and the items that need attention are counted among the terminal ones.
\<close>

theorem health_accounts_for_every_file:
  "let h = queue_health encoded_len settings w in
     length (qw_items w) = qh_ready h + qh_in_progress h + qh_deferred h + qh_retryable h
        + state_count w YES_CURATING + qh_terminal h + qh_corrupt h
     \<and> qh_needs_attention h \<le> qh_terminal h"
proof -
  have "length (readable_items w) = sum_list (map (state_count w) enum_class.enum)"
    unfolding state_count_def by (rule sum_state_counts)
  moreover have "length (readable_items w) + qh_corrupt (queue_health encoded_len settings w) = length (qw_items w)"
    unfolding readable_items_def queue_health_def by (simp add: readable_and_corrupt)
  ultimately show ?thesis
    using no_failed_items [of w] by (simp add: queue_health_def enum_QueueState_def TERMINAL_def)
qed

end
