(* ===== verification/Provider_Base.thy ===== *)
theory Provider_Base
  imports Ei_Prelude
begin

section \<open>Providers: budgets, results and errors\<close>

text \<open>
  \<^verbatim>\<open>src/src/ei/inference/base.py\<close> and \<^verbatim>\<open>src/src/ei/inference/errors.py\<close>: what every
  provider is called with and returns, the sanitizing of its telemetry, and the classification of
  its failures with the backoff schedule. Costs are counted in units of \<open>10 ^ -8\<close>, the precision
  \<open>decimal_cost\<close> quantizes every amount to; \<open>decimal\<close> stands for \<open>Decimal(str(value))\<close>, with
  \<^term>\<open>None\<close> for a value that is no finite number.
\<close>

subsection \<open>Costs and metadata\<close>

definition decimal_cost :: "(pyval \<Rightarrow> rat option) \<Rightarrow> pyval \<Rightarrow> int result" where
  "decimal_cost decimal value = (case decimal value of
       None \<Rightarrow> Inl (ValueError ''COST_INVALID'')
     | Some r \<Rightarrow> if r < 0 then Inl (ValueError ''COST_INVALID'') else Inr (round_units 8 r))"

definition FORBIDDEN_METADATA_KEYS :: "string list" where
  "FORBIDDEN_METADATA_KEYS = [''prompt'', ''query'', ''message'', ''response'', ''transcript'',
     ''tool_output'', ''stderr'', ''stdout'', ''raw'', ''body'', ''api_key'', ''token'', ''secret'']"

definition forbidden_key :: "string \<Rightarrow> bool" where
  "forbidden_key key = (let lowered = casefold key in
     lowered \<in> set FORBIDDEN_METADATA_KEYS
   \<or> list_ex (\<lambda>marker. contains marker lowered)
       [''prompt'', ''transcript'', ''secret'', ''token'', ''password'', ''cookie''])"

text \<open>
  The value \<open>None\<close> means that an entry is dropped, so an entry whose value is \<open>None\<close> is dropped too.
  The key of a list is passed down folded, as the code does.
\<close>

fun sanitize_metadata :: "pyval \<Rightarrow> string \<Rightarrow> pyval"
  and sanitize_entries :: "(string \<times> pyval) list \<Rightarrow> (string \<times> pyval) list"
  and sanitize_list :: "pyval list \<Rightarrow> string \<Rightarrow> pyval list" where
  "sanitize_metadata (PDict d) key = (if forbidden_key key then PNone else PDict (sanitize_entries d))"
| "sanitize_metadata (PList xs) key =
     (if forbidden_key key then PNone else PList (sanitize_list xs (casefold key)))"
| "sanitize_metadata (PTuple xs) key =
     (if forbidden_key key then PNone else PList (sanitize_list xs (casefold key)))"
| "sanitize_metadata v key = (if forbidden_key key then PNone else v)"
| "sanitize_entries [] = []"
| "sanitize_entries ((k, v) # d) =
     (let s = sanitize_metadata v k in
      if s = PNone then sanitize_entries d else (k, s) # sanitize_entries d)"
| "sanitize_list [] key = []"
| "sanitize_list (v # vs) key =
     (let s = sanitize_metadata v key in
      if s = PNone then sanitize_list vs key else s # sanitize_list vs key)"

subsection \<open>Budgets and results\<close>

record InferenceBudget =
  ib_max_input_tokens :: int
  ib_max_output_tokens :: int
  ib_max_cost :: int
  ib_deadline_ms :: int
  ib_max_response_bytes :: int
  ib_candidate_id :: string
  ib_purpose :: string
  ib_retry_attempt :: int
  ib_run_id :: string
  ib_attempt_id :: string

text \<open>\<open>InferenceBudget.__post_init__\<close>: the first field that is out of range is reported.\<close>

definition check_budget :: "InferenceBudget \<Rightarrow> InferenceBudget result" where
  "check_budget b =
     (let bad = (\<lambda>name. Inl (ValueError (''INFERENCE_BUDGET_INVALID:'' @ name))) in
      if ib_max_input_tokens b < 0 then bad ''max_input_tokens''
      else if ib_max_output_tokens b < 0 then bad ''max_output_tokens''
      else if ib_deadline_ms b < 0 then bad ''deadline_ms''
      else if ib_max_response_bytes b < 0 then bad ''max_response_bytes''
      else if ib_retry_attempt b < 0 then bad ''retry_attempt''
      else if ib_max_cost b < 0 then Inl (ValueError ''COST_INVALID'')
      else if ib_purpose b = [] \<or> length (ib_purpose b) > 80 then bad ''purpose''
      else if length (ib_candidate_id b) > 160 then bad ''candidate_id''
      else if length (ib_run_id b) > 200 then bad ''run_id''
      else if length (ib_attempt_id b) > 200 then bad ''attempt_id''
      else Inr b)"

datatype provider_status = Success | Deferred | Failed | Disabled

record ProviderResult =
  pv_provider_id :: string
  pv_status :: provider_status
  pv_output :: "pydict option"
  pv_error_code :: "string option"
  pv_retry_after_seconds :: "int option"
  pv_next_eligible_at :: "int option"
  pv_input_tokens :: int
  pv_output_tokens :: int
  pv_cost :: int
  pv_repaired :: bool
  pv_attempt :: int
  pv_schema_name :: string
  pv_metadata :: pydict
  pv_admission_refused :: bool

definition blank_result :: "string \<Rightarrow> provider_status \<Rightarrow> ProviderResult" where
  "blank_result provider_id status = \<lparr>pv_provider_id = provider_id, pv_status = status,
     pv_output = None, pv_error_code = None, pv_retry_after_seconds = None, pv_next_eligible_at = None,
     pv_input_tokens = 0, pv_output_tokens = 0, pv_cost = 0, pv_repaired = False, pv_attempt = 1,
     pv_schema_name = [], pv_metadata = [], pv_admission_refused = False\<rparr>"

text \<open>\<open>ProviderResult.__post_init__\<close>: checks, then the metadata are sanitized.\<close>

definition make_result :: "ProviderResult \<Rightarrow> ProviderResult result" where
  "make_result r =
     (if pv_provider_id r = [] \<or> length (pv_provider_id r) > 100
        then Inl (ValueError ''PROVIDER_RESULT_PROVIDER_ID_INVALID'')
      else if pv_input_tokens r < 0 then Inl (ValueError ''PROVIDER_RESULT_INPUT_TOKENS_INVALID'')
      else if pv_output_tokens r < 0 then Inl (ValueError ''PROVIDER_RESULT_OUTPUT_TOKENS_INVALID'')
      else if pv_attempt r < 0 then Inl (ValueError ''PROVIDER_RESULT_ATTEMPT_INVALID'')
      else if (case pv_retry_after_seconds r of None \<Rightarrow> False | Some n \<Rightarrow> n < 0)
        then Inl (ValueError ''PROVIDER_RESULT_RETRY_AFTER_INVALID'')
      else if pv_cost r < 0 then Inl (ValueError ''COST_INVALID'')
      else Inr (r\<lparr>pv_metadata := (case sanitize_metadata (PDict (pv_metadata r)) [] of
          PDict d \<Rightarrow> d | _ \<Rightarrow> [])\<rparr>))"

definition result_ok :: "ProviderResult \<Rightarrow> bool" where
  "result_ok r \<longleftrightarrow> pv_status r = Success"

definition reason_code :: "ProviderResult \<Rightarrow> string" where
  "reason_code r = (case pv_error_code r of
       Some c \<Rightarrow> if c \<noteq> [] then c else if result_ok r then ''OK'' else ''PROVIDER_FAILED''
     | None \<Rightarrow> if result_ok r then ''OK'' else ''PROVIDER_FAILED'')"

subsection \<open>Backoff and classification of failures\<close>

definition BACKOFF_SECONDS :: "int list" where
  "BACKOFF_SECONDS = [300, 900, 3600, 21600]"

definition seconds_us :: "int \<Rightarrow> int" where
  "seconds_us n = n * 1000000"

definition backoff :: "int \<Rightarrow> int" where
  "backoff attempt = BACKOFF_SECONDS ! nat (min attempt (int (length BACKOFF_SECONDS) - 1))"

definition next_eligible_at :: "int \<Rightarrow> int option \<Rightarrow> int \<Rightarrow> int result" where
  "next_eligible_at now retry_after_seconds attempt =
     (if attempt < 0 then Inl (ValueError ''RETRY_ATTEMPT_INVALID'')
      else case retry_after_seconds of
          None \<Rightarrow> Inr (now + seconds_us (backoff attempt))
        | Some n \<Rightarrow> if n < 0 then Inl (ValueError ''RETRY_AFTER_INVALID'')
            else Inr (now + seconds_us (max n (backoff attempt))))"

definition mentions :: "string list \<Rightarrow> string \<Rightarrow> bool" where
  "mentions markers text \<longleftrightarrow> list_ex (\<lambda>marker. contains marker text) markers"

text \<open>The tests are tried in this order; the first that matches decides.\<close>

definition classify_provider_error ::
  "int \<Rightarrow> string \<Rightarrow> int option \<Rightarrow> string \<Rightarrow> int \<Rightarrow> int \<Rightarrow> string \<Rightarrow> ProviderResult result" where
  "classify_provider_error exit_code stderr retry_after_seconds provider_id now attempt schema_name =
     (let text = casefold stderr;
          base = (blank_result provider_id Failed)\<lparr>pv_schema_name := schema_name, pv_attempt := max 1 (attempt + 1)\<rparr>;
          deferred = (\<lambda>code. rbind (next_eligible_at now retry_after_seconds attempt) (\<lambda>t.
            make_result (base\<lparr>pv_status := Deferred, pv_error_code := Some code,
              pv_retry_after_seconds := retry_after_seconds, pv_next_eligible_at := Some t\<rparr>)))
      in if exit_code \<in> {401, 403} \<or> mentions [''unauthorized'', ''authentication'', ''invalid api key'',
              ''permission denied'', ''forbidden''] text
           then make_result (base\<lparr>pv_status := Disabled, pv_error_code := Some ''AUTH_FAILED''\<rparr>)
         else if exit_code \<in> {429, 430} \<or> mentions [''quota'', ''resource exhausted'', ''credits exhausted'',
              ''usage limit'', ''monthly limit'', ''daily limit''] text
           then deferred ''QUOTA_EXHAUSTED''
         else if mentions [''rate limit'', ''too many requests'', ''retry-after'', ''temporarily throttled''] text
           then deferred ''RATE_LIMITED''
         else if exit_code \<in> {124, 408} \<or> mentions [''timed out'', ''timeout'', ''deadline exceeded''] text
           then make_result (base\<lparr>pv_status := Failed, pv_error_code := Some ''PROVIDER_TIMEOUT''\<rparr>)
         else if mentions [''json'', ''malformed'', ''parse error'', ''invalid response'', ''unexpected token''] text
           then make_result (base\<lparr>pv_status := Failed, pv_error_code := Some ''MALFORMED_RESPONSE''\<rparr>)
         else make_result (base\<lparr>pv_status := Failed, pv_error_code := Some ''PROVIDER_UNAVAILABLE''\<rparr>))"

subsection \<open>Sanitized telemetry\<close>

text \<open>No forbidden key at any depth, and no entry without a value.\<close>

fun clean :: "pyval \<Rightarrow> bool" and clean_entries :: "(string \<times> pyval) list \<Rightarrow> bool"
  and clean_list :: "pyval list \<Rightarrow> bool" where
  "clean (PDict d) = clean_entries d"
| "clean (PList xs) = clean_list xs"
| "clean (PTuple xs) = False"
| "clean v = True"
| "clean_entries [] = True"
| "clean_entries ((k, v) # d) = (\<not> forbidden_key k \<and> v \<noteq> PNone \<and> clean v \<and> clean_entries d)"
| "clean_list [] = True"
| "clean_list (v # vs) = (v \<noteq> PNone \<and> clean v \<and> clean_list vs)"

lemma sanitize_forbidden: "forbidden_key key \<Longrightarrow> sanitize_metadata v key = PNone"
  by (cases v) simp_all

lemma sanitize_clean:
  "clean (sanitize_metadata v key)"
  "clean_entries (sanitize_entries d)"
  "clean_list (sanitize_list vs key')"
proof (induction v key and d and vs key' rule: sanitize_metadata_sanitize_entries_sanitize_list.induct)
qed (auto simp: Let_def dest: sanitize_forbidden)

lemma sanitize_idempotent:
  "sanitize_metadata (sanitize_metadata v key) key = sanitize_metadata v key"
  "sanitize_entries (sanitize_entries d) = sanitize_entries d"
  "sanitize_list (sanitize_list vs key') key' = sanitize_list vs key'"
proof (induction v key and d and vs key' rule: sanitize_metadata_sanitize_entries_sanitize_list.induct)
qed (auto simp: Let_def)

subsection \<open>Properties\<close>

text \<open>
  A provider result that is accepted carries sanitized telemetry: no key that could name a
  prompt, a response, a transcript or a secret survives at any depth of its metadata, its counts are
  not negative, everything but the metadata is as given, and accepting it again changes nothing.
\<close>

theorem accepted_result_is_sanitized:
  assumes "make_result r = Inr r'"
  shows "clean (PDict (pv_metadata r')) \<and> 0 \<le> pv_input_tokens r' \<and> 0 \<le> pv_output_tokens r' \<and> 0 \<le> pv_cost r'
    \<and> r' = r\<lparr>pv_metadata := pv_metadata r'\<rparr> \<and> make_result r' = Inr r'"
proof -
  have top: "\<not> forbidden_key []" by code_simp
  then have r': "r' = r\<lparr>pv_metadata := sanitize_entries (pv_metadata r)\<rparr>"
    using assms by (auto simp: make_result_def split: if_splits)
  moreover have "make_result r' = Inr r'"
    using assms top unfolding r'
    by (auto simp: make_result_def sanitize_idempotent split: if_splits)
  ultimately show ?thesis
    using assms by (auto simp: make_result_def sanitize_clean split: if_splits)
qed

definition telemetry :: ProviderResult where
  "telemetry = (blank_result ''ollama'' Success)\<lparr>pv_metadata :=
     [(''usage_known'', PBool True), (''Prompt_Text'', PStr ''x''),
      (''nested'', PDict [(''api_key'', PStr ''k''), (''ms'', PInt 4)])]\<rparr>"

theorem accepted_result_is_sanitized_witness:
  "\<exists>r'. make_result telemetry = Inr r' \<and> clean (PDict (pv_metadata r'))
     \<and> pv_metadata r' = [(''usage_known'', PBool True), (''nested'', PDict [(''ms'', PInt 4)])]"
proof -
  have "\<not> isl (make_result telemetry)" "pv_metadata (projr (make_result telemetry))
      = [(''usage_known'', PBool True), (''nested'', PDict [(''ms'', PInt 4)])]" by code_simp+
  then obtain r' where "make_result telemetry = Inr r'"
    "pv_metadata r' = [(''usage_known'', PBool True), (''nested'', PDict [(''ms'', PInt 4)])]"
    by (cases "make_result telemetry") auto
  then show ?thesis using accepted_result_is_sanitized by blast
qed

lemma backoff_cases: "0 \<le> attempt \<Longrightarrow> backoff attempt \<in> set BACKOFF_SECONDS"
  unfolding backoff_def by (rule nth_mem) (simp add: BACKOFF_SECONDS_def)

lemma backoff_bounds: "0 \<le> attempt \<Longrightarrow> 300 \<le> backoff attempt \<and> backoff attempt \<le> 21600"
  using backoff_cases [of attempt] by (auto simp: BACKOFF_SECONDS_def)

lemma make_result_blank: "make_result b = Inr r \<Longrightarrow> pv_metadata b = [] \<Longrightarrow> r = b"
  by (auto simp: make_result_def split: if_splits)

lemma next_eligible_bounds:
  assumes "next_eligible_at now retry_after attempt = Inr t" "0 \<le> attempt"
  shows "now + seconds_us 300 \<le> t \<and> (case retry_after of None \<Rightarrow> t \<le> now + seconds_us 21600
              | Some n \<Rightarrow> 0 \<le> n \<and> now + seconds_us n \<le> t)"
  using assms backoff_bounds [OF assms(2)]
  by (auto simp: next_eligible_at_def seconds_us_def split: option.splits if_splits)

lemma classified_cases:
  assumes "classify_provider_error exit_code stderr retry_after provider_id now attempt schema_name = Inr r"
  defines "base \<equiv> (blank_result provider_id Failed)\<lparr>pv_schema_name := schema_name, pv_attempt := max 1 (attempt + 1)\<rparr>"
  obtains (fixed) st code where "r = base\<lparr>pv_status := st, pv_error_code := Some code\<rparr>"
      "(st, code) \<in> {(Disabled, ''AUTH_FAILED''), (Failed, ''PROVIDER_TIMEOUT''),
         (Failed, ''MALFORMED_RESPONSE''), (Failed, ''PROVIDER_UNAVAILABLE'')}"
    | (later) code t where "r = base\<lparr>pv_status := Deferred, pv_error_code := Some code,
         pv_retry_after_seconds := retry_after, pv_next_eligible_at := Some t\<rparr>"
      "code \<in> {''QUOTA_EXHAUSTED'', ''RATE_LIMITED''}" "next_eligible_at now retry_after attempt = Inr t"
proof -
  have base: "pv_metadata (base\<lparr>pv_status := st, pv_error_code := e\<rparr>) = []" for st e
    by (simp add: base_def blank_result_def)
  consider (a) st code where "make_result (base\<lparr>pv_status := st, pv_error_code := Some code\<rparr>) = Inr r"
      "(st, code) \<in> {(Disabled, ''AUTH_FAILED''), (Failed, ''PROVIDER_TIMEOUT''),
         (Failed, ''MALFORMED_RESPONSE''), (Failed, ''PROVIDER_UNAVAILABLE'')}"
    | (b) code t where "make_result (base\<lparr>pv_status := Deferred, pv_error_code := Some code,
         pv_retry_after_seconds := retry_after, pv_next_eligible_at := Some t\<rparr>) = Inr r"
      "code \<in> {''QUOTA_EXHAUSTED'', ''RATE_LIMITED''}" "next_eligible_at now retry_after attempt = Inr t"
    using assms(1) unfolding classify_provider_error_def Let_def base_def [symmetric]
    by (auto simp: rbind_eq_Inr split: if_split_asm)
  then show thesis
  proof cases
    case a
    then show thesis using fixed make_result_blank base by metis
  next
    case b
    have "r = base\<lparr>pv_status := Deferred, pv_error_code := Some code,
         pv_retry_after_seconds := retry_after, pv_next_eligible_at := Some t\<rparr>"
      by (rule make_result_blank [OF b(1)]) (simp add: base_def blank_result_def)
    then show thesis using b(2,3) by (rule later)
  qed
qed

text \<open>
  A failed provider call is classified into one of the six codes, with the provider and schema
  it came from and no usage claimed. It is deferred exactly for quota and rate limits; then it
  carries the instant from which it may be tried again, at least five minutes away, never before
  the provider's own retry time, and at most six hours away when the provider gave none.
\<close>

theorem classification_of_failures:
  assumes "classify_provider_error exit_code stderr retry_after provider_id now attempt schema_name = Inr r"
    and "0 \<le> attempt"
  shows "pv_provider_id r = provider_id \<and> pv_schema_name r = schema_name \<and> \<not> result_ok r
    \<and> pv_input_tokens r = 0 \<and> pv_output_tokens r = 0 \<and> pv_cost r = 0 \<and> pv_attempt r = attempt + 1
    \<and> reason_code r \<in> {''AUTH_FAILED'', ''QUOTA_EXHAUSTED'', ''RATE_LIMITED'', ''PROVIDER_TIMEOUT'',
         ''MALFORMED_RESPONSE'', ''PROVIDER_UNAVAILABLE''}
    \<and> (pv_status r = Deferred \<longleftrightarrow> reason_code r \<in> {''QUOTA_EXHAUSTED'', ''RATE_LIMITED''})
    \<and> (pv_status r = Disabled \<longleftrightarrow> reason_code r = ''AUTH_FAILED'')
    \<and> (case pv_next_eligible_at r of
         None \<Rightarrow> pv_status r \<noteq> Deferred
       | Some t \<Rightarrow> pv_status r = Deferred \<and> now + seconds_us 300 \<le> t
           \<and> (case retry_after of None \<Rightarrow> t \<le> now + seconds_us 21600
              | Some n \<Rightarrow> 0 \<le> n \<and> now + seconds_us n \<le> t))"
  using assms(1)
proof (cases rule: classified_cases)
  case (fixed st code)
  then show ?thesis using assms(2) by (auto simp: blank_result_def reason_code_def result_ok_def)
next
  case (later code t)
  then show ?thesis
    using assms(2) next_eligible_bounds [OF later(3) assms(2)]
    by (auto simp: blank_result_def reason_code_def result_ok_def)
qed

theorem classification_of_failures_witness:
  "\<exists>r. classify_provider_error 1 ''Too Many Requests'' (Some 1200) ''claude-cli'' 0 2 ''gate'' = Inr r
     \<and> reason_code r = ''RATE_LIMITED'' \<and> pv_next_eligible_at r = Some (seconds_us 3600)
     \<and> pv_attempt r = 3 \<and> \<not> result_ok r"
proof -
  let ?c = "classify_provider_error 1 ''Too Many Requests'' (Some 1200) ''claude-cli'' 0 2 ''gate''"
  have "\<not> isl ?c" "reason_code (projr ?c) = ''RATE_LIMITED''"
    "pv_next_eligible_at (projr ?c) = Some (seconds_us 3600)" by code_simp+
  then obtain r where "?c = Inr r" "reason_code r = ''RATE_LIMITED''"
    "pv_next_eligible_at r = Some (seconds_us 3600)" by (cases ?c) auto
  then show ?thesis using classification_of_failures [of 1 _ _ _ _ 2] by auto
qed

end
