(* ===== verification/Budget_Ledger.thy ===== *)
theory Budget_Ledger
  imports Provider_Base
begin

section \<open>The inference budget ledger\<close>

text \<open>
  \<^verbatim>\<open>src/src/ei/inference/budget.py\<close>: the machine-local ledger that admits or refuses every
  provider call. Three dictionaries of counters (per provider, day and purpose; per run; per
  candidate) and a dictionary of reservations, read, checked and rewritten under one file lock, so an
  operation is a function on the ledger. Costs are integers in units of \<open>10 ^ -8\<close>; a day is the UTC
  date text of the instant of the call. The operation budget (a deadline on the call itself) and the
  lock file are not modelled.
\<close>

subsection \<open>Policy\<close>

record BudgetPolicy =
  bp_mode :: string
  bp_per_run_input_tokens :: int
  bp_per_run_output_tokens :: int
  bp_per_run_cost :: int
  bp_per_day_input_tokens :: int
  bp_per_day_output_tokens :: int
  bp_per_day_cost :: int
  bp_per_candidate_input_tokens :: int
  bp_per_candidate_output_tokens :: int
  bp_per_candidate_cost :: int
  bp_retry_limit :: int
  bp_deadline_ms :: int
  bp_max_response_bytes :: int
  bp_backoff_seconds :: "int list"
  bp_cloud_api_enabled :: bool
  bp_cloud_spend_cap :: int

definition default_policy :: BudgetPolicy where
  "default_policy = \<lparr>bp_mode = ''local_first_subscription_only'', bp_per_run_input_tokens = 20000,
     bp_per_run_output_tokens = 4000, bp_per_run_cost = 0, bp_per_day_input_tokens = 100000,
     bp_per_day_output_tokens = 20000, bp_per_day_cost = 0, bp_per_candidate_input_tokens = 12000,
     bp_per_candidate_output_tokens = 3000, bp_per_candidate_cost = 0, bp_retry_limit = 4,
     bp_deadline_ms = 120000, bp_max_response_bytes = 262144, bp_backoff_seconds = BACKOFF_SECONDS,
     bp_cloud_api_enabled = False, bp_cloud_spend_cap = 0\<rparr>"

text \<open>
  \<open>BudgetPolicy.from_mapping\<close> with the checks of \<open>__post_init__\<close>. \<open>py_str\<close> stands for \<open>str(value)\<close>.
  A missing value takes the default, and so does an explicit \<open>null\<close> where an integer is expected.
\<close>

definition policy_int :: "pyval \<Rightarrow> string \<Rightarrow> int \<Rightarrow> int result" where
  "policy_int value name dflt = (case value of
       PInt n \<Rightarrow> if n < 0 then Inl (ValueError (''BUDGET_POLICY_INVALID:'' @ name)) else Inr n
     | PNone \<Rightarrow> Inr dflt
     | _ \<Rightarrow> Inl (ValueError (''BUDGET_POLICY_INVALID:'' @ name)))"

definition int_entry :: "pydict \<Rightarrow> string \<Rightarrow> string \<Rightarrow> int \<Rightarrow> int result" where
  "int_entry section key name dflt = policy_int (get_default section key (PInt dflt)) name dflt"

definition num_eq :: "pyval \<Rightarrow> int \<Rightarrow> bool" where
  "num_eq v n = (case v of PInt m \<Rightarrow> m = n | PBool b \<Rightarrow> (if b then 1 else 0) = n
     | PFloat r \<Rightarrow> r = of_int n | _ \<Rightarrow> False)"

definition section_of :: "pydict \<Rightarrow> string \<Rightarrow> pydict option" where
  "section_of d key = (case get_default d key (PDict []) of PDict s \<Rightarrow> Some s | _ \<Rightarrow> None)"

definition backoff_list :: "pyval list \<Rightarrow> int list option" where
  "backoff_list xs = (if xs \<noteq> [] \<and> list_all (\<lambda>v. case v of PInt n \<Rightarrow> 0 \<le> n | _ \<Rightarrow> False) xs
     then Some (map (\<lambda>v. case v of PInt n \<Rightarrow> n | _ \<Rightarrow> 0) xs) else None)"

definition policy_from_sections ::
  "(pyval \<Rightarrow> rat option) \<Rightarrow> (pyval \<Rightarrow> string) \<Rightarrow> pydict \<Rightarrow> pydict \<Rightarrow> pydict \<Rightarrow> pydict \<Rightarrow> pydict \<Rightarrow> pydict
     \<Rightarrow> pydict \<Rightarrow> pydict \<Rightarrow> pyval list \<Rightarrow> BudgetPolicy result" where
  "policy_from_sections decimal py_str value run day candidate retry deadline cloud subscription delays0 =
     rbind (int_entry run ''input_tokens'' ''per_run_input_tokens'' 20000) (\<lambda>run_in.
     rbind (int_entry run ''output_tokens'' ''per_run_output_tokens'' 4000) (\<lambda>run_out.
     rbind (int_entry day ''input_tokens'' ''per_day_input_tokens'' 100000) (\<lambda>day_in.
     rbind (int_entry day ''output_tokens'' ''per_day_output_tokens'' 20000) (\<lambda>day_out.
     rbind (int_entry candidate ''input_tokens'' ''per_candidate_input_tokens'' 12000) (\<lambda>cand_in.
     rbind (int_entry candidate ''output_tokens'' ''per_candidate_output_tokens'' 3000) (\<lambda>cand_out.
     rbind (int_entry retry ''max_attempts'' ''retry_limit'' 4) (\<lambda>limit.
     rbind (int_entry deadline ''max_ms'' ''deadline_ms'' 120000) (\<lambda>max_ms.
     rbind (int_entry deadline ''max_response_bytes'' ''max_response_bytes'' 262144) (\<lambda>max_bytes.
     let mode = py_str (get_default value ''mode'' (PStr ''local_first_subscription_only'')) in
     if \<not> num_eq (get_default value ''schema_version'' (PInt 1)) 1
       then Inl (ValueError ''BUDGET_POLICY_SCHEMA_UNSUPPORTED'')
     else if mode = [] then Inl (ValueError ''BUDGET_POLICY_MODE_REQUIRED'')
     else
       rbind (decimal_cost decimal (get_default run ''cost'' (PStr ''0''))) (\<lambda>run_cost.
       rbind (decimal_cost decimal (get_default day ''cost'' (PStr ''0''))) (\<lambda>day_cost.
       rbind (decimal_cost decimal (get_default candidate ''cost'' (PStr ''0''))) (\<lambda>cand_cost.
       rbind (decimal_cost decimal (get_default cloud ''spend_cap''
                (get_default value ''cloud_spend_cap'' (PStr ''0'')))) (\<lambda>cap.
       case backoff_list delays0 of
         None \<Rightarrow> Inl (ValueError ''BUDGET_POLICY_INVALID:backoff_seconds'')
       | Some delays \<Rightarrow>
           if py_str (get_default subscription ''on_quota'' (PStr ''DEFERRED_QUOTA'')) \<noteq> ''DEFERRED_QUOTA''
             then Inl (ValueError ''BUDGET_POLICY_INVALID:subscription_on_quota'')
           else Inr \<lparr>bp_mode = mode, bp_per_run_input_tokens = run_in, bp_per_run_output_tokens = run_out,
             bp_per_run_cost = run_cost, bp_per_day_input_tokens = day_in, bp_per_day_output_tokens = day_out,
             bp_per_day_cost = day_cost, bp_per_candidate_input_tokens = cand_in,
             bp_per_candidate_output_tokens = cand_out, bp_per_candidate_cost = cand_cost,
             bp_retry_limit = limit, bp_deadline_ms = max_ms, bp_max_response_bytes = max_bytes,
             bp_backoff_seconds = delays,
             bp_cloud_api_enabled = truthy (get_default cloud ''enabled'' (PBool False)),
             bp_cloud_spend_cap = cap\<rparr>)))))))))))))"

fun policy_from_mapping ::
  "(pyval \<Rightarrow> rat option) \<Rightarrow> (pyval \<Rightarrow> string) \<Rightarrow> pyval \<Rightarrow> BudgetPolicy result" where
  "policy_from_mapping decimal py_str (PDict value) =
     (case section_of value ''limits'' of
        None \<Rightarrow> Inl (ValueError ''BUDGET_POLICY_INVALID:limits'')
      | Some limits \<Rightarrow>
          (case (section_of limits ''per_run'', section_of limits ''per_day'', section_of limits ''per_candidate'',
                 section_of value ''retry'', section_of value ''deadline'', section_of value ''cloud_api'',
                 section_of value ''subscription'') of
             (Some run, Some day, Some candidate, Some retry, Some deadline, Some cloud, Some subscription) \<Rightarrow>
               (case seq_items (get_default retry ''backoff_seconds'' (PTuple (map PInt BACKOFF_SECONDS))) of
                  None \<Rightarrow> Inl (ValueError ''BUDGET_POLICY_INVALID:backoff_seconds'')
                | Some delays0 \<Rightarrow> policy_from_sections decimal py_str value run day candidate retry deadline
                    cloud subscription delays0)
           | _ \<Rightarrow> Inl (ValueError ''BUDGET_POLICY_INVALID:section'')))"
| "policy_from_mapping decimal py_str _ = Inl (ValueError ''BUDGET_POLICY_OBJECT_REQUIRED'')"

subsection \<open>The ledger\<close>

record counter =
  ct_input :: int
  ct_output :: int
  ct_cost :: int
  ct_day :: string

record reservation =
  rv_provider_id :: string
  rv_day :: string
  rv_entry_key :: string
  rv_run_key :: string
  rv_candidate_key :: string
  rv_input :: int
  rv_output :: int
  rv_cost :: int
  rv_settled :: bool

record budget_data =
  bd_entries :: "counter dict"
  bd_runs :: "counter dict"
  bd_candidates :: "counter dict"
  bd_reservations :: "reservation dict"

definition new_counter :: counter where
  "new_counter = \<lparr>ct_input = 0, ct_output = 0, ct_cost = 0, ct_day = []\<rparr>"

definition add_counter :: "counter \<Rightarrow> int \<Rightarrow> int \<Rightarrow> int \<Rightarrow> string \<Rightarrow> counter" where
  "add_counter c input_tokens output_tokens cost day = \<lparr>ct_input = ct_input c + input_tokens,
     ct_output = ct_output c + output_tokens, ct_cost = ct_cost c + cost, ct_day = day\<rparr>"

text \<open>\<open>_read\<close>: a ledger with a negative count or cost is refused as a whole.\<close>

definition counter_ok :: "counter \<Rightarrow> bool" where
  "counter_ok c \<longleftrightarrow> 0 \<le> ct_input c \<and> 0 \<le> ct_output c \<and> 0 \<le> ct_cost c"

definition read_ledger :: "budget_data \<Rightarrow> budget_data result" where
  "read_ledger data =
     (if list_all (\<lambda>(_, c). counter_ok c) (bd_entries data @ bd_runs data @ bd_candidates data)
      then Inr data else Inl (ValueError ''BUDGET_LEDGER_SCHEMA_INVALID''))"

text \<open>\<open>_counter\<close>: a counter of another day counts as fresh.\<close>

definition counter_of :: "counter option \<Rightarrow> string \<Rightarrow> counter" where
  "counter_of value day = (case value of None \<Rightarrow> new_counter
     | Some c \<Rightarrow> if ct_day c = day then c else new_counter)"

record BudgetLedger =
  bl_policy :: BudgetPolicy
  bl_run_id :: string
  bl_candidate_id :: string
  bl_purpose :: string
  bl_disabled_providers :: "string list"

record BudgetResult =
  br_allowed :: bool
  br_reason_code :: string
  br_provider_id :: string
  br_purpose :: string
  br_input_tokens :: int
  br_output_tokens :: int
  br_cost :: int
  br_run_input_tokens :: int
  br_day_input_tokens :: int
  br_candidate_input_tokens :: int
  br_run_cost :: int
  br_day_cost :: int
  br_candidate_cost :: int
  br_remaining :: pydict

text \<open>The arguments of a call of \<open>consume\<close>; the instant enters as its UTC day.\<close>

record charge =
  ch_provider_id :: string
  ch_input :: int
  ch_output :: int
  ch_cost :: int
  ch_day :: string
  ch_purpose :: "string option"
  ch_candidate_id :: "string option"
  ch_run_id :: "string option"
  ch_deadline_ms :: "int option"
  ch_attempt_id :: "string option"

definition safe_id :: "string \<Rightarrow> string result" where
  "safe_id value = (if value = [] \<or> length value > 200 then Inl (ValueError ''BUDGET_ID_INVALID'') else Inr value)"

text \<open>\<open>value or fallback\<close>\<close>

definition or_else :: "string option \<Rightarrow> string \<Rightarrow> string" where
  "or_else value fallback = (case value of Some v \<Rightarrow> if v = [] then fallback else v | None \<Rightarrow> fallback)"

definition entry_key_of :: "charge \<Rightarrow> string \<Rightarrow> string" where
  "entry_key_of c purpose = ch_provider_id c @ ''|'' @ ch_day c @ ''|'' @ purpose"

definition run_key_of :: "charge \<Rightarrow> string \<Rightarrow> string \<Rightarrow> string" where
  "run_key_of c run purpose = run @ ''|'' @ ch_provider_id c @ ''|'' @ purpose"

definition candidate_key_of :: "(string \<Rightarrow> string) \<Rightarrow> string \<Rightarrow> string" where
  "candidate_key_of sha256 candidate = sha256 (if candidate = [] then ''<none>'' else candidate)"

text \<open>The totals that limits are checked against: all entries of the day, all counters of the run.\<close>

definition total :: "(string \<Rightarrow> counter \<Rightarrow> bool) \<Rightarrow> counter dict \<Rightarrow> string \<Rightarrow> counter" where
  "total test d day = \<lparr>ct_input = dict_sum test ct_input d, ct_output = dict_sum test ct_output d,
     ct_cost = dict_sum test ct_cost d, ct_day = day\<rparr>"

definition day_total :: "budget_data \<Rightarrow> string \<Rightarrow> counter" where
  "day_total data day = total (\<lambda>_ c. ct_day c = day) (bd_entries data) day"

definition run_total :: "budget_data \<Rightarrow> string \<Rightarrow> string \<Rightarrow> counter" where
  "run_total data run day = total (\<lambda>key _. starts_with (run @ ''|'') key) (bd_runs data) day"

definition attempts_of :: "budget_data \<Rightarrow> string \<Rightarrow> string \<Rightarrow> int" where
  "attempts_of data day candidate_key = int (length (filter
     (\<lambda>(_, r). rv_day r = day \<and> rv_candidate_key r = candidate_key) (bd_reservations data)))"

text \<open>The refusals, in the order they are tried, with the scope reported.\<close>

definition refusal ::
  "BudgetPolicy \<Rightarrow> charge \<Rightarrow> int \<Rightarrow> counter \<Rightarrow> counter \<Rightarrow> counter \<Rightarrow> (string \<times> string option) option" where
  "refusal policy c attempts next_run next_day next_candidate =
     (if ch_attempt_id c \<noteq> None \<and> attempts \<ge> bp_retry_limit policy then Some (''ATTEMPT_CAP_EXCEEDED'', None)
      else if ct_input next_run > bp_per_run_input_tokens policy
              \<or> ct_output next_run > bp_per_run_output_tokens policy
        then Some (''TOKEN_CAP_EXCEEDED'', Some ''per_run'')
      else if ct_input next_day > bp_per_day_input_tokens policy
              \<or> ct_output next_day > bp_per_day_output_tokens policy
        then Some (''TOKEN_CAP_EXCEEDED'', Some ''per_day'')
      else if ct_input next_candidate > bp_per_candidate_input_tokens policy
              \<or> ct_output next_candidate > bp_per_candidate_output_tokens policy
        then Some (''TOKEN_CAP_EXCEEDED'', Some ''per_candidate'')
      else if ct_cost next_run > bp_per_run_cost policy then Some (''COST_CAP_EXCEEDED'', Some ''per_run'')
      else if ct_cost next_day > bp_per_day_cost policy then Some (''COST_CAP_EXCEEDED'', Some ''per_day'')
      else if ct_cost next_candidate > bp_per_candidate_cost policy
        then Some (''COST_CAP_EXCEEDED'', Some ''per_candidate'')
      else if ch_provider_id c = ''cloud-api'' \<and> (\<not> bp_cloud_api_enabled policy
              \<or> ch_cost c > bp_cloud_spend_cap policy \<or> ct_cost next_day > bp_cloud_spend_cap policy)
        then Some (''PROVIDER_DISABLED'', Some ''cloud_api'')
      else None)"

definition budget_result ::
  "bool \<Rightarrow> string \<Rightarrow> charge \<Rightarrow> string \<Rightarrow> counter \<Rightarrow> counter \<Rightarrow> counter \<Rightarrow> pydict \<Rightarrow> BudgetResult" where
  "budget_result allowed reason c purpose run day candidate remaining = \<lparr>
     br_allowed = allowed, br_reason_code = reason, br_provider_id = ch_provider_id c, br_purpose = purpose,
     br_input_tokens = ch_input c, br_output_tokens = ch_output c, br_cost = ch_cost c,
     br_run_input_tokens = ct_input run, br_day_input_tokens = ct_input day,
     br_candidate_input_tokens = ct_input candidate,
     br_run_cost = ct_cost run, br_day_cost = ct_cost day, br_candidate_cost = ct_cost candidate,
     br_remaining = remaining\<rparr>"

definition charged ::
  "budget_data \<Rightarrow> charge \<Rightarrow> string \<Rightarrow> string \<Rightarrow> string \<Rightarrow> budget_data" where
  "charged data c entry_key run_key candidate_key =
     (let entry = counter_of (map_of (bd_entries data) entry_key) (ch_day c);
          run = (case map_of (bd_runs data) run_key of None \<Rightarrow> new_counter | Some r \<Rightarrow> r);
          candidate = counter_of (map_of (bd_candidates data) candidate_key) (ch_day c);
          add = (\<lambda>k. add_counter k (ch_input c) (ch_output c) (ch_cost c) (ch_day c))
      in data\<lparr>
        bd_entries := dict_set entry_key (add entry) (bd_entries data),
        bd_runs := dict_set run_key (add run) (bd_runs data),
        bd_candidates := dict_set candidate_key (add candidate) (bd_candidates data),
        bd_reservations := (case ch_attempt_id c of
            None \<Rightarrow> bd_reservations data
          | Some attempt \<Rightarrow> dict_set attempt
              \<lparr>rv_provider_id = ch_provider_id c, rv_day = ch_day c, rv_entry_key = entry_key,
               rv_run_key = run_key, rv_candidate_key = candidate_key, rv_input = ch_input c,
               rv_output = ch_output c, rv_cost = ch_cost c, rv_settled = False\<rparr>
              (bd_reservations data))\<rparr>)"

text \<open>The section under the lock, for a purpose, run and candidate that have been selected.\<close>

definition consume_locked ::
  "(string \<Rightarrow> string) \<Rightarrow> BudgetPolicy \<Rightarrow> budget_data \<Rightarrow> charge \<Rightarrow> string \<Rightarrow> string \<Rightarrow> string
     \<Rightarrow> (budget_data \<times> BudgetResult) result" where
  "consume_locked sha256 policy data0 c purpose run_id candidate_id =
     rbind (read_ledger data0) (\<lambda>data.
     if (case ch_attempt_id c of None \<Rightarrow> False | Some a \<Rightarrow> has_key (bd_reservations data) a) then
       Inr (data, budget_result False ''ATTEMPT_ALREADY_RESERVED'' c purpose new_counter new_counter new_counter [])
     else
       let entry_key = entry_key_of c purpose; run_key = run_key_of c run_id purpose;
           candidate_key = candidate_key_of sha256 candidate_id;
           entry = counter_of (map_of (bd_entries data) entry_key) (ch_day c);
           run = (case map_of (bd_runs data) run_key of None \<Rightarrow> new_counter | Some r \<Rightarrow> r);
           candidate = counter_of (map_of (bd_candidates data) candidate_key) (ch_day c);
           add = (\<lambda>k. add_counter k (ch_input c) (ch_output c) (ch_cost c) (ch_day c));
           next_run = add (run_total data run_id (ch_day c));
           next_day = add (day_total data (ch_day c));
           next_candidate = add candidate
       in case refusal policy c (attempts_of data (ch_day c) candidate_key) next_run next_day next_candidate of
            Some (reason, scope) \<Rightarrow>
              Inr (data, budget_result False reason c purpose run entry candidate
                (case scope of None \<Rightarrow> [] | Some s \<Rightarrow> [(''scope'', PStr s)]))
          | None \<Rightarrow>
              Inr (charged data c entry_key run_key candidate_key,
                budget_result True ''ALLOW'' c purpose next_run next_day next_candidate
                  [(''per_run_input_tokens'', PInt (max 0 (bp_per_run_input_tokens policy - ct_input next_run))),
                   (''per_day_input_tokens'', PInt (max 0 (bp_per_day_input_tokens policy - ct_input next_day))),
                   (''per_candidate_input_tokens'',
                      PInt (max 0 (bp_per_candidate_input_tokens policy - ct_input next_candidate)))]))"

definition consume ::
  "(string \<Rightarrow> string) \<Rightarrow> BudgetLedger \<Rightarrow> budget_data \<Rightarrow> charge \<Rightarrow> (budget_data \<times> BudgetResult) result" where
  "consume sha256 L data c =
     (if ch_provider_id c = [] \<or> length (ch_provider_id c) > 100 then Inl (ValueError ''PROVIDER_ID_INVALID'')
      else if ch_input c < 0 \<or> ch_output c < 0 then Inl (ValueError ''TOKEN_COUNT_INVALID'')
      else if ch_cost c < 0 then Inl (ValueError ''COST_INVALID'')
      else rbind (safe_id (or_else (ch_purpose c) (bl_purpose L))) (\<lambda>purpose.
           rbind (safe_id (or_else (ch_run_id c) (bl_run_id L))) (\<lambda>run_id.
           let candidate_id = (case ch_candidate_id c of Some v \<Rightarrow> v | None \<Rightarrow> bl_candidate_id L) in
           if length candidate_id > 200 then Inl (ValueError ''BUDGET_CANDIDATE_INVALID'')
           else if ch_provider_id c \<in> set (bl_disabled_providers L) then
             Inr (data, budget_result False ''PROVIDER_DISABLED'' c purpose new_counter new_counter new_counter [])
           else if (case ch_deadline_ms c of None \<Rightarrow> False | Some ms \<Rightarrow> ms \<le> 0) then
             Inr (data, budget_result False ''DEADLINE_EXCEEDED'' c purpose new_counter new_counter new_counter [])
           else consume_locked sha256 (bl_policy L) data c purpose run_id candidate_id)))"

definition reserve ::
  "(string \<Rightarrow> string) \<Rightarrow> BudgetLedger \<Rightarrow> budget_data \<Rightarrow> string \<Rightarrow> string \<Rightarrow> InferenceBudget \<Rightarrow> string
     \<Rightarrow> (budget_data \<times> BudgetResult) result" where
  "reserve sha256 L data attempt_id provider_id b day =
     rbind (safe_id attempt_id) (\<lambda>_.
       consume sha256 L data \<lparr>ch_provider_id = provider_id, ch_input = ib_max_input_tokens b,
         ch_output = ib_max_output_tokens b, ch_cost = ib_max_cost b, ch_day = day,
         ch_purpose = Some (ib_purpose b), ch_candidate_id = Some (ib_candidate_id b),
         ch_run_id = Some (if ib_run_id b = [] then bl_run_id L else ib_run_id b),
         ch_deadline_ms = Some (ib_deadline_ms b), ch_attempt_id = Some attempt_id\<rparr>)"

subsection \<open>Settlement\<close>

text \<open>What a finished call is charged: its own report only where the provider vouches for it.\<close>

definition usage_known :: "ProviderResult \<Rightarrow> bool" where
  "usage_known r \<longleftrightarrow> result_ok r \<and> map_of (pv_metadata r) ''usage_known'' = Some (PBool True)"

definition actual_usage :: "reservation \<Rightarrow> ProviderResult \<Rightarrow> int \<times> int \<times> int" where
  "actual_usage row r =
     (if usage_known r then pv_input_tokens r else max (pv_input_tokens r) (rv_input row),
      if usage_known r then pv_output_tokens r else max (pv_output_tokens r) (rv_output row),
      if usage_known r \<and> map_of (pv_metadata r) ''cost_known'' = Some (PBool True) then pv_cost r
      else max (pv_cost r) (rv_cost row))"

text \<open>One of the three counters: a missing one is an error, a negative cost is refused by \<open>decimal_cost\<close>.\<close>

definition adjust :: "bool \<Rightarrow> reservation \<Rightarrow> int \<times> int \<times> int \<Rightarrow> string \<Rightarrow> counter dict \<Rightarrow> counter dict result" where
  "adjust by_day row actual key d = (case map_of d key of
       None \<Rightarrow> Inl (KeyError key)
     | Some c \<Rightarrow>
         if by_day \<and> ct_day c \<noteq> rv_day row then Inr d
         else let (i, out, cost) = actual;
                  c' = add_counter c (i - rv_input row) (out - rv_output row) (cost - rv_cost row) (rv_day row)
              in if ct_cost c' < 0 then Inl (ValueError ''COST_INVALID'') else Inr (dict_set key c' d))"

definition settle :: "budget_data \<Rightarrow> string \<Rightarrow> ProviderResult \<Rightarrow> budget_data result" where
  "settle data0 attempt_id r =
     rbind (read_ledger data0) (\<lambda>data.
     case map_of (bd_reservations data) attempt_id of
       None \<Rightarrow> Inl (ValueError ''BUDGET_RESERVATION_MISMATCH'')
     | Some row \<Rightarrow>
         if rv_provider_id row \<noteq> pv_provider_id r then Inl (ValueError ''BUDGET_RESERVATION_MISMATCH'')
         else if rv_settled row then Inr data
         else
           rbind (adjust True row (actual_usage row r) (rv_entry_key row) (bd_entries data)) (\<lambda>entries.
           rbind (adjust False row (actual_usage row r) (rv_run_key row) (bd_runs data)) (\<lambda>runs.
           rbind (adjust True row (actual_usage row r) (rv_candidate_key row) (bd_candidates data)) (\<lambda>candidates.
             Inr (data\<lparr>bd_entries := entries, bd_runs := runs, bd_candidates := candidates,
               bd_reservations := dict_set attempt_id (row\<lparr>rv_settled := True\<rparr>) (bd_reservations data)\<rparr>)))))"

subsection \<open>Totals after a change of one counter\<close>

definition ledger_wf :: "budget_data \<Rightarrow> bool" where
  "ledger_wf data \<longleftrightarrow> distinct (map fst (bd_entries data)) \<and> distinct (map fst (bd_runs data))
     \<and> distinct (map fst (bd_candidates data)) \<and> distinct (map fst (bd_reservations data))"

definition run_counter :: "counter dict \<Rightarrow> string \<Rightarrow> counter" where
  "run_counter d key = (case map_of d key of None \<Rightarrow> new_counter | Some r \<Rightarrow> r)"

lemma counter_simps [simp]:
  "ct_input new_counter = 0" "ct_output new_counter = 0" "ct_cost new_counter = 0"
  "ct_input (add_counter k i out cost day) = ct_input k + i"
  "ct_output (add_counter k i out cost day) = ct_output k + out"
  "ct_cost (add_counter k i out cost day) = ct_cost k + cost"
  "ct_day (add_counter k i out cost day) = day"
  by (simp_all add: new_counter_def add_counter_def)

lemma dict_sum_day:
  assumes "distinct (map fst d)" "w new_counter = 0" "ct_day v = day"
  shows "dict_sum (\<lambda>_ c. ct_day c = day) w (dict_set k v d) =
    dict_sum (\<lambda>_ c. ct_day c = day) w d - w (counter_of (map_of d k) day) + w v"
  using assms(2,3) by (simp add: dict_sum_dict_set [OF assms(1)] contrib_def counter_of_def split: option.split)

lemma dict_sum_run:
  assumes "distinct (map fst d)" "w new_counter = 0" "starts_with pre k"
  shows "dict_sum (\<lambda>key _. starts_with pre key) w (dict_set k v d) =
    dict_sum (\<lambda>key _. starts_with pre key) w d - w (run_counter d k) + w v"
  using assms(2,3) by (simp add: dict_sum_dict_set [OF assms(1)] contrib_def run_counter_def split: option.split)

lemma total_day_set:
  assumes "distinct (map fst d)"
  shows "total (\<lambda>_ c. ct_day c = day) (dict_set k (add_counter (counter_of (map_of d k) day) i out cost day) d) day
    = add_counter (total (\<lambda>_ c. ct_day c = day) d day) i out cost day"
  by (simp add: total_def add_counter_def dict_sum_day [OF assms])

lemma total_run_set:
  assumes "distinct (map fst d)" "starts_with pre k"
  shows "total (\<lambda>key _. starts_with pre key) (dict_set k (add_counter (run_counter d k) i out cost day) d) day'
    = add_counter (total (\<lambda>key _. starts_with pre key) d day') i out cost day'"
  by (simp add: total_def add_counter_def dict_sum_run [OF assms(1) _ assms(2)])

lemma starts_with_run_key: "starts_with (run @ ''|'') (run_key_of c run purpose)"
  by (simp add: starts_with_def run_key_of_def)

lemma day_total_charged:
  assumes "ledger_wf data"
  shows "day_total (charged data c ek rk ck) (ch_day c)
    = add_counter (day_total data (ch_day c)) (ch_input c) (ch_output c) (ch_cost c) (ch_day c)"
  using assms by (simp add: day_total_def charged_def Let_def ledger_wf_def total_day_set)

lemma run_total_charged:
  assumes "ledger_wf data" "starts_with (run @ ''|'') rk"
  shows "run_total (charged data c ek rk ck) run day
    = add_counter (run_total data run day) (ch_input c) (ch_output c) (ch_cost c) day"
  using assms
  by (simp add: run_total_def charged_def Let_def ledger_wf_def run_counter_def [symmetric] total_run_set)

lemma candidate_charged:
  "counter_of (map_of (bd_candidates (charged data c ek rk ck)) ck) (ch_day c)
    = add_counter (counter_of (map_of (bd_candidates data) ck) (ch_day c)) (ch_input c) (ch_output c) (ch_cost c) (ch_day c)"
  by (simp add: charged_def Let_def counter_of_def [of "Some _"] map_of_dict_set)

lemma ledger_wf_charged: "ledger_wf data \<Longrightarrow> ledger_wf (charged data c ek rk ck)"
  by (auto simp: ledger_wf_def charged_def Let_def distinct_update split: option.split)

subsection \<open>Outcomes of consume\<close>

definition selected_run :: "BudgetLedger \<Rightarrow> charge \<Rightarrow> string" where
  "selected_run L c = or_else (ch_run_id c) (bl_run_id L)"

definition selected_purpose :: "BudgetLedger \<Rightarrow> charge \<Rightarrow> string" where
  "selected_purpose L c = or_else (ch_purpose c) (bl_purpose L)"

definition selected_candidate_key :: "(string \<Rightarrow> string) \<Rightarrow> BudgetLedger \<Rightarrow> charge \<Rightarrow> string" where
  "selected_candidate_key sha256 L c =
     candidate_key_of sha256 (case ch_candidate_id c of Some v \<Rightarrow> v | None \<Rightarrow> bl_candidate_id L)"

lemma consume_cases:
  assumes "consume sha256 L data c = Inr (data', r)"
  obtains (refused) "data' = data" "\<not> br_allowed r" "br_reason_code r \<noteq> ''ALLOW''"
    | (admitted) "br_allowed r" "read_ledger data = Inr data" "0 \<le> ch_input c" "0 \<le> ch_output c" "0 \<le> ch_cost c"
      "\<forall>a. ch_attempt_id c = Some a \<longrightarrow> \<not> has_key (bd_reservations data) a"
      "data' = charged data c (entry_key_of c (selected_purpose L c))
         (run_key_of c (selected_run L c) (selected_purpose L c)) (selected_candidate_key sha256 L c)"
      "refusal (bl_policy L) c (attempts_of data (ch_day c) (selected_candidate_key sha256 L c))
         (add_counter (run_total data (selected_run L c) (ch_day c)) (ch_input c) (ch_output c) (ch_cost c) (ch_day c))
         (add_counter (day_total data (ch_day c)) (ch_input c) (ch_output c) (ch_cost c) (ch_day c))
         (add_counter (counter_of (map_of (bd_candidates data) (selected_candidate_key sha256 L c)) (ch_day c))
            (ch_input c) (ch_output c) (ch_cost c) (ch_day c)) = None"
      "ch_provider_id c \<notin> set (bl_disabled_providers L)"
proof -
  have safe: "safe_id v = Inr u \<Longrightarrow> u = v" for v u by (simp add: safe_id_def split: if_splits)
  have read: "read_ledger d = Inr d' \<Longrightarrow> d' = d" for d d' by (simp add: read_ledger_def split: if_splits)
  have reasons: "refusal p c' n x y z = Some (code, scope) \<Longrightarrow> code \<noteq> ''ALLOW''" for p c' n x y z code scope
    by (auto simp: refusal_def split: if_splits)
  show thesis
  proof (cases "br_allowed r")
    case False
    then show thesis
      using refused assms reasons
      by (auto simp: consume_def consume_locked_def Let_def result_simps budget_result_def
          split: if_splits option.splits dest!: read safe)
  next
    case True
    then have run: "consume_locked sha256 (bl_policy L) data c (selected_purpose L c) (selected_run L c)
        (case ch_candidate_id c of Some v \<Rightarrow> v | None \<Rightarrow> bl_candidate_id L) = Inr (data', r)"
      "0 \<le> ch_input c" "0 \<le> ch_output c" "0 \<le> ch_cost c" "ch_provider_id c \<notin> set (bl_disabled_providers L)"
      using assms
      by (auto simp: consume_def Let_def result_simps budget_result_def selected_purpose_def selected_run_def
          split: if_splits dest!: safe)
    then have ok: "read_ledger data = Inr data"
      by (auto simp: consume_locked_def rbind_eq_Inr read_ledger_def split: if_splits)
    have fresh: "\<forall>a. ch_attempt_id c = Some a \<longrightarrow> \<not> has_key (bd_reservations data) a"
      using run(1) True unfolding consume_locked_def ok rbind_Inr
      by (auto simp: budget_result_def split: if_splits)
    show thesis
    proof (rule admitted)
      let ?ck = "selected_candidate_key sha256 L c"
      have out: "data' = charged data c (entry_key_of c (selected_purpose L c))
          (run_key_of c (selected_run L c) (selected_purpose L c)) ?ck \<and>
        refusal (bl_policy L) c (attempts_of data (ch_day c) ?ck)
         (add_counter (run_total data (selected_run L c) (ch_day c)) (ch_input c) (ch_output c) (ch_cost c) (ch_day c))
         (add_counter (day_total data (ch_day c)) (ch_input c) (ch_output c) (ch_cost c) (ch_day c))
         (add_counter (counter_of (map_of (bd_candidates data) ?ck) (ch_day c))
            (ch_input c) (ch_output c) (ch_cost c) (ch_day c)) = None"
        using run(1) True fresh unfolding consume_locked_def ok rbind_Inr selected_candidate_key_def
        by (auto simp: Let_def budget_result_def split: option.splits)
      then show "data' = charged data c (entry_key_of c (selected_purpose L c))
          (run_key_of c (selected_run L c) (selected_purpose L c)) ?ck"
        "refusal (bl_policy L) c (attempts_of data (ch_day c) ?ck)
         (add_counter (run_total data (selected_run L c) (ch_day c)) (ch_input c) (ch_output c) (ch_cost c) (ch_day c))
         (add_counter (day_total data (ch_day c)) (ch_input c) (ch_output c) (ch_cost c) (ch_day c))
         (add_counter (counter_of (map_of (bd_candidates data) ?ck) (ch_day c))
            (ch_input c) (ch_output c) (ch_cost c) (ch_day c)) = None" by blast+
    qed (fact True ok run fresh)+
  qed
qed

text \<open>Within the limits of the policy.\<close>

definition under_caps :: "counter \<Rightarrow> int \<Rightarrow> int \<Rightarrow> int \<Rightarrow> bool" where
  "under_caps k input_cap output_cap cost_cap \<longleftrightarrow>
     ct_input k \<le> input_cap \<and> ct_output k \<le> output_cap \<and> ct_cost k \<le> cost_cap"

lemma refusal_None:
  assumes "refusal policy c n run day cand = None"
  shows "under_caps run (bp_per_run_input_tokens policy) (bp_per_run_output_tokens policy) (bp_per_run_cost policy)"
    "under_caps day (bp_per_day_input_tokens policy) (bp_per_day_output_tokens policy) (bp_per_day_cost policy)"
    "under_caps cand (bp_per_candidate_input_tokens policy) (bp_per_candidate_output_tokens policy) (bp_per_candidate_cost policy)"
    "ch_attempt_id c \<noteq> None \<Longrightarrow> n < bp_retry_limit policy"
    "ch_provider_id c = ''cloud-api'' \<Longrightarrow> bp_cloud_api_enabled policy \<and> ct_cost day \<le> bp_cloud_spend_cap policy"
  using assms by (auto simp: refusal_def under_caps_def split: if_splits)

subsection \<open>Properties of admission\<close>

definition sample_budget_ledger :: BudgetLedger where
  "sample_budget_ledger = \<lparr>bl_policy = default_policy, bl_run_id = ''run-1'', bl_candidate_id = [],
     bl_purpose = ''inheritance-gate'', bl_disabled_providers = []\<rparr>"

definition empty_ledger :: budget_data where
  "empty_ledger = \<lparr>bd_entries = [], bd_runs = [], bd_candidates = [], bd_reservations = []\<rparr>"

definition sample_charge :: "int \<Rightarrow> string \<Rightarrow> string option \<Rightarrow> charge" where
  "sample_charge n day attempt = \<lparr>ch_provider_id = ''ollama'', ch_input = n, ch_output = 10, ch_cost = 0,
     ch_day = day, ch_purpose = None, ch_candidate_id = None, ch_run_id = None, ch_deadline_ms = Some 1000,
     ch_attempt_id = attempt\<rparr>"

text \<open>
  C24. A charge is admitted only within every limit, and the limits are those of the new ledger: after
  an admitted charge the totals recomputed from the stored counters over all providers and purposes,
  for the run, for the day and for the candidate, are the old totals plus exactly this charge, and
  each is within its token and cost limits; a charge of the cloud provider is admitted only when the
  policy enables it and the day stays within its spend cap, and a disabled provider never is.
\<close>

theorem admitted_within_limits:
  assumes "ledger_wf data" and "consume sha256 L data c = Inr (data', r)" and "br_allowed r"
  defines "p \<equiv> bl_policy L" and "run \<equiv> selected_run L c" and "ck \<equiv> selected_candidate_key sha256 L c"
    and "day \<equiv> ch_day c"
  shows "run_total data' run day = add_counter (run_total data run day) (ch_input c) (ch_output c) (ch_cost c) day
    \<and> day_total data' day = add_counter (day_total data day) (ch_input c) (ch_output c) (ch_cost c) day
    \<and> counter_of (map_of (bd_candidates data') ck) day
        = add_counter (counter_of (map_of (bd_candidates data) ck) day) (ch_input c) (ch_output c) (ch_cost c) day
    \<and> under_caps (run_total data' run day) (bp_per_run_input_tokens p) (bp_per_run_output_tokens p) (bp_per_run_cost p)
    \<and> under_caps (day_total data' day) (bp_per_day_input_tokens p) (bp_per_day_output_tokens p) (bp_per_day_cost p)
    \<and> under_caps (counter_of (map_of (bd_candidates data') ck) day) (bp_per_candidate_input_tokens p)
        (bp_per_candidate_output_tokens p) (bp_per_candidate_cost p)
    \<and> (ch_provider_id c = ''cloud-api'' \<longrightarrow>
         bp_cloud_api_enabled p \<and> ct_cost (day_total data' day) \<le> bp_cloud_spend_cap p)
    \<and> ch_provider_id c \<notin> set (bl_disabled_providers L)"
  using assms(2)
proof (cases rule: consume_cases)
  case refused
  then show ?thesis using assms(3) by simp
next
  case admitted
  note none = refusal_None [OF admitted(8)]
  have "run_total data' run day = add_counter (run_total data run day) (ch_input c) (ch_output c) (ch_cost c) day"
    unfolding admitted(7) run_def by (rule run_total_charged [OF assms(1) starts_with_run_key])
  moreover have "day_total data' day = add_counter (day_total data day) (ch_input c) (ch_output c) (ch_cost c) day"
    unfolding admitted(7) day_def by (rule day_total_charged [OF assms(1)])
  moreover have "counter_of (map_of (bd_candidates data') ck) day
      = add_counter (counter_of (map_of (bd_candidates data) ck) day) (ch_input c) (ch_output c) (ch_cost c) day"
    unfolding admitted(7) day_def ck_def by (rule candidate_charged)
  ultimately show ?thesis
    using none(1-3,5) admitted(9) by (simp add: run_def day_def ck_def p_def)
qed

theorem admitted_within_limits_witness:
  "\<exists>data' r. consume (\<lambda>s. s) sample_budget_ledger empty_ledger (sample_charge 12000 ''2026-01-01'' None) = Inr (data', r)
     \<and> br_allowed r \<and> ct_input (day_total data' ''2026-01-01'') = 12000
     \<and> under_caps (day_total data' ''2026-01-01'') 100000 20000 0"
proof -
  let ?c = "consume (\<lambda>s. s) sample_budget_ledger empty_ledger (sample_charge 12000 ''2026-01-01'' None)"
  have "(case ?c of Inl _ \<Rightarrow> False | Inr (data', r) \<Rightarrow> br_allowed r)" by code_simp
  then obtain data' r where run: "?c = Inr (data', r)" and "br_allowed r" by (auto split: sum.splits)
  moreover have "ledger_wf empty_ledger" "ct_input (day_total empty_ledger ''2026-01-01'') = 0"
    "bp_per_day_input_tokens (bl_policy sample_budget_ledger) = 100000"
    "bp_per_day_output_tokens (bl_policy sample_budget_ledger) = 20000"
    "bp_per_day_cost (bl_policy sample_budget_ledger) = 0" by code_simp+
  ultimately show ?thesis
    using admitted_within_limits [of empty_ledger, OF _ run] by (auto simp: sample_charge_def)
qed

text \<open>
  A refused charge changes nothing, and an attempt is charged once: every refusal leaves the
  ledger as it was, a result says \<open>ALLOW\<close> exactly when the charge is admitted, an attempt id that is
  reserved already is refused, and an admitted attempt is reserved afterwards with exactly its charge.
\<close>

theorem refused_changes_nothing:
  assumes "consume sha256 L data c = Inr (data', r)"
  shows "(\<not> br_allowed r \<longrightarrow> data' = data) \<and> (br_allowed r \<longleftrightarrow> br_reason_code r = ''ALLOW'')
    \<and> (\<forall>a. ch_attempt_id c = Some a \<longrightarrow>
         (has_key (bd_reservations data) a \<longrightarrow> \<not> br_allowed r)
       \<and> (br_allowed r \<longrightarrow> (\<exists>row. map_of (bd_reservations data') a = Some row \<and> \<not> rv_settled row
            \<and> rv_input row = ch_input c \<and> rv_output row = ch_output c \<and> rv_cost row = ch_cost c)))"
proof -
  have allow: "br_allowed r \<Longrightarrow> br_reason_code r = ''ALLOW''"
    using assms by (auto simp: consume_def consume_locked_def Let_def result_simps budget_result_def
        split: if_splits option.splits)
  show ?thesis
    using assms
  proof (cases rule: consume_cases)
    case refused
    then show ?thesis by simp
  next
    case admitted
    then show ?thesis
      using allow by (auto simp: charged_def Let_def map_of_dict_set)
  qed
qed

theorem refused_changes_nothing_witness:
  "\<exists>data' r. consume (\<lambda>s. s) sample_budget_ledger empty_ledger (sample_charge 12001 ''2026-01-01'' (Some ''a1''))
       = Inr (data', r)
     \<and> br_reason_code r = ''TOKEN_CAP_EXCEEDED'' \<and> data' = empty_ledger"
proof -
  let ?c = "consume (\<lambda>s. s) sample_budget_ledger empty_ledger (sample_charge 12001 ''2026-01-01'' (Some ''a1''))"
  have "(case ?c of Inl _ \<Rightarrow> False | Inr (data', r) \<Rightarrow> br_reason_code r = ''TOKEN_CAP_EXCEEDED'')" by code_simp
  then obtain data' r where run: "?c = Inr (data', r)" and "br_reason_code r = ''TOKEN_CAP_EXCEEDED''"
    by (auto split: sum.splits)
  then show ?thesis using refused_changes_nothing [OF run] by auto
qed

subsection \<open>Attempts per candidate and day\<close>

lemma attempts_dict_sum:
  "attempts_of data day ck = dict_sum (\<lambda>_ r. rv_day r = day \<and> rv_candidate_key r = ck) (\<lambda>_. 1) (bd_reservations data)"
proof -
  have "int (length (filter (\<lambda>(_, r). P r) d)) = dict_sum (\<lambda>_ r. P r) (\<lambda>_. 1) d"
    for P and d :: "reservation dict"
    by (induction d) (auto simp: dict_sum_def)
  then show ?thesis by (simp add: attempts_of_def)
qed

lemma attempts_charged:
  assumes "ledger_wf data" "\<forall>a. ch_attempt_id c = Some a \<longrightarrow> \<not> has_key (bd_reservations data) a"
  shows "attempts_of (charged data c ek rk ck) day k = attempts_of data day k
    + (if ch_attempt_id c \<noteq> None \<and> day = ch_day c \<and> k = ck then 1 else 0)"
proof (cases "ch_attempt_id c")
  case None
  then show ?thesis by (simp add: attempts_of_def charged_def Let_def)
next
  case (Some a)
  then have "map_of (bd_reservations data) a = None"
    using assms(2) by (auto simp: has_key_def map_of_eq_None_iff)
  then show ?thesis
    using Some assms(1)
    by (auto simp: attempts_dict_sum charged_def Let_def ledger_wf_def dict_sum_dict_set contrib_def)
qed

lemma settle_shape:
  assumes "settle data a res = Inr data'"
  obtains (same) "data' = data"
    | (adjusted) row entries runs candidates where "map_of (bd_reservations data) a = Some row"
      "adjust True row (actual_usage row res) (rv_entry_key row) (bd_entries data) = Inr entries"
      "adjust False row (actual_usage row res) (rv_run_key row) (bd_runs data) = Inr runs"
      "adjust True row (actual_usage row res) (rv_candidate_key row) (bd_candidates data) = Inr candidates"
      "data' = data\<lparr>bd_entries := entries, bd_runs := runs, bd_candidates := candidates,
         bd_reservations := dict_set a (row\<lparr>rv_settled := True\<rparr>) (bd_reservations data)\<rparr>"
proof -
  have ok: "read_ledger data = Inr data"
    using assms by (auto simp: settle_def rbind_eq_Inr read_ledger_def split: if_splits)
  obtain row where row: "map_of (bd_reservations data) a = Some row" "rv_provider_id row = pv_provider_id res"
    using assms unfolding settle_def ok rbind_Inr by (auto split: option.splits if_splits)
  show thesis
  proof (cases "rv_settled row")
    case True
    then show thesis using same assms row unfolding settle_def ok rbind_Inr by simp
  next
    case False
    then show thesis
      using adjusted [OF row(1)] assms row unfolding settle_def ok rbind_Inr
      by (simp add: rbind_eq_Inr) blast
  qed
qed

lemma adjust_distinct: "adjust b row u key d = Inr d' \<Longrightarrow> distinct (map fst d) \<Longrightarrow> distinct (map fst d')"
  by (auto simp: adjust_def Let_def distinct_update split: option.splits if_splits prod.splits)

lemma settle_keeps:
  assumes "settle data a res = Inr data'" "ledger_wf data"
  shows "ledger_wf data' \<and> attempts_of data' day k = attempts_of data day k"
  using assms(1)
proof (cases rule: settle_shape)
  case same
  then show ?thesis using assms(2) by simp
next
  case (adjusted row entries runs candidates)
  have "ledger_wf data'"
    using adjusted assms(2) by (auto simp: ledger_wf_def distinct_update dest: adjust_distinct)
  moreover have "attempts_of data' day k = attempts_of data day k"
    using adjusted assms(2) by (simp add: attempts_dict_sum ledger_wf_def dict_sum_dict_set contrib_def)
  ultimately show ?thesis by simp
qed

text \<open>The ledger as a system: charges and settlements of any callers that share one policy.\<close>

inductive budget_step :: "(string \<Rightarrow> string) \<Rightarrow> BudgetPolicy \<Rightarrow> budget_data \<Rightarrow> budget_data \<Rightarrow> bool"
  for sha256 policy where
  consume: "bl_policy L = policy \<Longrightarrow> consume sha256 L data c = Inr (data', r) \<Longrightarrow>
    budget_step sha256 policy data data'"
| settle: "settle data a res = Inr data' \<Longrightarrow> budget_step sha256 policy data data'"

definition attempts_bounded :: "BudgetPolicy \<Rightarrow> budget_data \<Rightarrow> bool" where
  "attempts_bounded policy data \<longleftrightarrow> ledger_wf data \<and> (\<forall>day k. attempts_of data day k \<le> max 0 (bp_retry_limit policy))"

interpretation budget: invariant_system "budget_step sha256 policy" "attempts_bounded policy" for sha256 policy
proof
  fix s s' assume inv: "attempts_bounded policy s" and step: "budget_step sha256 policy s s'"
  from step show "attempts_bounded policy s'"
  proof cases
    case (consume L c r)
    from consume(2) show ?thesis
    proof (cases rule: consume_cases)
      case refused
      then show ?thesis using inv by simp
    next
      case admitted
      have wf: "ledger_wf s" using inv by (simp add: attempts_bounded_def)
      note step = attempts_charged [OF wf admitted(6)]
      have "attempts_of s' day k \<le> max 0 (bp_retry_limit policy)" for day k
      proof (cases "ch_attempt_id c \<noteq> None \<and> day = ch_day c \<and> k = selected_candidate_key sha256 L c")
        case True
        then show ?thesis
          using refusal_None(4) [OF admitted(8)] consume(1) unfolding admitted(7) step by auto
      next
        case False
        then show ?thesis using inv unfolding admitted(7) step by (auto simp: attempts_bounded_def)
      qed
      then show ?thesis
        using ledger_wf_charged [OF wf] admitted(7) by (simp add: attempts_bounded_def)
    qed
  next
    case (settle a res)
    then show ?thesis using inv settle_keeps [OF settle] by (auto simp: attempts_bounded_def)
  qed
qed

text \<open>
  No candidate is tried more often than the policy allows: in every ledger that charges,
  reservations and settlements of any callers can produce from the empty one, the reservations of one
  candidate on one day are at most the retry limit.
\<close>

theorem attempts_never_exceed_limit:
  assumes "(budget_step sha256 policy)\<^sup>*\<^sup>* empty_ledger data"
  shows "attempts_of data day candidate_key \<le> max 0 (bp_retry_limit policy)"
proof -
  have "attempts_bounded policy empty_ledger"
    by (simp add: attempts_bounded_def ledger_wf_def empty_ledger_def attempts_of_def)
  then show ?thesis using budget.reachable_inv [OF assms] by (simp add: attempts_bounded_def)
qed

theorem attempts_never_exceed_limit_witness:
  "\<exists>data r. consume (\<lambda>s. s) sample_budget_ledger empty_ledger (sample_charge 10 ''2026-01-01'' (Some ''a1'')) = Inr (data, r)
     \<and> attempts_of data ''2026-01-01'' ''<none>'' = 1 \<and> attempts_of data ''2026-01-01'' ''<none>'' \<le> 4"
proof -
  let ?c = "consume (\<lambda>s. s) sample_budget_ledger empty_ledger (sample_charge 10 ''2026-01-01'' (Some ''a1''))"
  have "(case ?c of Inl _ \<Rightarrow> False | Inr (data, r) \<Rightarrow> attempts_of data ''2026-01-01'' ''<none>'' = 1)" by code_simp
  then obtain data r where run: "?c = Inr (data, r)" and "attempts_of data ''2026-01-01'' ''<none>'' = 1"
    by (auto split: sum.splits)
  moreover have "bl_policy sample_budget_ledger = default_policy" "bp_retry_limit default_policy = 4"
    by (simp_all add: sample_budget_ledger_def default_policy_def)
  moreover have "(budget_step (\<lambda>s. s) default_policy)\<^sup>*\<^sup>* empty_ledger data"
    by (rule r_into_rtranclp, rule budget_step.consume [OF _ run]) (simp add: sample_budget_ledger_def)
  ultimately show ?thesis
    using attempts_never_exceed_limit [of "\<lambda>s. s" default_policy data "''2026-01-01''" "''<none>''"] by auto
qed

subsection \<open>Settlement of a reserved attempt\<close>

lemma read_ledger_ok:
  "read_ledger data = Inr data \<longleftrightarrow>
     (\<forall>(k, c) \<in> set (bd_entries data) \<union> set (bd_runs data) \<union> set (bd_candidates data). counter_ok c)"
  by (auto simp: read_ledger_def list_all_iff)

lemma set_dict_set: "x \<in> set (dict_set k v d) \<Longrightarrow> x = (k, v) \<or> x \<in> set d"
  by (induction d) (auto split: if_splits)

lemma dict_set_all: "\<forall>(k, c) \<in> set d. counter_ok c \<Longrightarrow> counter_ok v \<Longrightarrow> \<forall>(k, c) \<in> set (dict_set key v d). counter_ok c"
  by (auto dest!: set_dict_set)

lemma counter_of_ok: "\<forall>(k, c) \<in> set d. counter_ok c \<Longrightarrow> counter_ok (counter_of (map_of d key) day)"
  by (auto simp: counter_of_def counter_ok_def dest: map_of_SomeD split: option.split)

lemma run_counter_ok: "\<forall>(k, c) \<in> set d. counter_ok c \<Longrightarrow> counter_ok (run_counter d key)"
  by (auto simp: run_counter_def counter_ok_def dest: map_of_SomeD split: option.split)

lemma add_counter_ok:
  "counter_ok k \<Longrightarrow> 0 \<le> i \<Longrightarrow> 0 \<le> out \<Longrightarrow> 0 \<le> cost \<Longrightarrow> counter_ok (add_counter k i out cost day)"
  by (simp add: counter_ok_def)

lemma add_counter_twice:
  "add_counter (add_counter k i out cost day) (i' - i) (out' - out) (cost' - cost) day' = add_counter k i' out' cost' day'"
  by (simp add: add_counter_def)

text \<open>The three counters a charge touches, before and after; \<open>paid\<close> is the same ledger with another amount.\<close>

definition paid :: "budget_data \<Rightarrow> charge \<Rightarrow> string \<Rightarrow> string \<Rightarrow> string \<Rightarrow> int \<times> int \<times> int \<Rightarrow> budget_data" where
  "paid data c ek rk ck u = (let (i, out, cost) = u in
     charged data (c\<lparr>ch_input := i, ch_output := out, ch_cost := cost, ch_attempt_id := None\<rparr>) ek rk ck)"

lemma charged_fields:
  "bd_entries (charged data c ek rk ck) = dict_set ek (add_counter (counter_of (map_of (bd_entries data) ek)
     (ch_day c)) (ch_input c) (ch_output c) (ch_cost c) (ch_day c)) (bd_entries data)"
  "bd_runs (charged data c ek rk ck) = dict_set rk (add_counter (run_counter (bd_runs data) rk)
     (ch_input c) (ch_output c) (ch_cost c) (ch_day c)) (bd_runs data)"
  "bd_candidates (charged data c ek rk ck) = dict_set ck (add_counter (counter_of (map_of (bd_candidates data) ck)
     (ch_day c)) (ch_input c) (ch_output c) (ch_cost c) (ch_day c)) (bd_candidates data)"
  by (simp_all add: charged_def Let_def run_counter_def)

lemma charged_ok:
  assumes "read_ledger data = Inr data" "0 \<le> ch_input c" "0 \<le> ch_output c" "0 \<le> ch_cost c"
  shows "read_ledger (charged data c ek rk ck) = Inr (charged data c ek rk ck)"
proof -
  have ok: "\<forall>(k, c) \<in> set (bd_entries data). counter_ok c" "\<forall>(k, c) \<in> set (bd_runs data). counter_ok c"
    "\<forall>(k, c) \<in> set (bd_candidates data). counter_ok c"
    using assms(1) by (auto simp: read_ledger_ok)
  show ?thesis
    using dict_set_all [OF ok(1) add_counter_ok [OF counter_of_ok [OF ok(1)] assms(2-4)]]
      dict_set_all [OF ok(2) add_counter_ok [OF run_counter_ok [OF ok(2)] assms(2-4)]]
      dict_set_all [OF ok(3) add_counter_ok [OF counter_of_ok [OF ok(3)] assms(2-4)]]
    unfolding read_ledger_ok charged_fields by fast
qed

lemma adjust_after_charge:
  assumes "map_of d key = Some (add_counter k (rv_input row) (rv_output row) (rv_cost row) (rv_day row))"
    and "counter_ok k" "0 \<le> cost"
  shows "adjust b row (i, out, cost) key d = Inr (dict_set key (add_counter k i out cost (rv_day row)) d)"
  using assms by (simp add: adjust_def Let_def add_counter_twice counter_ok_def)

lemma settle_after_charge:
  assumes "read_ledger data = Inr data" "0 \<le> ch_input c" "0 \<le> ch_output c" "0 \<le> ch_cost c"
    and "ch_attempt_id c = Some a" "pv_provider_id res = ch_provider_id c"
    and row: "map_of (bd_reservations (charged data c ek rk ck)) a = Some row"
    and usage: "actual_usage row res = (i, out, cost)" "0 \<le> cost"
  shows "\<exists>reservations. settle (charged data c ek rk ck) a res
      = Inr ((paid data c ek rk ck (i, out, cost))\<lparr>bd_reservations := reservations\<rparr>)
    \<and> map_of reservations a = Some (row\<lparr>rv_settled := True\<rparr>)"
proof -
  let ?d = "charged data c ek rk ck"
  have r: "rv_provider_id row = ch_provider_id c" "rv_day row = ch_day c" "rv_entry_key row = ek"
    "rv_run_key row = rk" "rv_candidate_key row = ck" "rv_input row = ch_input c"
    "rv_output row = ch_output c" "rv_cost row = ch_cost c" "\<not> rv_settled row"
    using row assms(5) by (auto simp: charged_def Let_def map_of_dict_set)
  have ok: "\<forall>(k, c) \<in> set (bd_entries data). counter_ok c" "\<forall>(k, c) \<in> set (bd_runs data). counter_ok c"
    "\<forall>(k, c) \<in> set (bd_candidates data). counter_ok c"
    using assms(1) by (auto simp: read_ledger_ok)
  have e: "adjust True row (i, out, cost) ek (bd_entries ?d) = Inr (bd_entries (paid data c ek rk ck (i, out, cost)))"
    by (subst adjust_after_charge [where k = "counter_of (map_of (bd_entries data) ek) (ch_day c)"])
      (use ok r usage in \<open>auto simp: charged_fields paid_def map_of_dict_set counter_of_ok update_last\<close>)
  have u: "adjust False row (i, out, cost) rk (bd_runs ?d) = Inr (bd_runs (paid data c ek rk ck (i, out, cost)))"
    by (subst adjust_after_charge [where k = "run_counter (bd_runs data) rk"])
      (use ok r usage in \<open>auto simp: charged_fields paid_def map_of_dict_set run_counter_ok update_last\<close>)
  have k: "adjust True row (i, out, cost) ck (bd_candidates ?d)
      = Inr (bd_candidates (paid data c ek rk ck (i, out, cost)))"
    by (subst adjust_after_charge [where k = "counter_of (map_of (bd_candidates data) ck) (ch_day c)"])
      (use ok r usage in \<open>auto simp: charged_fields paid_def map_of_dict_set counter_of_ok update_last\<close>)
  let ?p = "paid data c ek rk ck (i, out, cost)"
  let ?rs = "dict_set a (row\<lparr>rv_settled := True\<rparr>) (bd_reservations ?d)"
  have "settle ?d a res = Inr (?d\<lparr>bd_entries := bd_entries ?p, bd_runs := bd_runs ?p,
      bd_candidates := bd_candidates ?p, bd_reservations := ?rs\<rparr>)"
    unfolding settle_def charged_ok [OF assms(1-4)] rbind_Inr row
    using r assms(6) e u k usage by simp
  moreover have "?d\<lparr>bd_entries := bd_entries ?p, bd_runs := bd_runs ?p,
      bd_candidates := bd_candidates ?p, bd_reservations := ?rs\<rparr> = ?p\<lparr>bd_reservations := ?rs\<rparr>"
    by (rule budget_data.equality) simp_all
  ultimately show ?thesis
    by (intro exI [of _ ?rs]) (simp add: map_of_dict_set)
qed

text \<open>
  C25. Settling a reserved attempt charges what the call is known to have used: the settlement of an
  attempt that was just admitted succeeds, and afterwards the totals of the run and of the day and the
  counter of the candidate are those before the reservation plus the actual usage, which is the
  provider's report where it vouches for it and never less than the reservation where it does not.
  Settling again changes nothing.
\<close>

theorem settlement_is_exact:
  assumes "ledger_wf data" "consume sha256 L data c = Inr (data1, r)" "br_allowed r"
    and "ch_attempt_id c = Some a" "map_of (bd_reservations data1) a = Some row"
    and "make_result given = Inr res" "pv_provider_id res = ch_provider_id c"
    and "actual_usage row res = (i, out, cost)"
  defines "run \<equiv> selected_run L c" and "ck \<equiv> selected_candidate_key sha256 L c" and "day \<equiv> ch_day c"
  shows "\<exists>data2. settle data1 a res = Inr data2
    \<and> day_total data2 day = add_counter (day_total data day) i out cost day
    \<and> run_total data2 run day = add_counter (run_total data run day) i out cost day
    \<and> counter_of (map_of (bd_candidates data2) ck) day
        = add_counter (counter_of (map_of (bd_candidates data) ck) day) i out cost day
    \<and> (\<not> usage_known res \<longrightarrow> ch_input c \<le> i \<and> ch_output c \<le> out \<and> ch_cost c \<le> cost)
    \<and> settle data2 a res = Inr data2"
  using assms(2)
proof (cases rule: consume_cases)
  case refused
  then show ?thesis using assms(3) by simp
next
  case admitted
  define ek rk where "ek = entry_key_of c (selected_purpose L c)"
    and "rk = run_key_of c (selected_run L c) (selected_purpose L c)"
  let ?c = "c\<lparr>ch_input := i, ch_output := out, ch_cost := cost, ch_attempt_id := None\<rparr>"
  have nn: "0 \<le> pv_input_tokens res" "0 \<le> pv_output_tokens res" "0 \<le> pv_cost res"
    using assms(6) by (auto simp: make_result_def split: if_splits)
  then have u: "0 \<le> i" "0 \<le> out" "0 \<le> cost"
    using assms(8) by (auto simp: actual_usage_def split: if_splits)
  have d1: "data1 = charged data c ek rk ck" using admitted(7) by (simp add: ek_def rk_def ck_def)
  obtain rs where st: "settle data1 a res = Inr ((paid data c ek rk ck (i, out, cost))\<lparr>bd_reservations := rs\<rparr>)"
    and rs: "map_of rs a = Some (row\<lparr>rv_settled := True\<rparr>)"
    using settle_after_charge [OF admitted(2-5) assms(4,7) assms(5)[unfolded d1] assms(8) u(3)] d1 by blast
  define data2 where "data2 = (paid data c ek rk ck (i, out, cost))\<lparr>bd_reservations := rs\<rparr>"
  have d2: "data2 = (charged data ?c ek rk ck)\<lparr>bd_reservations := rs\<rparr>" by (simp add: data2_def paid_def)
  have rid: "rv_provider_id row = ch_provider_id c" "rv_input row = ch_input c" "rv_output row = ch_output c"
    "rv_cost row = ch_cost c"
    using assms(4,5) unfolding d1 by (auto simp: charged_def Let_def map_of_dict_set)
  have ok2: "read_ledger data2 = Inr data2"
    using charged_ok [OF admitted(2), of ?c ek rk ck] u unfolding d2 by (simp add: read_ledger_def split: if_splits)
  have "day_total data2 day = add_counter (day_total data day) i out cost day"
    using day_total_charged [OF assms(1), of ?c ek rk ck] by (simp add: d2 day_def day_total_def)
  moreover have "run_total data2 run day = add_counter (run_total data run day) i out cost day"
    using run_total_charged [OF assms(1), where run = run and rk = rk and c = ?c and ek = ek and ck = ck and day = day]
    by (simp add: d2 run_def rk_def run_total_def starts_with_run_key)
  moreover have "counter_of (map_of (bd_candidates data2) ck) day
      = add_counter (counter_of (map_of (bd_candidates data) ck) day) i out cost day"
    using candidate_charged [of data ?c ek rk ck] by (simp add: d2 day_def)
  moreover have "\<not> usage_known res \<longrightarrow> ch_input c \<le> i \<and> ch_output c \<le> out \<and> ch_cost c \<le> cost"
    using assms(8) rid by (auto simp: actual_usage_def)
  moreover have "settle data2 a res = Inr data2"
    using ok2 rs rid assms(7) by (simp add: settle_def d2)
  ultimately show ?thesis using st data2_def by blast
qed

definition settled_call :: ProviderResult where
  "settled_call = (blank_result ''ollama'' Success)\<lparr>pv_input_tokens := 700, pv_output_tokens := 5,
     pv_metadata := [(''usage_known'', PBool True), (''cost_known'', PBool True)]\<rparr>"

theorem settlement_is_exact_witness:
  "\<exists>data1 r data2. consume (\<lambda>s. s) sample_budget_ledger empty_ledger (sample_charge 12000 ''2026-01-01'' (Some ''a1''))
       = Inr (data1, r)
     \<and> settle data1 ''a1'' settled_call = Inr data2 \<and> ct_input (day_total data2 ''2026-01-01'') = 700
     \<and> settle data2 ''a1'' settled_call = Inr data2"
proof -
  let ?c = "sample_charge 12000 ''2026-01-01'' (Some ''a1'')"
  have "(case consume (\<lambda>s. s) sample_budget_ledger empty_ledger ?c of Inl _ \<Rightarrow> False
      | Inr (data1, r) \<Rightarrow> br_allowed r \<and> (case map_of (bd_reservations data1) ''a1'' of None \<Rightarrow> False
          | Some row \<Rightarrow> actual_usage row settled_call = (700, 5, 0)))" by code_simp
  then obtain data1 r row where run: "consume (\<lambda>s. s) sample_budget_ledger empty_ledger ?c = Inr (data1, r)"
    and ok: "br_allowed r" "map_of (bd_reservations data1) ''a1'' = Some row"
      "actual_usage row settled_call = (700, 5, 0)" by (auto split: sum.splits option.splits)
  have "make_result settled_call = Inr settled_call" "ledger_wf empty_ledger"
    "pv_provider_id settled_call = ch_provider_id ?c" "ch_attempt_id ?c = Some ''a1''"
    "ct_input (day_total empty_ledger ''2026-01-01'') = 0" by code_simp+
  then show ?thesis
    using settlement_is_exact [OF _ run ok(1) _ ok(2) _ _ ok(3), of settled_call] run
    by (auto simp: sample_charge_def)
qed

subsection \<open>A clock that steps back over midnight\<close>

text \<open>
  The counter of a candidate holds one day only. When charges of the same candidate arrive with days
  out of order, the earlier day's counter has been replaced in between, and the settlement of an
  attempt reserved before subtracts a reservation the counter no longer contains.
\<close>

definition midnight_run :: "budget_data option" where
  "midnight_run = (let ok = (\<lambda>r. case r of Inr (d, res) \<Rightarrow> if br_allowed res then Some d else None | Inl _ \<Rightarrow> None);
       go = (\<lambda>d c. ok (consume (\<lambda>s. s) sample_budget_ledger d c)) in
     case go empty_ledger (sample_charge 12000 ''2026-01-01'' (Some ''a1'')) of None \<Rightarrow> None
     | Some d1 \<Rightarrow> (case go d1 (sample_charge 100 ''2026-01-02'' None) of None \<Rightarrow> None
     | Some d2 \<Rightarrow> (case go d2 (sample_charge 100 ''2026-01-01'' None) of None \<Rightarrow> None
     | Some d3 \<Rightarrow> (case settle d3 ''a1'' settled_call of Inl _ \<Rightarrow> None | Inr d4 \<Rightarrow> Some d4))))"

text \<open>
  The ledger can make itself unreadable: reserve for a candidate on one day, charge the same
  candidate on the next day and again on the first, then settle the reservation with a smaller
  vouched usage. Every operation is accepted, the candidate's counter becomes negative, and from then
  on every charge that reaches the ledger is refused with \<open>BUDGET_LEDGER_SCHEMA_INVALID\<close>.
\<close>

theorem midnight_makes_ledger_unreadable:
  "\<exists>data. midnight_run = Some data
     \<and> consume_locked sha256 policy data c purpose run_id candidate_id
         = Inl (ValueError ''BUDGET_LEDGER_SCHEMA_INVALID'')
     \<and> settle data a res = Inl (ValueError ''BUDGET_LEDGER_SCHEMA_INVALID'')"
proof -
  have "(case midnight_run of None \<Rightarrow> False
      | Some d \<Rightarrow> read_ledger d = Inl (ValueError ''BUDGET_LEDGER_SCHEMA_INVALID''))" by code_simp
  then obtain d where "midnight_run = Some d" "read_ledger d = Inl (ValueError ''BUDGET_LEDGER_SCHEMA_INVALID'')"
    by (auto split: option.splits)
  then show ?thesis by (intro exI [of _ d]) (simp add: consume_locked_def settle_def)
qed

end
