(* ===== verification/Provider_Router.thy ===== *)
theory Provider_Router
  imports Budget_Ledger Setup_Contract
begin

section \<open>Routing a request to the organizer\<close>

text \<open>
  \<^verbatim>\<open>src/src/ei/inference/router.py\<close>, the class \<open>ProviderRouter\<close>: one configured organizer, no
  fallback, and no provider call without an admitted reservation. A provider is given by its id, its
  locality, whether it is available, and its \<open>generate\<close>; what a provider does behind it (a local
  server, a command line tool) is a parameter. \<open>generate\<close> of the router returns, besides the result,
  the calls it made, so that a property can say that none was made.

  Not modelled: building providers from configuration files and resolving host executables.
\<close>

record provider =
  pr_provider_id :: string
  pr_locality :: string
  pr_available :: bool
  pr_generate :: "string \<Rightarrow> pydict \<Rightarrow> InferenceBudget \<Rightarrow> ProviderResult result"

text \<open>
  The router: its organizer, its providers, the cloud cap of its configuration, the ledger it was
  given, and the settings it can make one from (the policy and the run id of the process).
\<close>

record ProviderRouter =
  rt_organizer :: OrganizerSelection
  rt_providers :: "provider list"
  rt_provider_order :: "string list"
  rt_cloud_spend_cap :: pyval
  rt_budget_ledger :: "BudgetLedger option"
  rt_settings :: "(BudgetPolicy \<times> string) option"

text \<open>\<open>__init__\<close> with providers given: ids are present and distinct, and give the order when none is configured.\<close>

definition make_router :: "ProviderRouter \<Rightarrow> ProviderRouter result" where
  "make_router router =
     (let ids = map pr_provider_id (rt_providers router) in
      if [] \<in> set ids \<or> \<not> distinct ids then Inl (ValueError ''PROVIDER_ID_INVALID'')
      else Inr (if rt_provider_order router = [] then router\<lparr>rt_provider_order := ids\<rparr> else router))"

definition by_id :: "ProviderRouter \<Rightarrow> string \<Rightarrow> provider option" where
  "by_id router i = map_of (map (\<lambda>p. (pr_provider_id p, p)) (rt_providers router)) i"

definition ordered_ids :: "ProviderRouter \<Rightarrow> string list option \<Rightarrow> string list" where
  "ordered_ids router requested =
     (let wanted = (case requested of None \<Rightarrow> rt_provider_order router | Some r \<Rightarrow> r);
          ids = filter (\<lambda>i. by_id router i \<noteq> None) wanted
      in ids @ filter (\<lambda>i. i \<notin> set ids) (map pr_provider_id (rt_providers router)))"

definition selected :: "ProviderRouter \<Rightarrow> provider result" where
  "selected router =
     (if os_status (rt_organizer router) \<noteq> ''READY''
        then Inl (ProviderSelectionError ''ORGANIZER_SELECTION_REQUIRED'')
      else case os_provider_id (rt_organizer router) of
          None \<Rightarrow> Inl (ProviderSelectionError ''ORGANIZER_PROVIDER_NOT_CONFIGURED'')
        | Some i \<Rightarrow> (case (if i = [] then None else by_id router i) of
              None \<Rightarrow> Inl (ProviderSelectionError ''ORGANIZER_PROVIDER_NOT_CONFIGURED'')
            | Some p \<Rightarrow> Inr p))"

definition choose_provider :: "ProviderRouter \<Rightarrow> string \<Rightarrow> provider result" where
  "choose_provider router task = (if task = [] then Inl (ValueError ''INFERENCE_TASK_REQUIRED'') else selected router)"

text \<open>A diagnostic view; \<open>decimal\<close> stands for \<open>Decimal(str(value))\<close>. The policy is given by its entries.\<close>

definition eligible_providers ::
  "(pyval \<Rightarrow> rat option) \<Rightarrow> ProviderRouter \<Rightarrow> string list option \<Rightarrow> string list \<Rightarrow> pyval option \<Rightarrow> provider list result" where
  "eligible_providers decimal router allowed disabled cloud_cap =
     (case decimal (case cloud_cap of Some v \<Rightarrow> v | None \<Rightarrow> rt_cloud_spend_cap router) of
        None \<Rightarrow> Inl (ValueError ''CLOUD_SPEND_CAP_INVALID'')
      | Some cap \<Rightarrow>
          Inr (if os_status (rt_organizer router) \<noteq> ''READY'' then []
            else case os_provider_id (rt_organizer router) of
                None \<Rightarrow> []
              | Some i \<Rightarrow> if i = [] then [] else
                  (case by_id router i of
                     None \<Rightarrow> []
                   | Some p \<Rightarrow>
                       if (case allowed of None \<Rightarrow> False | Some a \<Rightarrow> pr_provider_id p \<notin> set a) then []
                       else if pr_provider_id p \<in> set disabled \<or> \<not> pr_available p then []
                       else if pr_locality p = ''cloud'' \<and> cap \<le> 0 then []
                       else [p])))"

definition ledger_for :: "ProviderRouter \<Rightarrow> InferenceBudget \<Rightarrow> BudgetLedger option" where
  "ledger_for router b = (case rt_budget_ledger router of
       Some l \<Rightarrow> Some l
     | None \<Rightarrow> (case rt_settings router of None \<Rightarrow> None
         | Some (policy, process_run) \<Rightarrow> Some \<lparr>bl_policy = policy,
             bl_run_id = (if ib_run_id b = [] then process_run else ib_run_id b),
             bl_candidate_id = ib_candidate_id b, bl_purpose = ib_purpose b, bl_disabled_providers = []\<rparr>))"

definition deferred_result :: "provider \<Rightarrow> string \<Rightarrow> string \<Rightarrow> ProviderResult" where
  "deferred_result p code schema_name = (blank_result (pr_provider_id p) Deferred)\<lparr>
     pv_error_code := Some code, pv_schema_name := schema_name\<rparr>"

text \<open>
  The request. \<open>fresh\<close> is the random attempt id used when none is given, \<open>day\<close> the day of the call,
  \<open>elapsed_ms\<close> the time spent before the provider is called, \<open>storage_ok\<close> says whether the ledger file
  could be locked and written at the reservation and at the settlement. A missing counter at the
  settlement is no \<open>ValueError\<close>, so it is not caught.
\<close>

definition call_provider ::
  "provider \<Rightarrow> budget_data \<Rightarrow> string \<Rightarrow> pydict \<Rightarrow> InferenceBudget \<Rightarrow> bool
     \<Rightarrow> budget_data \<times> (string \<times> InferenceBudget) list \<times> ProviderResult result" where
  "call_provider p data schema_name input_json b settle_ok =
     (let res = (case pr_generate p schema_name input_json b of
            Inr r \<Rightarrow> r
          | Inl _ \<Rightarrow> (blank_result (pr_provider_id p) Failed)\<lparr>pv_error_code := Some ''PROVIDER_UNAVAILABLE'',
              pv_schema_name := schema_name\<rparr>);
          calls = [(pr_provider_id p, b)];
          unavailable = deferred_result p ''BUDGET_STORAGE_UNAVAILABLE'' schema_name
      in if \<not> settle_ok then (data, calls, Inr unavailable)
         else case settle data (ib_attempt_id b) res of
             Inr data' \<Rightarrow> (data', calls, Inr (res\<lparr>pv_admission_refused := False\<rparr>))
           | Inl (KeyError k) \<Rightarrow> (data, calls, Inl (KeyError k))
           | Inl _ \<Rightarrow> (data, calls, Inr unavailable))"

definition reserve_and_call ::
  "(string \<Rightarrow> string) \<Rightarrow> BudgetLedger \<Rightarrow> provider \<Rightarrow> budget_data \<Rightarrow> string \<Rightarrow> pydict \<Rightarrow> InferenceBudget
     \<Rightarrow> string \<Rightarrow> int \<Rightarrow> bool \<times> bool
     \<Rightarrow> budget_data \<times> (string \<times> InferenceBudget) list \<times> ProviderResult result" where
  "reserve_and_call sha256 ledger p data schema_name input_json b day elapsed_ms storage_ok =
     (if \<not> fst storage_ok then (data, [], Inr (deferred_result p ''BUDGET_STORAGE_UNAVAILABLE'' schema_name))
      else (case reserve sha256 ledger data (ib_attempt_id b) (pr_provider_id p) b day of
          Inl _ \<Rightarrow> (data, [], Inr (deferred_result p ''BUDGET_STORAGE_UNAVAILABLE'' schema_name))
        | Inr (data1, reserved) \<Rightarrow>
            if \<not> br_allowed reserved then
              (data1, [], Inr ((deferred_result p (br_reason_code reserved) schema_name)
                 \<lparr>pv_admission_refused := True\<rparr>))
            else if ib_deadline_ms b - elapsed_ms \<le> 0 then
              (data1, [], Inr (deferred_result p ''DEADLINE_EXCEEDED'' schema_name))
            else call_provider p data1 schema_name input_json
                   (b\<lparr>ib_deadline_ms := ib_deadline_ms b - elapsed_ms\<rparr>) (snd storage_ok)))"

definition generate ::
  "(string \<Rightarrow> string) \<Rightarrow> ProviderRouter \<Rightarrow> budget_data \<Rightarrow> string \<Rightarrow> string \<Rightarrow> pydict \<Rightarrow> InferenceBudget
     \<Rightarrow> string \<Rightarrow> string \<Rightarrow> int \<Rightarrow> bool \<times> bool
     \<Rightarrow> budget_data \<times> (string \<times> InferenceBudget) list \<times> ProviderResult result" where
  "generate sha256 router data stage schema_name input_json b fresh day elapsed_ms storage_ok =
     (if stage = [] then (data, [], Inl (ValueError ''INFERENCE_TASK_REQUIRED''))
      else (case selected router of
          Inl e \<Rightarrow> (data, [], Inl e)
        | Inr p \<Rightarrow>
            if pr_locality p = ''cloud'' then (data, [], Inr (deferred_result p ''PROVIDER_COST_UNKNOWN'' schema_name))
            else (case ledger_for router b of
                None \<Rightarrow> (data, [], Inr (deferred_result p ''BUDGET_LEDGER_REQUIRED'' schema_name))
              | Some ledger \<Rightarrow>
                  reserve_and_call sha256 ledger p data schema_name input_json
                    (b\<lparr>ib_attempt_id := (if ib_attempt_id b = [] then fresh else ib_attempt_id b)\<rparr>)
                    day elapsed_ms storage_ok)))"

subsection \<open>The outcomes of a request\<close>

lemma selected_iff:
  "selected router = Inr p \<longleftrightarrow> os_status (rt_organizer router) = ''READY''
     \<and> (\<exists>i. os_provider_id (rt_organizer router) = Some i \<and> i \<noteq> [] \<and> by_id router i = Some p)"
  by (auto simp: selected_def split: option.splits if_splits)

lemma by_id_provider: "by_id router i = Some p \<Longrightarrow> pr_provider_id p = i \<and> p \<in> set (rt_providers router)"
  by (auto simp: by_id_def dest: map_of_SomeD)

lemma reserve_reserved:
  assumes "reserve sha256 ledger data attempt i b day = Inr (data1, reserved)"
  shows "(\<not> br_allowed reserved \<longrightarrow> data1 = data) \<and> (br_allowed reserved \<longrightarrow>
    (\<exists>row. map_of (bd_reservations data1) attempt = Some row \<and> \<not> rv_settled row
      \<and> rv_input row = ib_max_input_tokens b \<and> rv_output row = ib_max_output_tokens b
      \<and> rv_cost row = ib_max_cost b))"
proof -
  obtain c where c: "consume sha256 ledger data c = Inr (data1, reserved)" "ch_attempt_id c = Some attempt"
    "ch_input c = ib_max_input_tokens b" "ch_output c = ib_max_output_tokens b" "ch_cost c = ib_max_cost b"
    using assms unfolding reserve_def rbind_eq_Inr by auto
  from c(1) show ?thesis
  proof (cases rule: consume_cases)
    case refused
    then show ?thesis by simp
  next
    case admitted
    then show ?thesis using c by (auto simp: charged_def Let_def map_of_dict_set)
  qed
qed

lemma settle_keeps_reservation:
  assumes "settle data a res = Inr data'" "map_of (bd_reservations data) k = Some row"
  shows "\<exists>row'. map_of (bd_reservations data') k = Some row' \<and> rv_input row' = rv_input row
    \<and> rv_output row' = rv_output row \<and> rv_cost row' = rv_cost row"
  using assms(1)
proof (cases rule: settle_shape)
  case same
  then show ?thesis using assms(2) by simp
next
  case (adjusted r e u c)
  then show ?thesis using assms(2) by (auto simp: map_of_dict_set)
qed

text \<open>Either no call is made and the provider is not to blame, or exactly one after an admitted reservation.\<close>

lemma generate_cases:
  assumes "generate sha256 router data stage schema_name input_json b fresh day elapsed storage_ok = (data', calls, r)"
  obtains (none) "calls = []" "\<And>x. r = Inr x \<Longrightarrow> pv_admission_refused x \<Longrightarrow> data' = data \<and> pv_status x = Deferred"
    | (call) p ledger data1 reserved b' where "selected router = Inr p" "pr_locality p \<noteq> ''cloud''"
      "ledger_for router b = Some ledger"
      "reserve sha256 ledger data (ib_attempt_id b') (pr_provider_id p) (b'\<lparr>ib_deadline_ms := ib_deadline_ms b\<rparr>) day
         = Inr (data1, reserved)"
      "br_allowed reserved" "0 < ib_deadline_ms b'" "ib_deadline_ms b' = ib_deadline_ms b - elapsed"
      "(data', calls, r) = call_provider p data1 schema_name input_json b' (snd storage_ok)"
proof (cases "selected router")
  case (Inl e)
  then show thesis using assms none by (auto simp: generate_def split: if_splits)
next
  case (Inr p)
  show thesis
  proof (cases "stage = [] \<or> pr_locality p = ''cloud'' \<or> ledger_for router b = None \<or> \<not> fst storage_ok")
    case True
    then show thesis
      using assms none Inr
      by (auto simp: generate_def reserve_and_call_def deferred_result_def blank_result_def
          split: if_splits option.splits)
  next
    case False
    then obtain ledger where led: "ledger_for router b = Some ledger" by auto
    define b1 where "b1 = b\<lparr>ib_attempt_id := (if ib_attempt_id b = [] then fresh else ib_attempt_id b)\<rparr>"
    have gen: "(data', calls, r) = reserve_and_call sha256 ledger p data schema_name input_json b1 day elapsed storage_ok"
      using assms False Inr led by (simp add: generate_def b1_def)
    show thesis
    proof (cases "reserve sha256 ledger data (ib_attempt_id b1) (pr_provider_id p) b1 day")
      case (Inl e)
      then show thesis
        using gen none False by (simp add: reserve_and_call_def deferred_result_def blank_result_def)
    next
      case (Inr x)
      obtain data1 reserved where x: "x = (data1, reserved)" by (cases x)
      note res = Inr [unfolded x]
      show thesis
      proof (cases "br_allowed reserved \<and> 0 < ib_deadline_ms b1 - elapsed")
        case True
        let ?b = "b1\<lparr>ib_deadline_ms := ib_deadline_ms b1 - elapsed\<rparr>"
        have "(data', calls, r) = call_provider p data1 schema_name input_json ?b (snd storage_ok)"
          using gen res False True by (simp add: reserve_and_call_def)
        moreover have "?b\<lparr>ib_deadline_ms := ib_deadline_ms b\<rparr> = b1" by (simp add: b1_def)
        ultimately show thesis
          using call [OF \<open>selected router = Inr p\<close> _ led, of ?b data1 reserved] False res True
          by (simp add: b1_def)
      next
        case no: False
        then show thesis
          using gen res none False reserve_reserved [OF res]
          by (auto simp: reserve_and_call_def deferred_result_def blank_result_def split: if_splits)
      qed
    qed
  qed
qed

lemma call_provider_one:
  assumes "(data', calls, r) = call_provider p data schema_name input_json b settle_ok"
  shows "calls = [(pr_provider_id p, b)] \<and> (\<forall>x. r = Inr x \<longrightarrow> \<not> pv_admission_refused x)
    \<and> (data' = data \<or> (\<exists>res. settle data (ib_attempt_id b) res = Inr data'))"
  using assms by (auto simp: call_provider_def Let_def deferred_result_def blank_result_def
      split: if_splits sum.splits exn.splits)

subsection \<open>Properties\<close>

text \<open>
  C10. A provider is called only with an admitted reservation: a request that makes a call makes
  exactly one, to the selected organizer and to no other provider, never to a cloud provider, with a
  deadline that has been shortened by the time spent; the ledger admitted a reservation for the whole
  budget of the request before, and afterwards the ledger still holds it.
\<close>

theorem call_needs_admission:
  assumes "generate sha256 router data stage schema_name input_json b fresh day elapsed storage_ok = (data', calls, r)"
    and "calls \<noteq> []"
  shows "\<exists>p b' row. os_status (rt_organizer router) = ''READY'' \<and> p \<in> set (rt_providers router)
    \<and> os_provider_id (rt_organizer router) = Some (pr_provider_id p) \<and> pr_locality p \<noteq> ''cloud''
    \<and> calls = [(pr_provider_id p, b')] \<and> 0 < ib_deadline_ms b' \<and> ib_deadline_ms b' = ib_deadline_ms b - elapsed
    \<and> map_of (bd_reservations data') (ib_attempt_id b') = Some row
    \<and> rv_input row = ib_max_input_tokens b' \<and> rv_output row = ib_max_output_tokens b' \<and> rv_cost row = ib_max_cost b'"
  using assms(1)
proof (cases rule: generate_cases)
  case none
  then show ?thesis using assms(2) by simp
next
  case (call p ledger data1 reserved b')
  note one = call_provider_one [OF call(8)]
  obtain row where row: "map_of (bd_reservations data1) (ib_attempt_id b') = Some row"
    "rv_input row = ib_max_input_tokens b'" "rv_output row = ib_max_output_tokens b'" "rv_cost row = ib_max_cost b'"
    using reserve_reserved [OF call(4)] call(5) by auto
  obtain row' where "map_of (bd_reservations data') (ib_attempt_id b') = Some row'"
    "rv_input row' = rv_input row" "rv_output row' = rv_output row" "rv_cost row' = rv_cost row"
    using one row(1) settle_keeps_reservation by metis
  moreover have "os_status (rt_organizer router) = ''READY''" "p \<in> set (rt_providers router)"
    "os_provider_id (rt_organizer router) = Some (pr_provider_id p)"
    using call(1) unfolding selected_iff by (auto dest: by_id_provider)
  ultimately show ?thesis
    using one row call by (intro exI [of _ p] exI [of _ b'] exI [of _ row']) auto
qed

definition echo_provider :: provider where
  "echo_provider = \<lparr>pr_provider_id = ''ollama'', pr_locality = ''local'', pr_available = True,
     pr_generate = (\<lambda>_ _ _. Inr (settled_call\<lparr>pv_admission_refused := True\<rparr>))\<rparr>"

definition sample_router :: "int \<Rightarrow> ProviderRouter" where
  "sample_router limit = \<lparr>rt_organizer = \<lparr>os_status = ''READY'', os_provider_id = Some ''ollama'', os_host_id = None,
       os_reason_code = None\<rparr>, rt_providers = [echo_provider], rt_provider_order = [],
     rt_cloud_spend_cap = PInt 0, rt_budget_ledger = None,
     rt_settings = Some (default_policy\<lparr>bp_retry_limit := limit\<rparr>, ''process-1'')\<rparr>"

definition sample_budget :: InferenceBudget where
  "sample_budget = \<lparr>ib_max_input_tokens = 1000, ib_max_output_tokens = 100, ib_max_cost = 0, ib_deadline_ms = 5000,
     ib_max_response_bytes = 1000, ib_candidate_id = ''cand'', ib_purpose = ''inheritance-gate'',
     ib_retry_attempt = 0, ib_run_id = [], ib_attempt_id = []\<rparr>"

theorem call_needs_admission_witness:
  "\<exists>data' calls r. generate (\<lambda>s. s) (sample_router 4) empty_ledger ''gate'' ''gate-decision'' [] sample_budget ''a1''
       ''2026-01-01'' 20 (True, True) = (data', calls, r)
     \<and> length calls = 1 \<and> has_key (bd_reservations data') ''a1''"
proof -
  obtain data' calls r where run: "generate (\<lambda>s. s) (sample_router 4) empty_ledger ''gate'' ''gate-decision'' []
      sample_budget ''a1'' ''2026-01-01'' 20 (True, True) = (data', calls, r)" by (metis prod_cases3)
  have "map (ib_attempt_id \<circ> snd) (fst (snd (generate (\<lambda>s. s) (sample_router 4) empty_ledger ''gate''
      ''gate-decision'' [] sample_budget ''a1'' ''2026-01-01'' 20 (True, True)))) = [''a1'']" by code_simp
  then have "map (ib_attempt_id \<circ> snd) calls = [''a1'']" using run by simp
  then show ?thesis
    using call_needs_admission [OF run] run by (fastforce simp: has_key_def dest: map_of_SomeD)
qed

text \<open>
  The refusal flag is evidence that no call was made: a result that carries it comes from a
  request that made no call and left the ledger as it was, whatever the provider itself reported.
\<close>

theorem refusal_flag_means_no_call:
  assumes "generate sha256 router data stage schema_name input_json b fresh day elapsed storage_ok = (data', calls, Inr r)"
    and "pv_admission_refused r"
  shows "calls = [] \<and> data' = data \<and> pv_status r = Deferred"
  using assms(1)
proof (cases rule: generate_cases)
  case none
  then show ?thesis using assms(2) by simp
next
  case (call p ledger data1 reserved b')
  then show ?thesis using call_provider_one [OF call(8)] assms(2) by simp
qed

theorem refusal_flag_means_no_call_witness:
  "\<exists>data' calls r. generate (\<lambda>s. s) (sample_router 0) empty_ledger ''gate'' ''gate-decision'' [] sample_budget ''a1''
       ''2026-01-01'' 20 (True, True) = (data', calls, Inr r)
     \<and> pv_error_code r = Some ''ATTEMPT_CAP_EXCEEDED'' \<and> calls = [] \<and> data' = empty_ledger"
proof -
  obtain data' calls x where run: "generate (\<lambda>s. s) (sample_router 0) empty_ledger ''gate'' ''gate-decision'' []
      sample_budget ''a1'' ''2026-01-01'' 20 (True, True) = (data', calls, x)" by (metis prod_cases3)
  have "(case snd (snd (generate (\<lambda>s. s) (sample_router 0) empty_ledger ''gate'' ''gate-decision'' [] sample_budget
      ''a1'' ''2026-01-01'' 20 (True, True))) of Inl _ \<Rightarrow> False
    | Inr r \<Rightarrow> pv_admission_refused r \<and> pv_error_code r = Some ''ATTEMPT_CAP_EXCEEDED'')" by code_simp
  then obtain r where r: "x = Inr r" "pv_admission_refused r" "pv_error_code r = Some ''ATTEMPT_CAP_EXCEEDED''"
    using run by (auto split: sum.splits)
  then show ?thesis using refusal_flag_means_no_call [OF run [unfolded r(1)] r(2)] run by simp
qed

text \<open>
  There is no fallback: the eligible providers are the selected organizer or none, whatever the
  policy allows and whatever other providers are configured, and \<open>choose\<close> returns the organizer.
\<close>

theorem no_fallback:
  assumes "eligible_providers decimal router allowed disabled cap = Inr ps"
  shows "(ps = [] \<or> (\<exists>p. ps = [p] \<and> selected router = Inr p \<and> pr_available p
            \<and> pr_provider_id p \<notin> set disabled \<and> (\<forall>a. allowed = Some a \<longrightarrow> pr_provider_id p \<in> set a)))
    \<and> (task \<noteq> [] \<longrightarrow> choose_provider router task = selected router)"
  using assms by (auto simp: eligible_providers_def selected_iff choose_provider_def
      split: option.splits if_splits)

theorem no_fallback_witness:
  "\<exists>p. eligible_providers (\<lambda>_. Some 0) ((sample_router 4)\<lparr>rt_providers := [echo_provider\<lparr>pr_provider_id := ''other''\<rparr>,
       echo_provider]\<rparr>) (Some [''ollama'', ''other'']) [] None = Inr [p]
     \<and> selected ((sample_router 4)\<lparr>rt_providers := [echo_provider\<lparr>pr_provider_id := ''other''\<rparr>, echo_provider]\<rparr>) = Inr p
     \<and> pr_provider_id p = ''ollama''"
proof -
  let ?r = "(sample_router 4)\<lparr>rt_providers := [echo_provider\<lparr>pr_provider_id := ''other''\<rparr>, echo_provider]\<rparr>"
  have run: "eligible_providers (\<lambda>_. Some 0) ?r (Some [''ollama'', ''other'']) [] None = Inr [echo_provider]"
    by (simp add: eligible_providers_def sample_router_def by_id_def echo_provider_def)
  then show ?thesis using no_fallback [OF run, of "''t''"] by (simp add: echo_provider_def)
qed

end
