(* ===== verification/Knowledge_Models.thy ===== *)
theory Knowledge_Models
  imports Ei_Prelude
begin

section \<open>Events, observations, clusters and patterns\<close>

text \<open>
  The immutable data of \<^verbatim>\<open>src/src/ei/models.py\<close> that the knowledge components share, the
  canonical JSON of \<^verbatim>\<open>src/src/ei/ids.py\<close> that identities are hashed from, and the event with
  its dictionary form. Timestamps are the ISO texts the code stores. \<open>repr\<close> stands for Python's
  shortest decimal form of a float, \<open>sha256\<close> for the hex digest of a text's UTF-8 bytes.
\<close>

subsection \<open>Canonical JSON\<close>

fun digits_of :: "nat \<Rightarrow> string" where
  "digits_of n = (if n < 10 then [char_of (48 + n)] else digits_of (n div 10) @ [char_of (48 + n mod 10)])"

declare digits_of.simps [simp del]

definition decimal_text :: "int \<Rightarrow> string" where
  "decimal_text i = (if i < 0 then CHR ''-'' # digits_of (nat (- i)) else digits_of (nat i))"

definition hex_digit :: "nat \<Rightarrow> char" where
  "hex_digit n = ''0123456789abcdef'' ! n"

text \<open>Escapes of \<open>json.dumps\<close> with \<open>ensure_ascii=False\<close>.\<close>

definition json_char :: "char \<Rightarrow> string" where
  "json_char c = (let n = of_char c :: nat in
     if n = 34 then [CHR 0x5C, CHR 0x22]
     else if n = 92 then [CHR 0x5C, CHR 0x5C]
     else if n = 8 then [CHR 0x5C, CHR ''b'']
     else if n = 9 then [CHR 0x5C, CHR ''t'']
     else if n = 10 then [CHR 0x5C, CHR ''n'']
     else if n = 12 then [CHR 0x5C, CHR ''f'']
     else if n = 13 then [CHR 0x5C, CHR ''r'']
     else if n < 32 then CHR 0x5C # ''u00'' @ [hex_digit (n div 16), hex_digit (n mod 16)]
     else [c])"

definition json_text :: "string \<Rightarrow> string" where
  "json_text s = CHR 0x22 # concat (map json_char s) @ [CHR 0x22]"

definition join_comma :: "string list \<Rightarrow> string" where
  "join_comma xs = concat (case xs of [] \<Rightarrow> [] | y # ys \<Rightarrow> y # map (\<lambda>z. CHR '','' # z) ys)"

fun canonical_json :: "(rat \<Rightarrow> string) \<Rightarrow> pyval \<Rightarrow> string" where
  "canonical_json repr PNone = ''null''"
| "canonical_json repr (PBool b) = (if b then ''true'' else ''false'')"
| "canonical_json repr (PInt i) = decimal_text i"
| "canonical_json repr (PFloat q) = repr q"
| "canonical_json repr (PStr s) = json_text s"
| "canonical_json repr (PList xs) = ''['' @ join_comma (map (canonical_json repr) xs) @ '']''"
| "canonical_json repr (PTuple xs) = ''['' @ join_comma (map (canonical_json repr) xs) @ '']''"
| "canonical_json repr (PDict d) = ''{'' @ join_comma (map (\<lambda>(k, j). json_text k @ '':'' @ j)
     (sort_key fst (map (\<lambda>(k, v). (k, canonical_json repr v)) d))) @ ''}''"

text \<open>A text is hashed as it is, every other value by its canonical JSON.\<close>

definition stable_hash :: "(string \<Rightarrow> string) \<Rightarrow> (rat \<Rightarrow> string) \<Rightarrow> pyval \<Rightarrow> string" where
  "stable_hash sha256 repr v = sha256 (case v of PStr s \<Rightarrow> s | _ \<Rightarrow> canonical_json repr v)"

subsection \<open>Events\<close>

record Event =
  ev_event_id :: string
  ev_event_type :: string
  ev_occurred_at :: string
  ev_actor :: string
  ev_machine_id :: string
  ev_payload :: pydict
  ev_schema_version :: int
  ev_integrity_sha256 :: string
  ev_idempotency_key :: string
  ev_provenance :: "string list"
  ev_integrity :: pydict

text \<open>\<open>Event.create\<close> with an event id given.\<close>

definition create_event :: "string \<Rightarrow> string \<Rightarrow> string \<Rightarrow> string \<Rightarrow> pydict \<Rightarrow> string \<Rightarrow> Event" where
  "create_event event_type occurred_at actor machine_id payload event_id =
     \<lparr>ev_event_id = event_id, ev_event_type = event_type, ev_occurred_at = occurred_at, ev_actor = actor,
      ev_machine_id = machine_id, ev_payload = payload, ev_schema_version = 1, ev_integrity_sha256 = [],
      ev_idempotency_key = [], ev_provenance = [], ev_integrity = []\<rparr>"

definition canonical_dict :: "Event \<Rightarrow> pydict" where
  "canonical_dict e =
     [(''schema_version'', PInt (ev_schema_version e)), (''event_id'', PStr (ev_event_id e)),
      (''event_type'', PStr (ev_event_type e)), (''occurred_at'', PStr (ev_occurred_at e)),
      (''actor'', PStr (ev_actor e)), (''machine_id'', PStr (ev_machine_id e)), (''payload'', PDict (ev_payload e))]
   @ (if ev_schema_version e \<ge> 2 then
       [(''idempotency_key'', PStr (ev_idempotency_key e)),
        (''provenance'', PList (map PStr (ev_provenance e))), (''integrity'', PDict (ev_integrity e))]
      else [])"

definition event_to_dict :: "Event \<Rightarrow> pydict" where
  "event_to_dict e = canonical_dict e @ [(''integrity_sha256'', PStr (ev_integrity_sha256 e))]"

text \<open>The part of an event that two deliveries of the same fact share.\<close>

definition idempotency_basis :: "Event \<Rightarrow> pydict" where
  "idempotency_basis e =
     [(''schema_version'', PInt (ev_schema_version e)), (''event_type'', PStr (ev_event_type e)),
      (''occurred_at'', PStr (ev_occurred_at e)), (''actor'', PStr (ev_actor e)),
      (''machine_id'', PStr (ev_machine_id e)), (''payload'', PDict (ev_payload e)),
      (''idempotency_key'', PStr (ev_idempotency_key e)), (''provenance'', PList (map PStr (ev_provenance e)))]"

definition EVENT_REQUIRED :: "string list" where
  "EVENT_REQUIRED = [''actor'', ''event_id'', ''event_type'', ''integrity_sha256'', ''machine_id'',
     ''occurred_at'', ''payload'']"

definition ascii_upper :: "char \<Rightarrow> char" where
  "ascii_upper c = (if CHR ''a'' \<le> c \<and> c \<le> CHR ''z'' then char_of (of_char c - 32 :: nat) else c)"

text \<open>A text field of the mapping; a field that is no text is reported by its name.\<close>

definition event_text :: "pydict \<Rightarrow> string \<Rightarrow> string result" where
  "event_text d name = (case get_default d name PNone of
       PStr s \<Rightarrow> Inr s
     | _ \<Rightarrow> Inl (ValueError (''EVENT_'' @ map ascii_upper name @ ''_INVALID'')))"

definition event_from_dict :: "pyval \<Rightarrow> Event result" where
  "event_from_dict data = (case data of
     PDict d \<Rightarrow>
       (let missing = filter (\<lambda>k. \<not> has_key d k) EVENT_REQUIRED in
        if missing \<noteq> [] then Inl (ValueError (''EVENT_FIELDS_MISSING:'' @ join_comma missing))
        else case get_default d ''schema_version'' (PInt 1) of
          PInt version \<Rightarrow>
            rbind (event_text d ''event_id'') (\<lambda>event_id.
            rbind (event_text d ''event_type'') (\<lambda>event_type.
            rbind (event_text d ''occurred_at'') (\<lambda>occurred_at.
            rbind (event_text d ''actor'') (\<lambda>actor.
            rbind (event_text d ''machine_id'') (\<lambda>machine_id.
            rbind (event_text d ''integrity_sha256'') (\<lambda>integrity_sha256.
            case get_default d ''payload'' PNone of
              PDict payload \<Rightarrow>
                (case seq_items (get_default d ''provenance'' (PTuple [])) of
                   None \<Rightarrow> Inl (ValueError ''EVENT_PROVENANCE_INVALID'')
                 | Some items \<Rightarrow>
                     if \<not> list_all is_str items then Inl (ValueError ''EVENT_PROVENANCE_INVALID'')
                     else case get_default d ''integrity'' (PDict []) of
                       PDict integrity \<Rightarrow>
                         (case get_default d ''idempotency_key'' (PStr []) of
                            PStr key \<Rightarrow> Inr \<lparr>ev_event_id = event_id, ev_event_type = event_type,
                              ev_occurred_at = occurred_at, ev_actor = actor, ev_machine_id = machine_id,
                              ev_payload = payload, ev_schema_version = version,
                              ev_integrity_sha256 = integrity_sha256, ev_idempotency_key = key,
                              ev_provenance = map the_str items, ev_integrity = integrity\<rparr>
                          | _ \<Rightarrow> Inl (ValueError ''EVENT_IDEMPOTENCY_KEY_INVALID''))
                     | _ \<Rightarrow> Inl (ValueError ''EVENT_INTEGRITY_OBJECT_REQUIRED''))
            | _ \<Rightarrow> Inl (ValueError ''EVENT_PAYLOAD_NOT_OBJECT'')))))))
        | _ \<Rightarrow> Inl (ValueError ''EVENT_SCHEMA_VERSION_INVALID''))
   | _ \<Rightarrow> Inl (ValueError ''EVENT_OBJECT_REQUIRED''))"

subsection \<open>Observations\<close>

record ObservationInput =
  oi_title :: string
  oi_claim :: string
  oi_source_kind :: string
  oi_source_ref :: string
  oi_cwd :: string
  oi_domain :: string
  oi_outcome_status :: string
  oi_benefit :: string
  oi_classification :: string
  oi_applicability :: "string list"
  oi_source_host_id :: string
  oi_source_host_family :: string
  oi_applicability_scope :: string
  oi_applicable_host_ids :: "string list"
  oi_applicable_host_families :: "string list"

record ProvenanceRef =
  pf_source_hash :: string
  pf_session_id_hash :: "string option"
  pf_rollout_id_hash :: "string option"
  pf_copied_from_hash :: "string option"
  pf_copy_of_hash :: "string option"
  pf_copy_source_hash :: "string option"
  pf_copy_origin_hash :: "string option"
  pf_cwd_hash :: string
  pf_domain :: string
  pf_source_family :: string
  pf_observed_at :: "string option"

record ObservationState =
  ob_observation_id :: string
  ob_title :: string
  ob_claim :: string
  ob_domain :: string
  ob_cwd_fingerprint :: string
  ob_provenance_key :: string
  ob_outcome_status :: string
  ob_benefit :: string
  ob_classification :: string
  ob_source_hash :: string
  ob_applicability :: "string list"
  ob_scope :: string
  ob_provenance :: "ProvenanceRef list"
  ob_benefit_refs :: "string list"
  ob_version_constraint :: "string option"
  ob_status :: string
  ob_session_id_hash :: "string option"
  ob_rollout_id_hash :: "string option"
  ob_copied_from_hash :: "string option"
  ob_source_family :: string
  ob_source_host_id :: string
  ob_source_host_family :: string
  ob_applicability_scope :: string
  ob_applicable_host_ids :: "string list"
  ob_applicable_host_families :: "string list"

subsection \<open>Clusters, patterns and the promotion policy\<close>

text \<open>The frozen sets of a cluster are lists without repetitions.\<close>

record ClusterState =
  cl_cluster_id :: string
  cl_pattern_id :: "string option"
  cl_status :: string
  cl_rule :: string
  cl_provenances :: "string list"
  cl_scopes :: "string list"
  cl_benefit_count :: int
  cl_contradiction_provenances :: "string list"
  cl_classification :: string
  cl_last_used_at :: "string option"
  cl_deprecated_at :: "string option"
  cl_superseded_by :: "string option"
  cl_replacement_active :: bool
  cl_pinned :: bool
  cl_legal_hold :: bool
  cl_exposure_count :: int
  cl_member_ids :: "string list"
  cl_canonical_claim :: string
  cl_polarity :: string
  cl_contradiction_ids :: "string list"
  cl_provenance_scopes :: "string list"
  cl_last_observed_at :: "string option"
  cl_precondition :: "string option"
  cl_failure_mode :: "string option"
  cl_version_constraint :: "string option"
  cl_evidence_refs :: "string list"
  cl_applicability :: "string list"
  cl_revision :: int
  cl_source_host_id :: string
  cl_source_host_family :: string
  cl_applicability_scope :: string
  cl_applicable_host_ids :: "string list"
  cl_applicable_host_families :: "string list"

record PatternState =
  pa_pattern_id :: string
  pa_rule :: string
  pa_precondition :: string
  pa_scope :: string
  pa_evidence_ids :: "string list"
  pa_benefit_refs :: "string list"
  pa_exceptions :: "string list"
  pa_version_constraint :: "string option"
  pa_status :: string
  pa_classification :: string
  pa_utility :: rat
  pa_cluster_id :: string
  pa_applicability :: "string list"
  pa_updated_at :: "string option"
  pa_contradiction_count :: int
  pa_pinned :: bool
  pa_legal_hold :: bool
  pa_source_host_id :: string
  pa_source_host_family :: string
  pa_applicability_scope :: string
  pa_applicable_host_ids :: "string list"
  pa_applicable_host_families :: "string list"

record ValidationResult =
  vr_valid :: bool
  vr_reason_codes :: "string list"

record PromotionPolicy =
  pp_independent_provenance_count :: int
  pp_distinct_scope_count :: int
  pp_benefit_evidence_count :: int
  pp_max_unresolved_contradictions :: int
  pp_min_rule_chars :: int
  pp_max_rule_chars :: int
  pp_contradiction_count_for_deprecation :: int
  pp_unused_days_for_deprecation :: int
  pp_superseded_unused_days_for_tombstone :: int
  pp_deprecated_unused_days_for_tombstone :: int
  pp_policy_version :: string
  pp_always_on_target_chars :: int
  pp_always_on_hard_cap_chars :: int
  pp_candidate_retention_days :: int
  pp_tombstone_retention_days :: int

definition default_promotion_policy :: PromotionPolicy where
  "default_promotion_policy = \<lparr>pp_independent_provenance_count = 2, pp_distinct_scope_count = 2,
     pp_benefit_evidence_count = 1, pp_max_unresolved_contradictions = 0, pp_min_rule_chars = 80,
     pp_max_rule_chars = 1200, pp_contradiction_count_for_deprecation = 3, pp_unused_days_for_deprecation = 180,
     pp_superseded_unused_days_for_tombstone = 90, pp_deprecated_unused_days_for_tombstone = 365,
     pp_policy_version = ''promotion-v1'', pp_always_on_target_chars = 9000, pp_always_on_hard_cap_chars = 12000,
     pp_candidate_retention_days = 180, pp_tombstone_retention_days = 365\<rparr>"

subsection \<open>Properties\<close>

lemma list_all_is_str_map [simp]: "list_all is_str (map PStr xs)"
  by (induction xs) auto

lemma the_str_comp [simp]: "the_str \<circ> PStr = id"
  by (simp add: fun_eq_iff)

text \<open>
  Events survive the journal: reading what \<open>to_dict\<close> wrote returns the event itself; an event
  of the first schema version, which has no such fields, returns without idempotency key, provenance
  and integrity record.
\<close>

theorem event_roundtrip:
  "event_from_dict (PDict (event_to_dict e)) =
     Inr (if ev_schema_version e \<ge> 2 then e
          else e\<lparr>ev_idempotency_key := [], ev_provenance := [], ev_integrity := []\<rparr>)"
  by (cases e) (simp add: event_from_dict_def event_to_dict_def canonical_dict_def EVENT_REQUIRED_def
      has_key_def get_default_def event_text_def)

end
