(* ===== verification/Text_Patterns.thy ===== *)
theory Text_Patterns
  imports Ei_Prelude
begin

section \<open>Regular expressions of the text policies\<close>

text \<open>
  The policies of the engine search texts for patterns. Only the answer of a search matters there
  (is there a match anywhere), so a pattern is given by what it matches: a relation between two
  positions of the text. \<open>ends\<close> computes the end positions of the matches that start at a position,
  \<open>search\<close> tries every start, and both are proved equal to that relation. A position is an index,
  because \<open>\b\<close> looks at both sides of it.
\<close>

datatype rx =
    Sym "char \<Rightarrow> bool"
  | Boundary
  | Eps
  | Seq rx rx
  | Alt rx rx
  | Star rx

text \<open>\<open>\w\<close> on the code points \<open>0..255\<close>: letters, digits and numbers, and the underscore.\<close>

definition word_char :: "char \<Rightarrow> bool" where
  "word_char c \<longleftrightarrow> ascii_alpha c \<or> ascii_digit c \<or> c = CHR ''_''
   \<or> (let n = of_char c :: nat in
        n \<in> {170, 178, 179, 181, 185, 186, 188, 189, 190} \<or> (192 \<le> n \<and> n \<noteq> 215 \<and> n \<noteq> 247))"

definition at_boundary :: "string \<Rightarrow> nat \<Rightarrow> bool" where
  "at_boundary t i \<longleftrightarrow> (0 < i \<and> i \<le> length t \<and> word_char (t ! (i - 1))) \<noteq> (i < length t \<and> word_char (t ! i))"

subsection \<open>Matching\<close>

inductive matches :: "rx \<Rightarrow> string \<Rightarrow> nat \<Rightarrow> nat \<Rightarrow> bool" where
  m_sym: "i < length t \<Longrightarrow> p (t ! i) \<Longrightarrow> matches (Sym p) t i (Suc i)"
| m_boundary: "at_boundary t i \<Longrightarrow> matches Boundary t i i"
| m_eps: "matches Eps t i i"
| m_seq: "matches a t i j \<Longrightarrow> matches b t j k \<Longrightarrow> matches (Seq a b) t i k"
| m_alt1: "matches a t i j \<Longrightarrow> matches (Alt a b) t i j"
| m_alt2: "matches b t i j \<Longrightarrow> matches (Alt a b) t i j"
| m_star0: "matches (Star a) t i i"
| m_star: "matches a t i j \<Longrightarrow> matches (Star a) t j k \<Longrightarrow> matches (Star a) t i k"

inductive_simps matches_simps:
  "matches (Sym p) t i j" "matches Boundary t i j" "matches Eps t i j"
  "matches (Seq a b) t i j" "matches (Alt a b) t i j"

inductive_cases matches_StarE: "matches (Star a) t i j"

text \<open>Positions reachable from \<open>i\<close> by steps of \<open>f\<close> that move on; \<open>n\<close> bounds how many are left.\<close>

fun closure :: "(nat \<Rightarrow> nat list) \<Rightarrow> nat \<Rightarrow> nat \<Rightarrow> nat list" where
  "closure f 0 i = [i]"
| "closure f (Suc n) i = i # concat (map (closure f n) (filter (\<lambda>j. i < j) (f i)))"

fun ends :: "rx \<Rightarrow> string \<Rightarrow> nat \<Rightarrow> nat list" where
  "ends (Sym p) t i = (if i < length t \<and> p (t ! i) then [Suc i] else [])"
| "ends Boundary t i = (if at_boundary t i then [i] else [])"
| "ends Eps t i = [i]"
| "ends (Seq a b) t i = concat (map (ends b t) (ends a t i))"
| "ends (Alt a b) t i = ends a t i @ ends b t i"
| "ends (Star a) t i = closure (ends a t) (length t - i) i"

definition search :: "rx \<Rightarrow> string \<Rightarrow> bool" where
  "search r t \<longleftrightarrow> list_ex (\<lambda>i. ends r t i \<noteq> []) [0..<Suc (length t)]"

text \<open>What \<open>re.search\<close> promises: there is a match somewhere in the text.\<close>

definition occurs :: "rx \<Rightarrow> string \<Rightarrow> bool" where
  "occurs r t \<longleftrightarrow> (\<exists>i j. i \<le> length t \<and> matches r t i j)"

lemma matches_bounds: "matches r t i j \<Longrightarrow> i \<le> j \<and> (i \<le> length t \<longrightarrow> j \<le> length t)"
  by (induction rule: matches.induct) auto

text \<open>A repetition can be taken apart into steps that move on.\<close>

lemma closure_sound:
  "k \<in> set (closure f n i) \<Longrightarrow> (\<And>i j. j \<in> set (f i) \<Longrightarrow> matches a t i j) \<Longrightarrow> matches (Star a) t i k"
proof (induction n arbitrary: i)
  case 0
  then show ?case by (auto intro: m_star0)
next
  case (Suc n)
  then show ?case by (auto intro: m_star0 m_star)
qed

lemma star_steps: "matches (Star a) t i k \<Longrightarrow> i = k \<or> (\<exists>j. matches a t i j \<and> i < j \<and> matches (Star a) t j k)"
proof (induction "Star a" t i k rule: matches.induct)
  case (m_star t i j k)
  show ?case
  proof (cases "i = j")
    case True
    then show ?thesis using m_star by simp
  next
    case False
    then show ?thesis using m_star matches_bounds [OF m_star(1)] by auto
  qed
qed simp

lemma closure_complete:
  assumes "matches (Star a) t i k" "i \<le> length t" "length t - i \<le> n"
    and "\<And>i j. i \<le> length t \<Longrightarrow> matches a t i j \<Longrightarrow> j \<in> set (f i)"
  shows "k \<in> set (closure f n i)"
  using assms
proof (induction n arbitrary: i)
  case 0
  then show ?case using matches_bounds [OF 0(1)] by simp
next
  case (Suc n)
  from star_steps [OF Suc.prems(1)] show ?case
  proof
    assume "\<exists>j. matches a t i j \<and> i < j \<and> matches (Star a) t j k"
    then obtain j where j: "matches a t i j" "i < j" "matches (Star a) t j k" by blast
    then have "j \<le> length t" using matches_bounds Suc.prems(2) by blast
    then have "k \<in> set (closure f n j)" using Suc.IH [OF j(3)] Suc.prems j(2) by fastforce
    then show ?thesis using j Suc.prems(2,4) by auto
  qed simp
qed

lemma ends_sound: "j \<in> set (ends r t i) \<Longrightarrow> matches r t i j"
proof (induction r arbitrary: i j)
  case (Star r)
  then show ?case by (auto intro: closure_sound)
next
  case (Seq a b)
  then show ?case by simp (blast intro: m_seq)
qed (auto intro: matches.intros split: if_splits)

lemma ends_complete: "matches r t i j \<Longrightarrow> i \<le> length t \<Longrightarrow> j \<in> set (ends r t i)"
proof (induction r arbitrary: i j)
  case (Seq a b)
  then obtain k where k: "matches a t i k" "matches b t k j" by (auto simp: matches_simps)
  then have "k \<le> length t" using matches_bounds Seq.prems(2) by blast
  then show ?case using k Seq.IH Seq.prems(2) by simp blast
next
  case (Star r)
  then show ?case by (auto intro: closure_complete)
qed (auto simp: matches_simps)

lemma search_occurs: "search r t \<longleftrightarrow> occurs r t"
proof
  assume "search r t"
  then obtain i where "i \<le> length t" "ends r t i \<noteq> []" unfolding search_def list_ex_iff set_upt by (auto simp: less_Suc_eq_le)
  then show "occurs r t" unfolding occurs_def by (metis ends_sound last_in_set)
next
  assume "occurs r t"
  then obtain i j where "i \<le> length t" "j \<in> set (ends r t i)" unfolding occurs_def using ends_complete by blast
  then show "search r t" unfolding search_def list_ex_iff set_upt by (intro bexI [of _ i]) auto
qed

subsection \<open>Patterns\<close>

definition ascii_lower :: "char \<Rightarrow> char" where
  "ascii_lower c = (if CHR ''A'' \<le> c \<and> c \<le> CHR ''Z'' then char_of (of_char c + 32 :: nat) else c)"

lemma ascii_lower_space: "ascii_lower c = ascii_lower (CHR '' '') \<longleftrightarrow> c = CHR '' ''"
proof (cases "CHR ''A'' \<le> c \<and> c \<le> CHR ''Z''")
  case True
  then have range: "65 \<le> (of_char c :: nat)" "(of_char c :: nat) \<le> 90" by (simp_all add: less_eq_char_def)
  have "(of_char (char_of (of_char c + 32 :: nat)) :: nat) = of_char c + 32"
    using range by simp
  moreover have "(of_char (CHR '' '') :: nat) = 32" by simp
  ultimately have "char_of (of_char c + 32 :: nat) = CHR '' '' \<Longrightarrow> of_char c + 32 = (32 :: nat)" by metis
  then have "char_of (of_char c + 32 :: nat) \<noteq> CHR '' ''" using range(1) by linarith
  then show ?thesis using True by (auto simp: ascii_lower_def)
qed (auto simp: ascii_lower_def)

fun seqs :: "rx list \<Rightarrow> rx" where
  "seqs [] = Eps"
| "seqs [r] = r"
| "seqs (r # rs) = Seq r (seqs rs)"

fun alts :: "rx list \<Rightarrow> rx" where
  "alts [] = Sym (\<lambda>_. False)"
| "alts [r] = r"
| "alts (r # rs) = Alt r (alts rs)"

definition lit :: "string \<Rightarrow> rx" where
  "lit s = seqs (map (\<lambda>c. Sym (\<lambda>d. d = c)) s)"

definition ilit :: "string \<Rightarrow> rx" where
  "ilit s = seqs (map (\<lambda>c. Sym (\<lambda>d. ascii_lower d = ascii_lower c)) s)"

definition plus :: "rx \<Rightarrow> rx" where
  "plus r = Seq r (Star r)"

definition opt :: "rx \<Rightarrow> rx" where
  "opt r = Alt r Eps"

definition at_least :: "nat \<Rightarrow> rx \<Rightarrow> rx" where
  "at_least n r = seqs (replicate n r @ [Star r])"

definition alnum :: "char \<Rightarrow> bool" where
  "alnum c \<longleftrightarrow> ascii_alpha c \<or> ascii_digit c"

definition spaces :: rx where
  "spaces = Star (Sym is_space)"

subsection \<open>Characters a pattern cannot do without\<close>

text \<open>Every match of the pattern consumes a character of the class \<open>P\<close>.\<close>

fun requires :: "(char \<Rightarrow> bool) \<Rightarrow> rx \<Rightarrow> bool" where
  "requires P (Sym p) = (\<forall>c. p c \<longrightarrow> P c)"
| "requires P Boundary = False"
| "requires P Eps = False"
| "requires P (Seq a b) = (requires P a \<or> requires P b)"
| "requires P (Alt a b) = (requires P a \<and> requires P b)"
| "requires P (Star a) = False"

lemma requires_matches: "matches r t i j \<Longrightarrow> requires P r \<Longrightarrow> i \<le> length t \<Longrightarrow> list_ex P t"
proof (induction rule: matches.induct)
  case (m_sym i t p)
  then show ?case by (auto simp: list_ex_iff intro!: bexI [of _ "t ! i"])
next
  case (m_seq a t i j b k)
  then show ?case using matches_bounds [OF m_seq(1)] by auto
qed auto

lemma not_occurs_without: "requires P r \<Longrightarrow> \<not> list_ex P t \<Longrightarrow> \<not> occurs r t"
  unfolding occurs_def using requires_matches by blast

end
