(* ===== verification/Privacy_Policy.thy ===== *)
theory Privacy_Policy
  imports Text_Patterns Knowledge_Models
begin

section \<open>The privacy policy\<close>

text \<open>
  \<^verbatim>\<open>src/src/ei/privacy.py\<close>: which text may leave the machine. Secret patterns, source paths and
  source classes decide; a rejection names a rule and never the text. \<open>nfkc\<close> stands for
  \<open>unicodedata.normalize("NFKC", _)\<close>; it is the identity on ASCII texts. The checks of real paths
  (\<open>safe_source_path\<close>) are not modelled.
\<close>

datatype Classification = PUBLIC | PRIVATE_REUSABLE | CLIENT_CONFIDENTIAL | MACHINE_LOCAL | SECRET
  | EXTERNAL_REFERENCE

record PrivacyDecision =
  pd_classification :: Classification
  pd_allow_private_sync :: bool
  pd_allow_user_baseline :: bool
  pd_reason_code :: string
  pd_matched_rule_id :: "string option"
  pd_irreversible_generalization :: bool

definition privacy_decision :: "Classification \<Rightarrow> bool \<Rightarrow> string \<Rightarrow> string \<Rightarrow> PrivacyDecision" where
  "privacy_decision c sync reason rule = \<lparr>pd_classification = c, pd_allow_private_sync = sync,
     pd_allow_user_baseline = False, pd_reason_code = reason, pd_matched_rule_id = Some rule,
     pd_irreversible_generalization = False\<rparr>"

subsection \<open>Secret patterns\<close>

definition in_set :: "string \<Rightarrow> rx" where
  "in_set s = Sym (\<lambda>c. c \<in> set s)"

definition not_in :: "string \<Rightarrow> rx" where
  "not_in s = Sym (\<lambda>c. c \<notin> set s)"

text \<open>The right-hand side of an assignment: a quoted text, or a run without white space, comma, semicolon.\<close>

definition assigned_value :: rx where
  "assigned_value = alts [
     seqs [in_set [CHR 0x22], Star (not_in [CHR 0x22, CHR 0x0D, CHR 0x0A]), in_set [CHR 0x22]],
     seqs [in_set [CHR 0x27], Star (not_in [CHR 0x27, CHR 0x0D, CHR 0x0A]), in_set [CHR 0x27]],
     plus (Sym (\<lambda>c. \<not> is_space c \<and> c \<notin> set '',;''))]"

definition header_rule :: "string list \<Rightarrow> rx" where
  "header_rule names = seqs [Boundary, alts (map ilit names), spaces, in_set '':'', spaces,
     plus (Sym (\<lambda>c. \<not> is_space c))]"

definition assignment_rule :: "rx list \<Rightarrow> rx" where
  "assignment_rule names = seqs [Boundary, alts names, spaces, in_set '':='', spaces, assigned_value]"

definition SECRET_RULES :: "(string \<times> rx) list" where
  "SECRET_RULES = [
     (''private_key_block'', alts [
        seqs [ilit ''-----BEGIN'', Star (Seq (in_set '' '') (plus (Sym alnum))), ilit '' PRIVATE KEY-----''],
        seqs [ilit ''-----BEGIN'', ilit '' OPENSSH PRIVATE KEY-----'']]),
     (''authorization_header'', header_rule [''authorization'', ''proxy-authorization'']),
     (''cookie_header'', header_rule [''cookie'', ''set-cookie'']),
     (''password_assignment'', assignment_rule (map ilit [''password'', ''passwd'', ''pwd''])),
     (''credential_assignment'', assignment_rule [
        seqs [ilit ''api'', opt (in_set ''_-''), ilit ''key''],
        seqs [ilit ''access'', opt (in_set ''_-''), ilit ''token''],
        seqs [ilit ''refresh'', opt (in_set ''_-''), ilit ''token''],
        seqs [ilit ''client'', opt (in_set ''_-''), ilit ''secret''],
        seqs [ilit ''secret'', opt (in_set ''_-''), ilit ''key'']]),
     (''provider_token'', seqs [Boundary, alts [
        seqs [lit ''sk-'', Sym alnum, at_least 12 (Sym (\<lambda>c. alnum c \<or> c \<in> set ''_-''))],
        seqs [lit ''ghp_'', at_least 20 (Sym alnum)],
        seqs [lit ''github_pat_'', at_least 20 (Sym (\<lambda>c. alnum c \<or> c = CHR ''_''))],
        seqs [lit ''xox'', in_set ''baprs'', lit ''-'', at_least 12 (Sym (\<lambda>c. alnum c \<or> c = CHR ''-''))]],
        Boundary]),
     (''connection_string'', seqs [Boundary, alts [
        seqs [ilit ''postgres'', opt (ilit ''ql'')], ilit ''mysql'', seqs [ilit ''mongodb'', opt (ilit ''+srv'')],
        ilit ''redis'', seqs [ilit ''amqp'', opt (ilit ''s'')], seqs [ilit ''http'', opt (ilit ''s'')]],
        ilit ''://'', plus (Sym (\<lambda>c. \<not> is_space c \<and> c \<notin> set ''/:@'')), in_set '':'',
        plus (Sym (\<lambda>c. \<not> is_space c \<and> c \<noteq> CHR ''@'')), in_set ''@''])]"

text \<open>\<open>re.sub(r"\[REDACTED_[A-Z0-9_]+\]", "", _)\<close>: markers of an earlier redaction are dropped.\<close>

definition marker_char :: "char \<Rightarrow> bool" where
  "marker_char c \<longleftrightarrow> (CHR ''A'' \<le> c \<and> c \<le> CHR ''Z'') \<or> ascii_digit c \<or> c = CHR ''_''"

definition after_marker :: "string \<Rightarrow> string option" where
  "after_marker s = (if starts_with ''[REDACTED_'' s then
       (let body = takeWhile marker_char (drop 10 s); rest = dropWhile marker_char (drop 10 s)
        in case rest of
             c # cs \<Rightarrow> if body \<noteq> [] \<and> c = CHR '']'' then Some cs else None
           | [] \<Rightarrow> None)
     else None)"

lemma after_marker_shorter: "after_marker s = Some r \<Longrightarrow> length r < length s"
proof -
  assume "after_marker s = Some r"
  then obtain c where "dropWhile marker_char (drop 10 s) = c # r"
    by (auto simp: after_marker_def Let_def split: if_splits list.splits)
  then have "length (c # r) \<le> length (drop 10 s)" by (metis length_dropWhile_le)
  then show ?thesis by simp
qed

function strip_markers :: "string \<Rightarrow> string" where
  "strip_markers s = (case after_marker s of
       Some r \<Rightarrow> strip_markers r
     | None \<Rightarrow> (case s of [] \<Rightarrow> [] | c # cs \<Rightarrow> c # strip_markers cs))"
  by pat_completeness auto
termination by (relation "measure length") (auto dest: after_marker_shorter)

declare strip_markers.simps [simp del]

definition secret_match :: "(string \<Rightarrow> string) \<Rightarrow> string \<Rightarrow> string option" where
  "secret_match nfkc value = (let normalized = strip_markers (nfkc value) in
     map_option fst (List.find (\<lambda>(rule_id, pattern). search pattern normalized) SECRET_RULES))"

subsection \<open>Paths and sources\<close>

fun split_on :: "char \<Rightarrow> string \<Rightarrow> string list" where
  "split_on d [] = [[]]"
| "split_on d (c # cs) = (if c = d then [] # split_on d cs
     else case split_on d cs of [] \<Rightarrow> [[c]] | p # ps \<Rightarrow> (c # p) # ps)"

definition path_parts :: "(string \<Rightarrow> string) \<Rightarrow> string \<Rightarrow> string list" where
  "path_parts nfkc value = filter (\<lambda>part. part \<noteq> [] \<and> part \<noteq> ''.'')
     (split_on (CHR ''/'') (map (\<lambda>c. if c = CHR 0x5C then CHR ''/'' else c) (nfkc value)))"

definition FORBIDDEN_FILE_NAMES :: "string list" where
  "FORBIDDEN_FILE_NAMES = [''auth'', ''auth.json'', ''auth.yaml'', ''auth.yml'', ''auth.toml'', ''credentials'',
     ''credentials.json'', ''cookies'', ''cookies.json'', ''session.sqlite'', ''state.sqlite'']"

definition FORBIDDEN_DIRECTORY_NAMES :: "string list" where
  "FORBIDDEN_DIRECTORY_NAMES = [''auth'', ''authentication'', ''browser'', ''browser-state'', ''cookies'',
     ''cookie'', ''transcript'', ''transcripts'', ''raw-transcript'', ''raw_transcript'', ''sqlite'', ''spool'',
     ''quarantine'', ''local-runtime'', ''.ei-local'']"

definition ends_with :: "string \<Rightarrow> string \<Rightarrow> bool" where
  "ends_with suffix s \<longleftrightarrow> starts_with (rev suffix) (rev s)"

definition part_denied :: "string option \<Rightarrow> string \<Rightarrow> bool" where
  "part_denied previous part \<longleftrightarrow>
     starts_with ''.env'' part \<or> list_ex (\<lambda>e. ends_with e part) [''.sqlite'', ''.sqlite3'', ''.db'']
   \<or> part \<in> set FORBIDDEN_FILE_NAMES \<or> part \<in> set FORBIDDEN_DIRECTORY_NAMES
   \<or> contains ''transcript'' part \<or> contains ''browser'' part
   \<or> (part \<in> {''key'', ''keys''}
      \<and> (case previous of None \<Rightarrow> False | Some p \<Rightarrow> p \<in> {''spool'', ''queue'', ''runtime''}))"

fun any_denied :: "string option \<Rightarrow> string list \<Rightarrow> bool" where
  "any_denied previous [] = False"
| "any_denied previous (part # parts) = (part_denied previous part \<or> any_denied (Some part) parts)"

definition forbidden_path_reason :: "(string \<Rightarrow> string) \<Rightarrow> string \<Rightarrow> string option" where
  "forbidden_path_reason nfkc value =
     (if value \<noteq> [] \<and> any_denied None (map casefold (path_parts nfkc value))
      then Some ''MACHINE_LOCAL_PATH'' else None)"

definition classify_source :: "string \<Rightarrow> Classification" where
  "classify_source source_kind = (let k = casefold source_kind in
     if k = ''public'' then PUBLIC
     else if k \<in> {''client-confidential'', ''client_confidential''} then CLIENT_CONFIDENTIAL
     else if k \<in> {''machine-local'', ''machine_local''} then MACHINE_LOCAL
     else if k = ''secret'' then SECRET
     else if k \<in> {''external-reference'', ''external_reference'', ''external_article_copy''} then EXTERNAL_REFERENCE
     else PRIVATE_REUSABLE)"

subsection \<open>Inspection\<close>

definition safe_rejection :: "string \<Rightarrow> string \<Rightarrow> PrivacyDecision" where
  "safe_rejection reason rule = privacy_decision SECRET False reason rule"

definition inspect_text :: "(string \<Rightarrow> string) \<Rightarrow> string \<Rightarrow> string \<Rightarrow> string \<Rightarrow> PrivacyDecision" where
  "inspect_text nfkc text source_kind source_ref =
     (let normalized = nfkc text in
      if int (length normalized) > 2000000 then privacy_decision MACHINE_LOCAL False ''PAYLOAD_TOO_LARGE'' ''size_limit''
      else case secret_match nfkc normalized of
          Some rule \<Rightarrow> safe_rejection ''SECRET_PATTERN_MATCH'' rule
        | None \<Rightarrow> (case forbidden_path_reason nfkc source_ref of
              Some reason \<Rightarrow> privacy_decision MACHINE_LOCAL False reason ''path_policy''
            | None \<Rightarrow> (case classify_source source_kind of
                  SECRET \<Rightarrow> safe_rejection ''SECRET_CLASSIFICATION'' ''source_class''
                | CLIENT_CONFIDENTIAL \<Rightarrow>
                    privacy_decision CLIENT_CONFIDENTIAL False ''CLIENT_CONFIDENTIAL_LOCAL_ONLY'' ''classification''
                | MACHINE_LOCAL \<Rightarrow> privacy_decision MACHINE_LOCAL False ''MACHINE_LOCAL_SOURCE'' ''classification''
                | c \<Rightarrow> privacy_decision c (c = PUBLIC \<or> c = PRIVATE_REUSABLE) ''CLASSIFIED'' ''classification'')))"

text \<open>The category \<open>Cc\<close> and, in the modelled range, the one character of category \<open>Cf\<close> (the soft hyphen).\<close>

definition control_char :: "char \<Rightarrow> bool" where
  "control_char c \<longleftrightarrow> (let n = of_char c :: nat in
     (n < 32 \<or> 127 \<le> n \<and> n < 160 \<or> n = 173) \<and> n \<notin> {9, 10, 13})"

definition inspect_persisted_text :: "(string \<Rightarrow> string) \<Rightarrow> string \<Rightarrow> string \<Rightarrow> string \<Rightarrow> PrivacyDecision" where
  "inspect_persisted_text nfkc text source_kind source_ref =
     (let normalized = nfkc text in
      if list_ex control_char normalized then safe_rejection ''UNICODE_CONTROL_FORBIDDEN'' ''unicode_control''
      else inspect_text nfkc normalized source_kind source_ref)"

text \<open>An observation on its way in, or a stored one; an attribute the class does not have reads as empty.\<close>

datatype observation = Input ObservationInput | State ObservationState

fun observation_texts :: "observation \<Rightarrow> string list" where
  "observation_texts (Input x) = [oi_title x, oi_claim x, oi_source_kind x, oi_source_ref x, oi_cwd x, oi_domain x,
     oi_outcome_status x, oi_benefit x, oi_classification x, [], [], [], []] @ oi_applicability x"
| "observation_texts (State x) = [ob_title x, ob_claim x, [], [], [], ob_domain x, ob_outcome_status x,
     ob_benefit x, ob_classification x, ob_observation_id x, ob_provenance_key x, ob_cwd_fingerprint x,
     ob_source_hash x] @ ob_applicability x"

fun join_lines :: "string list \<Rightarrow> string" where
  "join_lines [] = []"
| "join_lines [x] = x"
| "join_lines (x # xs) = x @ CHR 0x0A # join_lines xs"

fun observed_classification :: "observation \<Rightarrow> string" where
  "observed_classification (Input x) = oi_classification x"
| "observed_classification (State x) = ob_classification x"

definition or_text :: "string \<Rightarrow> string \<Rightarrow> string" where
  "or_text a b = (if a \<noteq> [] then a else b)"

fun observed_kind :: "observation \<Rightarrow> string" where
  "observed_kind (Input x) = or_text (oi_source_kind x) (oi_classification x)"
| "observed_kind (State x) = ob_classification x"

fun observed_ref :: "observation \<Rightarrow> string" where
  "observed_ref (Input x) = oi_source_ref x"
| "observed_ref (State x) = ob_provenance_key x"

text \<open>The working directory and the source reference, each checked against the path policy.\<close>

fun observed_paths :: "observation \<Rightarrow> string list" where
  "observed_paths (Input x) = [oi_cwd x, oi_source_ref x]"
| "observed_paths (State x) = [ob_cwd_fingerprint x, []]"

definition inspect_observation :: "(string \<Rightarrow> string) \<Rightarrow> observation \<Rightarrow> PrivacyDecision" where
  "inspect_observation nfkc observation =
     (let source_kind = observed_kind observation;
          decision = inspect_text nfkc (join_lines (observation_texts observation)) source_kind (observed_ref observation);
          explicit = observed_classification observation;
          explicit_class = classify_source explicit
      in if \<not> pd_allow_private_sync decision \<and> pd_reason_code decision \<noteq> ''CLASSIFIED'' then decision
         else if list_ex (\<lambda>v. forbidden_path_reason nfkc v \<noteq> None) (observed_paths observation)
           then privacy_decision MACHINE_LOCAL False ''MACHINE_LOCAL_PATH'' ''path_policy''
         else if casefold explicit \<in> {''client-confidential-generalized'', ''client_confidential_generalized''}
           then (privacy_decision PRIVATE_REUSABLE True ''GENERALIZATION_VERIFIED'' ''generalization'')
                  \<lparr>pd_irreversible_generalization := True\<rparr>
         else if explicit_class = SECRET then safe_rejection ''SECRET_CLASSIFICATION'' ''classification''
         else if explicit_class = CLIENT_CONFIDENTIAL
           then privacy_decision explicit_class False ''CLIENT_CONFIDENTIAL_LOCAL_ONLY'' ''classification''
         else if explicit_class = MACHINE_LOCAL
           then privacy_decision explicit_class False ''MACHINE_LOCAL_SOURCE'' ''classification''
         else if explicit_class = EXTERNAL_REFERENCE
               \<or> source_kind \<in> {''external_article_copy'', ''external-reference'', ''external_reference''}
           then privacy_decision EXTERNAL_REFERENCE False ''EXTERNAL_REFERENCE_LOCAL_ONLY'' ''classification''
         else \<lparr>pd_classification = explicit_class,
               pd_allow_private_sync = explicit_class \<in> {PUBLIC, PRIVATE_REUSABLE}, pd_allow_user_baseline = False,
               pd_reason_code = pd_reason_code decision, pd_matched_rule_id = pd_matched_rule_id decision,
               pd_irreversible_generalization = False\<rparr>)"

definition assert_syncable :: "PrivacyDecision \<Rightarrow> unit result" where
  "assert_syncable decision =
     (let c = pd_classification decision;
          allowed = c \<in> {PUBLIC, PRIVATE_REUSABLE} \<or> (c = CLIENT_CONFIDENTIAL \<and> pd_irreversible_generalization decision)
      in if \<not> allowed \<or> \<not> pd_allow_private_sync decision
           then Inl (PrivacyError (or_text (pd_reason_code decision) ''PRIVACY_REJECTED''))
         else if c = CLIENT_CONFIDENTIAL \<and> \<not> pd_irreversible_generalization decision
           then Inl (PrivacyError ''CLIENT_CONFIDENTIAL_LOCAL_ONLY'')
         else Inr ())"

subsection \<open>What the policy lets through\<close>

text \<open>The reference for the search: the first rule of the list that occurs in the text.\<close>

fun first_occurring :: "(string \<times> rx) list \<Rightarrow> string \<Rightarrow> string option" where
  "first_occurring [] t = None"
| "first_occurring ((rule_id, pattern) # rules) t = (if occurs pattern t then Some rule_id else first_occurring rules t)"

lemma find_first_occurring:
  "map_option fst (List.find (\<lambda>(rule_id, pattern). search pattern t) rules) = first_occurring rules t"
  by (induction rules t rule: first_occurring.induct) (auto simp: search_occurs)

lemma first_occurring_None: "first_occurring rules t = None \<longleftrightarrow> \<not> (\<exists>rule \<in> set rules. occurs (snd rule) t)"
  by (induction rules t rule: first_occurring.induct) auto

lemma first_occurring_Some: "first_occurring rules t = Some i \<Longrightarrow> i \<in> fst ` set rules"
  by (induction rules t rule: first_occurring.induct) (auto split: if_splits)

definition secret_free :: "(string \<Rightarrow> string) \<Rightarrow> string \<Rightarrow> bool" where
  "secret_free nfkc text \<longleftrightarrow> \<not> (\<exists>rule \<in> set SECRET_RULES. occurs (snd rule) (strip_markers (nfkc text)))"

lemma secret_match_eq: "secret_match nfkc text = first_occurring SECRET_RULES (strip_markers (nfkc text))"
  by (simp add: secret_match_def Let_def find_first_occurring)

lemma secret_match_None: "secret_match nfkc text = None \<longleftrightarrow> secret_free nfkc text"
  by (simp add: secret_match_eq secret_free_def first_occurring_None)

lemmas decision_defs = privacy_decision_def safe_rejection_def

lemma inspect_text_sync:
  "pd_allow_private_sync (inspect_text nfkc text kind ref) \<longleftrightarrow>
     int (length (nfkc text)) \<le> 2000000 \<and> secret_free nfkc (nfkc text)
   \<and> forbidden_path_reason nfkc ref = None \<and> classify_source kind \<in> {PUBLIC, PRIVATE_REUSABLE}"
  by (auto simp: inspect_text_def Let_def decision_defs secret_match_None [symmetric]
      split: option.splits Classification.splits)

lemma inspect_text_classified:
  "pd_reason_code (inspect_text nfkc text kind ref) = ''CLASSIFIED'' \<Longrightarrow>
     int (length (nfkc text)) \<le> 2000000 \<and> secret_free nfkc (nfkc text) \<and> forbidden_path_reason nfkc ref = None"
  by (auto simp: inspect_text_def Let_def decision_defs secret_match_None [symmetric] forbidden_path_reason_def
      split: option.splits Classification.splits if_splits)

lemma assert_syncable_iff: "assert_syncable d = Inr () \<longleftrightarrow> pd_allow_private_sync d
   \<and> (pd_classification d \<in> {PUBLIC, PRIVATE_REUSABLE}
      \<or> pd_classification d = CLIENT_CONFIDENTIAL \<and> pd_irreversible_generalization d)"
  by (auto simp: assert_syncable_def Let_def)

text \<open>
  Every rule needs a colon, an equals sign, a space (the key block), or one of the letters \<open>k\<close>,
  \<open>h\<close>, \<open>x\<close> (the tokens): a text with none of them is free of secrets.
\<close>

definition telling :: "char \<Rightarrow> bool" where
  "telling c \<longleftrightarrow> c \<in> set '':= khx''"

lemma SECRET_RULES_require: "list_all (\<lambda>rule. requires telling (snd rule)) SECRET_RULES"
  by (simp add: SECRET_RULES_def header_rule_def assignment_rule_def in_set_def not_in_def lit_def ilit_def
      plus_def opt_def at_least_def telling_def ascii_lower_space)

lemma strip_markers_id: "CHR ''['' \<notin> set s \<Longrightarrow> strip_markers s = s"
proof (induction s)
  case Nil
  then show ?case by (subst strip_markers.simps) (simp add: after_marker_def starts_with_def)
next
  case (Cons c s)
  then have "after_marker (c # s) = None" by (auto simp: after_marker_def starts_with_def)
  with Cons show ?case by (subst strip_markers.simps) simp
qed

lemma secret_free_plain:
  "CHR ''['' \<notin> set (nfkc text) \<Longrightarrow> \<not> list_ex telling (nfkc text) \<Longrightarrow> secret_free nfkc text"
  using SECRET_RULES_require not_occurs_without
  by (auto simp: secret_free_def strip_markers_id list_all_iff)

lemma secret_match_plain:
  "\<not> list_ex (\<lambda>c. c = CHR ''['' \<or> telling c) text \<Longrightarrow> secret_match (\<lambda>s. s) text = None"
  unfolding secret_match_None by (rule secret_free_plain) (auto simp: list_ex_iff)

lemma inspect_text_plain:
  assumes "\<not> list_ex (\<lambda>c. c = CHR ''['' \<or> telling c) text" "int (length text) \<le> 2000000"
    and "forbidden_path_reason (\<lambda>s. s) ref = None" "classify_source kind \<in> {PUBLIC, PRIVATE_REUSABLE}"
  shows "pd_reason_code (inspect_text (\<lambda>s. s) text kind ref) = ''CLASSIFIED''"
  using secret_match_plain [OF assms(1)] assms(2-4)
  by (auto simp: inspect_text_def Let_def decision_defs)

subsection \<open>Properties\<close>

text \<open>
  C31. What may leave the machine, exactly: a text may be synchronized if and only if it is not too
  long, no secret pattern occurs in its normal form (in the sense of what the patterns match, not of
  how they are searched), its source path is not denied, and its source is public or private-reusable.
  No decision of the inspection ever allows the user baseline.
\<close>

theorem private_sync_exact:
  "(assert_syncable (inspect_text nfkc text kind ref) = Inr () \<longleftrightarrow>
     int (length (nfkc text)) \<le> 2000000 \<and> secret_free nfkc (nfkc text)
     \<and> forbidden_path_reason nfkc ref = None \<and> classify_source kind \<in> {PUBLIC, PRIVATE_REUSABLE})
   \<and> \<not> pd_allow_user_baseline (inspect_text nfkc text kind ref)"
proof -
  have "pd_classification (inspect_text nfkc text kind ref) = classify_source kind"
    if "pd_allow_private_sync (inspect_text nfkc text kind ref)"
    using that by (auto simp: inspect_text_def Let_def decision_defs split: option.splits Classification.splits if_splits)
  moreover have "\<not> pd_allow_user_baseline (inspect_text nfkc text kind ref)"
    by (auto simp: inspect_text_def Let_def decision_defs split: option.splits Classification.splits)
  ultimately show ?thesis unfolding assert_syncable_iff using inspect_text_sync by auto
qed


text \<open>
  An observation that may be synchronized has no secret in any of its texts taken together, no
  denied path as its source or working directory, and is not classified as secret, confidential,
  machine-local or external, unless it is declared generalized.
\<close>

theorem syncable_observation:
  assumes "assert_syncable (inspect_observation nfkc observation) = Inr ()"
  shows "secret_free nfkc (nfkc (join_lines (observation_texts observation)))
    \<and> forbidden_path_reason nfkc (observed_ref observation) = None
    \<and> \<not> (\<exists>p \<in> set (observed_paths observation). forbidden_path_reason nfkc p \<noteq> None)
    \<and> (classify_source (observed_classification observation) \<in> {PUBLIC, PRIVATE_REUSABLE}
       \<or> casefold (observed_classification observation)
           \<in> {''client-confidential-generalized'', ''client_confidential_generalized''})"
proof -
  define decision where "decision = inspect_text nfkc (join_lines (observation_texts observation))
    (observed_kind observation) (observed_ref observation)"
  have sync: "pd_allow_private_sync (inspect_observation nfkc observation)"
    using assms by (simp add: assert_syncable_iff)
  then have "pd_allow_private_sync decision \<or> pd_reason_code decision = ''CLASSIFIED''"
    by (auto simp: inspect_observation_def Let_def decision_def split: if_splits)
  then have "secret_free nfkc (nfkc (join_lines (observation_texts observation)))"
    "forbidden_path_reason nfkc (observed_ref observation) = None"
    unfolding decision_def using inspect_text_sync inspect_text_classified by blast+
  moreover have "\<not> (\<exists>p \<in> set (observed_paths observation). forbidden_path_reason nfkc p \<noteq> None)"
    using sync by (auto simp: inspect_observation_def Let_def decision_defs list_ex_iff split: if_splits)
  moreover have "classify_source (observed_classification observation) \<in> {PUBLIC, PRIVATE_REUSABLE}
      \<or> casefold (observed_classification observation)
           \<in> {''client-confidential-generalized'', ''client_confidential_generalized''}"
    using sync by (auto simp: inspect_observation_def Let_def decision_defs split: if_splits)
  ultimately show ?thesis by blast
qed

definition sample_input :: "string \<Rightarrow> ObservationInput" where
  "sample_input kind = \<lparr>oi_title = ''Reload'', oi_claim = ''Read-again'', oi_source_kind = kind,
     oi_source_ref = ''docs/a.md'', oi_cwd = ''/repo'', oi_domain = ''files'', oi_outcome_status = ''success'',
     oi_benefit = ''avoided_failure'', oi_classification = ''public'', oi_applicability = [''files''],
     oi_source_host_id = [], oi_source_host_family = [], oi_applicability_scope = ''universal'',
     oi_applicable_host_ids = [], oi_applicable_host_families = []\<rparr>"

lemma sample_input_secret_free:
  assumes "\<not> list_ex (\<lambda>c. c = CHR ''['' \<or> telling c) kind"
  shows "secret_match (\<lambda>s. s) (join_lines (observation_texts (Input (sample_input kind)))) = None"
  by (rule secret_match_plain, use assms in \<open>simp add: sample_input_def telling_def\<close>)

lemma sample_input_paths:
  "forbidden_path_reason (\<lambda>s. s) ''docs/a.md'' = None" "forbidden_path_reason (\<lambda>s. s) ''/repo'' = None"
  "classify_source ''public'' = PUBLIC" "casefold ''public'' = ''public''"
  by code_simp+

lemma sample_input_decision:
  assumes "\<not> list_ex (\<lambda>c. c = CHR ''['' \<or> telling c) kind" "kind \<noteq> []" "length kind < 100"
    and "classify_source kind \<in> {PUBLIC, PRIVATE_REUSABLE, EXTERNAL_REFERENCE}"
  shows "assert_syncable (inspect_observation (\<lambda>s. s) (Input (sample_input kind))) =
    (if kind \<in> {''external_article_copy'', ''external-reference'', ''external_reference''}
     then Inl (PrivacyError ''EXTERNAL_REFERENCE_LOCAL_ONLY'') else Inr ())"
proof -
  have "int (length (join_lines (observation_texts (Input (sample_input kind))))) \<le> 2000000"
    using assms(3) by (simp add: sample_input_def)
  then have "inspect_text (\<lambda>s. s) (join_lines (observation_texts (Input (sample_input kind)))) kind ''docs/a.md''
      = privacy_decision (classify_source kind) (classify_source kind \<in> {PUBLIC, PRIVATE_REUSABLE})
          ''CLASSIFIED'' ''classification''"
    using sample_input_secret_free [OF assms(1)] assms(4) unfolding inspect_text_def
    by (auto simp: Let_def sample_input_paths)
  then show ?thesis using assms(2)
    by (simp add: inspect_observation_def sample_input_def or_text_def Let_def sample_input_paths
        assert_syncable_def decision_defs)
qed

theorem syncable_observation_witness:
  "secret_free (\<lambda>s. s) (join_lines (observation_texts (Input (sample_input ''files''))))
   \<and> forbidden_path_reason (\<lambda>s. s) ''docs/a.md'' = None"
proof -
  have "classify_source ''files'' = PRIVATE_REUSABLE" by code_simp
  then have "assert_syncable (inspect_observation (\<lambda>s. s) (Input (sample_input ''files''))) = Inr ()"
    by (subst sample_input_decision) (simp_all add: telling_def)
  then show ?thesis using syncable_observation [of "\<lambda>s. s" "Input (sample_input ''files'')"]
    by (simp add: sample_input_def)
qed

text \<open>
  The rule for external sources depends on the case of the source kind: a kind that the policy
  classifies as external reference is refused when it is written in lower case, and an observation
  that differs only in the case of its kind is let through.
\<close>

theorem external_kind_depends_on_case:
  "classify_source ''EXTERNAL-REFERENCE'' = EXTERNAL_REFERENCE
   \<and> assert_syncable (inspect_observation (\<lambda>s. s) (Input (sample_input ''EXTERNAL-REFERENCE''))) = Inr ()"
proof
  show kind: "classify_source ''EXTERNAL-REFERENCE'' = EXTERNAL_REFERENCE" by code_simp
  show "assert_syncable (inspect_observation (\<lambda>s. s) (Input (sample_input ''EXTERNAL-REFERENCE''))) = Inr ()"
    by (subst sample_input_decision) (simp_all add: telling_def kind)
qed

end
