(* ===== verification/Inheritance_Gate.thy ===== *)
theory Inheritance_Gate
  imports Work_Queue Provider_Base Privacy_Policy
begin

section \<open>The inheritance gate\<close>

text \<open>
  \<^verbatim>\<open>src/src/ei/gate.py\<close>: a candidate is offered to the organizer only after the privacy policy
  has passed it; what the organizer answers is checked field by field, and its text is inspected once
  more before a candidate is inherited. The outcome moves the queue item and is counted.

  A provider is one of the four things the code accepts: none, a finished result, a mapping, or an
  object with \<open>generate\<close>, which returns a result or a bare value, or raises an exception given by
  its class name. An \<open>InferenceBudget\<close> is passed as such or left out.
\<close>

subsection \<open>Decisions\<close>

record GateDecision =
  gd_decision :: string
  gd_reason_code :: string
  gd_candidate_title :: string
  gd_candidate_claim :: string
  gd_evidence_refs :: "string list"
  gd_benefit :: string
  gd_classification :: string
  gd_confidence :: rat
  gd_provider_id :: string
  gd_processing_state :: string
  gd_retry_after_seconds :: "int option"
  gd_next_eligible_at :: "int option"
  gd_source_host_id :: string
  gd_source_host_family :: string
  gd_applicability_scope :: string
  gd_applicable_host_ids :: "string list"
  gd_applicable_host_families :: "string list"

definition REASON_CLASSES :: "string list" where
  "REASON_CLASSES = [''project_specific'', ''one_off_fact'', ''no_evidence'', ''no_future_benefit'',
     ''duplicate_without_new_evidence'', ''secret_or_confidential'', ''transient_state'', ''already_encoded'']"

definition SEMANTIC_REASON_CLASSES :: "string list" where
  "SEMANTIC_REASON_CLASSES = REASON_CLASSES @ [''evidence_verified'', ''evidence_repeated'', ''novel_structure'']"

definition ALLOWED_BENEFITS :: "string list" where
  "ALLOWED_BENEFITS = [''avoided_failure'', ''reduced_rework'', ''faster_completion'', ''quality_improvement'',
     ''discovered_structure'', []]"

definition SAFE_PROCESSING_REASON :: "string \<Rightarrow> bool" where
  "SAFE_PROCESSING_REASON s \<longleftrightarrow> s \<noteq> [] \<and> length s \<le> 80
   \<and> list_all (\<lambda>c. CHR ''A'' \<le> c \<and> c \<le> CHR ''Z'' \<or> ascii_digit c \<or> c \<in> set ''_.:-'') s"

text \<open>The five fields of a decision as the mapping that the applicability contract validates.\<close>

definition decision_scope :: "GateDecision \<Rightarrow> pyval" where
  "decision_scope d = PDict
     [(''source_host_id'', PStr (gd_source_host_id d)), (''source_host_family'', PStr (gd_source_host_family d)),
      (''applicability_scope'', PStr (gd_applicability_scope d)),
      (''applicable_host_ids'', PList (map PStr (gd_applicable_host_ids d))),
      (''applicable_host_families'', PList (map PStr (gd_applicable_host_families d)))]"

definition check_host_list :: "string list \<Rightarrow> unit result" where
  "check_host_list values =
     (if length values > 16 \<or> \<not> distinct values then Inl (ValueError ''GATE_HOST_LIST_INVALID'')
      else if \<not> list_all SAFE_HOST_LABEL_RE values then Inl (ValueError ''GATE_HOST_LABEL_INVALID'')
      else Inr ())"

text \<open>\<open>__post_init__\<close>: the decision itself, or the first error. The types of the fields hold by the record.\<close>

definition make_decision :: "GateDecision \<Rightarrow> GateDecision result" where
  "make_decision d =
     (if gd_decision d \<notin> {''YES'', ''NO'', ''DEFERRED'', ''FAILED''} then Inl (ValueError ''GATE_DECISION_INVALID'')
      else if gd_reason_code d = [] \<or> length (gd_reason_code d) > 80 then Inl (ValueError ''GATE_REASON_INVALID'')
      else if gd_decision d \<in> {''YES'', ''NO''} \<and> gd_reason_code d \<notin> set SEMANTIC_REASON_CLASSES
        then Inl (ValueError ''GATE_REASON_CLASS_INVALID'')
      else if gd_decision d \<in> {''DEFERRED'', ''FAILED''} \<and> \<not> SAFE_PROCESSING_REASON (gd_reason_code d)
        then Inl (ValueError ''GATE_REASON_INVALID'')
      else if length (gd_candidate_title d) > 160 \<or> length (gd_candidate_claim d) > 1200
        then Inl (ValueError ''GATE_CANDIDATE_TOO_LARGE'')
      else if \<not> list_all (starts_with ''sha256:'') (gd_evidence_refs d)
        then Inl (ValueError ''GATE_EVIDENCE_REF_INVALID'')
      else if \<not> (0 \<le> gd_confidence d \<and> gd_confidence d \<le> 1) then Inl (ValueError ''GATE_CONFIDENCE_INVALID'')
      else if (case gd_retry_after_seconds d of None \<Rightarrow> False | Some n \<Rightarrow> n < 0)
        then Inl (ValueError ''GATE_RETRY_AFTER_INVALID'')
      else if \<not> host_label_ok True (gd_source_host_id d) \<or> \<not> host_label_ok True (gd_source_host_family d)
        then Inl (ValueError ''GATE_HOST_LABEL_INVALID'')
      else if gd_decision d = ''YES'' \<and> isl (validate_host_applicability_mapping (decision_scope d) False True)
        then Inl (ValueError ''GATE_APPLICABILITY_INVALID'')
      else rbind (check_host_list (gd_applicable_host_ids d)) (\<lambda>_.
           rbind (check_host_list (gd_applicable_host_families d)) (\<lambda>_. Inr d)))"

text \<open>The positional arguments of the constructor; the remaining fields have their defaults.\<close>

definition basic_decision ::
  "string \<Rightarrow> string \<Rightarrow> string \<Rightarrow> string \<Rightarrow> rat \<Rightarrow> string \<Rightarrow> string \<Rightarrow> string \<Rightarrow> string \<Rightarrow> GateDecision" where
  "basic_decision decision reason title classification confidence provider_id state host_id host_family =
     \<lparr>gd_decision = decision, gd_reason_code = reason, gd_candidate_title = title, gd_candidate_claim = [],
      gd_evidence_refs = [], gd_benefit = [], gd_classification = classification, gd_confidence = confidence,
      gd_provider_id = provider_id, gd_processing_state = state, gd_retry_after_seconds = None,
      gd_next_eligible_at = None, gd_source_host_id = host_id, gd_source_host_family = host_family,
      gd_applicability_scope = ''universal'', gd_applicable_host_ids = [], gd_applicable_host_families = []\<rparr>"

subsection \<open>Decisions from the organizer's answer\<close>

definition text_entry :: "pydict \<Rightarrow> string \<Rightarrow> string \<Rightarrow> string result" where
  "text_entry value name v = (case map_of value name of
       None \<Rightarrow> Inr v
     | Some (PStr s) \<Rightarrow> Inr s
     | Some _ \<Rightarrow> Inl (ValueError ''GATE_FIELD_INVALID''))"

definition string_items :: "pyval \<Rightarrow> string \<Rightarrow> string list result" where
  "string_items v code = (case seq_items v of
       None \<Rightarrow> Inl (ValueError code)
     | Some items \<Rightarrow> if list_all is_str items then Inr (map the_str items) else Inl (ValueError code))"

fun number_of :: "pyval \<Rightarrow> rat option" where
  "number_of (PInt i) = Some (of_int i)"
| "number_of (PFloat q) = Some q"
| "number_of _ = None"

definition verdict_of :: "pydict \<Rightarrow> string result" where
  "verdict_of value = (case get_default value ''decision'' PNone of
       PStr s \<Rightarrow> if s \<in> {''YES'', ''NO''} then Inr s else Inl (ValueError ''GATE_DECISION_INVALID'')
     | _ \<Rightarrow> Inl (ValueError ''GATE_DECISION_INVALID''))"

text \<open>The applicability an inheriting answer must carry; a refusing one is universal.\<close>

definition answer_scope :: "pydict \<Rightarrow> string \<Rightarrow> (string list \<times> string list) result" where
  "answer_scope value decision =
     (if decision = ''YES'' then
        if \<not> list_all (has_key value) [''applicability_scope'', ''applicable_host_ids'', ''applicable_host_families'']
          then Inl (ValueError ''GATE_YES_APPLICABILITY_REQUIRED'')
        else rbind (string_items (get_default value ''applicable_host_ids'' (PTuple [])) ''GATE_HOST_LIST_INVALID'') (\<lambda>ids.
             rbind (string_items (get_default value ''applicable_host_families'' (PTuple [])) ''GATE_HOST_LIST_INVALID'') (\<lambda>fams.
               if \<not> distinct ids \<or> \<not> distinct fams then Inl (ValueError ''GATE_HOST_LIST_INVALID'')
               else Inr (ids, fams)))
      else Inr ([], []))"

definition answer_provider :: "pydict \<Rightarrow> string \<Rightarrow> string result" where
  "answer_provider value provider_id = (case map_of value ''provider_id'' of
       Some (PStr s) \<Rightarrow> Inr (or_text provider_id s)
     | Some _ \<Rightarrow> Inl (ValueError ''GATE_PROVIDER_ID_INVALID'')
     | None \<Rightarrow> Inr provider_id)"

definition answer_scope_name :: "pydict \<Rightarrow> string \<Rightarrow> string result" where
  "answer_scope_name value decision = (if decision = ''YES'' then
       (case get_default value ''applicability_scope'' (PStr ''universal'') of
          PStr s \<Rightarrow> Inr s | _ \<Rightarrow> Inl (ValueError ''GATE_APPLICABILITY_SCOPE_INVALID''))
     else Inr ''universal'')"

text \<open>The construction, and the check on an inheriting answer after it.\<close>

definition finish_decision :: "GateDecision \<Rightarrow> GateDecision result" where
  "finish_decision x = rbind (make_decision x) (\<lambda>d.
     if gd_decision d = ''YES'' \<and> (length (gd_candidate_claim d) < 20 \<or> gd_evidence_refs d = []
          \<or> gd_benefit d \<notin> set ALLOWED_BENEFITS)
       then Inl (ValueError ''GATE_YES_FIELDS_INVALID'')
     else Inr d)"

definition decision_from_mapping :: "pydict \<Rightarrow> string \<Rightarrow> string \<Rightarrow> string \<Rightarrow> GateDecision result" where
  "decision_from_mapping value provider_id source_host_id source_host_family =
     rbind (verdict_of value) (\<lambda>decision.
     rbind (string_items (get_default value ''evidence_refs'' (PTuple [])) ''GATE_EVIDENCE_REFS_INVALID'') (\<lambda>refs.
     rbind (text_entry value ''reason_code'' (if decision = ''NO'' then ''no_evidence'' else ''evidence_verified'')) (\<lambda>reason.
     rbind (text_entry value ''candidate_title'' []) (\<lambda>title.
     rbind (text_entry value ''candidate_claim'' []) (\<lambda>claim.
     rbind (text_entry value ''benefit'' []) (\<lambda>benefit.
     rbind (text_entry value ''classification'' ''private-reusable'') (\<lambda>classification.
     case number_of (get_default value ''confidence'' (PInt 0)) of
       None \<Rightarrow> Inl (ValueError ''GATE_CONFIDENCE_INVALID'')
     | Some confidence \<Rightarrow>
         rbind (answer_scope value decision) (\<lambda>(ids, fams).
         rbind (answer_provider value provider_id) (\<lambda>provider.
         rbind (answer_scope_name value decision) (\<lambda>scope.
         finish_decision \<lparr>gd_decision = decision, gd_reason_code = reason, gd_candidate_title = title,
             gd_candidate_claim = claim, gd_evidence_refs = refs, gd_benefit = benefit,
             gd_classification = classification, gd_confidence = confidence, gd_provider_id = provider,
             gd_processing_state = ''complete'', gd_retry_after_seconds = None, gd_next_eligible_at = None,
             gd_source_host_id = source_host_id, gd_source_host_family = source_host_family,
             gd_applicability_scope = scope, gd_applicable_host_ids = ids, gd_applicable_host_families = fams\<rparr>))))))))))"

subsection \<open>Checking a provider's output\<close>

definition validate_input :: "(rat \<Rightarrow> string) \<Rightarrow> string \<Rightarrow> pydict \<Rightarrow> unit result" where
  "validate_input repr schema_name input_json =
     (if schema_name = [] \<or> length schema_name > 120 then Inl (ValueError ''SCHEMA_NAME_INVALID'')
      else if int (utf8_length (canonical_json repr (PDict input_json))) > 2 * 1024 * 1024
        then Inl (ValueError ''INFERENCE_INPUT_TOO_LARGE'')
      else Inr ())"

definition validate_output :: "(rat \<Rightarrow> string) \<Rightarrow> string \<Rightarrow> pydict \<Rightarrow> pydict result" where
  "validate_output repr schema_name output =
     rbind (validate_input repr schema_name output) (\<lambda>_.
       if (case map_of output ''decision'' of None \<Rightarrow> False | Some v \<Rightarrow> v \<noteq> PStr ''YES'' \<and> v \<noteq> PStr ''NO'')
         then Inl (ValueError ''OUTPUT_DECISION_INVALID'')
       else if (case map_of output ''confidence'' of None \<Rightarrow> False
                | Some v \<Rightarrow> (case number_of v of None \<Rightarrow> True | Some q \<Rightarrow> \<not> (0 \<le> q \<and> q \<le> 1)))
         then Inl (ValueError ''OUTPUT_CONFIDENCE_INVALID'')
       else Inr output)"

subsection \<open>The decision on a candidate\<close>

text \<open>A candidate: a mapping, or an object given by its attributes.\<close>

datatype candidate = Mapped pydict | Attributes pydict

fun entries :: "candidate \<Rightarrow> pydict" where
  "entries (Mapped d) = d"
| "entries (Attributes d) = d"

definition candidate_value :: "candidate \<Rightarrow> string \<Rightarrow> string \<Rightarrow> string" where
  "candidate_value candidate field v = (case get_default (entries candidate) field (PStr v) of PStr s \<Rightarrow> s | _ \<Rightarrow> v)"

fun candidate_input :: "candidate \<Rightarrow> pydict" where
  "candidate_input (Mapped d) = filter (\<lambda>(k, v). k \<notin> {''raw'', ''transcript'', ''response'', ''tool_output''}) d"
| "candidate_input (Attributes d) = List.map_filter (\<lambda>k. case get_default d k PNone of PNone \<Rightarrow> None | v \<Rightarrow> Some (k, v))
     [''title'', ''claim'', ''benefit'', ''classification'', ''domain'', ''scope'', ''evidence_refs'', ''applicability'',
      ''source_hash'', ''source_host_id'', ''source_host_family'', ''applicability_scope'', ''applicable_host_ids'',
      ''applicable_host_families'']"

definition host_strings :: "candidate \<Rightarrow> string \<Rightarrow> string list" where
  "host_strings candidate field = (case seq_items (get_default (entries candidate) field (PTuple [])) of
       None \<Rightarrow> [] | Some items \<Rightarrow> map the_str (filter is_str items))"

definition candidate_class :: "candidate \<Rightarrow> string" where
  "candidate_class candidate = or_text (candidate_value candidate ''classification'' ''private-reusable'') ''private-reusable''"

definition processing_result :: "string \<Rightarrow> ProviderResult \<Rightarrow> candidate \<Rightarrow> GateDecision result" where
  "processing_result provider_id res candidate =
     (let code = (case pv_error_code res of Some c \<Rightarrow> or_text c ''PROVIDER_FAILED'' | None \<Rightarrow> ''PROVIDER_FAILED'');
          status = (if SAFE_PROCESSING_REASON code then code else ''PROVIDER_FAILED'');
          scope = candidate_value candidate ''applicability_scope'' ''universal''
      in make_decision ((basic_decision (if pv_status res = Deferred then ''DEFERRED'' else ''FAILED'') status
            (candidate_value candidate ''title'' []) (candidate_class candidate) 0
            (or_text provider_id (pv_provider_id res)) status (candidate_value candidate ''source_host_id'' [])
            (candidate_value candidate ''source_host_family'' []))
          \<lparr>gd_retry_after_seconds := pv_retry_after_seconds res, gd_next_eligible_at := pv_next_eligible_at res,
           gd_applicability_scope := (if scope \<in> {''universal'', ''family'', ''host''} then scope else ''universal''),
           gd_applicable_host_ids := host_strings candidate ''applicable_host_ids'',
           gd_applicable_host_families := host_strings candidate ''applicable_host_families''\<rparr>))"

text \<open>What an object with \<open>generate\<close> may do, and what the gate accepts as provider.\<close>

datatype generated = Raised string | Returned ProviderResult | Bare pyval

record backend =
  be_provider_id :: "string option"
  be_generate :: "string \<Rightarrow> pydict \<Rightarrow> InferenceBudget \<Rightarrow> generated"

datatype gate_provider = No_Provider | Finished ProviderResult | Structured pydict | Backend backend

definition default_budget :: InferenceBudget where
  "default_budget = \<lparr>ib_max_input_tokens = 20000, ib_max_output_tokens = 4000, ib_max_cost = 0, ib_deadline_ms = 120000,
     ib_max_response_bytes = 262144, ib_candidate_id = [], ib_purpose = ''inheritance-gate'', ib_retry_attempt = 0,
     ib_run_id = [], ib_attempt_id = []\<rparr>"

definition structured_result :: "string \<Rightarrow> pydict option \<Rightarrow> ProviderResult" where
  "structured_result provider_id output = (blank_result provider_id Success)
     \<lparr>pv_output := output, pv_schema_name := ''gate-decision''\<rparr>"

text \<open>
  The answer: a result, or the class name of the exception that was raised. A missing provider is
  handled before (the last equation is not reached).
\<close>

fun provider_answer :: "gate_provider \<Rightarrow> candidate \<Rightarrow> InferenceBudget option \<Rightarrow> string + ProviderResult" where
  "provider_answer (Finished r) candidate b = Inr r"
| "provider_answer (Structured d) candidate b = Inr (structured_result ''manual-structured'' (Some d))"
| "provider_answer (Backend p) candidate b =
     (case be_generate p ''gate-decision'' (candidate_input candidate) (case b of None \<Rightarrow> default_budget | Some x \<Rightarrow> x) of
        Raised name \<Rightarrow> Inl name
      | Returned r \<Rightarrow> Inr r
      | Bare (PDict d) \<Rightarrow> Inr (structured_result ''provider'' (Some d))
      | Bare PNone \<Rightarrow> Inr (structured_result ''provider'' None)
      | Bare _ \<Rightarrow> Inl ''ValueError'')"
| "provider_answer No_Provider candidate b = Inl ''NONE''"

fun provider_name :: "gate_provider \<Rightarrow> string \<Rightarrow> string" where
  "provider_name (Finished r) v = pv_provider_id r"
| "provider_name (Backend p) v = (case be_provider_id p of None \<Rightarrow> v | Some i \<Rightarrow> i)"
| "provider_name _ v = v"

definition privacy_passes :: "PrivacyDecision \<Rightarrow> bool" where
  "privacy_passes p \<longleftrightarrow> pd_reason_code p \<in> {''CLASSIFIED'', ''CLIENT_CONFIDENTIAL_LOCAL_ONLY'', ''GENERALIZATION_VERIFIED''}"

definition privacy_reusable :: "PrivacyDecision \<Rightarrow> bool" where
  "privacy_reusable p \<longleftrightarrow> pd_reason_code p \<in> {''CLASSIFIED'', ''GENERALIZATION_VERIFIED''}"

definition candidate_title :: "candidate \<Rightarrow> string" where
  "candidate_title candidate = candidate_value candidate ''candidate_title'' (candidate_value candidate ''title'' [])"

definition candidate_claim :: "candidate \<Rightarrow> string" where
  "candidate_claim candidate = candidate_value candidate ''candidate_claim'' (candidate_value candidate ''claim'' [])"

definition candidate_ref :: "candidate \<Rightarrow> string" where
  "candidate_ref candidate = candidate_value candidate ''source_ref'' ''candidate''"

definition candidate_privacy :: "(string \<Rightarrow> string) \<Rightarrow> candidate \<Rightarrow> PrivacyDecision" where
  "candidate_privacy nfkc candidate = inspect_text nfkc
     (join_lines [candidate_title candidate, candidate_claim candidate])
     (candidate_value candidate ''source_kind'' (candidate_class candidate)) (candidate_ref candidate)"

text \<open>A result that is there: it is refused, malformed, or a decision whose text is inspected again.\<close>

definition decide_result ::
  "(string \<Rightarrow> string) \<Rightarrow> (rat \<Rightarrow> string) \<Rightarrow> candidate \<Rightarrow> gate_provider \<Rightarrow> ProviderResult \<Rightarrow> GateDecision result" where
  "decide_result nfkc repr candidate provider res =
     (let host_id = candidate_value candidate ''source_host_id'' [];
          host_family = candidate_value candidate ''source_host_family'' []
      in if \<not> result_ok res then processing_result (provider_name provider (pv_provider_id res)) res candidate
         else case rbind (validate_output repr ''gate-decision'' (case pv_output res of None \<Rightarrow> [] | Some d \<Rightarrow> d))
                (\<lambda>output. decision_from_mapping output (pv_provider_id res) host_id host_family) of
             Inl _ \<Rightarrow> make_decision (basic_decision ''FAILED'' ''MALFORMED_RESPONSE'' (candidate_title candidate)
               (candidate_class candidate) 0 (pv_provider_id res) ''MALFORMED_RESPONSE'' host_id host_family)
           | Inr d \<Rightarrow>
               if gd_decision d = ''YES'' \<and> \<not> privacy_reusable (inspect_text nfkc
                    (join_lines [gd_candidate_title d, gd_candidate_claim d, gd_benefit d])
                    (gd_classification d) (candidate_ref candidate))
               then make_decision (basic_decision ''NO'' ''secret_or_confidential'' [] ''private-reusable'' 1
                      (pv_provider_id res) ''complete'' host_id host_family)
               else Inr d)"

definition decide_inheritance ::
  "(string \<Rightarrow> string) \<Rightarrow> (rat \<Rightarrow> string) \<Rightarrow> candidate \<Rightarrow> gate_provider \<Rightarrow> InferenceBudget option \<Rightarrow> GateDecision result" where
  "decide_inheritance nfkc repr candidate provider b =
     (let host_id = candidate_value candidate ''source_host_id'' [];
          host_family = candidate_value candidate ''source_host_family'' []
      in if \<not> privacy_passes (candidate_privacy nfkc candidate)
           then make_decision (basic_decision ''NO'' ''secret_or_confidential'' [] ''private-reusable'' 1 ''privacy-gate''
                  ''complete'' host_id host_family)
         else if candidate_claim candidate = []
           then make_decision (basic_decision ''NO'' ''no_evidence'' [] (candidate_class candidate) 0 ''input-gate''
                  ''complete'' host_id host_family)
         else if provider = No_Provider
           then make_decision (basic_decision ''FAILED'' ''PROVIDER_UNAVAILABLE'' (candidate_title candidate)
                  (candidate_class candidate) 0 ''none'' ''PROVIDER_UNAVAILABLE'' host_id host_family)
         else case provider_answer provider candidate b of
             Inl name \<Rightarrow> make_decision (basic_decision ''FAILED'' name (candidate_title candidate)
               (candidate_class candidate) 0 (provider_name provider ''provider'') ''PROVIDER_EXCEPTION'' host_id host_family)
           | Inr res \<Rightarrow> decide_result nfkc repr candidate provider res)"

subsection \<open>Counting and applying a decision\<close>

text \<open>
  The aggregate file: absent, unreadable, or a JSON value. \<open>budgeted\<close> says whether an operation
  budget was passed, \<open>encoded_size\<close> is the number of bytes of the indented JSON text of a value, which
  is also the size of the file that holds it; the deadline of the budget itself is not modelled.
\<close>

definition increment :: "pyval \<Rightarrow> pyval result" where
  "increment v = (case v of
       PInt n \<Rightarrow> Inr (PInt (n + 1))
     | PFloat q \<Rightarrow> Inr (PFloat (q + 1))
     | PBool b \<Rightarrow> Inr (PInt (of_bool b + 1))
     | _ \<Rightarrow> Inl (TypeError ''unsupported operand type(s) for +=''))"

definition aggregate_value :: "(pydict \<Rightarrow> int) \<Rightarrow> bool \<Rightarrow> policy_file \<Rightarrow> (pydict \<times> pydict) result" where
  "aggregate_value encoded_size budgeted aggregate =
     (let fresh = ([(''schema_version'', PInt 1), (''rows'', PDict [])], []) in
      case aggregate of
        Absent \<Rightarrow> Inr fresh
      | Unreadable \<Rightarrow> if budgeted then Inl (ValueError ''GATE_AGGREGATE_UNAVAILABLE'') else Inr fresh
      | Parsed v \<Rightarrow>
          (case v of
             PDict d \<Rightarrow>
               if budgeted \<and> encoded_size d > 262144 then Inl (ValueError ''GATE_AGGREGATE_TOO_LARGE'')
               else (case map_of d ''rows'' of
                  Some (PDict rows) \<Rightarrow> Inr (d, rows)
                | _ \<Rightarrow> if budgeted then Inl (ValueError ''GATE_AGGREGATE_INVALID'') else Inr fresh)
           | _ \<Rightarrow> if budgeted then Inl (ValueError ''GATE_AGGREGATE_INVALID'') else Inr fresh))"

definition provider_class :: "QueueItem \<Rightarrow> string" where
  "provider_class item = (case qi_provider_preference item of
       p # _ \<Rightarrow> if p \<in> {''local-openai-compatible'', ''ollama''} then ''local'' else ''subscription''
     | [] \<Rightarrow> ''subscription'')"

definition aggregate_key :: "QueueItem \<Rightarrow> GateDecision \<Rightarrow> string \<Rightarrow> string" where
  "aggregate_key item d day = qi_host_id item @ ''|'' @ day @ ''|'' @ gd_reason_code d @ ''|'' @ provider_class item"

definition count_field :: "GateDecision \<Rightarrow> string" where
  "count_field d = (if gd_decision d = ''YES'' then ''yes_count'' else ''no_count'')"

definition fresh_row :: "QueueItem \<Rightarrow> GateDecision \<Rightarrow> string \<Rightarrow> pydict" where
  "fresh_row item d day = [(''host_id'', PStr (qi_host_id item)), (''day'', PStr day),
     (''reason_class'', PStr (gd_reason_code d)), (''provider_class'', PStr (provider_class item)),
     (''yes_count'', PInt 0), (''no_count'', PInt 0)]"

definition record_aggregate ::
  "(pydict \<Rightarrow> int) \<Rightarrow> bool \<Rightarrow> policy_file \<Rightarrow> QueueItem \<Rightarrow> GateDecision \<Rightarrow> string \<Rightarrow> policy_file result" where
  "record_aggregate encoded_size budgeted aggregate item d day =
     rbind (aggregate_value encoded_size budgeted aggregate) (\<lambda>(value, rows).
       case get_default rows (aggregate_key item d day) (PDict (fresh_row item d day)) of
         PDict row \<Rightarrow>
           (case map_of row (count_field d) of
              None \<Rightarrow> Inl (KeyError (count_field d))
            | Some n \<Rightarrow> rbind (increment n) (\<lambda>n'.
                let value' = dict_set ''rows'' (PDict (dict_set (aggregate_key item d day)
                      (PDict (dict_set (count_field d) n' row)) rows)) value
                in if budgeted \<and> encoded_size value' > 262144 then Inl (ValueError ''GATE_AGGREGATE_TOO_LARGE'')
                   else Inr (Parsed (PDict value'))))
       | _ \<Rightarrow> Inl (TypeError ''row is not a mapping''))"

record ApplyResult =
  ar_applied :: bool
  ar_reason_code :: string
  ar_state :: QueueState
  ar_queue_item :: QueueItem
  ar_discarded_payload :: bool

definition applied ::
  "bool \<Rightarrow> string \<Rightarrow> bool \<Rightarrow> (queue_world list \<times> QueueItem) result \<Rightarrow> (queue_world list \<times> ApplyResult) result" where
  "applied yes reason discarded run = rbind run (\<lambda>(ws, updated).
     Inr (ws, \<lparr>ar_applied = yes, ar_reason_code = reason, ar_state = qi_state updated, ar_queue_item = updated,
              ar_discarded_payload = discarded\<rparr>))"

text \<open>The aggregate after the call, and what the transition of the item did.\<close>

definition apply_gate_decision ::
  "QueueSettings \<Rightarrow> (pydict \<Rightarrow> int) \<Rightarrow> bool \<Rightarrow> string \<Rightarrow> int \<Rightarrow> policy_file \<Rightarrow> queue_world \<Rightarrow> GateDecision \<Rightarrow> QueueItem
     \<Rightarrow> policy_file \<times> (queue_world list \<times> ApplyResult) result" where
  "apply_gate_decision settings encoded_size budgeted day moment aggregate w d item =
     (let reason = gd_reason_code d; counted = record_aggregate encoded_size budgeted aggregate item d day in
      if gd_decision d = ''NO'' then
        (case counted of Inl e \<Rightarrow> (aggregate, Inl e)
         | Inr aggregate' \<Rightarrow> (aggregate', applied True reason (qi_payload_ref item \<noteq> None)
             (transition_queue_item settings w item NO_DISCARDED moment (Some reason) None)))
      else if gd_decision d = ''DEFERRED'' then
        (aggregate, applied False reason False
           (transition_queue_item settings w item DEFERRED moment (Some reason) (gd_next_eligible_at d)))
      else if gd_decision d = ''FAILED'' then
        (aggregate, applied False reason False
           (transition_queue_item settings w item FAILED moment (Some reason) None))
      else
        (case counted of Inl e \<Rightarrow> (aggregate, Inl e)
         | Inr aggregate' \<Rightarrow> (aggregate', applied True ''GATE_YES'' False
             (transition_queue_item settings w item YES_CURATING moment (Some ''GATE_YES'') None))))"

subsection \<open>What a decision guarantees\<close>

definition decision_ok :: "GateDecision \<Rightarrow> bool" where
  "decision_ok d \<longleftrightarrow>
     gd_decision d \<in> {''YES'', ''NO'', ''DEFERRED'', ''FAILED''}
   \<and> gd_reason_code d \<noteq> [] \<and> length (gd_reason_code d) \<le> 80
   \<and> (gd_decision d \<in> {''YES'', ''NO''} \<longrightarrow> gd_reason_code d \<in> set SEMANTIC_REASON_CLASSES)
   \<and> (gd_decision d \<in> {''DEFERRED'', ''FAILED''} \<longrightarrow> SAFE_PROCESSING_REASON (gd_reason_code d))
   \<and> length (gd_candidate_title d) \<le> 160 \<and> length (gd_candidate_claim d) \<le> 1200
   \<and> list_all (starts_with ''sha256:'') (gd_evidence_refs d)
   \<and> 0 \<le> gd_confidence d \<and> gd_confidence d \<le> 1
   \<and> (case gd_retry_after_seconds d of None \<Rightarrow> True | Some n \<Rightarrow> 0 \<le> n)
   \<and> host_label_ok True (gd_source_host_id d) \<and> host_label_ok True (gd_source_host_family d)
   \<and> (gd_decision d = ''YES'' \<longrightarrow> \<not> isl (validate_host_applicability_mapping (decision_scope d) False True))
   \<and> check_host_list (gd_applicable_host_ids d) = Inr () \<and> check_host_list (gd_applicable_host_families d) = Inr ()"

lemma make_decision_iff: "make_decision d = Inr d' \<longleftrightarrow> d' = d \<and> decision_ok d"
proof -
  have retry: "\<not> (case gd_retry_after_seconds d of None \<Rightarrow> False | Some n \<Rightarrow> n < 0) \<longleftrightarrow>
      (case gd_retry_after_seconds d of None \<Rightarrow> True | Some n \<Rightarrow> 0 \<le> n)"
    by (simp split: option.split) linarith
  have unit: "(\<exists>x. check_host_list xs = Inr x \<and> P) \<longleftrightarrow> check_host_list xs = Inr () \<and> P" for xs P by simp
  show ?thesis
    unfolding make_decision_def decision_ok_def if_Inl_eq_Inr rbind_eq_Inr unit retry
    by (simp only: de_Morgan_conj de_Morgan_disj not_not not_less imp_conv_disj conj_assoc sum.inject) blast
qed

lemma basic_decision_simps [simp]:
  "gd_decision (basic_decision v r t c q p s i f) = v"
  "gd_reason_code (basic_decision v r t c q p s i f) = r"
  "gd_source_host_id (basic_decision v r t c q p s i f) = i"
  "gd_source_host_family (basic_decision v r t c q p s i f) = f"
  by (simp_all add: basic_decision_def)

text \<open>A decision that inherits: its evidence, its benefit, its applicability, the host it comes from.\<close>

definition backed :: "string \<Rightarrow> string \<Rightarrow> GateDecision \<Rightarrow> bool" where
  "backed host_id host_family d \<longleftrightarrow>
     20 \<le> length (gd_candidate_claim d) \<and> length (gd_candidate_claim d) \<le> 1200 \<and> length (gd_candidate_title d) \<le> 160
   \<and> gd_evidence_refs d \<noteq> [] \<and> list_all (starts_with ''sha256:'') (gd_evidence_refs d)
   \<and> gd_benefit d \<in> set ALLOWED_BENEFITS \<and> gd_reason_code d \<in> set SEMANTIC_REASON_CLASSES
   \<and> gd_source_host_id d = host_id \<and> gd_source_host_family d = host_family
   \<and> \<not> isl (validate_host_applicability_mapping (decision_scope d) False True)"

lemma from_mapping_shape:
  assumes "decision_from_mapping value provider_id host_id host_family = Inr d"
  shows "make_decision d = Inr d \<and> gd_source_host_id d = host_id \<and> gd_source_host_family d = host_family
    \<and> (gd_decision d = ''YES'' \<longrightarrow> 20 \<le> length (gd_candidate_claim d) \<and> gd_evidence_refs d \<noteq> []
         \<and> gd_benefit d \<in> set ALLOWED_BENEFITS)"
proof -
  have "\<exists>x. finish_decision x = Inr d \<and> gd_source_host_id x = host_id \<and> gd_source_host_family x = host_family"
    using assms unfolding decision_from_mapping_def rbind_eq_Inr
    by (clarsimp split: option.splits prod.splits simp: rbind_eq_Inr) (intro exI conjI, assumption, simp_all)
  then show ?thesis by (auto simp: finish_decision_def rbind_eq_Inr make_decision_iff if_Inl_eq_Inr)
qed

lemma from_mapping_backed:
  assumes "decision_from_mapping value provider_id host_id host_family = Inr d" "gd_decision d = ''YES''"
  shows "backed host_id host_family d"
proof -
  have "decision_ok d" using from_mapping_shape [OF assms(1)] make_decision_iff by blast
  then show ?thesis using from_mapping_shape [OF assms(1)] assms(2) unfolding decision_ok_def backed_def by blast
qed

lemma inspect_text_passes:
  "privacy_passes (inspect_text nfkc text kind ref) \<Longrightarrow>
     secret_free nfkc (nfkc text) \<and> forbidden_path_reason nfkc ref = None"
  by (auto simp: privacy_passes_def inspect_text_def Let_def decision_defs secret_match_None [symmetric]
      forbidden_path_reason_def split: option.splits Classification.splits if_splits)

lemma privacy_reusable_passes: "privacy_reusable p \<Longrightarrow> privacy_passes p"
  by (auto simp: privacy_reusable_def privacy_passes_def)

lemma decide_result_yes:
  assumes "decide_result nfkc repr candidate provider res = Inr d" "gd_decision d = ''YES''"
  shows "backed (candidate_value candidate ''source_host_id'' []) (candidate_value candidate ''source_host_family'' []) d
    \<and> privacy_reusable (inspect_text nfkc (join_lines [gd_candidate_title d, gd_candidate_claim d, gd_benefit d])
        (gd_classification d) (candidate_ref candidate))"
  using assms unfolding decide_result_def processing_result_def Let_def
  by (auto simp: make_decision_iff result_simps simp del: join_lines.simps split: if_splits sum.splits
      intro: from_mapping_backed)

lemma decide_inheritance_yes:
  assumes "decide_inheritance nfkc repr candidate provider b = Inr d" "gd_decision d = ''YES''"
  obtains res where "privacy_passes (candidate_privacy nfkc candidate)" "candidate_claim candidate \<noteq> []"
    "provider_answer provider candidate b = Inr res" "decide_result nfkc repr candidate provider res = Inr d"
  using assms unfolding decide_inheritance_def Let_def
  by (auto simp: make_decision_iff split: if_splits sum.splits)

subsection \<open>Properties\<close>

text \<open>
  C9. What the gate inherits is backed: a decision to inherit carries a claim of 20 to 1200
  characters, at least one evidence hash, an allowed benefit, a semantic reason, the source host of
  the candidate and a valid applicability for it; and both the candidate's text and the text the
  organizer wrote are free of secrets.
\<close>

theorem yes_is_backed:
  assumes "decide_inheritance nfkc repr candidate provider b = Inr d" and "gd_decision d = ''YES''"
  shows "backed (candidate_value candidate ''source_host_id'' []) (candidate_value candidate ''source_host_family'' []) d
    \<and> secret_free nfkc (nfkc (join_lines [gd_candidate_title d, gd_candidate_claim d, gd_benefit d]))
    \<and> secret_free nfkc (nfkc (join_lines [candidate_title candidate, candidate_claim candidate]))
    \<and> forbidden_path_reason nfkc (candidate_ref candidate) = None \<and> candidate_claim candidate \<noteq> []"
proof -
  obtain res where pass: "privacy_passes (candidate_privacy nfkc candidate)" and "candidate_claim candidate \<noteq> []"
    and res: "decide_result nfkc repr candidate provider res = Inr d"
    using decide_inheritance_yes [OF assms] by metis
  then show ?thesis
    using decide_result_yes [OF res assms(2)] inspect_text_passes [OF pass [unfolded candidate_privacy_def]]
      inspect_text_passes [OF privacy_reusable_passes] by blast
qed

definition sample_candidate :: candidate where
  "sample_candidate = Mapped [(''title'', PStr ''Reload''), (''claim'', PStr ''reload-a-file-after-every-write''),
     (''source_host_id'', PStr ''codex-cli''), (''source_host_family'', PStr ''codex-compatible'')]"

definition yes_answer :: pydict where
  "yes_answer = [(''decision'', PStr ''YES''), (''candidate_claim'', PStr ''reload-a-file-after-every-write''),
     (''evidence_refs'', PList [PStr ''sha256:ab'']), (''benefit'', PStr ''avoided_failure''),
     (''applicability_scope'', PStr ''universal''), (''applicable_host_ids'', PList []),
     (''applicable_host_families'', PList [])]"

lemma sample_paths:
  "forbidden_path_reason (\<lambda>s. s) ''candidate'' = None" "classify_source ''private-reusable'' = PRIVATE_REUSABLE"
  by code_simp+

lemma sample_candidate_passes: "privacy_passes (candidate_privacy (\<lambda>s. s) sample_candidate)"
proof -
  have vals: "candidate_title sample_candidate = ''Reload''" "candidate_claim sample_candidate = ''reload-a-file-after-every-write''"
    "candidate_value sample_candidate ''source_kind'' (candidate_class sample_candidate) = ''private-reusable''"
    "candidate_ref sample_candidate = ''candidate''"
    by code_simp+
  have "pd_reason_code (candidate_privacy (\<lambda>s. s) sample_candidate) = ''CLASSIFIED''"
    unfolding candidate_privacy_def vals
    by (rule inspect_text_plain) (simp_all add: telling_def sample_paths)
  then show ?thesis by (simp add: privacy_passes_def)
qed

definition yes_decision :: GateDecision where
  "yes_decision = projr (decision_from_mapping yes_answer ''manual-structured'' ''codex-cli'' ''codex-compatible'')"

lemma sample_answer:
  "rbind (validate_output (\<lambda>_. []) ''gate-decision'' yes_answer)
     (\<lambda>output. decision_from_mapping output ''manual-structured'' ''codex-cli'' ''codex-compatible'') = Inr yes_decision"
proof -
  have "validate_output (\<lambda>_. []) ''gate-decision'' yes_answer = Inr yes_answer" by code_simp
  moreover have "\<not> isl (decision_from_mapping yes_answer ''manual-structured'' ''codex-cli'' ''codex-compatible'')" by code_simp
  ultimately show ?thesis by (simp add: yes_decision_def)
qed

lemma yes_decision_reusable: "privacy_reusable (inspect_text (\<lambda>s. s)
   (join_lines [gd_candidate_title yes_decision, gd_candidate_claim yes_decision, gd_benefit yes_decision])
   (gd_classification yes_decision) (candidate_ref sample_candidate))"
proof -
  have vals: "gd_candidate_title yes_decision = []" "gd_candidate_claim yes_decision = ''reload-a-file-after-every-write''"
    "gd_benefit yes_decision = ''avoided_failure''" "gd_classification yes_decision = ''private-reusable''"
    "candidate_ref sample_candidate = ''candidate''"
    by code_simp+
  have "pd_reason_code (inspect_text (\<lambda>s. s) (join_lines [gd_candidate_title yes_decision,
      gd_candidate_claim yes_decision, gd_benefit yes_decision])
      (gd_classification yes_decision) (candidate_ref sample_candidate)) = ''CLASSIFIED''"
    unfolding vals by (rule inspect_text_plain) (simp_all add: telling_def sample_paths)
  then show ?thesis by (simp add: privacy_reusable_def)
qed

lemma sample_decided: "decide_inheritance (\<lambda>s. s) (\<lambda>_. []) sample_candidate (Structured yes_answer) None = Inr yes_decision"
proof -
  have vals: "candidate_value sample_candidate ''source_host_id'' [] = ''codex-cli''"
    "candidate_value sample_candidate ''source_host_family'' [] = ''codex-compatible''"
    "candidate_claim sample_candidate \<noteq> []" by code_simp+
  have "decide_result (\<lambda>s. s) (\<lambda>_. []) sample_candidate (Structured yes_answer)
      (structured_result ''manual-structured'' (Some yes_answer)) = Inr yes_decision"
    using sample_answer yes_decision_reusable
    by (simp add: decide_result_def vals structured_result_def blank_result_def result_ok_def)
  then show ?thesis using sample_candidate_passes vals(3) by (simp add: decide_inheritance_def)
qed

theorem yes_is_backed_witness:
  "decide_inheritance (\<lambda>s. s) (\<lambda>_. []) sample_candidate (Structured yes_answer) None = Inr yes_decision
   \<and> backed ''codex-cli'' ''codex-compatible'' yes_decision"
proof -
  have "gd_decision yes_decision = ''YES''" "candidate_value sample_candidate ''source_host_id'' [] = ''codex-cli''"
    "candidate_value sample_candidate ''source_host_family'' [] = ''codex-compatible''" by code_simp+
  then show ?thesis using yes_is_backed [OF sample_decided] sample_decided by simp
qed


definition leaking_candidate :: candidate where
  "leaking_candidate = Mapped [(''title'', PStr ''Reload''), (''claim'', PStr ''pwd=a'')]"


lemma unsafe_reason:
  assumes "list_ex (\<lambda>c. CHR ''a'' \<le> c \<and> c \<le> CHR ''z'') name"
  shows "\<not> SAFE_PROCESSING_REASON name"
proof
  assume "SAFE_PROCESSING_REASON name"
  moreover from assms obtain c where c: "c \<in> set name" "97 \<le> (of_char c :: nat)"
    by (auto simp: list_ex_iff less_eq_char_def)
  ultimately have "(of_char c :: nat) \<le> 90 \<or> (of_char c :: nat) \<le> 57 \<or> c \<in> set ''_.:-''"
    by (auto simp: SAFE_PROCESSING_REASON_def list_all_iff ascii_digit_def less_eq_char_def)
  then show False using c(2) by auto
qed

text \<open>
  A provider that raises does not become a failed decision: the class name of an exception has
  a lower-case letter, which the pattern for processing reasons refuses, so the gate itself raises
  instead of returning \<open>FAILED\<close> with the state \<open>PROVIDER_EXCEPTION\<close>.
\<close>

theorem provider_exception_escapes:
  assumes "privacy_passes (candidate_privacy nfkc candidate)" and "candidate_claim candidate \<noteq> []"
    and "be_generate p ''gate-decision'' (candidate_input candidate) (case b of None \<Rightarrow> default_budget | Some x \<Rightarrow> x)
      = Raised name"
    and "list_ex (\<lambda>c. CHR ''a'' \<le> c \<and> c \<le> CHR ''z'') name"
  shows "decide_inheritance nfkc repr candidate (Backend p) b = Inl (ValueError ''GATE_REASON_INVALID'')"
proof -
  have "\<not> SAFE_PROCESSING_REASON name" using assms(4) by (rule unsafe_reason)
  then show ?thesis
    using assms(1-3) by (auto simp: decide_inheritance_def Let_def make_decision_def basic_decision_def)
qed

definition failing_backend :: backend where
  "failing_backend = \<lparr>be_provider_id = Some ''ollama'', be_generate = (\<lambda>_ _ _. Raised ''TimeoutError'')\<rparr>"

theorem provider_exception_escapes_witness:
  "decide_inheritance (\<lambda>s. s) (\<lambda>_. []) sample_candidate (Backend failing_backend) None
     = Inl (ValueError ''GATE_REASON_INVALID'')"
proof (rule provider_exception_escapes [OF sample_candidate_passes])
  show "candidate_claim sample_candidate \<noteq> []" by code_simp
  show "be_generate failing_backend ''gate-decision'' (candidate_input sample_candidate)
      (case None of None \<Rightarrow> default_budget | Some x \<Rightarrow> x) = Raised ''TimeoutError''"
    by (simp add: failing_backend_def)
  show "list_ex (\<lambda>c. CHR ''a'' \<le> c \<and> c \<le> CHR ''z'') ''TimeoutError''" by code_simp
qed

subsection \<open>Applying a decision\<close>

text \<open>What a row of the aggregate counts.\<close>

fun count_of :: "pyval \<Rightarrow> rat" where
  "count_of (PInt n) = of_int n"
| "count_of (PFloat q) = q"
| "count_of (PBool b) = of_bool b"
| "count_of _ = 0"

definition entry :: "pyval \<Rightarrow> string \<Rightarrow> pyval" where
  "entry v k = (case v of PDict d \<Rightarrow> get_default d k PNone | _ \<Rightarrow> PNone)"

definition counted :: "policy_file \<Rightarrow> string \<Rightarrow> string \<Rightarrow> rat" where
  "counted aggregate key field = (case aggregate of
     Parsed v \<Rightarrow> count_of (entry (entry (entry v ''rows'') key) field) | _ \<Rightarrow> 0)"

lemma entry_PDict [simp]: "entry (PDict d) k = get_default d k PNone" "entry PNone k = PNone"
  by (simp_all add: entry_def)

lemma increment_count: "increment v = Inr v' \<Longrightarrow> count_of v' = count_of v + 1"
  by (cases v) (auto simp: increment_def)

lemma aggregate_value_rows:
  assumes "aggregate_value encoded_size budgeted aggregate = Inr (value, rows)"
  shows "counted aggregate key field = count_of (entry (get_default rows key PNone) field)"
proof (cases "\<exists>d. aggregate = Parsed (PDict d) \<and> map_of d ''rows'' = Some (PDict rows)")
  case True
  then show ?thesis by (auto simp: counted_def get_default_def)
next
  case False
  then have rows: "rows = []"
    using assms by (auto simp: aggregate_value_def Let_def split: policy_file.splits pyval.splits option.splits if_splits)
  have "entry (entry v ''rows'') key = PNone" if "aggregate = Parsed v" for v
    using that assms False
    by (auto simp: aggregate_value_def Let_def entry_def get_default_def
        split: pyval.splits option.splits if_splits)
  then show ?thesis using rows by (auto simp: counted_def get_default_def split: policy_file.splits)
qed

lemma record_aggregate_counts:
  assumes "record_aggregate encoded_size budgeted aggregate item d day = Inr aggregate'"
  shows "counted aggregate' key field = counted aggregate key field
    + (if key = aggregate_key item d day \<and> field = count_field d then 1 else 0)"
proof -
  let ?key = "aggregate_key item d day"
  obtain v rows row n n' where val: "aggregate_value encoded_size budgeted aggregate = Inr (v, rows)"
    and row: "get_default rows ?key (PDict (fresh_row item d day)) = PDict row"
    and n: "map_of row (count_field d) = Some n" "increment n = Inr n'"
    and out: "aggregate' = Parsed (PDict (dict_set ''rows'' (PDict (dict_set ?key
        (PDict (dict_set (count_field d) n' row)) rows)) v))"
  proof -
    from assms obtain v rows where val: "aggregate_value encoded_size budgeted aggregate = Inr (v, rows)"
      and rest: "(case get_default rows ?key (PDict (fresh_row item d day)) of
         PDict row \<Rightarrow>
           (case map_of row (count_field d) of
              None \<Rightarrow> Inl (KeyError (count_field d))
            | Some n \<Rightarrow> rbind (increment n) (\<lambda>n'.
                let value' = dict_set ''rows'' (PDict (dict_set ?key (PDict (dict_set (count_field d) n' row)) rows)) v
                in if budgeted \<and> encoded_size value' > 262144 then Inl (ValueError ''GATE_AGGREGATE_TOO_LARGE'')
                   else Inr (Parsed (PDict value'))))
       | _ \<Rightarrow> Inl (TypeError ''row is not a mapping'')) = Inr aggregate'"
      by (auto simp: record_aggregate_def rbind_eq_Inr)
    from rest show thesis
      by (cases "get_default rows ?key (PDict (fresh_row item d day))")
        (auto simp: rbind_eq_Inr if_Inl_eq_Inr Let_def split: option.splits intro: that [OF val])
  qed
  have after: "counted aggregate' key field = (if key = ?key
      then count_of (if field = count_field d then n' else get_default row field PNone)
      else count_of (entry (get_default rows key PNone) field))"
    using out by (simp add: counted_def get_default_def map_of_dict_set)
  have before: "counted aggregate ?key field = count_of (get_default row field PNone)"
  proof (cases "map_of rows ?key")
    case None
    then have "row = fresh_row item d day" using row by (simp add: get_default_def)
    then show ?thesis using aggregate_value_rows [OF val, of ?key field] None
      by (auto simp: fresh_row_def get_default_def split: if_splits)
  next
    case (Some r)
    then show ?thesis using aggregate_value_rows [OF val, of ?key field] row by (simp add: get_default_def)
  qed
  show ?thesis
    using after before n increment_count [OF n(2)] aggregate_value_rows [OF val, of key field]
    by (auto simp: get_default_def)
qed

lemma cleanup_state:
  "cleanup_payload w u target moment = Inr (ws, w', u') \<Longrightarrow> qi_state u = target \<Longrightarrow> qi_state u' = target"
  "cleanup_result w u target moment = Inr (ws, w', u') \<Longrightarrow> qi_state u = target \<Longrightarrow> qi_state u' = target"
  by (auto simp: cleanup_payload_def cleanup_result_def clear_payload_def clear_result_def Let_def rbind_eq_Inr
      split: option.splits if_splits)

lemma transition_state:
  assumes "transition_queue_item settings w item state moment reason t = Inr (ws, updated)"
  shows "qi_state updated = target_state state"
proof -
  obtain w1 u1 where store: "transition_store settings w item (target_state state) moment reason t = Inr (w1, u1)"
    and rest: "(if \<not> discards (target_state state) then Inr ([w1], u1)
        else rbind (cleanup_payload w1 u1 (target_state state) moment) (\<lambda>(ws2, w2, updated2).
             rbind (cleanup_result w2 updated2 (target_state state) moment) (\<lambda>(ws3, w3, updated3).
               Inr (w1 # ws2 @ ws3, updated3)))) = Inr (ws, updated)"
    using assms by (auto simp: transition_queue_item_def Let_def rbind_eq_Inr)
  have "qi_state u1 = target_state state"
    using store by (auto simp: transition_store_def Let_def rbind_eq_Inr if_Inl_eq_Inr)
  then show ?thesis
    using rest by (auto simp: rbind_eq_Inr dest: cleanup_state split: if_splits)
qed

lemma transition_bodies:
  assumes "transition_queue_item settings w item state moment reason t = Inr (ws, updated)"
    and "\<not> discards (target_state state)"
  shows "qw_bodies (last ws) = qw_bodies w"
  using assms by (auto simp: transition_queue_item_def transition_store_def Let_def rbind_eq_Inr if_Inl_eq_Inr)

lemma applied_eq:
  "applied yes reason discarded run = Inr (ws, r) \<longleftrightarrow> (\<exists>updated. run = Inr (ws, updated)
     \<and> r = \<lparr>ar_applied = yes, ar_reason_code = reason, ar_state = qi_state updated, ar_queue_item = updated,
            ar_discarded_payload = discarded\<rparr>)"
  by (auto simp: applied_def rbind_eq_Inr)

definition state_after :: "string \<Rightarrow> QueueState" where
  "state_after v = (if v = ''NO'' then NO_DISCARDED else if v = ''DEFERRED'' then DEFERRED
     else if v = ''FAILED'' then FAILED_RETRYABLE else YES_CURATING)"

lemma apply_cases:
  assumes "apply_gate_decision settings encoded_size budgeted day moment aggregate w d item = (aggregate', Inr (ws, r))"
    and "gd_decision d \<in> {''YES'', ''NO'', ''DEFERRED'', ''FAILED''}"
  obtains (counted) updated reason where "gd_decision d \<in> {''YES'', ''NO''}"
      "record_aggregate encoded_size budgeted aggregate item d day = Inr aggregate'"
      "transition_queue_item settings w item (state_after (gd_decision d)) moment (Some reason) None = Inr (ws, updated)"
      "r = \<lparr>ar_applied = True, ar_reason_code = reason, ar_state = qi_state updated, ar_queue_item = updated,
            ar_discarded_payload = (gd_decision d = ''NO'' \<and> qi_payload_ref item \<noteq> None)\<rparr>"
  | (waiting) state updated t where "gd_decision d \<in> {''DEFERRED'', ''FAILED''}" "aggregate' = aggregate"
      "target_state state = state_after (gd_decision d)"
      "transition_queue_item settings w item state moment (Some (gd_reason_code d)) t = Inr (ws, updated)"
      "r = \<lparr>ar_applied = False, ar_reason_code = gd_reason_code d, ar_state = qi_state updated,
            ar_queue_item = updated, ar_discarded_payload = False\<rparr>"
proof -
  consider "gd_decision d = ''NO''" | "gd_decision d = ''YES''" | "gd_decision d = ''DEFERRED''" | "gd_decision d = ''FAILED''"
    using assms(2) by blast
  then show thesis
  proof cases
    case 1
    then show thesis using assms(1) counted by (auto simp: apply_gate_decision_def Let_def state_after_def applied_eq split: sum.splits)
  next
    case 2
    then show thesis using assms(1) counted by (auto simp: apply_gate_decision_def Let_def state_after_def applied_eq split: sum.splits)
  next
    case 3
    then show thesis using assms(1) waiting [of DEFERRED] by (auto simp: apply_gate_decision_def Let_def state_after_def applied_eq)
  next
    case 4
    then show thesis using assms(1) waiting [of FAILED] by (auto simp: apply_gate_decision_def Let_def state_after_def applied_eq)
  qed
qed

text \<open>
  Applying a decision moves the item to the state the decision stands for, counts it exactly
  once in the daily aggregate when it is semantic and not at all otherwise, and touches no other
  count; only a refusal deletes bodies.
\<close>

theorem apply_moves_and_counts:
  assumes "apply_gate_decision settings encoded_size budgeted day moment aggregate w d item = (aggregate', Inr (ws, r))"
    and "decision_ok d"
  shows "qi_state (ar_queue_item r) = state_after (gd_decision d) \<and> ar_state r = state_after (gd_decision d)
    \<and> (ar_applied r \<longleftrightarrow> gd_decision d \<in> {''YES'', ''NO''})
    \<and> (gd_decision d \<noteq> ''NO'' \<longrightarrow> qw_bodies (last ws) = qw_bodies w \<and> \<not> ar_discarded_payload r)
    \<and> counted aggregate' key field = counted aggregate key field
        + (if ar_applied r \<and> key = aggregate_key item d day \<and> field = count_field d then 1 else 0)"
proof -
  have v: "gd_decision d \<in> {''YES'', ''NO'', ''DEFERRED'', ''FAILED''}" using assms(2) by (simp add: decision_ok_def)
  have same: "target_state (state_after v) = state_after v" for v by (simp add: state_after_def)
  have keep: "\<not> discards (state_after v)" if "v \<noteq> ''NO''" for v using that by (simp add: state_after_def discards_def)
  from assms(1) v show ?thesis
  proof (cases rule: apply_cases)
    case (counted updated reason)
    then show ?thesis
      using record_aggregate_counts [OF counted(2), of key field] transition_state [OF counted(3)]
        transition_bodies [OF counted(3)] same keep by auto
  next
    case (waiting state updated t)
    then show ?thesis
      using transition_state [OF waiting(4)] transition_bodies [OF waiting(4)] keep by auto
  qed
qed

definition ready_item :: QueueItem where
  "ready_item = sample_item ''1'' READY"

definition applied_yes :: "policy_file \<times> (queue_world list \<times> ApplyResult) result" where
  "applied_yes = apply_gate_decision sample_settings (\<lambda>_. 0) True ''2026-01-01'' 0 Absent
     (sample_queue [ready_item] [''spool-1'']) yes_decision ready_item"

theorem apply_moves_and_counts_witness:
  "\<exists>ws r. snd applied_yes = Inr (ws, r) \<and> ar_state r = YES_CURATING \<and> qw_bodies (last ws) = [''spool-1'']
     \<and> counted (fst applied_yes) (aggregate_key ready_item yes_decision ''2026-01-01'') ''yes_count'' = 1"
proof -
  have "\<not> isl (snd applied_yes)" "gd_decision yes_decision = ''YES''" "count_field yes_decision = ''yes_count''"
    "qw_bodies (sample_queue [ready_item] [''spool-1'']) = [''spool-1'']"
    "counted Absent (aggregate_key ready_item yes_decision ''2026-01-01'') ''yes_count'' = 0"
    by code_simp+
  moreover from this obtain ws r where r: "snd applied_yes = Inr (ws, r)" by (cases "snd applied_yes") auto
  then have "applied_yes = (fst applied_yes, Inr (ws, r))" by (metis prod.collapse)
  moreover have "decision_ok yes_decision" by code_simp
  ultimately show ?thesis
    using apply_moves_and_counts [of sample_settings "\<lambda>_. 0" True "''2026-01-01''" 0 Absent
        "sample_queue [ready_item] [''spool-1'']" yes_decision ready_item "fst applied_yes" ws r
        "aggregate_key ready_item yes_decision ''2026-01-01''" "''yes_count''", folded applied_yes_def] r
    by (simp add: state_after_def)
qed

end
