(* ===== verification/Knowledge_Lifecycle.thy ===== *)
theory Knowledge_Lifecycle
  imports Knowledge_Models
begin

section \<open>Promotion, deprecation and the always-on selection\<close>

text \<open>
  \<^verbatim>\<open>src/src/ei/lifecycle.py\<close>: which cluster becomes a pattern, when a pattern is deprecated or
  buried, and which patterns are always injected within a character budget. The evaluation reads no
  clock. \<open>parse\<close> stands for \<open>datetime.fromisoformat\<close> on a text with the \<open>Z\<close> suffix replaced, as an
  instant in microseconds (\<^term>\<open>None\<close> when it raises). Scores are computed in rationals where the
  code computes in floats, and rounded as the code rounds them. Patterns are given as
  \<open>PatternState\<close>; the coercion of a mapping to one is not modelled.
\<close>

subsection \<open>Events of the lifecycle\<close>

definition PROMOTABLE_CLASSIFICATIONS :: "string list" where
  "PROMOTABLE_CLASSIFICATIONS = [''public'', ''private-reusable'']"

definition parse_timestamp :: "(string \<Rightarrow> int option) \<Rightarrow> string option \<Rightarrow> int option" where
  "parse_timestamp parse value = (case value of None \<Rightarrow> None | Some s \<Rightarrow> if s = [] then None else parse s)"

definition evidence_refs :: "ClusterState \<Rightarrow> string list" where
  "evidence_refs state = sort (filter (\<lambda>v. v \<noteq> [])
     (if cl_evidence_refs state \<noteq> [] then cl_evidence_refs state else cl_provenances state))"

definition policy_version :: "PromotionPolicy \<Rightarrow> string" where
  "policy_version policy = (if pp_policy_version policy \<noteq> [] then pp_policy_version policy else ''promotion-v1'')"

definition update_dict :: "pydict \<Rightarrow> pydict \<Rightarrow> pydict" where
  "update_dict d e = fold (\<lambda>(k, v). dict_set k v) e d"

definition host_fields :: "ClusterState \<Rightarrow> pydict" where
  "host_fields state = (if cl_source_host_id state \<noteq> [] \<and> cl_source_host_family state \<noteq> [] then
       [(''source_host_id'', PStr (cl_source_host_id state)),
        (''source_host_family'', PStr (cl_source_host_family state)),
        (''applicability_scope'', PStr (cl_applicability_scope state)),
        (''applicable_host_ids'', PList (map PStr (cl_applicable_host_ids state))),
        (''applicable_host_families'', PList (map PStr (cl_applicable_host_families state)))]
     else [])"

definition lifecycle_body ::
  "ClusterState \<Rightarrow> PromotionPolicy \<Rightarrow> string \<Rightarrow> pydict \<Rightarrow> int option \<Rightarrow> int option \<Rightarrow> pydict" where
  "lifecycle_body state policy reason payload old_version new_version =
     update_dict (update_dict
       [(''cluster_id'', PStr (cl_cluster_id state)), (''reason'', PStr reason), (''reason_code'', PStr reason),
        (''evidence_refs'', PList (map PStr (evidence_refs state))), (''policy_version'', PStr (policy_version policy)),
        (''old_version'', PInt (case old_version of Some v \<Rightarrow> v | None \<Rightarrow> cl_revision state)),
        (''new_version'', PInt (case new_version of Some v \<Rightarrow> v | None \<Rightarrow> cl_revision state))]
       payload) (host_fields state)"

definition lifecycle_event ::
  "(string \<Rightarrow> string) \<Rightarrow> (rat \<Rightarrow> string) \<Rightarrow> string \<Rightarrow> ClusterState \<Rightarrow> string \<Rightarrow> PromotionPolicy \<Rightarrow> string \<Rightarrow> pydict
     \<Rightarrow> int option \<Rightarrow> int option \<Rightarrow> Event" where
  "lifecycle_event sha256 repr event_type state timestamp policy reason payload old_version new_version =
     (let body = lifecycle_body state policy reason payload old_version new_version;
          idempotency = ''sha256:'' @ stable_hash sha256 repr (PDict
            [(''event_type'', PStr event_type), (''cluster_id'', PStr (cl_cluster_id state)),
             (''occurred_at'', PStr timestamp), (''payload'', PDict body)]);
          body' = dict_set ''idempotency_key'' (PStr idempotency) body;
          event_id = ''evt_lifecycle_'' @ take 24 (stable_hash sha256 repr (PDict
            [(''event_type'', PStr event_type), (''cluster_id'', PStr (cl_cluster_id state)), (''payload'', PDict body')]))
      in create_event event_type timestamp ''lifecycle'' ''lifecycle'' body' event_id)"

subsection \<open>Promotion\<close>

definition reason_if :: "bool \<Rightarrow> string \<Rightarrow> string list" where
  "reason_if failed code = (if failed then [code] else [])"

definition promotion_reasons :: "ClusterState \<Rightarrow> PromotionPolicy \<Rightarrow> string list" where
  "promotion_reasons cluster policy =
     reason_if (cl_status cluster \<notin> {''raw'', ''candidate''}) ''STATUS_NOT_PROMOTABLE''
   @ reason_if (int (length (cl_provenances cluster)) < pp_independent_provenance_count policy)
       ''INSUFFICIENT_INDEPENDENT_PROVENANCE''
   @ reason_if (int (length (cl_scopes cluster)) < pp_distinct_scope_count policy) ''INSUFFICIENT_DISTINCT_SCOPE''
   @ reason_if (cl_benefit_count cluster < pp_benefit_evidence_count policy) ''INSUFFICIENT_BENEFIT_EVIDENCE''
   @ reason_if (int (length (cl_contradiction_provenances cluster)) > pp_max_unresolved_contradictions policy)
       ''UNRESOLVED_CONTRADICTION''
   @ reason_if (cl_classification cluster \<notin> set PROMOTABLE_CLASSIFICATIONS) ''CLASSIFICATION_NOT_PROMOTABLE''
   @ reason_if (\<not> (pp_min_rule_chars policy \<le> int (length (cl_rule cluster))
                    \<and> int (length (cl_rule cluster)) \<le> pp_max_rule_chars policy)) ''RULE_LENGTH_INVALID''
   @ reason_if (case cl_precondition cluster of Some p \<Rightarrow> p = [] | None \<Rightarrow> cl_scopes cluster = []) ''PRECONDITION_MISSING''
   @ reason_if (case cl_failure_mode cluster of Some f \<Rightarrow> f = [] | None \<Rightarrow> cl_benefit_count cluster < 1)
       ''FAILURE_MODE_MISSING''
   @ reason_if (\<not> list_ex (\<lambda>item. strip item \<noteq> []) (cl_applicability cluster)) ''APPLICABILITY_MISSING''"

definition promotion_eligibility :: "ClusterState \<Rightarrow> PromotionPolicy \<Rightarrow> ValidationResult" where
  "promotion_eligibility cluster policy = (let reasons = promotion_reasons cluster policy in
     \<lparr>vr_valid = (reasons = []), vr_reason_codes = unique reasons\<rparr>)"

subsection \<open>Evaluation of a cluster\<close>

definition days_us :: "int \<Rightarrow> int" where
  "days_us n = n * 86400000000"

definition inactive_long_enough :: "(string \<Rightarrow> int option) \<Rightarrow> ClusterState \<Rightarrow> int \<Rightarrow> int \<Rightarrow> bool" where
  "inactive_long_enough parse state now days =
     (case (case parse_timestamp parse (cl_last_used_at state) of
              Some t \<Rightarrow> Some t | None \<Rightarrow> parse_timestamp parse (cl_deprecated_at state)) of
        None \<Rightarrow> False
      | Some reference \<Rightarrow> now - reference \<ge> days_us days)"

definition truthy_text :: "string option \<Rightarrow> bool" where
  "truthy_text v = (case v of None \<Rightarrow> False | Some s \<Rightarrow> s \<noteq> [])"

definition text_or_none :: "string option \<Rightarrow> pyval" where
  "text_or_none v = (case v of None \<Rightarrow> PNone | Some s \<Rightarrow> PStr s)"

definition evaluation_time :: "ClusterState \<Rightarrow> string option \<Rightarrow> string" where
  "evaluation_time state now_utc = (case now_utc of Some s \<Rightarrow> s | None \<Rightarrow>
     (case cl_last_used_at state of
        Some s \<Rightarrow> if s \<noteq> [] then s
          else (case cl_deprecated_at state of Some t \<Rightarrow> if t \<noteq> [] then t else ''1970-01-01T00:00:00+00:00''
                | None \<Rightarrow> ''1970-01-01T00:00:00+00:00'')
      | None \<Rightarrow> (case cl_deprecated_at state of Some t \<Rightarrow> if t \<noteq> [] then t else ''1970-01-01T00:00:00+00:00''
                | None \<Rightarrow> ''1970-01-01T00:00:00+00:00'')))"

definition evaluation_instant :: "(string \<Rightarrow> int option) \<Rightarrow> ClusterState \<Rightarrow> string option \<Rightarrow> int" where
  "evaluation_instant parse state now_utc =
     (case parse_timestamp parse (Some (evaluation_time state now_utc)) of Some t \<Rightarrow> t | None \<Rightarrow> 0)"

definition promotion_payload :: "(string \<Rightarrow> string) \<Rightarrow> (rat \<Rightarrow> string) \<Rightarrow> ClusterState \<Rightarrow> pydict" where
  "promotion_payload sha256 repr state =
     [(''pattern_id'', (if truthy_text (cl_pattern_id state) then text_or_none (cl_pattern_id state)
         else PStr (''pat_'' @ take 20 (stable_hash sha256 repr (PStr (cl_cluster_id state)))))),
      (''rule'', PStr (cl_rule state)), (''provenances'', PList (map PStr (sort (cl_provenances state)))),
      (''scopes'', PList (map PStr (sort (cl_scopes state)))), (''benefit_count'', PInt (cl_benefit_count state)),
      (''classification'', PStr (cl_classification state)),
      (''applicability'', PList (map PStr (cl_applicability state)))]"

definition evaluate_lifecycle ::
  "(string \<Rightarrow> string) \<Rightarrow> (rat \<Rightarrow> string) \<Rightarrow> (string \<Rightarrow> int option) \<Rightarrow> ClusterState \<Rightarrow> PromotionPolicy \<Rightarrow> string option
     \<Rightarrow> Event list" where
  "evaluate_lifecycle sha256 repr parse state policy now_utc =
     (let timestamp = evaluation_time state now_utc;
          now = evaluation_instant parse state now_utc;
          pattern = (''pattern_id'', text_or_none (cl_pattern_id state));
          event = (\<lambda>event_type reason payload.
            [lifecycle_event sha256 repr event_type state timestamp policy reason payload None None])
      in if cl_status state = ''active''
            \<and> int (length (cl_contradiction_provenances state)) \<ge> pp_contradiction_count_for_deprecation policy
           then event ''pattern.deprecated'' ''THREE_INDEPENDENT_CONTRADICTIONS'' [pattern]
         else if cl_status state = ''active'' \<and> cl_benefit_count state = 0
            \<and> inactive_long_enough parse state now (pp_unused_days_for_deprecation policy)
           then event ''pattern.deprecated'' ''STALE_NO_BENEFIT'' [pattern]
         else if vr_valid (promotion_eligibility state policy)
           then event ''pattern.promoted'' ''PROMOTION_ELIGIBLE'' (promotion_payload sha256 repr state)
         else if truthy_text (cl_pattern_id state) \<and> \<not> cl_pinned state \<and> \<not> cl_legal_hold state
              \<and> cl_contradiction_provenances state = [] then
           (if cl_status state = ''superseded'' \<and> cl_replacement_active state \<and> truthy_text (cl_superseded_by state)
               \<and> cl_exposure_count state = 0
               \<and> inactive_long_enough parse state now (pp_superseded_unused_days_for_tombstone policy)
            then event ''pattern.tombstoned'' ''SUPERSEDED_INACTIVE''
              [pattern, (''replacement'', text_or_none (cl_superseded_by state))]
            else if cl_status state = ''deprecated'' \<and> cl_exposure_count state = 0
               \<and> inactive_long_enough parse state now (pp_deprecated_unused_days_for_tombstone policy)
            then event ''pattern.tombstoned'' ''DEPRECATED_INACTIVE'' [pattern]
            else [])
         else [])"

text \<open>
  An event that arrives: a promotion is let through only for an eligible cluster, a revision that
  reverses the meaning becomes a replacement and a superseding.
\<close>

definition apply_lifecycle_transition ::
  "(string \<Rightarrow> string) \<Rightarrow> (rat \<Rightarrow> string) \<Rightarrow> (pyval \<Rightarrow> string) \<Rightarrow> ClusterState \<Rightarrow> Event \<Rightarrow> PromotionPolicy \<Rightarrow> Event list" where
  "apply_lifecycle_transition sha256 repr py_str cluster e policy =
     (if ev_event_type e = ''pattern.promoted'' \<and> \<not> vr_valid (promotion_eligibility cluster policy) then []
      else if ev_event_type e = ''pattern.revised'' \<and> truthy (get_default (ev_payload e) ''meaning_reversing'' PNone) then
        (let given = get_default (ev_payload e) ''replacement_pattern_id'' PNone;
             replacement_id = (if truthy given then py_str given
               else ''pat_'' @ take 20 (stable_hash sha256 repr (PStr (ev_event_id e))));
             reason = ''MEANING_REVERSING_REPLACEMENT'';
             revision = cl_revision cluster
         in [lifecycle_event sha256 repr ''pattern.revised'' cluster (ev_occurred_at e) policy reason
               [(''pattern_id'', PStr replacement_id),
                (''rule'', get_default (ev_payload e) ''rule'' (PStr (cl_rule cluster))),
                (''classification'', PStr (cl_classification cluster)), (''relation'', PStr ''replacement_for''),
                (''replaces_pattern_id'', text_or_none (cl_pattern_id cluster))]
               (Some revision) (Some (revision + 1)),
             lifecycle_event sha256 repr ''pattern.superseded'' cluster (ev_occurred_at e) policy reason
               [(''pattern_id'', text_or_none (cl_pattern_id cluster)),
                (''replacement_pattern_id'', PStr replacement_id), (''replacement_active'', PBool False)]
               (Some revision) (Some revision)])
      else [e])"

subsection \<open>Utility and the always-on selection\<close>

text \<open>The usage numbers by key, and the text under \<open>now_utc\<close>.\<close>

record usage =
  us_numbers :: "rat dict"
  us_now_utc :: "string option"

definition clamp01 :: "rat \<Rightarrow> rat" where
  "clamp01 x = max 0 (min 1 x)"

definition pattern_freshness :: "(string \<Rightarrow> int option) \<Rightarrow> PatternState \<Rightarrow> usage \<Rightarrow> rat" where
  "pattern_freshness parse pattern u = (case map_of (us_numbers u) ''freshness'' of
       Some x \<Rightarrow> clamp01 x
     | None \<Rightarrow>
         (case (parse_timestamp parse (pa_updated_at pattern), parse_timestamp parse (us_now_utc u)) of
            (Some updated, Some now) \<Rightarrow> 1 / (1 + max 0 (of_int (now - updated) / 86400000000) / 365)
          | (Some _, None) \<Rightarrow> 1 / 2
          | (None, _) \<Rightarrow> 0))"

definition utility_value :: "(string \<Rightarrow> int option) \<Rightarrow> PatternState \<Rightarrow> usage \<Rightarrow> rat" where
  "utility_value parse item u =
     (let number = get_default (us_numbers u);
          frequency = clamp01 (number ''retrieval_frequency'' (number (pa_pattern_id item) 0) / 10);
          benefit = number ''benefit_strength'' (min 1 (of_nat (length (pa_benefit_refs item)) / 2));
          breadth = number ''scope_breadth'' (min 1 (of_nat (length (pa_applicability item)) / 2));
          evidence = number ''evidence_strength'' (min 1 (of_nat (length (pa_evidence_ids item)) / 2));
          contradiction = number ''contradiction_penalty'' (min 1 (of_int (pa_contradiction_count item) / 3));
          context_cost = number ''context_cost_penalty'' (min (1 / 4) (of_nat (length (pa_rule item)) / 12000 * (1 / 4)))
      in frequency * (25 / 100) + clamp01 benefit * (25 / 100) + clamp01 breadth * (15 / 100)
         + clamp01 evidence * (20 / 100) + pattern_freshness parse item u * (15 / 100)
         - max 0 contradiction - max 0 context_cost)"

text \<open>The rounded score, in units of a millionth.\<close>

definition utility_score :: "(string \<Rightarrow> int option) \<Rightarrow> PatternState \<Rightarrow> usage \<Rightarrow> int" where
  "utility_score parse item u = round_units 6 (max (- 1) (min 1 (utility_value parse item u)))"

definition always_on_candidate :: "PatternState \<Rightarrow> bool" where
  "always_on_candidate p \<longleftrightarrow> pa_status p = ''active'' \<and> pa_classification p \<in> set PROMOTABLE_CLASSIFICATIONS
   \<and> pa_contradiction_count p = 0"

definition always_on_key :: "(string \<Rightarrow> int option) \<Rightarrow> usage \<Rightarrow> PatternState \<Rightarrow> int \<times> int \<times> string" where
  "always_on_key parse u p = (- utility_score parse p u, - of_bool (pa_pinned p), pa_pattern_id p)"

definition rule_cost :: "PatternState \<Rightarrow> int" where
  "rule_cost p = int (length (pa_rule p))"

fun take_within :: "int \<Rightarrow> int \<Rightarrow> int \<Rightarrow> PatternState list \<Rightarrow> PatternState list" where
  "take_within target hard_cap spent [] = []"
| "take_within target hard_cap spent (p # ps) =
     (if rule_cost p > hard_cap \<or> spent + rule_cost p > hard_cap then take_within target hard_cap spent ps
      else if spent + rule_cost p \<le> target \<or> pa_pinned p \<or> pa_legal_hold p
        then p # take_within target hard_cap (spent + rule_cost p) ps
      else take_within target hard_cap spent ps)"

definition select_always_on ::
  "(string \<Rightarrow> int option) \<Rightarrow> PatternState list \<Rightarrow> usage \<Rightarrow> int \<Rightarrow> int \<Rightarrow> PatternState list result" where
  "select_always_on parse patterns u target_chars hard_cap_chars =
     (if target_chars \<le> 0 \<or> hard_cap_chars \<le> 0 \<or> target_chars > hard_cap_chars
        then Inl (ValueError ''ALWAYS_ON_BUDGET_INVALID'')
      else Inr (map (\<lambda>p. p\<lparr>pa_utility := of_int (utility_score parse p u) / 1000000\<rparr>)
        (take_within target_chars hard_cap_chars 0
          (sort_key (always_on_key parse u) (filter always_on_candidate patterns)))))"

subsection \<open>What the lifecycle guarantees\<close>

lemma reason_if_Nil [simp]: "reason_if b code = [] \<longleftrightarrow> \<not> b"
  by (simp add: reason_if_def)

text \<open>The thresholds a cluster has passed when it is promoted.\<close>

definition promotable :: "ClusterState \<Rightarrow> PromotionPolicy \<Rightarrow> bool" where
  "promotable c policy \<longleftrightarrow> cl_status c \<in> {''raw'', ''candidate''}
   \<and> pp_independent_provenance_count policy \<le> int (length (cl_provenances c))
   \<and> pp_distinct_scope_count policy \<le> int (length (cl_scopes c))
   \<and> pp_benefit_evidence_count policy \<le> cl_benefit_count c
   \<and> int (length (cl_contradiction_provenances c)) \<le> pp_max_unresolved_contradictions policy
   \<and> cl_classification c \<in> {''public'', ''private-reusable''}
   \<and> pp_min_rule_chars policy \<le> int (length (cl_rule c)) \<and> int (length (cl_rule c)) \<le> pp_max_rule_chars policy
   \<and> (\<exists>item \<in> set (cl_applicability c). strip item \<noteq> [])"

lemma eligible_promotable: "vr_valid (promotion_eligibility c policy) \<Longrightarrow> promotable c policy"
  by (auto simp: promotion_eligibility_def promotion_reasons_def Let_def promotable_def PROMOTABLE_CLASSIFICATIONS_def
      list_ex_iff)

lemma lifecycle_event_type [simp]:
  "ev_event_type (lifecycle_event sha256 repr event_type state t policy reason payload old new) = event_type"
  by (simp add: lifecycle_event_def Let_def create_event_def)

text \<open>The last use of a cluster, or its deprecation when it was never used, is long enough ago.\<close>

definition idle_since :: "(string \<Rightarrow> int option) \<Rightarrow> ClusterState \<Rightarrow> int \<Rightarrow> bool" where
  "idle_since parse c instant \<longleftrightarrow> (\<exists>t. t \<le> instant \<and>
     (parse_timestamp parse (cl_last_used_at c) = Some t
      \<or> parse_timestamp parse (cl_last_used_at c) = None \<and> parse_timestamp parse (cl_deprecated_at c) = Some t))"

lemma inactive_idle: "inactive_long_enough parse c now days \<longleftrightarrow> idle_since parse c (now - days_us days)"
  by (auto simp: inactive_long_enough_def idle_since_def split: option.splits)

definition buriable :: "(string \<Rightarrow> int option) \<Rightarrow> ClusterState \<Rightarrow> PromotionPolicy \<Rightarrow> int \<Rightarrow> bool" where
  "buriable parse c policy now \<longleftrightarrow> \<not> cl_pinned c \<and> \<not> cl_legal_hold c \<and> cl_contradiction_provenances c = []
   \<and> cl_exposure_count c = 0 \<and> truthy_text (cl_pattern_id c)
   \<and> (cl_status c = ''superseded'' \<and> cl_replacement_active c \<and> truthy_text (cl_superseded_by c)
        \<and> idle_since parse c (now - days_us (pp_superseded_unused_days_for_tombstone policy))
      \<or> cl_status c = ''deprecated''
        \<and> idle_since parse c (now - days_us (pp_deprecated_unused_days_for_tombstone policy)))"

definition failing :: "(string \<Rightarrow> int option) \<Rightarrow> ClusterState \<Rightarrow> PromotionPolicy \<Rightarrow> int \<Rightarrow> bool" where
  "failing parse c policy now \<longleftrightarrow> cl_status c = ''active''
   \<and> (pp_contradiction_count_for_deprecation policy \<le> int (length (cl_contradiction_provenances c))
      \<or> cl_benefit_count c = 0 \<and> idle_since parse c (now - days_us (pp_unused_days_for_deprecation policy)))"

lemma evaluate_cases:
  assumes "evaluate_lifecycle sha256 repr parse state policy now_utc \<noteq> []"
  obtains (single) e where "evaluate_lifecycle sha256 repr parse state policy now_utc = [e]"
    "ev_event_type e = ''pattern.deprecated'' \<and> failing parse state policy (evaluation_instant parse state now_utc)
     \<or> ev_event_type e = ''pattern.promoted'' \<and> promotable state policy
     \<or> ev_event_type e = ''pattern.tombstoned'' \<and> buriable parse state policy (evaluation_instant parse state now_utc)"
  using assms unfolding evaluate_lifecycle_def Let_def
  by (auto simp: failing_def buriable_def inactive_idle intro: eligible_promotable split: if_splits)

lemma update_dict_lookup: "map_of (update_dict d e) k = (case map_of (rev e) k of Some v \<Rightarrow> Some v | None \<Rightarrow> map_of d k)"
  by (induction e arbitrary: d) (auto simp: update_dict_def map_of_dict_set map_add_def split: option.splits)

lemma host_fields_lookup:
  "k \<notin> set [''source_host_id'', ''source_host_family'', ''applicability_scope'', ''applicable_host_ids'',
     ''applicable_host_families''] \<Longrightarrow> map_of (rev (host_fields state)) k = None"
  by (auto simp: host_fields_def)

lemma lifecycle_payload:
  assumes "map_of (rev payload) k = Some v" "k \<notin> set [''source_host_id'', ''source_host_family'', ''applicability_scope'',
     ''applicable_host_ids'', ''applicable_host_families'', ''idempotency_key'']"
  shows "map_of (ev_payload (lifecycle_event sha256 repr event_type state t policy reason payload old new)) k = Some v"
  using assms host_fields_lookup [of k state]
  by (simp add: lifecycle_event_def Let_def create_event_def map_of_dict_set lifecycle_body_def update_dict_lookup)

lemma take_within_spent:
  assumes "0 \<le> spent" "spent \<le> hard_cap"
  shows "spent + sum_list (map rule_cost (take_within target hard_cap spent ps)) \<le> hard_cap"
  using assms
  by (induction target hard_cap spent ps rule: take_within.induct) (auto simp: rule_cost_def)

lemma take_within_target:
  assumes "spent \<le> target" "\<not> list_ex (\<lambda>p. pa_pinned p \<or> pa_legal_hold p) ps"
  shows "spent + sum_list (map rule_cost (take_within target hard_cap spent ps)) \<le> target"
  using assms
  by (induction target hard_cap spent ps rule: take_within.induct) auto

lemma take_within_subset: "set (take_within target hard_cap spent ps) \<subseteq> set ps"
  by (induction target hard_cap spent ps rule: take_within.induct) auto

lemma take_within_sorted: "sorted (map f ps) \<Longrightarrow> sorted (map f (take_within target hard_cap spent ps))"
proof (induction target hard_cap spent ps rule: take_within.induct)
  case (2 target hard_cap spent p ps)
  then show ?case using take_within_subset by (auto dest!: subsetD [OF take_within_subset])
qed simp

text \<open>A pattern that is left out would break the budget that was left for it.\<close>

lemma take_within_greedy:
  assumes "p \<in> set ps" "p \<notin> set (take_within target hard_cap spent ps)" "0 \<le> spent" "target \<le> hard_cap"
  shows "target < rule_cost p + spent + sum_list (map rule_cost (take_within target hard_cap spent ps))"
  using assms
proof (induction ps arbitrary: spent)
  case (Cons q ps)
  have pos: "0 \<le> rule_cost r" for r by (simp add: rule_cost_def)
  have sums: "0 \<le> sum_list (map rule_cost xs)" for xs by (induction xs) (simp_all add: pos add_nonneg_nonneg)
  have "take_within target hard_cap spent (q # ps) = take_within target hard_cap spent ps \<and> target < spent + rule_cost q"
    if "take_within target hard_cap spent (q # ps) \<noteq> q # take_within target hard_cap (spent + rule_cost q) ps"
    using that Cons.prems(3,4) by (auto split: if_splits)
  then consider (taken) "take_within target hard_cap spent (q # ps) = q # take_within target hard_cap (spent + rule_cost q) ps"
    | (skipped) "take_within target hard_cap spent (q # ps) = take_within target hard_cap spent ps"
        "target < spent + rule_cost q"
    by blast
  then show ?case
  proof cases
    case taken
    then show ?thesis using Cons.IH [of "spent + rule_cost q"] Cons.prems pos [of q] by simp
  next
    case skipped
    then show ?thesis using Cons.IH [of spent] Cons.prems sums [of "take_within target hard_cap spent ps"]
      by (cases "p = q") auto
  qed
qed simp

subsection \<open>Properties\<close>

text \<open>
  C26. Every lifecycle event is justified: an evaluation produces at most one event; a promotion
  means that the cluster passed every threshold of the policy, a deprecation that an active pattern
  has enough contradictions or has been idle without benefit, and a tombstone that the pattern is
  neither pinned nor under legal hold, has no contradictions and no exposure, is deprecated or has an
  active replacement, and has been idle for as long as the policy asks.
\<close>

theorem lifecycle_event_justified:
  assumes "e \<in> set (evaluate_lifecycle sha256 repr parse state policy now_utc)"
  shows "evaluate_lifecycle sha256 repr parse state policy now_utc = [e]
    \<and> (ev_event_type e = ''pattern.deprecated'' \<and> failing parse state policy (evaluation_instant parse state now_utc)
       \<or> ev_event_type e = ''pattern.promoted'' \<and> promotable state policy
       \<or> ev_event_type e = ''pattern.tombstoned'' \<and> buriable parse state policy (evaluation_instant parse state now_utc))"
proof -
  have "evaluate_lifecycle sha256 repr parse state policy now_utc \<noteq> []" using assms by auto
  then show ?thesis
  proof (cases rule: evaluate_cases)
    case (single f)
    then show ?thesis using assms by simp
  qed
qed

definition held_cluster :: ClusterState where
  "held_cluster = \<lparr>cl_cluster_id = ''c1'', cl_pattern_id = Some ''p1'', cl_status = ''deprecated'', cl_rule = ''r'',
     cl_provenances = [], cl_scopes = [], cl_benefit_count = 0, cl_contradiction_provenances = [],
     cl_classification = ''public'', cl_last_used_at = None, cl_deprecated_at = Some ''d'', cl_superseded_by = None,
     cl_replacement_active = False, cl_pinned = False, cl_legal_hold = False, cl_exposure_count = 0,
     cl_member_ids = [], cl_canonical_claim = [], cl_polarity = ''MIXED'', cl_contradiction_ids = [],
     cl_provenance_scopes = [], cl_last_observed_at = None, cl_precondition = None, cl_failure_mode = None,
     cl_version_constraint = None, cl_evidence_refs = [], cl_applicability = [], cl_revision = 0,
     cl_source_host_id = [], cl_source_host_family = [], cl_applicability_scope = ''universal'',
     cl_applicable_host_ids = [], cl_applicable_host_families = []\<rparr>"

definition sample_parse :: "string \<Rightarrow> int option" where
  "sample_parse s = (if s = ''d'' then Some 0 else if s = ''n'' then Some (days_us 400) else None)"

theorem lifecycle_event_justified_witness:
  "\<exists>e. evaluate_lifecycle (\<lambda>s. s) (\<lambda>_. []) sample_parse held_cluster default_promotion_policy (Some ''n'') = [e]
     \<and> ev_event_type e = ''pattern.tombstoned'' \<and> buriable sample_parse held_cluster default_promotion_policy (days_us 400)"
proof -
  have "map ev_event_type (evaluate_lifecycle (\<lambda>s. s) (\<lambda>_. []) sample_parse held_cluster default_promotion_policy (Some ''n''))
      = [''pattern.tombstoned'']" and now: "evaluation_instant sample_parse held_cluster (Some ''n'') = days_us 400"
    by code_simp+
  then obtain e where e: "e \<in> set (evaluate_lifecycle (\<lambda>s. s) (\<lambda>_. []) sample_parse held_cluster default_promotion_policy (Some ''n''))"
    "ev_event_type e = ''pattern.tombstoned''" by (auto simp: map_eq_Cons_conv)
  then show ?thesis using lifecycle_event_justified [OF e(1)] by (simp add: now)
qed

text \<open>
  An eligible cluster is promoted as soon as it is evaluated, whatever the time: the evaluation
  returns a promotion with the cluster's rule and its pattern id (a new one, from the cluster id,
  when it has none), and that event passes the check on arriving promotions.
\<close>

theorem eligible_is_promoted:
  assumes "vr_valid (promotion_eligibility state policy)"
  shows "\<exists>e. evaluate_lifecycle sha256 repr parse state policy now_utc = [e] \<and> ev_event_type e = ''pattern.promoted''
    \<and> map_of (ev_payload e) ''rule'' = Some (PStr (cl_rule state))
    \<and> map_of (ev_payload e) ''cluster_id'' = Some (PStr (cl_cluster_id state))
    \<and> map_of (ev_payload e) ''pattern_id'' = Some (if truthy_text (cl_pattern_id state) then text_or_none (cl_pattern_id state)
        else PStr (''pat_'' @ take 20 (sha256 (cl_cluster_id state))))
    \<and> apply_lifecycle_transition sha256 repr py_str state e policy = [e]"
proof -
  have "cl_status state \<noteq> ''active''" using eligible_promotable [OF assms] by (auto simp: promotable_def)
  then have e: "evaluate_lifecycle sha256 repr parse state policy now_utc = [lifecycle_event sha256 repr
      ''pattern.promoted'' state (evaluation_time state now_utc) policy ''PROMOTION_ELIGIBLE''
      (promotion_payload sha256 repr state) None None]"
    using assms by (simp add: evaluate_lifecycle_def Let_def)
  have p: "map_of (rev (promotion_payload sha256 repr state)) ''rule'' = Some (PStr (cl_rule state))"
    "map_of (rev (promotion_payload sha256 repr state)) ''cluster_id'' = None"
    "map_of (rev (promotion_payload sha256 repr state)) ''pattern_id'' =
       Some (if truthy_text (cl_pattern_id state) then text_or_none (cl_pattern_id state)
        else PStr (''pat_'' @ take 20 (sha256 (cl_cluster_id state))))"
    by (simp_all add: promotion_payload_def stable_hash_def)
  have "map_of (ev_payload (lifecycle_event sha256 repr ''pattern.promoted'' state (evaluation_time state now_utc)
      policy ''PROMOTION_ELIGIBLE'' (promotion_payload sha256 repr state) None None)) ''cluster_id'' = Some (PStr (cl_cluster_id state))"
    using p(2) host_fields_lookup [of "''cluster_id''" state]
    by (simp add: lifecycle_event_def Let_def create_event_def map_of_dict_set lifecycle_body_def update_dict_lookup)
  then show ?thesis
    using e assms lifecycle_payload [OF p(1)] lifecycle_payload [OF p(3)]
    by (simp add: apply_lifecycle_transition_def)
qed

definition ripe_cluster :: ClusterState where
  "ripe_cluster = held_cluster\<lparr>cl_pattern_id := None, cl_status := ''candidate'', cl_rule := replicate 90 (CHR ''r''),
     cl_provenances := [''a'', ''b''], cl_scopes := [''s'', ''t''], cl_benefit_count := 1, cl_applicability := [''files'']\<rparr>"

theorem eligible_is_promoted_witness:
  "\<exists>e. evaluate_lifecycle (\<lambda>s. s) (\<lambda>_. []) sample_parse ripe_cluster default_promotion_policy None = [e]
     \<and> map_of (ev_payload e) ''pattern_id'' = Some (PStr ''pat_c1'')"
proof -
  have "vr_valid (promotion_eligibility ripe_cluster default_promotion_policy)" "cl_pattern_id ripe_cluster = None"
    "cl_cluster_id ripe_cluster = ''c1''" by code_simp+
  then show ?thesis
    using eligible_is_promoted [of ripe_cluster default_promotion_policy "\<lambda>s. s" "\<lambda>_. []" sample_parse None]
    by (auto simp: truthy_text_def)
qed

text \<open>
  The always-on selection keeps its budget: the rules together never exceed the hard cap, and
  not the target either when nothing is pinned or held; every selected pattern is active, reusable
  and without contradictions, the selection is ranked by utility, and a candidate is left out only
  when it would exceed the target.
\<close>

theorem always_on_within_budget:
  assumes "select_always_on parse patterns u target hard_cap = Inr ps"
  defines "cost \<equiv> sum_list (map rule_cost ps)"
  shows "cost \<le> hard_cap
    \<and> (list_ex (\<lambda>p. pa_pinned p \<or> pa_legal_hold p) patterns \<or> cost \<le> target)
    \<and> list_all (\<lambda>p. always_on_candidate p \<and> pa_rule p \<in> pa_rule ` set patterns) ps
    \<and> sorted (map (\<lambda>p. - pa_utility p) ps)
    \<and> (\<forall>p \<in> set patterns. always_on_candidate p \<longrightarrow> pa_pattern_id p \<notin> pa_pattern_id ` set ps
         \<longrightarrow> target < rule_cost p + cost)"
proof -
  define ranked where "ranked = sort_key (always_on_key parse u) (filter always_on_candidate patterns)"
  define chosen where "chosen = take_within target hard_cap 0 ranked"
  let ?put = "\<lambda>p. p\<lparr>pa_utility := of_int (utility_score parse p u) / 1000000\<rparr>"
  have ps: "ps = map ?put chosen" and limits: "0 < target" "target \<le> hard_cap"
    using assms(1) by (auto simp: select_always_on_def chosen_def ranked_def split: if_splits)
  have same: "rule_cost (?put p) = rule_cost p" for p by (simp add: rule_cost_def)
  have cost: "cost = sum_list (map rule_cost chosen)"
    by (simp add: cost_def ps o_def same)
  have sub: "p \<in> set patterns \<and> always_on_candidate p" if "p \<in> set chosen" for p
    using that take_within_subset by (fastforce simp: chosen_def ranked_def)
  have "cost \<le> hard_cap" using take_within_spent [of 0 hard_cap target ranked] limits by (simp add: cost chosen_def)
  moreover have "list_ex (\<lambda>p. pa_pinned p \<or> pa_legal_hold p) patterns \<or> cost \<le> target"
    using take_within_target [of 0 target ranked hard_cap] limits
    by (auto simp: cost chosen_def ranked_def list_ex_iff)
  moreover have "list_all (\<lambda>p. always_on_candidate p \<and> pa_rule p \<in> pa_rule ` set patterns) ps"
    using sub by (auto simp: ps list_all_iff always_on_candidate_def)
  moreover have "sorted (map (\<lambda>p. - pa_utility p) ps)"
  proof -
    have "sorted (map (always_on_key parse u) chosen)"
      unfolding chosen_def by (rule take_within_sorted) (simp add: ranked_def)
    then have "sorted_wrt (\<lambda>p q. utility_score parse q u \<le> utility_score parse p u) chosen"
      unfolding sorted_map by (rule sorted_wrt_mono_rel [rotated]) (auto simp: always_on_key_def)
    then show ?thesis
      by (simp add: ps sorted_map sorted_wrt_map divide_right_mono)
  qed
  moreover have "target < rule_cost p + cost"
    if "p \<in> set patterns" "always_on_candidate p" "pa_pattern_id p \<notin> pa_pattern_id ` set ps" for p
  proof -
    have "pa_pattern_id ` set ps = pa_pattern_id ` set chosen" by (simp add: ps image_image)
    then have "p \<notin> set chosen" using that(3) by blast
    then show ?thesis using take_within_greedy [of p ranked target hard_cap 0] that limits
      by (simp add: chosen_def cost ranked_def)
  qed
  ultimately show ?thesis by blast
qed

definition sample_pattern :: "string \<Rightarrow> nat \<Rightarrow> bool \<Rightarrow> PatternState" where
  "sample_pattern i n pinned = \<lparr>pa_pattern_id = i, pa_rule = replicate n (CHR ''r''), pa_precondition = [], pa_scope = [],
     pa_evidence_ids = [], pa_benefit_refs = [], pa_exceptions = [], pa_version_constraint = None, pa_status = ''active'',
     pa_classification = ''public'', pa_utility = 0, pa_cluster_id = [], pa_applicability = [], pa_updated_at = None,
     pa_contradiction_count = 0, pa_pinned = pinned, pa_legal_hold = False, pa_source_host_id = [],
     pa_source_host_family = [], pa_applicability_scope = ''universal'', pa_applicable_host_ids = [],
     pa_applicable_host_families = []\<rparr>"

definition sample_selection :: "PatternState list" where
  "sample_selection = projr (select_always_on sample_parse [sample_pattern ''b'' 4 False, sample_pattern ''a'' 3 False]
     \<lparr>us_numbers = [], us_now_utc = None\<rparr> 5 6)"

theorem always_on_within_budget_witness:
  "map pa_pattern_id sample_selection = [''a''] \<and> sum_list (map rule_cost sample_selection) \<le> 6"
proof -
  have "\<not> isl (select_always_on sample_parse [sample_pattern ''b'' 4 False, sample_pattern ''a'' 3 False]
     \<lparr>us_numbers = [], us_now_utc = None\<rparr> 5 6)" "map pa_pattern_id sample_selection = [''a'']"
    by code_simp+
  then have "select_always_on sample_parse [sample_pattern ''b'' 4 False, sample_pattern ''a'' 3 False]
     \<lparr>us_numbers = [], us_now_utc = None\<rparr> 5 6 = Inr sample_selection"
    by (simp add: sample_selection_def)
  then show ?thesis
    using always_on_within_budget \<open>map pa_pattern_id sample_selection = [''a'']\<close> by blast
qed

end
