(* ===== verification/Claim_Text.thy ===== *)
theory Claim_Text
  imports Text_Patterns Knowledge_Models
begin

section \<open>Comparison of claims\<close>

text \<open>
  \<^verbatim>\<open>src/src/ei/dedup.py\<close>: the normal form claims are compared in, their features and similarity,
  their polarity, version and outcome, and whether two observations are independent evidence.

  Texts have the code points \<open>0..255\<close>, so none of the Japanese characters, aliases and phrases of the
  source can occur in one: those alternatives never match and are left out, as are full-width marks.
  \<open>nfkc\<close> stands for \<open>unicodedata.normalize("NFKC", _)\<close>. Feature sets are lists without repetitions.
\<close>

subsection \<open>Normal form\<close>

text \<open>\<open>s.replace(old, new)\<close> for a non-empty \<open>old\<close>.\<close>

function replace_all :: "string \<Rightarrow> string \<Rightarrow> string \<Rightarrow> string" where
  "replace_all old new s =
     (if s = [] \<or> old = [] then s
      else if starts_with old s then new @ replace_all old new (drop (length old) s)
      else hd s # replace_all old new (tl s))"
  by pat_completeness auto
termination
  by (relation "measure (\<lambda>(old, new, s). length s)") (auto simp: neq_Nil_conv)

declare replace_all.simps [simp del]

text \<open>\<open>re.sub(r"\s+", " ", s)\<close>.\<close>

function collapse_spaces :: "string \<Rightarrow> string" where
  "collapse_spaces [] = []"
| "collapse_spaces (c # cs) = (if is_space c then CHR '' '' # collapse_spaces (dropWhile is_space cs)
     else c # collapse_spaces cs)"
  by pat_completeness auto
termination
  by (relation "measure length") (auto simp: le_imp_less_Suc length_dropWhile_le)

lemma dropWhile_Cons_shorter: "dropWhile p s = c # cs \<Longrightarrow> length (dropWhile q cs) < length s"
proof -
  assume "dropWhile p s = c # cs"
  then have "length (c # cs) \<le> length s" by (metis length_dropWhile_le)
  moreover have "length (dropWhile q cs) \<le> length cs" by (rule length_dropWhile_le)
  ultimately show ?thesis by simp
qed

text \<open>
  \<open>re.sub(r"L*(P)T*", r"\1", s)\<close> for character classes \<open>L\<close>, \<open>T\<close> of blanks and \<open>P\<close> of marks: blanks
  before and after a mark are dropped.
\<close>

function tighten :: "(char \<Rightarrow> bool) \<Rightarrow> (char \<Rightarrow> bool) \<Rightarrow> (char \<Rightarrow> bool) \<Rightarrow> string \<Rightarrow> string" where
  "tighten lead mark trail s = (case dropWhile lead s of
       c # cs \<Rightarrow> if mark c then c # tighten lead mark trail (dropWhile trail cs)
                else (case s of [] \<Rightarrow> [] | d # ds \<Rightarrow> d # tighten lead mark trail ds)
     | [] \<Rightarrow> (case s of [] \<Rightarrow> [] | d # ds \<Rightarrow> d # tighten lead mark trail ds))"
  by pat_completeness auto
termination
  by (relation "measure (\<lambda>(lead, mark, trail, s). length s)") (auto intro: dropWhile_Cons_shorter)

declare tighten.simps [simp del]

definition normalize_claim :: "(string \<Rightarrow> string) \<Rightarrow> string \<Rightarrow> string" where
  "normalize_claim nfkc text =
     (let v1 = replace_all [CHR 0x0D] [CHR 0x0A] (replace_all [CHR 0x0D, CHR 0x0A] [CHR 0x0A] (nfkc text));
          v2 = strip (collapse_spaces v1);
          v3 = tighten is_space (\<lambda>c. c \<in> set '',.!?:;/'') is_space v2;
          v4 = tighten is_space (\<lambda>c. c \<in> set ''()[]{}'') is_space v3;
          v5 = tighten (\<lambda>c. c = CHR '' '' \<or> c = CHR 0x09) (\<lambda>c. c \<in> set ''+='') is_space v4
      in map ascii_lower v5)"

definition claim_fingerprint :: "(string \<Rightarrow> string) \<Rightarrow> (string \<Rightarrow> string) \<Rightarrow> string \<Rightarrow> string" where
  "claim_fingerprint sha256 nfkc text = sha256 (normalize_claim nfkc text)"

subsection \<open>Features and similarity\<close>

definition ALIAS_GROUPS :: "(string \<times> string list) list" where
  "ALIAS_GROUPS =
     [(''write'', [''write'', ''writing'', ''edit'', ''edited'']),
      (''reload'', [''reload'', ''refresh'', ''read again'']),
      (''target'', [''worksheet'', ''spreadsheet'', ''target'']),
      (''formula'', [''formula'', ''formulas'']),
      (''verify'', [''verify'', ''validate'', ''validation'', ''check''])]"

text \<open>Groups and aliases with the longest first, as the code visits them.\<close>

definition alias_order :: "(string \<times> string) list" where
  "alias_order = concat (map (\<lambda>(name, aliases). map (\<lambda>a. (a, name)) (sort_key (\<lambda>a. (- int (length a), a)) aliases))
     (sort_key (\<lambda>(name, aliases). (- int (Max (length ` set aliases)), name)) ALIAS_GROUPS))"

definition with_aliases :: "(string \<Rightarrow> string) \<Rightarrow> string \<Rightarrow> string" where
  "with_aliases nfkc text = strip (collapse_spaces
     (fold (\<lambda>(a, name) v. replace_all (map ascii_lower a) ('' '' @ name @ '' '') v) alias_order (normalize_claim nfkc text)))"

definition token_char :: "char \<Rightarrow> bool" where
  "token_char c \<longleftrightarrow> (CHR ''a'' \<le> c \<and> c \<le> CHR ''z'') \<or> ascii_digit c \<or> c = CHR ''_''"

text \<open>\<open>re.findall("[a-z0-9_]+", s)\<close>: the maximal runs.\<close>

fun words_from :: "string \<Rightarrow> string \<Rightarrow> string list" where
  "words_from w [] = (if w = [] then [] else [rev w])"
| "words_from w (c # cs) = (if token_char c then words_from (c # w) cs
     else (if w = [] then [] else [rev w]) @ words_from [] cs)"

definition tokenize_similarity :: "(string \<Rightarrow> string) \<Rightarrow> string \<Rightarrow> string list" where
  "tokenize_similarity nfkc text = remdups (words_from [] (with_aliases nfkc text))"

definition jaccard :: "string list \<Rightarrow> string list \<Rightarrow> rat" where
  "jaccard left right = (if left = [] \<and> right = [] then 1
     else of_nat (card (set left \<inter> set right)) / of_nat (card (set left \<union> set right)))"

definition similarity :: "(string \<Rightarrow> string) \<Rightarrow> (string \<Rightarrow> string) \<Rightarrow> string \<Rightarrow> string \<Rightarrow> rat" where
  "similarity sha256 nfkc left right =
     (if claim_fingerprint sha256 nfkc left = claim_fingerprint sha256 nfkc right then 1
      else jaccard (tokenize_similarity nfkc left) (tokenize_similarity nfkc right))"

definition alias_match :: "(string \<Rightarrow> string) \<Rightarrow> string \<Rightarrow> string \<Rightarrow> bool" where
  "alias_match nfkc left right \<longleftrightarrow> 2 \<le> card (set (tokenize_similarity nfkc left)
     \<inter> set (tokenize_similarity nfkc right) \<inter> set (map fst ALIAS_GROUPS))"

subsection \<open>Polarity, version and outcome\<close>

definition lower_letter :: "char \<Rightarrow> bool" where
  "lower_letter c \<longleftrightarrow> CHR ''a'' \<le> c \<and> c \<le> CHR ''z''"

definition NEGATION_PHRASES :: "string list" where
  "NEGATION_PHRASES = [''never'', ''do not'', ''does not'', ''doesn'' @ CHR 0x27 # ''t'', ''must not'', ''not'',
     ''cannot'', ''can'' @ CHR 0x27 # ''t'', ''disable'', ''disabled'', ''avoid'', ''failed'', ''failure'']"

definition POSITIVE_PHRASES :: "string list" where
  "POSITIVE_PHRASES = [''should'', ''recommended'', ''success'', ''succeeded'', ''improve'', ''improved'', ''must'',
     ''enable'', ''enabled'', ''use'', ''works'', ''passed'']"

definition NEGATED_PREFIXES :: "string list" where
  "NEGATED_PREFIXES = take 11 NEGATION_PHRASES"

text \<open>The first result of a list of attempts.\<close>

fun first_some :: "('a \<Rightarrow> 'b option) \<Rightarrow> 'a list \<Rightarrow> 'b option" where
  "first_some f [] = None"
| "first_some f (x # xs) = (case f x of Some y \<Rightarrow> Some y | None \<Rightarrow> first_some f xs)"

lemma first_some_Some: "first_some f xs = Some y \<Longrightarrow> \<exists>x \<in> set xs. f x = Some y"
  by (induction xs) (auto split: option.splits)

definition no_letter_next :: "string \<Rightarrow> bool" where
  "no_letter_next s = (case s of [] \<Rightarrow> True | c # _ \<Rightarrow> \<not> lower_letter c)"

text \<open>\<open>re.search(r"(?<![a-z])" + phrase + r"(?![a-z])", s)\<close>; the first argument is the character before.\<close>

fun has_word :: "bool \<Rightarrow> string \<Rightarrow> string \<Rightarrow> bool" where
  "has_word letter_before phrase [] = (\<not> letter_before \<and> phrase = [])"
| "has_word letter_before phrase (c # cs) =
     (\<not> letter_before \<and> starts_with phrase (c # cs) \<and> no_letter_next (drop (length phrase) (c # cs))
      \<or> has_word (lower_letter c) phrase cs)"

text \<open>
  One match of a negation with the word it negates: the first alternative that fits, the negated word
  when there is one. The rest of the text after the match.
\<close>

definition negation_with :: "string \<Rightarrow> string \<Rightarrow> string option" where
  "negation_with s p = (if starts_with p s then
       (let rest = drop (length p) s; blank = dropWhile is_space rest in
        if blank \<noteq> rest \<and> takeWhile token_char blank \<noteq> [] then Some (dropWhile token_char blank)
        else if no_letter_next rest then Some rest
        else None)
     else None)"

definition after_negation :: "string \<Rightarrow> string option" where
  "after_negation s = first_some (negation_with s) NEGATED_PREFIXES"

lemma after_negation_shorter: "after_negation s = Some r \<Longrightarrow> length r < length s"
proof -
  assume "after_negation s = Some r"
  then obtain p where p: "p \<in> set NEGATED_PREFIXES" and neg: "negation_with s p = Some r"
    unfolding after_negation_def by (blast dest: first_some_Some)
  have "0 < length p" using p by (auto simp: NEGATED_PREFIXES_def NEGATION_PHRASES_def)
  moreover have "length p \<le> length s" using neg by (auto simp: negation_with_def starts_with_iff split: if_splits)
  moreover have "length r \<le> length (drop (length p) s)"
    using neg by (auto simp: negation_with_def Let_def split: if_splits)
      (metis length_dropWhile_le length_drop order_trans)
  ultimately show ?thesis unfolding length_drop by linarith
qed

function drop_negations :: "bool \<Rightarrow> string \<Rightarrow> string" where
  "drop_negations letter_before s = (case (if letter_before then None else after_negation s) of
       Some r \<Rightarrow> CHR '' '' # drop_negations (case rev (take (length s - length r) s) of [] \<Rightarrow> False | c # _ \<Rightarrow> lower_letter c) r
     | None \<Rightarrow> (case s of [] \<Rightarrow> [] | c # cs \<Rightarrow> c # drop_negations (lower_letter c) cs))"
  by pat_completeness auto
termination
  by (relation "measure (\<lambda>(b, s). length s)") (auto dest: after_negation_shorter split: if_splits)

declare drop_negations.simps [simp del]

datatype polarity = SUPPORTS | CONTRADICTS | MIXED

definition classify_polarity :: "(string \<Rightarrow> string) \<Rightarrow> string \<Rightarrow> polarity" where
  "classify_polarity nfkc text =
     (let value = normalize_claim nfkc text;
          negative = list_ex (\<lambda>p. has_word False p value) NEGATION_PHRASES;
          positive = list_ex (\<lambda>p. has_word False p (drop_negations False value)) POSITIVE_PHRASES
      in if negative \<and> positive then MIXED else if negative then CONTRADICTS else SUPPORTS)"

definition version_number :: "string \<Rightarrow> string option" where
  "version_number s = (let part = takeWhile ascii_digit in
     if part s = [] then None
     else (let more = (\<lambda>(v, r). case r of
              c # cs \<Rightarrow> if c = CHR ''.'' \<and> part cs \<noteq> [] then (v @ CHR ''.'' # part cs, dropWhile ascii_digit cs) else (v, r)
            | [] \<Rightarrow> (v, r))
           in Some (fst ((more ^^ 3) (part s, dropWhile ascii_digit s)))))"

definition version_at :: "string \<Rightarrow> string option" where
  "version_at s = first_some (\<lambda>p.
     if starts_with p s then version_number (dropWhile (\<lambda>c. is_space c \<or> c \<in> set '':=/-'') (drop (length p) s)) else None)
     [''version'', ''ver'', ''v'', ''release'']"

fun find_version :: "bool \<Rightarrow> string \<Rightarrow> string option" where
  "find_version blocked [] = None"
| "find_version blocked (c # cs) = (case (if blocked then None else version_at (c # cs)) of
       Some v \<Rightarrow> Some v
     | None \<Rightarrow> find_version (lower_letter c \<or> ascii_digit c) cs)"

definition extract_version :: "(string \<Rightarrow> string) \<Rightarrow> string \<Rightarrow> string option" where
  "extract_version nfkc text = find_version False (normalize_claim nfkc text)"

datatype outcome = Negative | Positive

definition extract_outcome :: "(string \<Rightarrow> string) \<Rightarrow> string \<Rightarrow> outcome option" where
  "extract_outcome nfkc text = (let value = normalize_claim nfkc text in
     if list_ex (\<lambda>t. contains t value) [''failed'', ''failure'', ''error'', ''ng''] then Some Negative
     else if list_ex (\<lambda>t. contains t value) [''success'', ''succeeded'', ''passed'', ''ok'', ''positive''] then Some Positive
     else None)"

subsection \<open>Provenance and independence\<close>

text \<open>
  What is compared: an observation, or a cluster in the form of the mapping that
  \<open>_candidate_observation\<close> builds from it (the first provenance of the list is the one its set yields).
  A field that is absent or \<open>None\<close> reads as empty, as every use of it treats both alike.
\<close>

datatype comparand = Observed ObservationState | Clustered ClusterState

definition opt_text :: "string option \<Rightarrow> string" where
  "opt_text v = (case v of None \<Rightarrow> [] | Some s \<Rightarrow> s)"

fun field_of :: "comparand \<Rightarrow> string \<Rightarrow> string" where
  "field_of (Observed x) name =
     (if name = ''observation_id'' then ob_observation_id x
      else if name = ''claim'' then ob_claim x
      else if name = ''domain'' then ob_domain x
      else if name = ''cwd_fingerprint'' then ob_cwd_fingerprint x
      else if name = ''provenance_key'' then ob_provenance_key x
      else if name = ''outcome_status'' then ob_outcome_status x
      else if name = ''source_hash'' then ob_source_hash x
      else if name = ''scope'' then ob_scope x
      else if name = ''version_constraint'' then opt_text (ob_version_constraint x)
      else if name = ''session_id_hash'' then opt_text (ob_session_id_hash x)
      else if name = ''rollout_id_hash'' then opt_text (ob_rollout_id_hash x)
      else if name = ''copied_from_hash'' then opt_text (ob_copied_from_hash x)
      else [])"
| "field_of (Clustered c) name =
     (if name = ''observation_id'' then cl_cluster_id c
      else if name = ''claim'' then (if cl_canonical_claim c \<noteq> [] then cl_canonical_claim c else cl_rule c)
      else if name = ''domain'' then (case cl_provenance_scopes c of [] \<Rightarrow> [] | d # _ \<Rightarrow> d)
      else if name = ''provenance_key'' then (case cl_provenances c of [] \<Rightarrow> [] | k # _ \<Rightarrow> k)
      else [])"

definition ref_field :: "ProvenanceRef \<Rightarrow> string \<Rightarrow> string" where
  "ref_field r name =
     (if name = ''source_hash'' then pf_source_hash r
      else if name = ''session_id_hash'' then opt_text (pf_session_id_hash r)
      else if name = ''rollout_id_hash'' then opt_text (pf_rollout_id_hash r)
      else if name = ''copied_from_hash'' then opt_text (pf_copied_from_hash r)
      else if name = ''copy_of_hash'' then opt_text (pf_copy_of_hash r)
      else if name = ''copy_source_hash'' then opt_text (pf_copy_source_hash r)
      else if name = ''copy_origin_hash'' then opt_text (pf_copy_origin_hash r)
      else if name = ''cwd_hash'' then pf_cwd_hash r
      else if name = ''domain'' then pf_domain r
      else [])"

fun provenance_of :: "comparand \<Rightarrow> ProvenanceRef list" where
  "provenance_of (Observed x) = ob_provenance x"
| "provenance_of (Clustered c) = []"

definition provenance_value :: "comparand \<Rightarrow> string \<Rightarrow> string" where
  "provenance_value x name = (if field_of x name \<noteq> [] then field_of x name
     else (case provenance_of x of [] \<Rightarrow> [] | r # _ \<Rightarrow> ref_field r name))"

definition keyed_value :: "string \<Rightarrow> string \<Rightarrow> string \<Rightarrow> string" where
  "keyed_value value prefix key = (if value = [] \<and> starts_with prefix key then drop (length prefix) key else value)"

definition provenance_identity :: "comparand \<Rightarrow> string list" where
  "provenance_identity x = (let key = field_of x ''provenance_key'' in
     [keyed_value (provenance_value x ''source_hash'') ''source:'' key,
      keyed_value (provenance_value x ''session_id_hash'') ''session:'' key,
      keyed_value (provenance_value x ''rollout_id_hash'') ''rollout:'' key,
      opt_text (List.find (\<lambda>v. v \<noteq> []) (map (provenance_value x)
        [''copied_from_hash'', ''copy_of_hash'', ''copy_source_hash'', ''copy_origin_hash'']))])"

definition first_text :: "string list \<Rightarrow> string" where
  "first_text vs = opt_text (List.find (\<lambda>v. v \<noteq> []) vs)"

definition evidence_scope :: "comparand \<Rightarrow> string" where
  "evidence_scope x = first_text [provenance_value x ''cwd_hash'', field_of x ''cwd_fingerprint'', field_of x ''scope'']"

definition evidence_domain :: "comparand \<Rightarrow> string" where
  "evidence_domain x = first_text [provenance_value x ''domain'', field_of x ''domain'']"

definition shares_identity :: "comparand \<Rightarrow> comparand \<Rightarrow> bool" where
  "shares_identity left right \<longleftrightarrow> list_ex (\<lambda>(a, b). a \<noteq> [] \<and> a = b) (zip (provenance_identity left) (provenance_identity right))"

definition is_independent :: "comparand \<Rightarrow> comparand \<Rightarrow> bool" where
  "is_independent left right =
     (if provenance_identity left = provenance_identity right then False
      else if shares_identity left right then False
      else let ls = evidence_scope left; rs = evidence_scope right; ld = evidence_domain left; rd = evidence_domain right in
        if ls = [] \<and> ld = [] then False
        else if ls \<noteq> [] \<and> rs \<noteq> [] \<and> ls = rs \<and> ld = rd then False
        else if ld \<noteq> [] \<and> rd \<noteq> [] \<and> ld = rd \<and> ls = [] \<and> rs = [] then False
        else ls \<noteq> [] \<and> rs \<noteq> [] \<and> ls \<noteq> rs \<or> ld \<noteq> [] \<and> rd \<noteq> [] \<and> ld \<noteq> rd \<or> ls \<noteq> rs \<and> (ls \<noteq> [] \<or> rs \<noteq> []))"

subsection \<open>Properties\<close>

lemma jaccard_bounds: "0 \<le> jaccard left right \<and> jaccard left right \<le> 1"
proof (cases "left = [] \<and> right = []")
  case False
  have "card (set left \<inter> set right) \<le> card (set left \<union> set right)" by (intro card_mono) auto
  moreover have "0 < card (set left \<union> set right)" using False by (simp add: card_gt_0_iff)
  ultimately show ?thesis using False by (simp add: jaccard_def)
qed (simp add: jaccard_def)

lemma jaccard_sym: "jaccard left right = jaccard right left"
  by (simp add: jaccard_def Int_commute Un_commute conj_commute)

lemma jaccard_one: "jaccard left right = 1 \<longleftrightarrow> set left = set right"
proof (cases "left = [] \<and> right = []")
  case False
  let ?i = "set left \<inter> set right" and ?u = "set left \<union> set right"
  have pos: "card ?u \<noteq> 0" using False by simp
  then have "jaccard left right = 1 \<longleftrightarrow> card ?i = card ?u"
    using False by (auto simp: jaccard_def divide_eq_1_iff of_nat_eq_iff)
  also have "\<dots> \<longleftrightarrow> ?i = ?u" by (metis (no_types) List.finite_set card_subset_eq finite_Un le_infI1 sup_ge1)
  also have "\<dots> \<longleftrightarrow> set left = set right" by blast
  finally show ?thesis .
qed (simp add: jaccard_def)

text \<open>
  Similarity of claims is a symmetric measure between 0 and 1 that is 1 exactly for claims with
  the same fingerprint or the same features; in particular claims that differ only in what the
  normal form drops are fully similar.
\<close>

theorem similarity_measure:
  "0 \<le> similarity sha256 nfkc a b \<and> similarity sha256 nfkc a b \<le> 1
   \<and> similarity sha256 nfkc a b = similarity sha256 nfkc b a
   \<and> (similarity sha256 nfkc a b = 1 \<longleftrightarrow> claim_fingerprint sha256 nfkc a = claim_fingerprint sha256 nfkc b
        \<or> set (tokenize_similarity nfkc a) = set (tokenize_similarity nfkc b))"
  using jaccard_bounds jaccard_sym jaccard_one by (auto simp: similarity_def)

text \<open>
  Independent evidence has nothing in common: two observations that count as independent share
  no source, session, rollout or copy origin, and they come from different scopes or domains; no
  observation is independent of itself.
\<close>

theorem independent_shares_nothing:
  assumes "is_independent x y"
  shows "\<not> shares_identity x y \<and> provenance_identity x \<noteq> provenance_identity y
    \<and> (evidence_scope x \<noteq> evidence_scope y \<or> evidence_domain x \<noteq> evidence_domain y) \<and> \<not> is_independent z z"
  using assms by (auto simp: is_independent_def Let_def split: if_splits)

definition sample_observation :: "string \<Rightarrow> string \<Rightarrow> ObservationState" where
  "sample_observation i cwd = \<lparr>ob_observation_id = i, ob_title = [], ob_claim = ''claim'', ob_domain = [], ob_cwd_fingerprint = cwd,
     ob_provenance_key = ''source:'' @ i, ob_outcome_status = [], ob_benefit = [], ob_classification = [], ob_source_hash = [],
     ob_applicability = [], ob_scope = [], ob_provenance = [], ob_benefit_refs = [], ob_version_constraint = None,
     ob_status = ''OBSERVED'', ob_session_id_hash = None, ob_rollout_id_hash = None, ob_copied_from_hash = None,
     ob_source_family = [], ob_source_host_id = [], ob_source_host_family = [], ob_applicability_scope = ''universal'',
     ob_applicable_host_ids = [], ob_applicable_host_families = []\<rparr>"

theorem independent_shares_nothing_witness:
  "\<not> shares_identity (Observed (sample_observation ''a'' ''w'')) (Observed (sample_observation ''b'' ''v''))"
proof -
  have "is_independent (Observed (sample_observation ''a'' ''w'')) (Observed (sample_observation ''b'' ''v''))" by code_simp
  then show ?thesis using independent_shares_nothing by blast
qed

text \<open>
  Independence depends on the order of the arguments: an observation with a scope is independent
  of one without scope and domain, but not the other way round.
\<close>

theorem independence_is_not_symmetric:
  "is_independent (Observed (sample_observation ''a'' ''w'')) (Observed (sample_observation ''b'' []))
   \<and> \<not> is_independent (Observed (sample_observation ''b'' [])) (Observed (sample_observation ''a'' ''w''))"
  by code_simp

text \<open>
  The outcome of a text is read from substrings: a text that reports success is classified as a
  failure because one of its words contains the letters \<open>ng\<close>.
\<close>

theorem outcome_from_substring:
  "extract_outcome (\<lambda>s. s) ''success'' = Some Positive \<and> extract_outcome (\<lambda>s. s) ''caching success'' = Some Negative"
proof
  show "extract_outcome (\<lambda>s. s) ''success'' = Some Positive" by code_simp
  show "extract_outcome (\<lambda>s. s) ''caching success'' = Some Negative" by code_simp
qed

end
