(* ===== verification/Claim_Clusters.thy ===== *)
theory Claim_Clusters
  imports Claim_Text
begin

section \<open>Assigning an observation to a cluster\<close>

text \<open>
  \<^verbatim>\<open>src/src/ei/cluster.py\<close>: an observation is new, a duplicate of an existing claim, joins its best
  match, or contradicts it. The best match is the greatest by similarity, exactness, alias match and
  id; texts and their features are those of \<^verbatim>\<open>Claim_Text\<close>.
\<close>

record ClusterDecision =
  cd_kind :: string
  cd_target_observation_id :: "string option"
  cd_similarity :: rat
  cd_independent_provenance :: bool
  cd_contradiction_reason :: "string option"
  cd_matched_alias :: bool

definition evidence_action :: "ClusterDecision \<Rightarrow> string" where
  "evidence_action d = (if cd_kind d = ''duplicate'' then ''ATTACH_EVIDENCE'' else map ascii_upper (cd_kind d))"

definition claim_of :: "comparand \<Rightarrow> string" where
  "claim_of x = field_of x ''claim''"

definition id_of :: "comparand \<Rightarrow> string" where
  "id_of x = field_of x ''observation_id''"

definition domain_of :: "comparand \<Rightarrow> string" where
  "domain_of x = casefold (strip (field_of x ''domain''))"

definition version_of :: "(string \<Rightarrow> string) \<Rightarrow> comparand \<Rightarrow> string option" where
  "version_of nfkc x = (let explicit = strip (field_of x ''version_constraint'') in
     if explicit \<noteq> [] then Some (casefold explicit) else extract_version nfkc (claim_of x))"

definition outcome_of :: "(string \<Rightarrow> string) \<Rightarrow> comparand \<Rightarrow> outcome option" where
  "outcome_of nfkc x =
     (case (case x of Observed v \<Rightarrow> extract_outcome nfkc (ob_outcome_status v) | Clustered _ \<Rightarrow> None) of
        Some r \<Rightarrow> Some r | None \<Rightarrow> extract_outcome nfkc (claim_of x))"

definition differ :: "'a option \<Rightarrow> 'a option \<Rightarrow> bool" where
  "differ a b \<longleftrightarrow> a \<noteq> None \<and> b \<noteq> None \<and> a \<noteq> b"

definition contradiction_reason :: "(string \<Rightarrow> string) \<Rightarrow> comparand \<Rightarrow> comparand \<Rightarrow> string option" where
  "contradiction_reason nfkc left right =
     (if {classify_polarity nfkc (claim_of left), classify_polarity nfkc (claim_of right)} = {SUPPORTS, CONTRADICTS}
        then Some ''POLARITY_OPPOSITION''
      else if differ (version_of nfkc left) (version_of nfkc right) then Some ''INCOMPATIBLE_VERSION''
      else if differ (outcome_of nfkc left) (outcome_of nfkc right) then Some ''OPPOSITE_OUTCOME''
      else None)"

definition threshold :: "comparand \<Rightarrow> comparand \<Rightarrow> rat" where
  "threshold left right = (if domain_of left \<noteq> [] \<and> domain_of left = domain_of right then 72 / 100 else 82 / 100)"

text \<open>The rank of a candidate: score, exact match, alias match, id.\<close>

type_synonym rank = "rat \<times> int \<times> int \<times> string"

definition exact_match :: "(string \<Rightarrow> string) \<Rightarrow> (string \<Rightarrow> string) \<Rightarrow> comparand \<Rightarrow> comparand \<Rightarrow> bool" where
  "exact_match sha256 nfkc x c \<longleftrightarrow>
     claim_fingerprint sha256 nfkc (claim_of x) = claim_fingerprint sha256 nfkc (claim_of c)"

definition score :: "(string \<Rightarrow> string) \<Rightarrow> (string \<Rightarrow> string) \<Rightarrow> comparand \<Rightarrow> comparand \<Rightarrow> rat" where
  "score sha256 nfkc x c = (if exact_match sha256 nfkc x c then 1 else similarity sha256 nfkc (claim_of x) (claim_of c))"

definition qualifies :: "(string \<Rightarrow> string) \<Rightarrow> (string \<Rightarrow> string) \<Rightarrow> comparand \<Rightarrow> comparand \<Rightarrow> bool" where
  "qualifies sha256 nfkc x c \<longleftrightarrow> claim_of c \<noteq> []
   \<and> (exact_match sha256 nfkc x c \<or> alias_match nfkc (claim_of x) (claim_of c) \<or> score sha256 nfkc x c \<ge> threshold x c)"

definition rank_of :: "(string \<Rightarrow> string) \<Rightarrow> (string \<Rightarrow> string) \<Rightarrow> comparand \<Rightarrow> comparand \<Rightarrow> rank" where
  "rank_of sha256 nfkc x c = (score sha256 nfkc x c, of_bool (exact_match sha256 nfkc x c),
     of_bool (alias_match nfkc (claim_of x) (claim_of c)), id_of c)"

fun best_of :: "(comparand \<Rightarrow> bool) \<Rightarrow> (comparand \<Rightarrow> rank) \<Rightarrow> comparand option \<Rightarrow> comparand list \<Rightarrow> comparand option" where
  "best_of ok rank best [] = best"
| "best_of ok rank best (c # cs) = best_of ok rank
     (if \<not> ok c then best
      else case best of None \<Rightarrow> Some c | Some b \<Rightarrow> if rank c > rank b then Some c else Some b) cs"

definition new_cluster :: ClusterDecision where
  "new_cluster = \<lparr>cd_kind = ''new'', cd_target_observation_id = None, cd_similarity = 0, cd_independent_provenance = True,
     cd_contradiction_reason = None, cd_matched_alias = False\<rparr>"

definition assign_cluster ::
  "(string \<Rightarrow> string) \<Rightarrow> (string \<Rightarrow> string) \<Rightarrow> ObservationState \<Rightarrow> comparand list \<Rightarrow> ClusterDecision" where
  "assign_cluster sha256 nfkc observation existing =
     (let x = Observed observation in
      if claim_of x = [] then new_cluster
      else case best_of (qualifies sha256 nfkc x) (rank_of sha256 nfkc x) None existing of
          None \<Rightarrow> new_cluster
        | Some c \<Rightarrow>
            (let reason = (if exact_match sha256 nfkc x c then None else contradiction_reason nfkc x c)
             in \<lparr>cd_kind = (if exact_match sha256 nfkc x c then ''duplicate''
                            else if reason \<noteq> None then ''contradiction'' else ''join''),
                cd_target_observation_id = Some (id_of c), cd_similarity = score sha256 nfkc x c,
                cd_independent_provenance = is_independent x c, cd_contradiction_reason = reason,
                cd_matched_alias = alias_match nfkc (claim_of x) (claim_of c)\<rparr>))"

definition cluster_polarity :: "(string \<Rightarrow> string) \<Rightarrow> string list \<Rightarrow> polarity" where
  "cluster_polarity nfkc claims = (case remdups (map (classify_polarity nfkc) (filter (\<lambda>c. c \<noteq> []) claims)) of
     [p] \<Rightarrow> p | _ \<Rightarrow> MIXED)"

subsection \<open>The best match\<close>

definition is_best :: "(comparand \<Rightarrow> bool) \<Rightarrow> (comparand \<Rightarrow> rank) \<Rightarrow> comparand set \<Rightarrow> comparand \<Rightarrow> bool" where
  "is_best ok rank cs c \<longleftrightarrow> c \<in> cs \<and> ok c \<and> (\<forall>d \<in> cs. ok d \<longrightarrow> rank d \<le> rank c)"

lemma best_of_start:
  assumes "\<forall>b. best = Some b \<longrightarrow> ok b"
  shows "(case best_of ok rank best cs of
      None \<Rightarrow> best = None \<and> (\<forall>d \<in> set cs. \<not> ok d)
    | Some c \<Rightarrow> is_best ok rank (set cs \<union> set_option best) c)"
  using assms
proof (induction cs arbitrary: best)
  case Nil
  then show ?case by (auto simp: is_best_def split: option.split)
next
  case (Cons c cs)
  define nb where "nb = (if \<not> ok c then best
      else case best of None \<Rightarrow> Some c | Some b \<Rightarrow> if rank c > rank b then Some c else Some b)"
  have "\<forall>b. nb = Some b \<longrightarrow> ok b" using Cons.prems by (auto simp: nb_def split: option.splits if_splits)
  then have IH: "(case best_of ok rank nb cs of
      None \<Rightarrow> nb = None \<and> (\<forall>d \<in> set cs. \<not> ok d)
    | Some c \<Rightarrow> is_best ok rank (set cs \<union> set_option nb) c)" by (rule Cons.IH)
  have upto: "is_best ok rank (set (c # cs) \<union> set_option best) d" if "is_best ok rank (set cs \<union> set_option nb) d" for d
    using that Cons.prems by (auto simp: is_best_def nb_def split: option.splits if_splits dest: less_imp_le intro: order_trans)
  have "best_of ok rank best (c # cs) = best_of ok rank nb cs" by (simp add: nb_def)
  then show ?case using IH upto by (auto simp: nb_def split: option.splits if_splits)
qed

lemma best_of_spec:
  "(case best_of ok rank None cs of
      None \<Rightarrow> (\<forall>d \<in> set cs. \<not> ok d) | Some c \<Rightarrow> is_best ok rank (set cs) c)"
  using best_of_start [where best = None and ok = ok and rank = rank and cs = cs] by (auto split: option.splits)

text \<open>The rank holds the id, so two best candidates with different ids cannot both be there.\<close>

lemma best_unique:
  assumes "is_best ok (rank_of sha256 nfkc x) cs c" "is_best ok (rank_of sha256 nfkc x) cs d" "inj_on id_of cs"
  shows "c = d"
proof -
  have "rank_of sha256 nfkc x c = rank_of sha256 nfkc x d"
    using assms(1,2) by (auto simp: is_best_def intro: antisym)
  then have "id_of c = id_of d" by (simp add: rank_of_def)
  then show ?thesis using assms by (auto simp: is_best_def dest: inj_onD)
qed

lemma best_of_cong:
  assumes "set cs = set ds" "distinct (map id_of cs)"
  shows "best_of ok (rank_of sha256 nfkc x) None cs = best_of ok (rank_of sha256 nfkc x) None ds"
proof -
  have inj: "inj_on id_of (set cs)" using assms(2) by (simp add: distinct_map)
  show ?thesis
    using best_of_spec [where ok = ok and rank = "rank_of sha256 nfkc x" and cs = cs]
      best_of_spec [where ok = ok and rank = "rank_of sha256 nfkc x" and cs = ds] assms(1) inj
    by (cases "best_of ok (rank_of sha256 nfkc x) None cs"; cases "best_of ok (rank_of sha256 nfkc x) None ds")
      (auto dest: best_unique, auto simp: is_best_def)
qed

subsection \<open>Properties\<close>

text \<open>
  C35. The assignment is deterministic and keeps contradictions apart: it does not depend on the order
  in which the existing clusters are visited; the target, when there is one, is a qualifying candidate
  that none outranks, and an observation is new only if none qualifies; and a claim of opposite
  polarity is never joined to its match, only recorded as a contradiction, unless it is the same claim.
\<close>

theorem assignment_is_deterministic:
  assumes "set existing = set existing'" and "distinct (map id_of existing)" and "ob_claim observation \<noteq> []"
  defines "x \<equiv> Observed observation"
  shows "assign_cluster sha256 nfkc observation existing = assign_cluster sha256 nfkc observation existing'
    \<and> (assign_cluster sha256 nfkc observation existing = new_cluster \<and> \<not> (\<exists>c \<in> set existing. qualifies sha256 nfkc x c)
       \<or> (\<exists>c. is_best (qualifies sha256 nfkc x) (rank_of sha256 nfkc x) (set existing) c
            \<and> cd_target_observation_id (assign_cluster sha256 nfkc observation existing) = Some (id_of c)
            \<and> (cd_kind (assign_cluster sha256 nfkc observation existing) = ''join'' \<longrightarrow>
                 contradiction_reason nfkc x c = None \<and> \<not> exact_match sha256 nfkc x c)))"
proof -
  have claim: "claim_of x \<noteq> []" using assms(3) by (simp add: claim_of_def x_def)
  have "assign_cluster sha256 nfkc observation existing = assign_cluster sha256 nfkc observation existing'"
    unfolding assign_cluster_def best_of_cong [OF assms(1,2)] ..
  moreover have "assign_cluster sha256 nfkc observation existing = new_cluster \<and> \<not> (\<exists>c \<in> set existing. qualifies sha256 nfkc x c)
       \<or> (\<exists>c. is_best (qualifies sha256 nfkc x) (rank_of sha256 nfkc x) (set existing) c
            \<and> cd_target_observation_id (assign_cluster sha256 nfkc observation existing) = Some (id_of c)
            \<and> (cd_kind (assign_cluster sha256 nfkc observation existing) = ''join'' \<longrightarrow>
                 contradiction_reason nfkc x c = None \<and> \<not> exact_match sha256 nfkc x c))"
    using best_of_spec [where ok = "qualifies sha256 nfkc x" and rank = "rank_of sha256 nfkc x" and cs = existing] claim
    unfolding assign_cluster_def Let_def x_def [symmetric]
    by (cases "best_of (qualifies sha256 nfkc x) (rank_of sha256 nfkc x) None existing") auto
  ultimately show ?thesis by blast
qed

theorem assignment_is_deterministic_witness:
  "assign_cluster (\<lambda>s. s) (\<lambda>s. s) (sample_observation ''n'' ''w'')
       [Observed (sample_observation ''a'' ''w''), Observed (sample_observation ''b'' ''v'')]
     = assign_cluster (\<lambda>s. s) (\<lambda>s. s) (sample_observation ''n'' ''w'')
       [Observed (sample_observation ''b'' ''v''), Observed (sample_observation ''a'' ''w'')]"
proof -
  have "distinct (map id_of [Observed (sample_observation ''a'' ''w''), Observed (sample_observation ''b'' ''v'')])"
    "ob_claim (sample_observation ''n'' ''w'') \<noteq> []" by code_simp+
  then show ?thesis
    using assignment_is_deterministic [of "[Observed (sample_observation ''a'' ''w''), Observed (sample_observation ''b'' ''v'')]"
        "[Observed (sample_observation ''b'' ''v''), Observed (sample_observation ''a'' ''w'')]"] by auto
qed

end
