(* ===== verification/Retrieval.thy ===== *)
theory Retrieval
  imports Claim_Text Privacy_Policy Host_Scope
begin

section \<open>Retrieval of patterns\<close>

text \<open>
  \<^verbatim>\<open>src/src/ei/retrieve.py\<close>: which patterns a query may see, how they are ranked, and how the hits
  of the personal and the team index are merged. A pattern is a mapping, or a \<open>PatternState\<close> turned
  into one. Scores are computed in rationals where the code computes in floats and rounded as the code
  rounds them.

  What the model takes from Python as parameters: \<open>py_str\<close> is \<open>str\<close> on a value that is no text,
  \<open>float_of\<close> is \<open>float\<close> on a text, \<open>parse\<close> reads an ISO timestamp, \<open>decay\<close> is \<open>0.5 ** x\<close>. Exposure
  records are not modelled.
\<close>

record python =
  py_str :: "pyval \<Rightarrow> string"
  float_of :: "string \<Rightarrow> rat option"
  parse_iso :: "string \<Rightarrow> int option"
  decay :: "rat \<Rightarrow> rat"
  nfkc_of :: "string \<Rightarrow> string"
  sha256_of :: "string \<Rightarrow> string"

definition text_of :: "python \<Rightarrow> pyval \<Rightarrow> string" where
  "text_of py v = (case v of PStr s \<Rightarrow> s | _ \<Rightarrow> py_str py v)"

subsection \<open>Queries, policies and patterns\<close>

text \<open>
  A query by what is read of it: the effective text, working directory and time (each field has a
  second, older name in the code), and the scope, host and version it is made for.
\<close>

record RetrievalQuery =
  rq_text :: string
  rq_cwd :: string
  rq_domain :: string
  rq_now :: "string option"
  rq_scope_tags :: "string list"
  rq_host_id :: string
  rq_host_family :: string
  rq_version :: string

record RetrievalPolicy =
  rp_lexical_relevance :: rat
  rp_scope_match :: rat
  rp_evidence_strength :: rat
  rp_freshness :: rat
  rp_observed_benefit :: rat
  rp_min_score :: rat
  rp_max_results :: int
  rp_max_chars :: int
  rp_host_applicability :: rat
  rp_prior_success :: rat
  rp_policy_version :: string
  rp_freshness_half_life_days :: int
  rp_allow_cross_host :: bool
  rp_include_tombstones :: bool

text \<open>\<open>RetrievalPolicy.__post_init__\<close>, and the default policy.\<close>

definition make_policy :: "RetrievalPolicy \<Rightarrow> RetrievalPolicy result" where
  "make_policy p =
     (if list_ex (\<lambda>w. w < 0) [rp_lexical_relevance p, rp_scope_match p, rp_evidence_strength p, rp_freshness p,
           rp_observed_benefit p, rp_host_applicability p, rp_prior_success p]
        then Inl (ValueError ''RETRIEVAL_WEIGHT_INVALID'')
      else if rp_max_results p < 1 \<or> rp_max_chars p < 1 \<or> rp_freshness_half_life_days p < 1
        then Inl (ValueError ''RETRIEVAL_LIMIT_INVALID'')
      else if rp_policy_version p = [] then Inl (ValueError ''RETRIEVAL_POLICY_VERSION_INVALID'')
      else Inr p)"

definition default_retrieval_policy :: RetrievalPolicy where
  "default_retrieval_policy = \<lparr>rp_lexical_relevance = 35 / 100, rp_scope_match = 20 / 100, rp_evidence_strength = 15 / 100,
     rp_freshness = 10 / 100, rp_observed_benefit = 10 / 100, rp_min_score = 35 / 100, rp_max_results = 5,
     rp_max_chars = 5000, rp_host_applicability = 5 / 100, rp_prior_success = 5 / 100,
     rp_policy_version = ''retrieval-v1'', rp_freshness_half_life_days = 365, rp_allow_cross_host = False,
     rp_include_tombstones = False\<rparr>"

definition texts_value :: "string list \<Rightarrow> pyval" where
  "texts_value xs = PTuple (map PStr xs)"

definition optional_value :: "string option \<Rightarrow> pyval" where
  "optional_value v = (case v of None \<Rightarrow> PNone | Some s \<Rightarrow> PStr s)"

definition pattern_mapping :: "PatternState \<Rightarrow> pydict" where
  "pattern_mapping p =
     [(''pattern_id'', PStr (pa_pattern_id p)), (''cluster_id'', PStr (or_text (pa_cluster_id p) (pa_pattern_id p))),
      (''rule'', PStr (pa_rule p)), (''precondition'', PStr (pa_precondition p)), (''scope'', PStr (pa_scope p)),
      (''evidence_ids'', texts_value (pa_evidence_ids p)), (''benefit_refs'', texts_value (pa_benefit_refs p)),
      (''version_constraint'', optional_value (pa_version_constraint p)), (''status'', PStr (pa_status p)),
      (''classification'', PStr (pa_classification p)), (''utility'', PFloat (pa_utility p)),
      (''applicability'', texts_value (pa_applicability p)), (''updated_at'', optional_value (pa_updated_at p)),
      (''contradiction_count'', PInt (pa_contradiction_count p)), (''pinned'', PBool (pa_pinned p)),
      (''legal_hold'', PBool (pa_legal_hold p)), (''source_host_id'', PStr (pa_source_host_id p)),
      (''source_host_family'', PStr (pa_source_host_family p)),
      (''applicability_scope'', PStr (pa_applicability_scope p)),
      (''applicable_host_ids'', texts_value (pa_applicable_host_ids p)),
      (''applicable_host_families'', texts_value (pa_applicable_host_families p))]"

definition value_items :: "pyval \<Rightarrow> pyval list" where
  "value_items v = (case v of PStr s \<Rightarrow> [v] | _ \<Rightarrow> (case seq_items v of Some xs \<Rightarrow> xs | None \<Rightarrow> []))"

definition values_of :: "python \<Rightarrow> pydict \<Rightarrow> string list \<Rightarrow> string list" where
  "values_of py pattern names = unique (filter (\<lambda>s. strip s \<noteq> [])
     (concat (map (\<lambda>name. map (text_of py) (value_items (get_default pattern name (PTuple [])))) names)))"

subsection \<open>Scope and host\<close>

definition applicability_of :: "python \<Rightarrow> pydict \<Rightarrow> string list" where
  "applicability_of py pattern = values_of py pattern [''applicability'', ''scope_tags'', ''domains'']"

definition meets :: "string list \<Rightarrow> string list \<Rightarrow> bool" where
  "meets xs ys \<longleftrightarrow> list_ex (\<lambda>x. x \<in> set ys) xs"

definition scope_score :: "python \<Rightarrow> RetrievalQuery \<Rightarrow> pydict \<Rightarrow> rat" where
  "scope_score py q pattern =
     (let cwds = values_of py pattern [''cwd_fingerprints'', ''cwd_hashes'', ''scopes'']; app = applicability_of py pattern;
          s1 = (if rq_cwd q \<noteq> [] \<and> rq_cwd q \<in> set cwds then 1 else 0);
          s2 = (if rq_domain q \<noteq> [] \<and> rq_domain q \<in> set app then max s1 (90 / 100) else s1);
          s3 = (if meets (rq_scope_tags q) app then max s2 (80 / 100) else s2)
      in if cwds = [] \<and> app = [] then 1 / 2 else s3)"

definition scope_allowed :: "python \<Rightarrow> RetrievalQuery \<Rightarrow> pydict \<Rightarrow> bool" where
  "scope_allowed py q pattern =
     (let cwds = values_of py pattern [''cwd_fingerprints'', ''cwd_hashes'']; app = applicability_of py pattern in
      if rq_cwd q \<noteq> [] \<and> cwds \<noteq> [] \<and> rq_cwd q \<notin> set cwds then False
      else if rq_domain q \<noteq> [] \<and> app \<noteq> [] \<and> rq_domain q \<notin> set app \<and> ''general'' \<notin> set app then False
      else if rq_scope_tags q \<noteq> [] \<and> app \<noteq> [] \<and> \<not> meets (rq_scope_tags q) app \<and> ''general'' \<notin> set app then False
      else True)"

definition LEGACY_HOST_SELECTOR_FIELDS :: "string list" where
  "LEGACY_HOST_SELECTOR_FIELDS = [''host_ids'', ''hosts'', ''host_applicability'']"

definition host_values :: "python \<Rightarrow> pydict \<Rightarrow> string list" where
  "host_values py pattern = values_of py pattern LEGACY_HOST_SELECTOR_FIELDS"

definition new_host_scope_present :: "pydict \<Rightarrow> bool" where
  "new_host_scope_present pattern \<longleftrightarrow> list_ex (has_key pattern) HOST_APPLICABILITY_FIELDS"

definition selector_nonempty :: "pyval option \<Rightarrow> bool" where
  "selector_nonempty v = (case v of
       None \<Rightarrow> False
     | Some PNone \<Rightarrow> False
     | Some (PStr s) \<Rightarrow> strip s \<noteq> []
     | Some (PList xs) \<Rightarrow> xs \<noteq> []
     | Some (PTuple xs) \<Rightarrow> xs \<noteq> []
     | Some _ \<Rightarrow> True)"

definition legacy_host_selector_nonempty :: "pydict \<Rightarrow> bool" where
  "legacy_host_selector_nonempty pattern \<longleftrightarrow> list_ex (\<lambda>f. selector_nonempty (map_of pattern f)) LEGACY_HOST_SELECTOR_FIELDS"

definition legacy_default_host_scope :: "pydict \<Rightarrow> bool" where
  "legacy_default_host_scope pattern \<longleftrightarrow>
     map_of pattern ''source_host_id'' = Some (PStr []) \<and> map_of pattern ''source_host_family'' = Some (PStr [])
   \<and> map_of pattern ''applicability_scope'' = Some (PStr ''universal'')
   \<and> seq_items (get_default pattern ''applicable_host_ids'' PNone) = Some []
   \<and> seq_items (get_default pattern ''applicable_host_families'' PNone) = Some []"

definition validated_host_scope :: "pydict \<Rightarrow> HostApplicability option" where
  "validated_host_scope pattern =
     (if \<not> list_all (has_key pattern) HOST_APPLICABILITY_FIELDS then None
      else if legacy_host_selector_nonempty pattern then None
      else case validate_host_applicability_mapping (PDict pattern) False True of
          Inr a \<Rightarrow> Some a
        | Inl _ \<Rightarrow>
            if \<not> legacy_default_host_scope pattern then None
            else (case validate_host_applicability_mapping (PDict pattern) False False of
                Inr a \<Rightarrow> Some a | Inl _ \<Rightarrow> None))"

definition host_scope_allowed :: "python \<Rightarrow> RetrievalQuery \<Rightarrow> pydict \<Rightarrow> bool" where
  "host_scope_allowed py q pattern =
     (if new_host_scope_present pattern then
        (case validated_host_scope pattern of
           None \<Rightarrow> False
         | Some a \<Rightarrow> (case ha_scope a of
               Universal \<Rightarrow> True
             | Family \<Rightarrow> rq_host_family q \<noteq> [] \<and> rq_host_family q \<in> set (ha_host_families a)
             | Host \<Rightarrow> rq_host_id q \<noteq> [] \<and> rq_host_id q \<in> set (ha_host_ids a)))
      else let hosts = host_values py pattern in hosts = [] \<or> (rq_host_id q \<noteq> [] \<and> rq_host_id q \<in> set hosts))"

definition host_allowed :: "python \<Rightarrow> RetrievalQuery \<Rightarrow> pydict \<Rightarrow> RetrievalPolicy \<Rightarrow> bool" where
  "host_allowed py q pattern policy =
     (if new_host_scope_present pattern then host_scope_allowed py q pattern
      else if host_scope_allowed py q pattern then True
      else host_values py pattern \<noteq> [] \<and> rp_allow_cross_host policy)"

definition host_score :: "python \<Rightarrow> RetrievalQuery \<Rightarrow> pydict \<Rightarrow> rat" where
  "host_score py q pattern = (let hosts = host_values py pattern in
     if hosts = [] then 1 else if rq_host_id q \<noteq> [] \<and> rq_host_id q \<in> set hosts then 1 else 0)"

subsection \<open>Versions\<close>

definition digits_value :: "string \<Rightarrow> int" where
  "digits_value s = foldl (\<lambda>n c. 10 * n + int (of_char c) - 48) 0 s"

text \<open>The numbers of \<open>\d+(?:\.\d+)*\<close> at the start of a text.\<close>

function version_parts :: "string \<Rightarrow> int list" where
  "version_parts s = (if takeWhile ascii_digit s = [] then []
     else digits_value (takeWhile ascii_digit s) # (case dropWhile ascii_digit s of
         c # cs \<Rightarrow> if c = CHR ''.'' then version_parts cs else []
       | [] \<Rightarrow> []))"
  by pat_completeness auto
termination
  by (relation "measure length") (auto dest: dropWhile_Cons_shorter [where q = "\<lambda>_. False"])

declare version_parts.simps [simp del]

definition version_tuple :: "string \<Rightarrow> int list option" where
  "version_tuple s = (case version_parts (dropWhile (\<lambda>c. \<not> ascii_digit c) s) of [] \<Rightarrow> None | v \<Rightarrow> Some v)"

definition OPERATORS :: "string list" where
  "OPERATORS = [''>='', ''<='', ''!='', ''>'', ''<'', ''='']"

definition split_operator :: "string \<Rightarrow> string \<times> string" where
  "split_operator part = (case List.find (\<lambda>c. starts_with c part) OPERATORS of
       Some c \<Rightarrow> (c, strip (drop (length c) part))
     | None \<Rightarrow> (''=='', part))"

definition pad :: "int list \<Rightarrow> int list \<Rightarrow> int list" where
  "pad expected actual = expected @ replicate (length actual - length expected) 0"

definition compare_versions :: "string \<Rightarrow> int list \<Rightarrow> int list \<Rightarrow> bool" where
  "compare_versions operator left right =
     (if operator \<in> {''='', ''==''} then left = right
      else if operator = ''!='' then left \<noteq> right
      else if operator = ''>='' then \<not> left < right
      else if operator = ''<='' then \<not> left > right
      else if operator = ''>'' then \<not> left \<le> right
      else if operator = ''<'' then \<not> left \<ge> right
      else True)"

definition part_allows :: "int list \<Rightarrow> string \<Rightarrow> bool" where
  "part_allows actual raw_part =
     (let part = strip raw_part in
      if part = [] then True
      else let (operator, rest) = split_operator part in
        if ends_with ''.*'' rest \<or> ends_with ''.x'' (casefold rest) then
          (case version_tuple (take (length rest - 2) rest) of
             None \<Rightarrow> False | Some expected \<Rightarrow> take (length expected) actual = expected)
        else (case version_tuple rest of
             None \<Rightarrow> False
           | Some expected \<Rightarrow>
               compare_versions operator (take (max (length actual) (length expected)) actual) (pad expected actual)))"

definition truthy_entry :: "pydict \<Rightarrow> string \<Rightarrow> pyval option" where
  "truthy_entry pattern name = (let v = get_default pattern name PNone in if truthy v then Some v else None)"

definition version_allowed :: "python \<Rightarrow> RetrievalQuery \<Rightarrow> pydict \<Rightarrow> bool" where
  "version_allowed py q pattern =
     (case (case truthy_entry pattern ''version_constraint'' of Some v \<Rightarrow> Some v | None \<Rightarrow> truthy_entry pattern ''version'') of
        None \<Rightarrow> True
      | Some constraint \<Rightarrow>
          if rq_version q = [] then False
          else (case version_tuple (rq_version q) of
              None \<Rightarrow> False
            | Some actual \<Rightarrow> list_all (part_allows actual) (split_on (CHR '','') (text_of py constraint))))"

subsection \<open>Eligibility and ranking\<close>

fun numeric :: "python \<Rightarrow> pydict \<Rightarrow> string list \<Rightarrow> rat \<Rightarrow> rat" where
  "numeric py pattern [] v = v"
| "numeric py pattern (name # names) v = (case get_default pattern name PNone of
       PInt n \<Rightarrow> of_int n
     | PFloat x \<Rightarrow> x
     | PStr s \<Rightarrow> (case float_of py s of Some x \<Rightarrow> x | None \<Rightarrow> numeric py pattern names v)
     | _ \<Rightarrow> numeric py pattern names v)"

definition eligible :: "python \<Rightarrow> RetrievalQuery \<Rightarrow> pydict \<Rightarrow> RetrievalPolicy \<Rightarrow> bool" where
  "eligible py q pattern policy =
     (case get_default pattern ''pattern_id'' PNone of
        PStr i \<Rightarrow>
          if i = [] then False
          else if casefold (text_of py (get_default pattern ''status'' (PStr ''active'')))
                 \<in> {''deprecated'', ''tombstoned'', ''superseded'', ''inactive'', ''archived''} then False
          else if text_of py (get_default pattern ''classification'' (PStr ''private-reusable''))
                 \<notin> {''public'', ''private-reusable''} then False
          else if numeric py pattern [''contradiction_count''] 0 > 0 then False
          else scope_allowed py q pattern \<and> host_allowed py q pattern policy \<and> version_allowed py q pattern
      | _ \<Rightarrow> False)"

definition parse_date :: "python \<Rightarrow> pyval \<Rightarrow> int option" where
  "parse_date py v = (if truthy v then parse_iso py (text_of py v) else None)"

definition freshness_score :: "python \<Rightarrow> RetrievalQuery \<Rightarrow> pydict \<Rightarrow> int \<Rightarrow> int \<Rightarrow> rat" where
  "freshness_score py q pattern latest half_life_days = (case parse_date py (get_default pattern ''updated_at'' PNone) of
       None \<Rightarrow> 0
     | Some updated \<Rightarrow>
         (let reference = (case parse_date py (optional_value (rq_now q)) of Some t \<Rightarrow> t | None \<Rightarrow> latest);
              age_days = max 0 (of_int (reference - updated) / 86400000000)
          in decay py (age_days / of_int (max 1 half_life_days))))"

definition bm25 :: "string list \<Rightarrow> string list \<Rightarrow> rat \<Rightarrow> rat" where
  "bm25 query_tokens document_tokens average_length =
     (let overlap = card (set query_tokens \<inter> set document_tokens) in
      if query_tokens = [] \<or> document_tokens = [] \<or> overlap = 0 then 0
      else of_nat overlap * ((22 / 10) / (1 + (12 / 10) * (1 / 4 + (3 / 4) *
        (of_nat (length document_tokens) / max average_length 1)))))"

definition evidence_count :: "python \<Rightarrow> pydict \<Rightarrow> int" where
  "evidence_count py pattern = \<lfloor>max 0 (numeric py pattern [''evidence_count'']
     (of_nat (length (values_of py pattern [''provenances'', ''evidence_ids'']))))\<rfloor>"

definition pattern_tokens :: "python \<Rightarrow> pydict \<Rightarrow> string list" where
  "pattern_tokens py pattern = tokenize_similarity (nfkc_of py)
     (text_of py (get_default pattern ''rule'' (PStr [])) @ '' '' @ text_of py (get_default pattern ''title'' (PStr []))
      @ '' '' @ text_of py (get_default pattern ''claim'' (PStr [])) @ '' '' @ text_of py (get_default pattern ''domain'' (PStr [])))"

definition pattern_score :: "python \<Rightarrow> RetrievalQuery \<Rightarrow> RetrievalPolicy \<Rightarrow> rat \<Rightarrow> int \<Rightarrow> pydict \<Rightarrow> rat" where
  "pattern_score py q policy average_length latest pattern =
     (let raw = bm25 (tokenize_similarity (nfkc_of py) (rq_text q)) (pattern_tokens py pattern) average_length;
          lexical = (if raw \<noteq> 0 then raw / (raw + 1) else 0);
          evidence = min 1 (of_int (evidence_count py pattern) / 2);
          fresh = freshness_score py q pattern latest (rp_freshness_half_life_days policy);
          benefit = (if numeric py pattern [''benefit_count''] 0 > 0 \<or> truthy (get_default pattern ''observed_benefit'' PNone)
                        \<or> values_of py pattern [''benefit_refs''] \<noteq> [] then 1 else 0);
          prior = max 0 (min 1 (numeric py pattern [''prior_success'', ''success_rate'', ''outcome_success_rate''] 0));
          contradiction_penalty = min 1 (numeric py pattern [''contradiction_count''] 0 / 3);
          stale_penalty = (if fresh = 0 then 10 / 100 else 0)
      in rp_lexical_relevance policy * lexical + rp_scope_match policy * scope_score py q pattern
         + rp_evidence_strength policy * evidence + rp_freshness policy * fresh + rp_observed_benefit policy * benefit
         + rp_host_applicability policy * host_score py q pattern + rp_prior_success policy * prior
         - contradiction_penalty - stale_penalty)"

text \<open>\<open>math.isclose(a, b, abs_tol=1e-12)\<close> with its default relative tolerance.\<close>

definition is_close :: "rat \<Rightarrow> rat \<Rightarrow> bool" where
  "is_close a b \<longleftrightarrow> \<bar>a - b\<bar> \<le> max (max \<bar>a\<bar> \<bar>b\<bar> / 1000000000) (1 / 1000000000000)"

definition pattern_key :: "python \<Rightarrow> pydict \<Rightarrow> string" where
  "pattern_key py pattern = text_of py (get_default pattern ''pattern_id'' PNone)"

definition cluster_key :: "python \<Rightarrow> pydict \<Rightarrow> string" where
  "cluster_key py pattern = (case truthy_entry pattern ''cluster_id'' of
     Some v \<Rightarrow> text_of py v | None \<Rightarrow> pattern_key py pattern)"

definition keep_best :: "python \<Rightarrow> rat \<times> pydict \<Rightarrow> (rat \<times> pydict) dict \<Rightarrow> (rat \<times> pydict) dict" where
  "keep_best py entry best = (let cluster = cluster_key py (snd entry) in
     case map_of best cluster of
       None \<Rightarrow> dict_set cluster entry best
     | Some current \<Rightarrow>
         if fst entry > fst current
            \<or> is_close (fst entry) (fst current) \<and> pattern_key py (snd entry) < pattern_key py (snd current)
         then dict_set cluster entry best else best)"

definition best_by_cluster :: "python \<Rightarrow> (rat \<times> pydict) list \<Rightarrow> (rat \<times> pydict) dict" where
  "best_by_cluster py scored = fold (keep_best py) scored []"

definition hit_order :: "python \<Rightarrow> rat \<times> pydict \<Rightarrow> int \<times> string \<times> string" where
  "hit_order py entry = (- round_units 12 (fst entry), pattern_key py (snd entry),
     text_of py (get_default (snd entry) ''cluster_id'' (PStr [])))"

record RetrievalHit =
  rh_pattern_id :: string
  rh_cluster_id :: string
  rh_score :: rat
  rh_rule :: string
  rh_applicability :: "string list"
  rh_evidence_count :: int
  rh_updated_at :: string
  rh_knowledge_scope :: string
  rh_claim_fingerprint :: string
  rh_supersedes :: "string list"
  rh_precondition :: string
  rh_failure_mode :: string

definition claim_material :: "python \<Rightarrow> pydict \<Rightarrow> string" where
  "claim_material py pattern = (case first_some (truthy_entry pattern) [''claim'', ''rule'', ''title''] of
     Some v \<Rightarrow> text_of py v | None \<Rightarrow> [])"

definition hit_of :: "python \<Rightarrow> string \<Rightarrow> rat \<times> pydict \<Rightarrow> RetrievalHit" where
  "hit_of py knowledge_scope entry = (let pattern = snd entry in
     \<lparr>rh_pattern_id = text_of py (get_default pattern ''pattern_id'' (PStr [])),
      rh_cluster_id = (case truthy_entry pattern ''cluster_id'' of Some v \<Rightarrow> text_of py v
        | None \<Rightarrow> text_of py (get_default pattern ''pattern_id'' (PStr []))),
      rh_score = of_int (round_units 6 (fst entry)) / 1000000,
      rh_rule = text_of py (get_default pattern ''rule'' (PStr [])), rh_applicability = applicability_of py pattern,
      rh_evidence_count = evidence_count py pattern,
      rh_updated_at = text_of py (get_default pattern ''updated_at'' (PStr [])),
      rh_knowledge_scope = (if knowledge_scope \<in> {''personal'', ''team''} then knowledge_scope else ''personal''),
      rh_claim_fingerprint = (case truthy_entry pattern ''claim_fingerprint'' of Some v \<Rightarrow> text_of py v
        | None \<Rightarrow> ''sha256:'' @ claim_fingerprint (sha256_of py) (nfkc_of py) (claim_material py pattern)),
      rh_supersedes = values_of py pattern [''supersedes'', ''superseded_by''],
      rh_precondition = (case truthy_entry pattern ''precondition'' of Some v \<Rightarrow> text_of py v | None \<Rightarrow> []),
      rh_failure_mode = (case truthy_entry pattern ''failure_mode'' of Some v \<Rightarrow> text_of py v | None \<Rightarrow> [])\<rparr>)"

definition average :: "python \<Rightarrow> pydict list \<Rightarrow> rat" where
  "average py patterns = of_nat (sum_list (map (length \<circ> pattern_tokens py) patterns)) / of_nat (max 1 (length patterns))"

definition latest_update :: "python \<Rightarrow> pydict list \<Rightarrow> int" where
  "latest_update py patterns = (case List.map_filter (\<lambda>p. parse_date py (get_default p ''updated_at'' PNone)) patterns of
     [] \<Rightarrow> 0 | d # ds \<Rightarrow> fold max ds d)"

definition scored_patterns :: "python \<Rightarrow> RetrievalQuery \<Rightarrow> pydict list \<Rightarrow> RetrievalPolicy \<Rightarrow> (rat \<times> pydict) list" where
  "scored_patterns py q patterns policy =
     (let found = filter (\<lambda>p. eligible py q p policy) patterns;
          score = pattern_score py q policy (average py found) (latest_update py found)
      in filter (\<lambda>entry. fst entry \<ge> rp_min_score policy) (map (\<lambda>p. (score p, p)) found))"

definition rank_all ::
  "python \<Rightarrow> RetrievalQuery \<Rightarrow> pydict list \<Rightarrow> RetrievalPolicy \<Rightarrow> nat option \<Rightarrow> string \<Rightarrow> RetrievalHit list" where
  "rank_all py q patterns policy result_limit knowledge_scope =
     (let ranked = sort_key (hit_order py) (map snd (best_by_cluster py (scored_patterns py q patterns policy)))
      in map (hit_of py knowledge_scope) (case result_limit of None \<Rightarrow> ranked | Some n \<Rightarrow> take n ranked))"

definition rank_patterns :: "python \<Rightarrow> RetrievalQuery \<Rightarrow> pydict list \<Rightarrow> RetrievalPolicy \<Rightarrow> RetrievalHit list" where
  "rank_patterns py q patterns policy = rank_all py q patterns policy (Some (nat (rp_max_results policy))) ''personal''"

subsection \<open>Merging personal and team hits\<close>

definition hex64 :: "string \<Rightarrow> bool" where
  "hex64 s \<longleftrightarrow> length s = 64 \<and> list_all hex_lower s"

definition without_prefix :: "string \<Rightarrow> string \<Rightarrow> string" where
  "without_prefix prefix s = (if starts_with prefix s then drop (length prefix) s else s)"

definition claim_digest :: "python \<Rightarrow> string \<Rightarrow> string" where
  "claim_digest py text = claim_fingerprint (sha256_of py) (nfkc_of py) text"

definition normalised_rule_fingerprint :: "python \<Rightarrow> RetrievalHit \<Rightarrow> string" where
  "normalised_rule_fingerprint py hit =
     (if rh_rule hit \<noteq> [] then ''sha256:'' @ claim_digest py (rh_rule hit)
      else ''sha256:'' @ or_text (without_prefix ''sha256:'' (casefold (strip (rh_claim_fingerprint hit)))) (claim_digest py []))"

definition supplied_fingerprint :: "python \<Rightarrow> RetrievalHit \<Rightarrow> string option" where
  "supplied_fingerprint py hit = (let supplied = casefold (strip (rh_claim_fingerprint hit)) in
     if supplied = [] then None
     else let bare = without_prefix ''sha256:'' supplied in
       Some (''sha256:'' @ (if hex64 bare then bare else claim_digest py bare)))"

definition hit_fingerprints :: "python \<Rightarrow> RetrievalHit \<Rightarrow> string set" where
  "hit_fingerprints py hit = insert (normalised_rule_fingerprint py hit) (set_option (supplied_fingerprint py hit))"

definition supersedes_relation :: "RetrievalHit \<Rightarrow> RetrievalHit \<Rightarrow> bool" where
  "supersedes_relation left right \<longleftrightarrow>
     rh_pattern_id left \<in> set (rh_supersedes right) \<or> rh_pattern_id right \<in> set (rh_supersedes left)"

definition related :: "python \<Rightarrow> RetrievalHit \<Rightarrow> RetrievalHit \<Rightarrow> bool" where
  "related py hit member \<longleftrightarrow> rh_pattern_id hit = rh_pattern_id member
   \<or> hit_fingerprints py hit \<inter> hit_fingerprints py member \<noteq> {} \<or> supersedes_relation hit member"

definition normalised_hit :: "python \<Rightarrow> string \<Rightarrow> RetrievalHit \<Rightarrow> RetrievalHit" where
  "normalised_hit py scope hit = hit\<lparr>rh_knowledge_scope := scope,
     rh_claim_fingerprint := (case supplied_fingerprint py hit of Some f \<Rightarrow> f | None \<Rightarrow> normalised_rule_fingerprint py hit)\<rparr>"

definition merge_order :: "RetrievalHit \<Rightarrow> int \<times> int \<times> string \<times> string" where
  "merge_order hit = (- round_units 12 (rh_score hit), (if rh_knowledge_scope hit = ''personal'' then 0 else 1),
     rh_pattern_id hit, rh_cluster_id hit)"

text \<open>The first related group takes the hit and all other related groups.\<close>

fun absorb :: "('a list \<Rightarrow> bool) \<Rightarrow> 'a list \<Rightarrow> 'a list list \<Rightarrow> 'a list list" where
  "absorb matching extra [] = []"
| "absorb matching extra (g # gs) = (if matching g then (g @ extra) # filter (\<lambda>x. \<not> matching x) gs
     else g # absorb matching extra gs)"

definition add_to_groups :: "('a \<Rightarrow> 'a \<Rightarrow> bool) \<Rightarrow> 'a \<Rightarrow> 'a list list \<Rightarrow> 'a list list" where
  "add_to_groups rel hit groups =
     (let matching = (\<lambda>g. list_ex (rel hit) g); matches = filter matching groups
      in if matches = [] then groups @ [[hit]]
         else absorb matching (hit # concat (tl matches)) groups)"

fun min_by :: "('a \<Rightarrow> 'b::linorder) \<Rightarrow> 'a list \<Rightarrow> 'a" where
  "min_by key [x] = x"
| "min_by key (x # y # ys) = min_by key ((if key y < key x then y else x) # ys)"
| "min_by key [] = undefined"

definition merge_candidates :: "python \<Rightarrow> RetrievalHit list \<Rightarrow> RetrievalHit list \<Rightarrow> RetrievalHit list" where
  "merge_candidates py personal team =
     map (normalised_hit py ''personal'') personal @ map (normalised_hit py ''team'') team"

definition merge_retrieval_hits ::
  "python \<Rightarrow> RetrievalHit list \<Rightarrow> RetrievalHit list \<Rightarrow> RetrievalPolicy \<Rightarrow> RetrievalHit list" where
  "merge_retrieval_hits py personal team policy =
     (let ordered = sort_key merge_order (merge_candidates py personal team);
          groups = fold (add_to_groups (related py)) ordered [];
          winners = map (min_by merge_order) groups
      in take (nat (rp_max_results policy)) (sort_key merge_order winners))"

subsection \<open>Groups of related hits\<close>

text \<open>
  The contract of the relation the groups are built from: it is reflexive and symmetric. Then the
  groups are the connected components: no member of one is related to a member of another, and the
  members of one are linked by related hits.
\<close>

locale grouping =
  fixes rel :: "'a \<Rightarrow> 'a \<Rightarrow> bool"
  assumes rel_refl: "rel x x" and rel_sym: "rel x y \<Longrightarrow> rel y x"
begin

definition apart :: "'a list \<Rightarrow> 'a list \<Rightarrow> bool" where
  "apart g h \<longleftrightarrow> (\<forall>x \<in> set g. \<forall>y \<in> set h. \<not> rel x y)"

definition linked :: "'a list \<Rightarrow> bool" where
  "linked g \<longleftrightarrow> g \<noteq> [] \<and> (\<forall>x \<in> set g. \<forall>y \<in> set g. rel\<^sup>*\<^sup>* x y)"

definition grouped :: "'a list list \<Rightarrow> bool" where
  "grouped gs \<longleftrightarrow> sorted_wrt apart gs \<and> (\<forall>g \<in> set gs. linked g)"

lemma apart_sym: "apart g h \<Longrightarrow> apart h g"
  unfolding apart_def using rel_sym by blast

lemma rel_star_sym: "rel\<^sup>*\<^sup>* x y \<Longrightarrow> rel\<^sup>*\<^sup>* y x"
  by (induction rule: rtranclp_induct) (auto intro: rel_sym converse_rtranclp_into_rtranclp)

lemma grouped_merge:
  assumes gs: "grouped (pre @ g # post)" and pre: "\<forall>h \<in> set pre. \<not> list_ex (rel hit) h" and g: "list_ex (rel hit) g"
  shows "grouped (pre @ (g @ hit # concat (filter (list_ex (rel hit)) post))
    # filter (\<lambda>h. \<not> list_ex (rel hit) h) post)"
proof -
  let ?m = "list_ex (rel hit)" and ?new = "g @ hit # concat (filter (list_ex (rel hit)) post)"
  have sorted: "sorted_wrt apart pre" "sorted_wrt apart post" "\<forall>h \<in> set pre. apart h g \<and> (\<forall>k \<in> set post. apart h k)"
    "\<forall>h \<in> set post. apart g h" and linked: "\<forall>h \<in> set (pre @ g # post). linked h"
    using gs by (auto simp: grouped_def sorted_wrt_append)
  have post_apart: "apart h k" if "h \<in> set (filter ?m post)" "k \<in> set post" "\<not> ?m k" for h k
  proof -
    have "h \<in> set post" "k \<in> set post" using that by simp_all
    then obtain i j where "i < length post" "post ! i = h" "j < length post" "post ! j = k" by (meson in_set_conv_nth)
    moreover have "i \<noteq> j" using that calculation by auto
    ultimately show ?thesis
      using sorted_wrt_nth_less [OF sorted(2)] apart_sym by (metis linorder_neqE_nat)
  qed
  have new_apart: "apart ?new k" if k: "k \<in> set post" "\<not> ?m k" for k
    using sorted(4) post_apart k by (auto simp: apart_def list_ex_iff) blast
  have pre_apart: "apart h ?new" if "h \<in> set pre" for h
    using that sorted(3) pre by (auto simp: apart_def list_ex_iff dest: rel_sym)
  have to_hit: "rel\<^sup>*\<^sup>* hit y" if "y \<in> set ?new" for y
  proof (cases "y = hit")
    case False
    with that g obtain h where h: "y \<in> set h" "?m h" "linked h"
      using linked by auto
    then obtain z where "z \<in> set h" "rel hit z" by (auto simp: list_ex_iff)
    then show ?thesis using h by (auto simp: linked_def intro: converse_rtranclp_into_rtranclp)
  qed simp
  have "linked ?new"
    unfolding linked_def using to_hit rel_star_sym by (auto intro: rtranclp_trans)
  then show ?thesis
    using sorted linked new_apart pre_apart
    by (auto simp: grouped_def sorted_wrt_append sorted_wrt_filter)
qed

lemma add_shape:
  obtains (fresh) "filter (list_ex (rel hit)) gs = []" "add_to_groups rel hit gs = gs @ [[hit]]"
  | (merged) pre g post where "gs = pre @ g # post" "\<forall>h \<in> set pre. \<not> list_ex (rel hit) h" "list_ex (rel hit) g"
      "add_to_groups rel hit gs = pre @ (g @ hit # concat (filter (list_ex (rel hit)) post))
         # filter (\<lambda>h. \<not> list_ex (rel hit) h) post"
proof (cases "filter (list_ex (rel hit)) gs = []")
  case True
  then show thesis using fresh by (simp add: add_to_groups_def)
next
  case False
  then obtain pre g post where split: "gs = pre @ g # post" "list_ex (rel hit) g" "\<forall>h \<in> set pre. \<not> list_ex (rel hit) h"
    using split_list_first_prop [of gs "list_ex (rel hit)"] by (auto simp: filter_empty_conv)
  have "absorb m extra (xs @ g # post) = xs @ (g @ extra) # filter (\<lambda>x. \<not> m x) post"
    if "\<forall>h \<in> set xs. \<not> m h" "m g" for m xs extra
    using that by (induction xs) auto
  then show thesis
    using merged [OF split(1,3,2)] split by (simp add: add_to_groups_def Let_def)
qed

lemma grouped_add:
  assumes "grouped gs"
  shows "grouped (add_to_groups rel hit gs)"
proof (cases rule: add_shape [where hit = hit and gs = gs])
  case fresh
  have "apart h [hit]" if "h \<in> set gs" for h
    using that fresh(1) by (auto simp: apart_def filter_empty_conv list_ex_iff dest: rel_sym)
  then show ?thesis using assms fresh(2) by (auto simp: grouped_def sorted_wrt_append linked_def)
next
  case (merged pre g post)
  then show ?thesis using grouped_merge assms by simp
qed

lemma members_add: "\<Union>(set ` set (add_to_groups rel hit gs)) = insert hit (\<Union>(set ` set gs))"
proof (cases rule: add_shape [where hit = hit and gs = gs])
  case (merged pre g post)
  have "\<Union>(set ` set post) = \<Union>(set ` set (filter (list_ex (rel hit)) post))
      \<union> \<Union>(set ` set (filter (\<lambda>h. \<not> list_ex (rel hit) h) post))" by auto
  then show ?thesis by (subst merged(4)) (auto simp: merged(1))
qed auto

lemma fold_groups:
  assumes "grouped gs"
  shows "grouped (fold (add_to_groups rel) xs gs)
    \<and> \<Union>(set ` set (fold (add_to_groups rel) xs gs)) = set xs \<union> \<Union>(set ` set gs)"
  using assms
proof (induction xs arbitrary: gs)
  case (Cons x xs)
  then show ?case using Cons.IH [OF grouped_add [OF Cons.prems]] members_add [of x gs] by auto
qed simp

end

lemma min_by_least: "xs \<noteq> [] \<Longrightarrow> min_by key xs \<in> set xs \<and> (\<forall>x \<in> set xs. key (min_by key xs) \<le> key x)"
proof (induction key xs rule: min_by.induct)
  case (2 key x y ys)
  then show ?case by (auto split: if_splits intro: order_trans)
qed auto

interpretation hits: grouping "related py" for py
proof
  show "related py x x" for x by (simp add: related_def)
  show "related py x y \<Longrightarrow> related py y x" for x y
    by (auto simp: related_def supersedes_relation_def)
qed

subsection \<open>One entry per cluster\<close>

definition best_ok :: "python \<Rightarrow> (rat \<times> pydict) set \<Rightarrow> (rat \<times> pydict) dict \<Rightarrow> bool" where
  "best_ok py scored best \<longleftrightarrow> distinct (map fst best)
   \<and> (\<forall>(k, entry) \<in> set best. k = cluster_key py (snd entry) \<and> entry \<in> scored)"

lemma keep_best_cases:
  "keep_best py entry best = best \<or> keep_best py entry best = dict_set (cluster_key py (snd entry)) entry best"
  by (simp add: keep_best_def Let_def split: option.split)

lemma set_dict_set_subset: "set (dict_set k v d) \<subseteq> insert (k, v) (set d)"
  by (induction d) auto

lemma keep_best_ok:
  assumes "best_ok py scored best" "entry \<in> scored"
  shows "best_ok py scored (keep_best py entry best)"
proof -
  have "best_ok py scored (dict_set (cluster_key py (snd entry)) entry best)"
    using assms set_dict_set_subset [of "cluster_key py (snd entry)" entry best]
    by (auto simp: best_ok_def distinct_update)
  then show ?thesis using keep_best_cases [of py entry best] assms(1) by auto
qed

lemma best_by_cluster_ok: "best_ok py (set scored) (best_by_cluster py scored)"
proof -
  have "best_ok py (set scored) (fold (keep_best py) entries best)"
    if "best_ok py (set scored) best" "set entries \<subseteq> set scored" for entries best
    using that by (induction entries arbitrary: best) (auto intro: keep_best_ok)
  from this [of "[]" scored] show ?thesis by (simp add: best_by_cluster_def best_ok_def)
qed

subsection \<open>Properties\<close>

text \<open>
  C11. Recall respects the host applicability: a pattern that carries any of the five applicability
  fields is eligible only if they are a complete and well-formed encoding and the query's family or
  host is listed for a family or host scope; the cross-host allowance of the policy cannot widen
  this. Every eligible pattern is reusable, not retired, and without contradictions.
\<close>

theorem recall_respects_host_scope:
  assumes "eligible py q pattern policy" and "new_host_scope_present pattern"
  shows "(\<exists>i f a. encodes pattern i f a \<and> wf_applicability i f a \<and> \<not> legacy_host_selector_nonempty pattern
      \<and> (case ha_scope a of Universal \<Rightarrow> True
         | Family \<Rightarrow> rq_host_family q \<noteq> [] \<and> rq_host_family q \<in> set (ha_host_families a)
         | Host \<Rightarrow> rq_host_id q \<noteq> [] \<and> rq_host_id q \<in> set (ha_host_ids a)))
    \<and> text_of py (get_default pattern ''classification'' (PStr ''private-reusable'')) \<in> {''public'', ''private-reusable''}
    \<and> casefold (text_of py (get_default pattern ''status'' (PStr ''active''))) \<notin> {''deprecated'', ''tombstoned'', ''superseded''}
    \<and> numeric py pattern [''contradiction_count''] 0 \<le> 0"
proof -
  have rest: "text_of py (get_default pattern ''classification'' (PStr ''private-reusable'')) \<in> {''public'', ''private-reusable''}"
    "casefold (text_of py (get_default pattern ''status'' (PStr ''active''))) \<notin> {''deprecated'', ''tombstoned'', ''superseded''}"
    "numeric py pattern [''contradiction_count''] 0 \<le> 0" and "host_allowed py q pattern policy"
    using assms(1) by (auto simp: eligible_def simp del: numeric.simps split: pyval.splits if_splits)
  then have allowed: "host_scope_allowed py q pattern" using assms(2) by (simp add: host_allowed_def)
  then obtain a where a: "validated_host_scope pattern = Some a"
    using assms(2) by (auto simp: host_scope_allowed_def split: option.splits)
  then obtain req where "validate_host_applicability_mapping (PDict pattern) False req = Inr a"
      and "\<not> legacy_host_selector_nonempty pattern"
    by (auto simp: validated_host_scope_def split: if_splits sum.splits)
  then obtain i f where "encodes pattern i f a" "wf_applicability i f a" "\<not> legacy_host_selector_nonempty pattern"
    using assms(2) unfolding validate_mapping_iff new_host_scope_present_def by auto
  then show ?thesis using allowed a assms(2) rest by (auto simp: host_scope_allowed_def)
qed

definition plain_python :: python where
  "plain_python = \<lparr>py_str = (\<lambda>_. []), float_of = (\<lambda>_. None), parse_iso = (\<lambda>_. None), decay = (\<lambda>_. 1),
     nfkc_of = (\<lambda>s. s), sha256_of = (\<lambda>s. s)\<rparr>"

definition sample_query :: "string \<Rightarrow> RetrievalQuery" where
  "sample_query version = \<lparr>rq_text = [], rq_cwd = [], rq_domain = [], rq_now = None, rq_scope_tags = [],
     rq_host_id = ''codex-cli'', rq_host_family = ''codex-compatible'', rq_version = version\<rparr>"

definition host_pattern :: pydict where
  "host_pattern = (''pattern_id'', PStr ''p1'') # example_mapping"

theorem recall_respects_host_scope_witness:
  "\<exists>i f a. encodes host_pattern i f a \<and> wf_applicability i f a"
proof -
  have "eligible plain_python (sample_query []) host_pattern default_retrieval_policy"
    "new_host_scope_present host_pattern" by code_simp+
  then show ?thesis using recall_respects_host_scope by blast
qed

text \<open>
  The ranking returns at most the number of hits the policy allows, one per cluster, each from an
  eligible pattern whose score reaches the minimum, ordered by rounded score and then by id.
\<close>

theorem ranking_is_bounded:
  "\<exists>entries. rank_patterns py q patterns policy = map (hit_of py ''personal'') entries
    \<and> length entries \<le> nat (rp_max_results policy) \<and> sorted (map (hit_order py) entries)
    \<and> distinct (map (cluster_key py \<circ> snd) entries)
    \<and> list_all (\<lambda>(score, pattern). pattern \<in> set patterns \<and> eligible py q pattern policy \<and> rp_min_score policy \<le> score) entries"
proof -
  define best where "best = best_by_cluster py (scored_patterns py q patterns policy)"
  define entries where "entries = take (nat (rp_max_results policy)) (sort_key (hit_order py) (map snd best))"
  have ok: "best_ok py (set (scored_patterns py q patterns policy)) best" by (simp add: best_def best_by_cluster_ok)
  have "map (cluster_key py \<circ> snd) (map snd best) = map fst best" using ok by (auto simp: best_ok_def)
  then have "distinct (map (cluster_key py \<circ> snd) (map snd best))" using ok unfolding best_ok_def by metis
  then have "distinct (map (cluster_key py \<circ> snd) (sort_key (hit_order py) (map snd best)))"
    by (metis mset_eq_imp_distinct_iff mset_map mset_sort)
  then have one: "distinct (map (cluster_key py \<circ> snd) entries)"
    by (simp add: entries_def take_map [symmetric] distinct_take)
  have "snd ` set best \<subseteq> set (scored_patterns py q patterns policy)" using ok by (auto simp: best_ok_def)
  then have "set entries \<subseteq> set (scored_patterns py q patterns policy)"
    using set_take_subset [of "nat (rp_max_results policy)" "sort_key (hit_order py) (map snd best)"]
    by (simp add: entries_def)
  then have "list_all (\<lambda>(score, pattern). pattern \<in> set patterns \<and> eligible py q pattern policy \<and> rp_min_score policy \<le> score) entries"
    by (auto simp: list_all_iff scored_patterns_def Let_def)
  moreover have "sorted (map (hit_order py) entries)"
    by (simp add: entries_def take_map [symmetric] sorted_wrt_take)
  moreover have "rank_patterns py q patterns policy = map (hit_of py ''personal'') entries"
    by (simp add: rank_patterns_def rank_all_def Let_def entries_def best_def)
  moreover have "length entries \<le> nat (rp_max_results policy)" by (simp add: entries_def)
  ultimately show ?thesis using one by blast
qed

text \<open>
  C27. Merging keeps one hit per group of related hits: the result is a bounded, ordered selection of
  the personal and team hits in which no two hits share a pattern, a claim or a supersedes relation,
  and, unless the limit cuts it, every hit that was dropped is linked to one in the result that
  precedes it in the order (a better score, or personal before team).
\<close>

theorem merged_hits_unrelated:
  fixes py personal team policy
  defines "hits \<equiv> merge_retrieval_hits py personal team policy"
  shows "length hits \<le> nat (rp_max_results policy) \<and> sorted (map merge_order hits)
    \<and> set hits \<subseteq> set (merge_candidates py personal team) \<and> distinct hits
    \<and> (\<forall>h \<in> set hits. \<forall>k \<in> set hits. related py h k \<longrightarrow> h = k)
    \<and> (length hits < nat (rp_max_results policy) \<longrightarrow> (\<forall>c \<in> set (merge_candidates py personal team).
         \<exists>h \<in> set hits. merge_order h \<le> merge_order c \<and> (related py)\<^sup>*\<^sup>* h c))"
proof -
  define groups where "groups = fold (add_to_groups (related py))
    (sort_key merge_order (merge_candidates py personal team)) []"
  define winners where "winners = map (min_by merge_order) groups"
  have hits: "hits = take (nat (rp_max_results policy)) (sort_key merge_order winners)"
    by (simp add: hits_def merge_retrieval_hits_def Let_def winners_def groups_def)
  have grouped: "hits.grouped py groups" and members: "\<Union>(set ` set groups) = set (merge_candidates py personal team)"
    using hits.fold_groups [of py "[]" "sort_key merge_order (merge_candidates py personal team)"]
    by (simp_all add: groups_def hits.grouped_def)
  have least: "min_by merge_order g \<in> set g \<and> (\<forall>x \<in> set g. merge_order (min_by merge_order g) \<le> merge_order x)"
    if "g \<in> set groups" for g
    using that grouped min_by_least [of g merge_order] by (auto simp: hits.grouped_def hits.linked_def)
  have apart: "sorted_wrt (\<lambda>h k. \<not> related py h k) winners"
    using grouped least unfolding winners_def hits.grouped_def sorted_wrt_map
    by (auto simp: hits.apart_def elim!: sorted_wrt_mono_rel [rotated])
  have one: "distinct winners" using apart hits.rel_refl
    by (auto simp: distinct_conv_nth sorted_wrt_iff_nth_less) (metis linorder_neqE_nat)
  have only: "h = k" if "h \<in> set winners" "k \<in> set winners" "related py h k" for h k
    using apart that hits.rel_sym by (auto simp: sorted_wrt_iff_nth_less in_set_conv_nth) (metis linorder_neqE_nat)
  have chosen: "set winners \<subseteq> set (merge_candidates py personal team)"
    using least members by (auto simp: winners_def)
  have reached: "\<exists>h \<in> set winners. merge_order h \<le> merge_order c \<and> (related py)\<^sup>*\<^sup>* h c"
    if c: "c \<in> set (merge_candidates py personal team)" for c
  proof -
    obtain g where "g \<in> set groups" "c \<in> set g" using c members by auto
    then show ?thesis using least [of g] grouped
      by (auto simp: winners_def hits.grouped_def hits.linked_def intro!: bexI [of _ "min_by merge_order g"])
  qed
  have kept: "set hits \<subseteq> set winners"
    using set_take_subset [of "nat (rp_max_results policy)" "sort_key merge_order winners"] by (simp add: hits)
  have whole: "set hits = set winners" if "length hits < nat (rp_max_results policy)"
    using that by (simp add: hits)
  have "length hits \<le> nat (rp_max_results policy)" by (simp add: hits)
  moreover have "sorted (map merge_order hits)" by (simp add: hits take_map [symmetric] sorted_wrt_take)
  moreover have "set hits \<subseteq> set (merge_candidates py personal team)" using kept chosen by (rule subset_trans)
  moreover have "distinct hits" using one by (simp add: hits distinct_take)
  moreover have "\<forall>h \<in> set hits. \<forall>k \<in> set hits. related py h k \<longrightarrow> h = k" using only kept by blast
  moreover have "\<forall>c \<in> set (merge_candidates py personal team).
      \<exists>h \<in> set hits. merge_order h \<le> merge_order c \<and> (related py)\<^sup>*\<^sup>* h c"
    if "length hits < nat (rp_max_results policy)" using reached whole [OF that] by blast
  ultimately show ?thesis by blast
qed

definition sample_hit :: "string \<Rightarrow> string \<Rightarrow> rat \<Rightarrow> RetrievalHit" where
  "sample_hit i rule score = \<lparr>rh_pattern_id = i, rh_cluster_id = i, rh_score = score, rh_rule = rule, rh_applicability = [],
     rh_evidence_count = 0, rh_updated_at = [], rh_knowledge_scope = [], rh_claim_fingerprint = [], rh_supersedes = [],
     rh_precondition = [], rh_failure_mode = []\<rparr>"

theorem merged_hits_unrelated_witness:
  "\<exists>h. merge_retrieval_hits plain_python [sample_hit ''a'' ''r'' 1] [sample_hit ''b'' ''r'' 1] default_retrieval_policy = [h]
     \<and> rh_pattern_id h = ''a'' \<and> (related plain_python)\<^sup>*\<^sup>* h (normalised_hit plain_python ''team'' (sample_hit ''b'' ''r'' 1))"
proof -
  let ?hits = "merge_retrieval_hits plain_python [sample_hit ''a'' ''r'' 1] [sample_hit ''b'' ''r'' 1] default_retrieval_policy"
  have "map rh_pattern_id ?hits = [''a'']" "nat (rp_max_results default_retrieval_policy) = 5" by code_simp+
  moreover from this(1) obtain h where "?hits = [h]" "rh_pattern_id h = ''a''" by (auto simp: map_eq_Cons_conv)
  moreover have "normalised_hit plain_python ''team'' (sample_hit ''b'' ''r'' 1)
      \<in> set (merge_candidates plain_python [sample_hit ''a'' ''r'' 1] [sample_hit ''b'' ''r'' 1])"
    by (simp add: merge_candidates_def)
  ultimately show ?thesis
    using merged_hits_unrelated [of plain_python "[sample_hit ''a'' ''r'' 1]" "[sample_hit ''b'' ''r'' 1]" default_retrieval_policy]
    by auto
qed

text \<open>
  A version with fewer components than the constraint is not filled up with zeros: version \<open>1.2\<close>
  does not satisfy \<open>>=1.2.0\<close>, while the constraint \<open>>=1.2\<close> is satisfied by \<open>1.2.0\<close>.
\<close>

theorem short_version_is_not_padded:
  "\<not> version_allowed plain_python (sample_query ''1.2'') [(''version_constraint'', PStr ''>=1.2.0'')]
   \<and> version_allowed plain_python (sample_query ''1.2.0'') [(''version_constraint'', PStr ''>=1.2'')]"
proof
  show "\<not> version_allowed plain_python (sample_query ''1.2'') [(''version_constraint'', PStr ''>=1.2.0'')]" by code_simp
  show "version_allowed plain_python (sample_query ''1.2.0'') [(''version_constraint'', PStr ''>=1.2'')]" by code_simp
qed

end
