(* ===== verification/Persistable_Fields.thy ===== *)
theory Persistable_Fields
  imports Privacy_Policy Host_Scope
begin

section \<open>What may cross the journal boundary\<close>

text \<open>
  \<^verbatim>\<open>src/src/ei/persistable_fields.py\<close>: the closed registries of payload fields and the walk that
  inspects every value of a payload before it is persisted. The walk collects issues; a payload is
  valid when there are none.

  Keys are texts and floats are finite here, so the two reasons for other keys and for non-finite
  floats do not arise, and every value can be encoded. \<open>nfkc\<close> and \<open>repr\<close> are the parameters of
  \<^verbatim>\<open>Privacy_Policy\<close> and \<^verbatim>\<open>Knowledge_Models\<close>.
\<close>

subsection \<open>Registries\<close>

text \<open>A field with its kind and the longest text it may hold.\<close>

type_synonym registry = "(string \<times> string \<times> nat option) list"

definition PATH_FIELD_NAMES :: "string list" where
  "PATH_FIELD_NAMES = [
     ''path'', ''file'', ''file_path'', ''target_path'', ''relative_path'', ''repository_path'',
     ''source_path'', ''cwd_path'', ''local_path'', ''client_path'', ''user_home'', ''source_ref'', ''cwd'',
     ''working_directory'', ''workspace'', ''workspace_path'']"

definition FORBIDDEN_KEYS :: "string list" where
  "FORBIDDEN_KEYS = [
     ''body'', ''candidate_text'', ''raw'', ''raw_input'', ''raw_response'', ''response'', ''transcript'',
     ''tool_output'', ''prompt'', ''query'', ''context'', ''secret'', ''token'', ''password'']"

definition PERSONAL_FIELD_NAMES :: "string list" where
  "PERSONAL_FIELD_NAMES = [
     ''author'', ''email'', ''username'', ''user'', ''user_id'', ''client'', ''client_id'', ''client_name'',
     ''customer'', ''customer_id'', ''customer_name'', ''owner'', ''identity'', ''approval_identity'',
     ''approved_by'']"

definition PERSISTABLE_PRIVACY_SAFETY_CODES :: "string list" where
  "PERSISTABLE_PRIVACY_SAFETY_CODES = [
     ''SECRET_PATTERN_MATCH'', ''ABSOLUTE_PATH_FORBIDDEN'', ''UNICODE_CONTROL_FORBIDDEN'',
     ''IDENTIFIER_HASH_REQUIRED'', ''PERSONAL_OR_CLIENT_IDENTIFIER_FORBIDDEN'', ''MACHINE_LOCAL_SOURCE'',
     ''MACHINE_LOCAL_PATH'', ''PAYLOAD_TOO_LARGE'', ''CHANGESET_TOO_LARGE'', ''RAW_CONTENT_FORBIDDEN'',
     ''PRIVACY_REJECTED'', ''CLIENT_CONFIDENTIAL_REMOTE_FORBIDDEN'', ''PATH_TRAVERSAL'',
     ''CLASSIFICATION_NOT_SYNCABLE'', ''HOST_APPLICABILITY_INVALID'', ''PERSISTED_PAYLOAD_TOO_LARGE'',
     ''JSON_VALUE_INVALID'', ''QUEUE_PAYLOAD_INVALID'', ''QUEUE_SOURCE_HOST_PAIR_REQUIRED'',
     ''SPOOL_READ_FAILED'', ''SPOOL_NOT_FOUND'', ''SPOOL_DECRYPT_FAILED'']"

definition PERSISTABLE_PRIVACY_SAFETY_PREFIXES :: "string list" where
  "PERSISTABLE_PRIVACY_SAFETY_PREFIXES = [
     ''PRIVACY_'', ''RAW_'', ''SECRET_'', ''ABSOLUTE_PATH_'', ''UNICODE_CONTROL_'', ''IDENTIFIER_'',
     ''PERSONAL_OR_CLIENT_'', ''MACHINE_LOCAL_'', ''PAYLOAD_TOO_LARGE'', ''CLIENT_CONFIDENTIAL_'',
     ''PATH_TRAVERSAL'', ''HOST_APPLICABILITY_'', ''HOST_LIST_'', ''QUEUE_SOURCE_HOST_'', ''SPOOL_'']"

definition CHANGESET_PAYLOAD_FIELDS :: registry where
  "CHANGESET_PAYLOAD_FIELDS = [
     (''actor'', ''string'', Some 160), (''provider_id'', ''string'', Some 160),
     (''classification'', ''classification'', Some 32), (''source_hash'', ''hash'', Some 71),
     (''source_ref_hash'', ''hash'', Some 71), (''source_hashes'', ''hash_list'', None),
     (''evidence_refs'', ''hash_list'', None), (''provenances'', ''string_list'', Some 240),
     (''record_fingerprint'', ''hash'', Some 71), (''session_id_hash'', ''optional_hash'', Some 71),
     (''turn_id_hash'', ''optional_hash'', Some 71), (''provenance_key'', ''string'', Some 240),
     (''title'', ''string'', Some 160), (''claim'', ''string'', Some 1200), (''rule'', ''string'', Some 12000),
     (''precondition'', ''string'', Some 500), (''failure_mode'', ''string'', Some 500),
     (''exception'', ''string'', Some 500), (''version_constraint'', ''nullable_string'', Some 160),
     (''domain'', ''string'', Some 160), (''scopes'', ''string_list'', Some 240),
     (''applicability'', ''string_list'', Some 240), (''benefit'', ''string'', Some 240),
     (''benefit_count'', ''nonnegative_integer'', None), (''source_kind'', ''string'', Some 80),
     (''source_ref'', ''string'', Some 240), (''outcome_status'', ''string'', Some 80),
     (''reason_code'', ''reason'', Some 80), (''pattern_id'', ''identifier'', Some 160),
     (''cluster_id'', ''identifier'', Some 160), (''proposal_only'', ''boolean'', None),
     (''contradiction_count'', ''nonnegative_integer'', None), (''revision'', ''nonnegative_integer'', None),
     (''approved_by'', ''approval_identity'', Some 71), (''approval_identity_hash'', ''hash'', Some 71),
     (''cwd_fingerprint'', ''optional_hash'', Some 71), (''user_id_hash'', ''optional_hash'', Some 71),
     (''machine_id_hash'', ''optional_hash'', Some 71), (''host_id_hash'', ''optional_hash'', Some 71),
     (''reference_hash'', ''hash'', Some 71), (''match_kind'', ''match_kind'', Some 16),
     (''source_host_id'', ''optional_safe_label'', Some 160),
     (''source_host_family'', ''optional_safe_label'', Some 160),
     (''applicability_scope'', ''applicability_scope'', Some 16),
     (''applicable_host_ids'', ''host_label_list'', None),
     (''applicable_host_families'', ''host_label_list'', None)]"

definition EVENT_PAYLOAD_FIELDS :: registry where
  "EVENT_PAYLOAD_FIELDS = [
     (''actor'', ''string'', Some 160), (''provider_id'', ''string'', Some 160),
     (''classification'', ''string'', Some 32), (''knowledge_scope'', ''safe_label'', Some 32),
     (''origin_event_hash'', ''optional_hash'', Some 71), (''source_hash'', ''optional_hash'', Some 71),
     (''source_ref_hash'', ''optional_hash'', Some 71), (''source_hashes'', ''hash_list'', Some 71),
     (''record_fingerprint'', ''optional_hash'', Some 71), (''cwd_fingerprint'', ''optional_hash'', Some 71),
     (''session_id_hash'', ''optional_hash'', Some 71), (''turn_id_hash'', ''optional_hash'', Some 71),
     (''user_id_hash'', ''optional_hash'', Some 71), (''machine_id_hash'', ''optional_hash'', Some 71),
     (''host_id_hash'', ''optional_hash'', Some 71), (''reference_hash'', ''optional_hash'', Some 71),
     (''approval_identity_hash'', ''optional_hash'', Some 71),
     (''observation_fingerprint'', ''optional_hash'', Some 71),
     (''legacy_source_event_id_hash'', ''optional_hash'', Some 71),
     (''target_id_hash'', ''optional_hash'', Some 71), (''idempotency_key'', ''optional_hash'', Some 71),
     (''evidence_refs'', ''string_list'', Some 240), (''provenances'', ''string_list'', Some 240),
     (''event_ids'', ''string_list'', Some 160), (''provenance_key'', ''string'', Some 240),
     (''title'', ''string'', Some 160), (''claim'', ''string'', Some 1200), (''rule'', ''string'', Some 12000),
     (''precondition'', ''string'', Some 500), (''failure_mode'', ''string'', Some 500),
     (''exception'', ''string'', Some 500), (''version_constraint'', ''nullable_string'', Some 160),
     (''domain'', ''string'', Some 160), (''scopes'', ''string_list'', Some 240),
     (''scope'', ''string_list'', Some 240), (''preconditions'', ''string_list'', Some 500),
     (''failure_modes'', ''string_list'', Some 500), (''applicability'', ''string_list'', Some 240),
     (''benefit'', ''string'', Some 240), (''source_kind'', ''string'', Some 80),
     (''outcome_status'', ''string'', Some 80), (''reason'', ''string'', Some 160),
     (''reason_code'', ''reason'', Some 80), (''pattern_id'', ''string'', Some 160),
     (''cluster_id'', ''string'', Some 160), (''candidate_id'', ''string'', Some 160),
     (''candidate_id_hash'', ''optional_hash'', Some 71), (''changeset_id'', ''string'', Some 160),
     (''observation_id'', ''string'', Some 160), (''reference_id'', ''string'', Some 160),
     (''change_operation'', ''string'', Some 80), (''changeset_hash'', ''string'', Some 160),
     (''policy_version'', ''string'', Some 160), (''status'', ''string'', Some 80),
     (''decision'', ''string'', Some 16), (''parser_status'', ''string'', Some 80),
     (''capture_path'', ''string'', Some 80), (''capture_idempotency_key'', ''string'', Some 160),
     (''host_id'', ''string'', Some 160), (''audit_action'', ''string'', Some 160),
     (''last_used_at'', ''nullable_string'', Some 80), (''benefit_count'', ''nonnegative_integer'', None),
     (''evidence_count'', ''nonnegative_integer'', None), (''revision'', ''nonnegative_integer'', None),
     (''contradiction_count'', ''nonnegative_integer'', None),
     (''operation_count'', ''nonnegative_integer'', None), (''capture_index'', ''nonnegative_integer'', None),
     (''exposure_count'', ''nonnegative_integer'', None), (''old_version'', ''string_or_integer'', Some 160),
     (''new_version'', ''string_or_integer'', Some 160), (''migration'', ''boolean'', None),
     (''status_is_not_evidence'', ''boolean'', None), (''source_host_id'', ''optional_safe_label'', Some 160),
     (''source_host_family'', ''optional_safe_label'', Some 160),
     (''applicability_scope'', ''applicability_scope'', Some 16),
     (''applicable_host_ids'', ''host_label_list'', None),
     (''applicable_host_families'', ''host_label_list'', None)]"

text \<open>\<open>str.upper\<close> of the codes, which are ASCII.\<close>

definition is_privacy_or_safety_violation :: "pyval \<Rightarrow> bool" where
  "is_privacy_or_safety_violation reason_code = (case reason_code of
       PStr s \<Rightarrow> (let code = map ascii_upper (strip s) in
         code \<noteq> [] \<and> (code \<in> set PERSISTABLE_PRIVACY_SAFETY_CODES
           \<or> list_ex (\<lambda>p. starts_with p code) PERSISTABLE_PRIVACY_SAFETY_PREFIXES))
     | _ \<Rightarrow> False)"

subsection \<open>Inspections\<close>

record PersistableIssue =
  pi_pointer :: string
  pi_reason_code :: string

record PersistableInspection =
  in_valid :: bool
  in_inspected_paths :: "string list"
  in_normalized_values :: "(string \<times> string) list"
  in_issues :: "PersistableIssue list"

definition pointer_to :: "string \<Rightarrow> string \<Rightarrow> string" where
  "pointer_to parent part = parent @ ''/'' @ concat (map (\<lambda>c.
     if c = CHR ''~'' then ''~0'' else if c = CHR ''/'' then ''~1'' else [c]) part)"

definition drive_prefix :: "string \<Rightarrow> bool" where
  "drive_prefix s = (case s of a # b # c # _ \<Rightarrow> ascii_alpha a \<and> b = CHR '':'' \<and> c \<in> set [CHR ''/'', CHR 0x5C] | _ \<Rightarrow> False)"

definition is_path_like :: "string \<Rightarrow> bool" where
  "is_path_like value = (let normalized = map (\<lambda>c. if c = CHR 0x5C then CHR ''/'' else c) value in
     starts_with ''/'' normalized \<or> drive_prefix normalized \<or> starts_with ''~/'' normalized
     \<or> normalized \<in> {''.'', ''..''} \<or> ''..'' \<in> set (split_on (CHR ''/'') normalized))"

text \<open>The character before a path must not belong to a word (the lookbehind of the two patterns).\<close>

definition path_word :: "char \<Rightarrow> bool" where
  "path_word c \<longleftrightarrow> ascii_alpha c \<or> ascii_digit c \<or> c = CHR ''_''"

fun somewhere :: "(string \<Rightarrow> bool) \<Rightarrow> bool \<Rightarrow> string \<Rightarrow> bool" where
  "somewhere p after_word [] = (\<not> after_word \<and> p [])"
| "somewhere p after_word (c # cs) = (\<not> after_word \<and> p (c # cs) \<or> somewhere p (path_word c) cs)"

definition windows_absolute_path :: "string \<Rightarrow> bool" where
  "windows_absolute_path s = somewhere drive_prefix False s"

definition personal_prefix :: "string \<Rightarrow> bool" where
  "personal_prefix s = list_ex (\<lambda>d. starts_with d (map ascii_lower s)
       \<and> (case drop (length d) s of [] \<Rightarrow> True | c # cs \<Rightarrow> c = CHR ''/'' \<or> c = CHR 0x0A \<and> cs = []))
     [''/users'', ''/home'', ''/private/var'', ''/tmp'']"

definition unix_personal_path :: "string \<Rightarrow> bool" where
  "unix_personal_path s = somewhere personal_prefix False s"

text \<open>The text is refused with a reason, or accepted in its normal form.\<close>

definition validate_string ::
  "(string \<Rightarrow> string) \<Rightarrow> string \<Rightarrow> string \<Rightarrow> string \<Rightarrow> string \<Rightarrow> nat option \<Rightarrow> bool \<Rightarrow> string + string" where
  "validate_string nfkc classification pointer field value limit require_hash =
     (let normalized = nfkc value;
          decision = inspect_persisted_text nfkc normalized classification pointer
      in if (case limit of None \<Rightarrow> False | Some n \<Rightarrow> length normalized > n) then Inl ''FIELD_LENGTH_EXCEEDED''
         else if list_ex control_char normalized then Inl ''UNICODE_CONTROL_FORBIDDEN''
         else if field \<in> set PATH_FIELD_NAMES \<and> is_path_like normalized then Inl ''ABSOLUTE_PATH_FORBIDDEN''
         else if windows_absolute_path normalized \<or> unix_personal_path normalized then Inl ''ABSOLUTE_PATH_FORBIDDEN''
         else if require_hash \<and> normalized \<noteq> [] \<and> \<not> hash_re normalized then Inl ''IDENTIFIER_HASH_REQUIRED''
         else if \<not> pd_allow_private_sync decision \<and> pd_reason_code decision \<noteq> ''CLASSIFIED'' then Inl (pd_reason_code decision)
         else if (contains ''email'' field \<or> field \<in> set PERSONAL_FIELD_NAMES) \<and> \<not> hash_re normalized
           then Inl ''PERSONAL_OR_CLIENT_IDENTIFIER_FORBIDDEN''
         else Inr normalized)"

definition safe_reason :: "string \<Rightarrow> bool" where
  "safe_reason s \<longleftrightarrow> SAFE_HOST_LABEL_RE s \<and> length s \<le> 80"

text \<open>What the kind of a field demands of a text before it is inspected.\<close>

definition kind_refusal :: "string \<Rightarrow> string \<Rightarrow> string \<Rightarrow> string option" where
  "kind_refusal kind field value =
     (if kind = ''identifier'' then (if SAFE_HOST_LABEL_RE value then None else Some ''IDENTIFIER_INVALID'')
      else if kind = ''reason'' then (if safe_reason value then None else Some ''REASON_CODE_INVALID'')
      else if kind = ''classification''
        then (if value \<in> {''public'', ''private-reusable''} then None else Some ''CLASSIFICATION_NOT_SYNCABLE'')
      else if kind = ''approval_identity'' then (if hash_re value then None else Some ''IDENTIFIER_HASH_REQUIRED'')
      else if kind = ''match_kind'' then (if value \<in> {''exact'', ''similar''} then None else Some ''MATCH_KIND_INVALID'')
      else if kind = ''optional_safe_label''
        then (case validate_host_label (PStr value) field True of Inr _ \<Rightarrow> None | Inl _ \<Rightarrow> Some ''IDENTIFIER_INVALID'')
      else if kind = ''safe_label''
        then (case validate_host_label (PStr value) field False of Inr _ \<Rightarrow> None | Inl _ \<Rightarrow> Some ''IDENTIFIER_INVALID'')
      else if kind = ''applicability_scope''
        then (if scope_of value \<noteq> None then None else Some ''APPLICABILITY_SCOPE_INVALID'')
      else None)"

subsection \<open>The walk\<close>

text \<open>Issues, inspected pointers and normal forms, in the order they are found.\<close>

type_synonym walked = "PersistableIssue list \<times> string list \<times> (string \<times> string) list"

definition joined :: "walked \<Rightarrow> walked \<Rightarrow> walked" where
  "joined a b = (fst a @ fst b, fst (snd a) @ fst (snd b), snd (snd a) @ snd (snd b))"

definition issue_at :: "string \<Rightarrow> string \<Rightarrow> PersistableIssue" where
  "issue_at pointer reason = \<lparr>pi_pointer = or_text pointer ''/'', pi_reason_code = reason\<rparr>"

definition raised :: "string \<Rightarrow> string \<Rightarrow> bool \<Rightarrow> walked" where
  "raised pointer reason wrong = (if wrong then [issue_at pointer reason] else [], [], [])"

definition walk_string ::
  "(string \<Rightarrow> string) \<Rightarrow> string \<Rightarrow> string \<Rightarrow> string \<Rightarrow> (string \<times> nat option) option \<Rightarrow> string \<Rightarrow> walked" where
  "walk_string nfkc classification pointer field expected value =
     (let (kind, limit) = (case expected of Some e \<Rightarrow> e | None \<Rightarrow> (''string'', None));
          outcome = (case kind_refusal kind field value of
            Some reason \<Rightarrow> Inl reason
          | None \<Rightarrow> validate_string nfkc classification pointer field value limit (kind \<in> {''hash'', ''optional_hash''}))
      in case outcome of
           Inl reason \<Rightarrow> ([issue_at pointer reason], [or_text pointer ''/''], [])
         | Inr normalized \<Rightarrow> ([], [or_text pointer ''/''], [(pointer, normalized)]))"

definition host_list_issues :: "string \<Rightarrow> pyval list \<Rightarrow> walked" where
  "host_list_issues pointer xs = joined (raised pointer ''HOST_LIST_TOO_LARGE'' (length xs > 16))
     (raised pointer ''HOST_LIST_INVALID'' (\<not> list_all is_str xs \<or> \<not> distinct (map the_str (filter is_str xs))))"

definition LIST_KINDS :: "string list" where
  "LIST_KINDS = [''hash_list'', ''string_list'', ''host_label_list'']"

definition child_expected :: "(string \<times> nat option) option \<Rightarrow> (string \<times> nat option) option" where
  "child_expected expected = map_option (\<lambda>(kind, limit).
     if kind = ''hash_list'' then (''hash'', limit)
     else if kind = ''host_label_list'' then (''safe_label'', Some 160)
     else (''string'', limit)) expected"

definition kind_is :: "(string \<times> nat option) option \<Rightarrow> string list \<Rightarrow> bool" where
  "kind_is expected kinds = (case expected of None \<Rightarrow> True | Some (kind, _) \<Rightarrow> kind \<in> set kinds)"

fun walk ::
  "(string \<Rightarrow> string) \<Rightarrow> string \<Rightarrow> registry option \<Rightarrow> string \<Rightarrow> string \<Rightarrow> (string \<times> nat option) option \<Rightarrow> pyval \<Rightarrow> walked"
and walk_items ::
  "(string \<Rightarrow> string) \<Rightarrow> string \<Rightarrow> string \<Rightarrow> string \<Rightarrow> (string \<times> nat option) option \<Rightarrow> nat \<Rightarrow> pyval list \<Rightarrow> walked"
and walk_fields ::
  "(string \<Rightarrow> string) \<Rightarrow> string \<Rightarrow> registry option \<Rightarrow> string \<Rightarrow> pydict \<Rightarrow> walked" where
  "walk nfkc cl reg pointer field expected (PStr s) = walk_string nfkc cl pointer field expected s"
| "walk nfkc cl reg pointer field expected PNone =
     raised pointer ''NULL_NOT_ALLOWED'' (\<not> kind_is expected [''nullable_string''])"
| "walk nfkc cl reg pointer field expected (PBool b) = raised pointer ''TYPE_INVALID'' (\<not> kind_is expected [''boolean''])"
| "walk nfkc cl reg pointer field expected (PInt i) = raised pointer ''TYPE_INVALID'' (expected \<noteq> None
     \<and> (\<not> kind_is expected [''nonnegative_integer'', ''string_or_integer''] \<or> i < 0))"
| "walk nfkc cl reg pointer field expected (PFloat q) = raised pointer ''TYPE_INVALID'' (expected \<noteq> None)"
| "walk nfkc cl reg pointer field expected (PDict d) =
     (if expected \<noteq> None then raised pointer ''NESTED_OBJECT_FORBIDDEN'' True
      else walk_fields nfkc cl reg pointer d)"
| "walk nfkc cl reg pointer field expected (PList xs) =
     (if \<not> kind_is expected LIST_KINDS then raised pointer ''TYPE_INVALID'' True
      else joined (if expected \<noteq> None \<and> kind_is expected [''host_label_list''] then host_list_issues pointer xs else ([], [], []))
             (walk_items nfkc cl pointer field (child_expected expected) 0 xs))"
| "walk nfkc cl reg pointer field expected (PTuple xs) =
     (if \<not> kind_is expected LIST_KINDS then raised pointer ''TYPE_INVALID'' True
      else joined (if expected \<noteq> None \<and> kind_is expected [''host_label_list''] then host_list_issues pointer xs else ([], [], []))
             (walk_items nfkc cl pointer field (child_expected expected) 0 xs))"
| "walk_items nfkc cl pointer field expected n [] = ([], [], [])"
| "walk_items nfkc cl pointer field expected n (x # xs) =
     joined (walk nfkc cl None (pointer_to pointer (decimal_text (int n))) field expected x)
            (walk_items nfkc cl pointer field expected (Suc n) xs)"
| "walk_fields nfkc cl reg pointer [] = ([], [], [])"
| "walk_fields nfkc cl reg pointer ((key, nested) # rest) =
     joined (let child = pointer_to pointer key in
       joined (raised child ''RAW_CONTENT_FORBIDDEN'' (casefold key \<in> set FORBIDDEN_KEYS))
         (case reg of
            None \<Rightarrow> walk nfkc cl None child (casefold key) None nested
          | Some known \<Rightarrow> (case map_of known key of
                None \<Rightarrow> raised child ''UNKNOWN_FIELD'' True
              | Some e \<Rightarrow> walk nfkc cl None child (casefold key) (Some e) nested)))
       (walk_fields nfkc cl reg pointer rest)"

text \<open>\<open>json.dumps\<close> here does not sort the keys; the length does not depend on their order.\<close>

definition inspect_persistable ::
  "(string \<Rightarrow> string) \<Rightarrow> (rat \<Rightarrow> string) \<Rightarrow> pyval \<Rightarrow> string \<Rightarrow> registry option \<Rightarrow> nat \<Rightarrow> PersistableInspection" where
  "inspect_persistable nfkc repr value classification reg max_bytes =
     (let large = raised ''/'' ''PERSISTED_PAYLOAD_TOO_LARGE'' (utf8_length (canonical_json repr value) > max_bytes);
          found = walk nfkc classification reg [] [] None value;
          host = (case value of
              PDict d \<Rightarrow> raised ''/applicability_scope'' ''HOST_APPLICABILITY_INVALID''
                (list_ex (has_key d) HOST_APPLICABILITY_FIELDS \<and> isl (validate_host_applicability_mapping value False True))
            | _ \<Rightarrow> ([], [], []));
          issues = unique (fst large @ fst found @ fst host)
      in \<lparr>in_valid = (issues = []), in_inspected_paths = unique (fst (snd found)),
          in_normalized_values = (if issues = [] then sort (dict_of (snd (snd found))) else []), in_issues = issues\<rparr>)"

definition inspect_changeset_payload ::
  "(string \<Rightarrow> string) \<Rightarrow> (rat \<Rightarrow> string) \<Rightarrow> pyval \<Rightarrow> string \<Rightarrow> PersistableInspection" where
  "inspect_changeset_payload nfkc repr payload classification = (case payload of
       PDict _ \<Rightarrow> inspect_persistable nfkc repr payload classification (Some CHANGESET_PAYLOAD_FIELDS) (512 * 1024)
     | _ \<Rightarrow> \<lparr>in_valid = False, in_inspected_paths = [], in_normalized_values = [],
          in_issues = [\<lparr>pi_pointer = ''/payload'', pi_reason_code = ''PAYLOAD_OBJECT_REQUIRED''\<rparr>]\<rparr>)"

definition inspect_event_payload ::
  "(string \<Rightarrow> string) \<Rightarrow> (rat \<Rightarrow> string) \<Rightarrow> pyval \<Rightarrow> string \<Rightarrow> PersistableInspection" where
  "inspect_event_payload nfkc repr payload classification =
     inspect_persistable nfkc repr payload classification (Some EVENT_PAYLOAD_FIELDS) (1024 * 1024)"

subsection \<open>What an inspection without issues means\<close>

definition clean_text :: "(string \<Rightarrow> string) \<Rightarrow> string \<Rightarrow> bool" where
  "clean_text nfkc s \<longleftrightarrow> \<not> list_ex control_char (nfkc s) \<and> \<not> windows_absolute_path (nfkc s)
   \<and> \<not> unix_personal_path (nfkc s) \<and> secret_free nfkc s"

definition text_ok :: "(string \<Rightarrow> string) \<Rightarrow> string \<times> nat option \<Rightarrow> string \<Rightarrow> bool" where
  "text_ok nfkc e s \<longleftrightarrow> clean_text nfkc s \<and> (case snd e of None \<Rightarrow> True | Some n \<Rightarrow> length (nfkc s) \<le> n)
   \<and> (fst e \<in> {''hash'', ''optional_hash''} \<longrightarrow> nfkc s = [] \<or> hash_re (nfkc s))"

text \<open>The shape of a persisted field: a text, a null, a flag, a count, or a list of texts; never a nested object.\<close>

definition field_ok :: "(string \<Rightarrow> string) \<Rightarrow> string \<times> nat option \<Rightarrow> pyval \<Rightarrow> bool" where
  "field_ok nfkc e v = (case v of
       PStr s \<Rightarrow> text_ok nfkc e s
     | PNone \<Rightarrow> fst e = ''nullable_string''
     | PBool _ \<Rightarrow> fst e = ''boolean''
     | PInt i \<Rightarrow> 0 \<le> i \<and> fst e \<in> {''nonnegative_integer'', ''string_or_integer''}
     | PFloat _ \<Rightarrow> False
     | PDict _ \<Rightarrow> False
     | PList xs \<Rightarrow> fst e \<in> set LIST_KINDS \<and> (\<forall>x \<in> set xs. \<exists>s. x = PStr s \<and> clean_text nfkc s)
     | PTuple xs \<Rightarrow> fst e \<in> set LIST_KINDS \<and> (\<forall>x \<in> set xs. \<exists>s. x = PStr s \<and> clean_text nfkc s))"

lemma fst_joined [simp]: "fst (joined a b) = fst a @ fst b"
  by (simp add: joined_def)

lemma raised_Nil [simp]: "fst (raised pointer reason wrong) = [] \<longleftrightarrow> \<not> wrong"
  by (simp add: raised_def)

lemma persisted_text_ok:
  assumes idem: "\<And>s. nfkc (nfkc s) = nfkc s"
    and "pd_allow_private_sync (inspect_persisted_text nfkc (nfkc s) cl pointer)
       \<or> pd_reason_code (inspect_persisted_text nfkc (nfkc s) cl pointer) = ''CLASSIFIED''"
  shows "\<not> list_ex control_char (nfkc s) \<and> secret_free nfkc s"
  using assms inspect_text_sync [of nfkc "nfkc s" cl pointer] inspect_text_classified [of nfkc "nfkc s" cl pointer]
  by (auto simp: inspect_persisted_text_def Let_def decision_defs secret_free_def split: if_splits)

lemma validate_string_ok:
  assumes idem: "\<And>s. nfkc (nfkc s) = nfkc s"
    and ok: "validate_string nfkc cl pointer field s limit req = Inr n"
  shows "clean_text nfkc s \<and> (case limit of None \<Rightarrow> True | Some m \<Rightarrow> length (nfkc s) \<le> m)
    \<and> (req \<longrightarrow> nfkc s = [] \<or> hash_re (nfkc s))"
proof -
  have "pd_allow_private_sync (inspect_persisted_text nfkc (nfkc s) cl pointer)
       \<or> pd_reason_code (inspect_persisted_text nfkc (nfkc s) cl pointer) = ''CLASSIFIED''"
    using ok by (auto simp: validate_string_def Let_def split: if_splits)
  from persisted_text_ok [OF idem this] show ?thesis
    using ok by (auto simp: validate_string_def Let_def clean_text_def not_less split: if_splits option.splits)
qed

lemma walk_string_ok:
  assumes idem: "\<And>s. nfkc (nfkc s) = nfkc s" and "fst (walk_string nfkc cl pointer field (Some e) s) = []"
  shows "text_ok nfkc e s"
proof -
  obtain kind limit where e: "e = (kind, limit)" by (cases e)
  obtain n where "validate_string nfkc cl pointer field s limit (kind \<in> {''hash'', ''optional_hash''}) = Inr n"
    using assms(2) by (auto simp: walk_string_def Let_def e split: option.splits sum.splits)
  from validate_string_ok [OF idem this] show ?thesis by (simp add: text_ok_def e)
qed

lemma walk_items_texts:
  assumes idem: "\<And>s. nfkc (nfkc s) = nfkc s" and "fst (walk_items nfkc cl pointer field (Some e) n xs) = []"
    and kind: "fst e \<in> {''hash'', ''safe_label'', ''string''}"
  shows "\<forall>x \<in> set xs. \<exists>s. x = PStr s \<and> clean_text nfkc s"
  using assms(2)
proof (induction xs arbitrary: n)
  case (Cons x xs)
  then have x: "fst (walk nfkc cl None (pointer_to pointer (decimal_text (int n))) field (Some e) x) = []"
    and xs: "\<forall>x \<in> set xs. \<exists>s. x = PStr s \<and> clean_text nfkc s" by auto
  have "\<exists>s. x = PStr s \<and> clean_text nfkc s"
    using x kind by (cases x) (auto simp: kind_is_def LIST_KINDS_def text_ok_def dest!: walk_string_ok [OF idem] split: prod.splits)
  with xs show ?case by simp
qed simp

lemma child_kind: "\<exists>e'. child_expected (Some e) = Some e' \<and> fst e' \<in> {''hash'', ''safe_label'', ''string''}"
  by (cases e) (simp add: child_expected_def)

lemma walk_field_ok:
  assumes idem: "\<And>s. nfkc (nfkc s) = nfkc s" and "fst (walk nfkc cl reg pointer field (Some e) v) = []"
  shows "field_ok nfkc e v"
proof -
  obtain kind limit where e: "e = (kind, limit)" by (cases e)
  obtain e' where e': "child_expected (Some e) = Some e'" "fst e' \<in> {''hash'', ''safe_label'', ''string''}"
    using child_kind by blast
  show ?thesis
    using assms(2) walk_items_texts [OF idem _ e'(2)]
    by (cases v) (auto simp: field_ok_def kind_is_def e e'(1) [unfolded e] split: if_splits dest: walk_string_ok [OF idem])
qed

lemma walk_fields_ok:
  assumes idem: "\<And>s. nfkc (nfkc s) = nfkc s" and "fst (walk_fields nfkc cl (Some known) pointer d) = []"
  shows "\<forall>(k, v) \<in> set d. casefold k \<notin> set FORBIDDEN_KEYS \<and> (\<exists>e. map_of known k = Some e \<and> field_ok nfkc e v)"
  using assms(2)
proof (induction d)
  case (Cons entry d)
  obtain k v where entry: "entry = (k, v)" by (cases entry)
  obtain e where e: "map_of known k = Some e" and v: "fst (walk nfkc cl None (pointer_to pointer k) (casefold k) (Some e) v) = []"
    using Cons.prems by (auto simp: entry Let_def split: option.splits)
  have "field_ok nfkc e v" using walk_field_ok [OF idem v] .
  with Cons e show ?case by (cases e) (auto simp: entry Let_def)
qed simp

lemma valid_iff:
  "in_valid (inspect_persistable nfkc repr (PDict d) cl reg n) \<longleftrightarrow>
     utf8_length (canonical_json repr (PDict d)) \<le> n \<and> fst (walk_fields nfkc cl reg [] d) = []
   \<and> \<not> (list_ex (has_key d) HOST_APPLICABILITY_FIELDS \<and> isl (validate_host_applicability_mapping (PDict d) False True))"
  by (auto simp: inspect_persistable_def Let_def simp del: canonical_json.simps validate_host_applicability_mapping.simps)

lemma valid_payload_closed:
  assumes "\<forall>s. nfkc (nfkc s) = nfkc s"
    and "in_valid (inspect_event_payload nfkc repr (PDict payload) classification)"
  shows "(\<forall>(k, v) \<in> set payload. casefold k \<notin> set FORBIDDEN_KEYS
      \<and> (\<exists>e. map_of EVENT_PAYLOAD_FIELDS k = Some e \<and> field_ok nfkc e v))
    \<and> (list_ex (has_key payload) HOST_APPLICABILITY_FIELDS \<longrightarrow>
        (\<exists>a. validate_host_applicability_mapping (PDict payload) False True = Inr a))
    \<and> utf8_length (canonical_json repr (PDict payload)) \<le> 1024 * 1024"
proof -
  have none: "fst (walk_fields nfkc classification (Some EVENT_PAYLOAD_FIELDS) [] payload) = []"
    "\<not> (list_ex (has_key payload) HOST_APPLICABILITY_FIELDS \<and> isl (validate_host_applicability_mapping (PDict payload) False True))"
    "\<not> utf8_length (canonical_json repr (PDict payload)) > 1024 * 1024"
    using assms(2) unfolding inspect_event_payload_def valid_iff by simp_all
  from walk_fields_ok [of nfkc classification EVENT_PAYLOAD_FIELDS "[]" payload] assms(1) none(1)
  have "\<forall>(k, v) \<in> set payload. casefold k \<notin> set FORBIDDEN_KEYS
      \<and> (\<exists>e. map_of EVENT_PAYLOAD_FIELDS k = Some e \<and> field_ok nfkc e v)" by simp
  moreover have "list_ex (has_key payload) HOST_APPLICABILITY_FIELDS \<longrightarrow>
        (\<exists>a. validate_host_applicability_mapping (PDict payload) False True = Inr a)"
    using none(2) by (auto simp: isl_def) (metis sum.exhaust_sel)
  ultimately show ?thesis using none(3) by simp
qed


lemma validate_string_plain:
  assumes "\<not> list_ex (\<lambda>c. c = CHR ''['' \<or> telling c \<or> control_char c) s" "case limit of None \<Rightarrow> True | Some n \<Rightarrow> length s \<le> n"
    and "length s \<le> 2000000" "forbidden_path_reason (\<lambda>s. s) pointer = None" "classify_source cl \<in> {PUBLIC, PRIVATE_REUSABLE}"
    and "\<not> windows_absolute_path s" "\<not> unix_personal_path s" "field \<notin> set PATH_FIELD_NAMES"
    and "\<not> contains ''email'' field" "field \<notin> set PERSONAL_FIELD_NAMES"
  shows "validate_string (\<lambda>s. s) cl pointer field s limit False = Inr s"
proof -
  have "pd_reason_code (inspect_text (\<lambda>s. s) s cl pointer) = ''CLASSIFIED''"
    using assms by (intro inspect_text_plain) (auto simp: list_ex_iff)
  then have "pd_reason_code (inspect_persisted_text (\<lambda>s. s) s cl pointer) = ''CLASSIFIED''"
    using assms(1) by (simp add: inspect_persisted_text_def Let_def list_ex_iff)
  then show ?thesis using assms by (simp add: validate_string_def Let_def list_ex_iff split: option.splits)
qed

definition sample_payload :: pydict where
  "sample_payload = [(''title'', PStr ''fact''), (''benefit_count'', PInt 1)]"

lemma sample_payload_valid:
  assumes cl: "classify_source cl \<in> {PUBLIC, PRIVATE_REUSABLE}"
  shows "in_valid (inspect_event_payload (\<lambda>s. s) (\<lambda>_. []) (PDict sample_payload) cl)"
proof -
  have "\<not> list_ex (\<lambda>c. c = CHR ''['' \<or> telling c \<or> control_char c) ''fact''"
    "forbidden_path_reason (\<lambda>s. s) ''/title'' = None"
    "\<not> windows_absolute_path ''fact''" "\<not> unix_personal_path ''fact''" "''title'' \<notin> set PATH_FIELD_NAMES"
    "\<not> contains ''email'' ''title''" "''title'' \<notin> set PERSONAL_FIELD_NAMES" by code_simp+
  then have accepted: "validate_string (\<lambda>s. s) cl ''/title'' ''title'' ''fact'' (Some 160) False = Inr ''fact''"
    by (intro validate_string_plain) (use cl in simp_all)
  have kind: "kind_refusal ''string'' ''title'' ''fact'' = None" "(''string'' \<in> {''hash'', ''optional_hash''}) = False"
    by code_simp+
  have title: "fst (walk (\<lambda>s. s) cl None ''/title'' ''title'' (Some (''string'', Some 160)) (PStr ''fact'')) = []"
    unfolding walk.simps walk_string_def Let_def option.case prod.case kind accepted by simp
  have count: "fst (walk (\<lambda>s. s) cl None ''/benefit_count'' ''benefit_count'' (Some (''nonnegative_integer'', None)) (PInt 1)) = []"
    by (simp add: kind_is_def)
  have keys: "pointer_to [] ''title'' = ''/title''" "pointer_to [] ''benefit_count'' = ''/benefit_count''"
    "casefold ''title'' = ''title''" "casefold ''benefit_count'' = ''benefit_count''"
    "''title'' \<notin> set FORBIDDEN_KEYS" "''benefit_count'' \<notin> set FORBIDDEN_KEYS" by code_simp+
  have known: "map_of EVENT_PAYLOAD_FIELDS ''title'' = Some (''string'', Some 160)"
    "map_of EVENT_PAYLOAD_FIELDS ''benefit_count'' = Some (''nonnegative_integer'', None)"
    by (simp_all add: EVENT_PAYLOAD_FIELDS_def)
  have "fst (walk_fields (\<lambda>s. s) cl (Some EVENT_PAYLOAD_FIELDS) [] sample_payload) = []"
    unfolding sample_payload_def walk_fields.simps Let_def keys known option.case fst_joined title count by (simp add: keys)
  moreover have "utf8_length (canonical_json (\<lambda>_. []) (PDict sample_payload)) \<le> 64"
    "\<not> list_ex (has_key sample_payload) HOST_APPLICABILITY_FIELDS" by code_simp+
  ultimately show ?thesis unfolding inspect_event_payload_def valid_iff by simp
qed


end
