(* ===== verification/Event_Journal.thy ===== *)
theory Event_Journal
  imports Persistable_Fields Capture_Ledger
begin

section \<open>The append-only journal\<close>

text \<open>
  \<^verbatim>\<open>src/src/ei/journal.py\<close>: events are validated, sealed with their digest and written once, one
  file per event; every read validates the file again. The journal is the dictionary of its files.
  A file holds the JSON value that was written (objects come back with sorted keys, tuples as lists)
  or something that is no JSON.

  What the model takes from outside is one record: the digest, \<open>repr\<close> of a float, NFKC, \<open>str\<close> of a
  value, whether a text is an ISO timestamp with a time zone, and the year and month of a timestamp.
  Operation deadlines, the bounded listing that goes with them, and failures of the file system are
  not modelled.
\<close>

record journal_env =
  jo_sha256 :: "string \<Rightarrow> string"
  jo_repr :: "rat \<Rightarrow> string"
  jo_nfkc :: "string \<Rightarrow> string"
  jo_str :: "pyval \<Rightarrow> string"
  jo_aware :: "string \<Rightarrow> bool"
  jo_partition :: "string \<Rightarrow> (string \<times> string) option"

subsection \<open>Values on disk\<close>

fun jsonify :: "pyval \<Rightarrow> pyval" where
  "jsonify (PList xs) = PList (map jsonify xs)"
| "jsonify (PTuple xs) = PList (map jsonify xs)"
| "jsonify (PDict d) = PDict (sort_key fst (map (\<lambda>(k, v). (k, jsonify v)) d))"
| "jsonify v = v"

text \<open>Python's \<open>==\<close>: numbers by value, dictionaries whatever the order of their keys, no list equals a tuple.\<close>

fun number_value :: "pyval \<Rightarrow> rat option" where
  "number_value (PBool b) = Some (of_bool b)"
| "number_value (PInt i) = Some (of_int i)"
| "number_value (PFloat q) = Some q"
| "number_value _ = None"

fun py_eq :: "pyval \<Rightarrow> pyval \<Rightarrow> bool"
and eq_items :: "pyval list \<Rightarrow> pyval list \<Rightarrow> bool"
and eq_fields :: "pydict \<Rightarrow> pydict \<Rightarrow> bool" where
  "py_eq PNone b = (b = PNone)"
| "py_eq (PBool x) b = (number_value b = Some (of_bool x))"
| "py_eq (PInt i) b = (number_value b = Some (of_int i))"
| "py_eq (PFloat q) b = (number_value b = Some q)"
| "py_eq (PStr s) b = (b = PStr s)"
| "py_eq (PList xs) b = (case b of PList ys \<Rightarrow> eq_items xs ys | _ \<Rightarrow> False)"
| "py_eq (PTuple xs) b = (case b of PTuple ys \<Rightarrow> eq_items xs ys | _ \<Rightarrow> False)"
| "py_eq (PDict d) b = (case b of PDict e \<Rightarrow> length d = length e \<and> eq_fields d e | _ \<Rightarrow> False)"
| "eq_items [] ys = (ys = [])"
| "eq_items (x # xs) ys = (case ys of [] \<Rightarrow> False | y # ys' \<Rightarrow> py_eq x y \<and> eq_items xs ys')"
| "eq_fields [] e = True"
| "eq_fields ((k, v) # d) e = ((case map_of e k of None \<Rightarrow> False | Some w \<Rightarrow> py_eq v w) \<and> eq_fields d e)"

subsection \<open>Digests\<close>

definition event_integrity :: "journal_env \<Rightarrow> Event \<Rightarrow> string" where
  "event_integrity env e = jo_sha256 env (canonical_json (jo_repr env) (PDict (canonical_dict e)))"

definition canonical_payload_hash :: "journal_env \<Rightarrow> Event \<Rightarrow> string" where
  "canonical_payload_hash env e = ''sha256:'' @ jo_sha256 env (canonical_json (jo_repr env) (PDict (ev_payload e)))"

definition materialize :: "journal_env \<Rightarrow> Event \<Rightarrow> Event" where
  "materialize env e =
     (let m = (if ev_schema_version e \<ge> 2
               then e\<lparr>ev_integrity := [(''algorithm'', PStr ''sha256''),
                        (''canonical_payload_hash'', PStr (canonical_payload_hash env e))]\<rparr>
               else e)
      in m\<lparr>ev_integrity_sha256 := event_integrity env m\<rparr>)"

subsection \<open>Validation of events\<close>

definition schema_invalid :: "string \<Rightarrow> 'a result" where
  "schema_invalid reason = Inl (JournalIntegrityError (''EVENT_SCHEMA_INVALID:'' @ reason))"

definition require :: "bool \<Rightarrow> string \<Rightarrow> unit result" where
  "require b reason = (if b then Inr () else schema_invalid reason)"

definition MAX_EVENT_PAYLOAD_BYTES :: nat where
  "MAX_EVENT_PAYLOAD_BYTES = 1024 * 1024"

definition validate_schema :: "journal_env \<Rightarrow> Event \<Rightarrow> unit result" where
  "validate_schema env e =
     (let v2 = (ev_schema_version e \<ge> 2) in
      rbind (require (ev_schema_version e \<in> {1, 2}) ''schema_version'') (\<lambda>_.
      rbind (require (ev_event_id e \<noteq> []) ''event_id'') (\<lambda>_.
      rbind (require (v2 \<longrightarrow> EVENT_ID_RE (ev_event_id e)) ''event_id'') (\<lambda>_.
      rbind (require (ev_event_type e \<noteq> []) ''event_type'') (\<lambda>_.
      rbind (require (ev_actor e \<noteq> []) ''actor'') (\<lambda>_.
      rbind (require (ev_machine_id e \<noteq> []) ''machine_id'') (\<lambda>_.
      rbind (require (v2 \<longrightarrow> ev_occurred_at e \<noteq> [] \<and> jo_aware env (ev_occurred_at e)) ''event.occurred_at'') (\<lambda>_.
      if utf8_length (canonical_json (jo_repr env) (PDict (ev_payload e))) > MAX_EVENT_PAYLOAD_BYTES
        then Inl (JournalIntegrityError ''EVENT_PAYLOAD_TOO_LARGE:payload'')
      else if \<not> v2 then Inr ()
      else
        rbind (require (hash_re (ev_idempotency_key e)) ''idempotency_key'') (\<lambda>_.
        rbind (require (list_all (\<lambda>(k, _). k \<in> {''algorithm'', ''canonical_payload_hash''}) (ev_integrity e)) ''integrity'') (\<lambda>_.
        rbind (require (map_of (ev_integrity e) ''algorithm'' = Some (PStr ''sha256'')) ''integrity.algorithm'') (\<lambda>_.
        if map_of (ev_integrity e) ''canonical_payload_hash'' \<noteq> Some (PStr (canonical_payload_hash env e))
          then Inl (JournalIntegrityError ''EVENT_INTEGRITY_INVALID:canonical_payload_hash'')
        else Inr ())))))))))))"

definition text_value :: "journal_env \<Rightarrow> pyval \<Rightarrow> string" where
  "text_value env v = (case v of PStr s \<Rightarrow> s | _ \<Rightarrow> jo_str env v)"

definition payload_classification :: "journal_env \<Rightarrow> Event \<Rightarrow> string" where
  "payload_classification env e = text_value env (get_default (ev_payload e) ''classification'' (PStr ''private-reusable''))"

definition privacy_invalid :: "string \<Rightarrow> PersistableInspection \<Rightarrow> unit result" where
  "privacy_invalid prefix inspection = (if in_valid inspection then Inr ()
     else case in_issues inspection of
         [] \<Rightarrow> Inr ()
       | i # _ \<Rightarrow> Inl (JournalIntegrityError (''EVENT_PRIVACY_INVALID:'' @ prefix @ pi_pointer i @ '':'' @ pi_reason_code i)))"

definition validate_persisted_event_payload :: "journal_env \<Rightarrow> Event \<Rightarrow> unit result" where
  "validate_persisted_event_payload env e =
     (let inspect = (\<lambda>v. inspect_event_payload (jo_nfkc env) (jo_repr env) v (payload_classification env e)) in
      rbind (privacy_invalid [] (inspect (PDict (ev_payload e)))) (\<lambda>_.
        privacy_invalid ''/provenance'' (inspect (PList (map PStr (ev_provenance e))))))"

definition validate_incoming_v2_event :: "journal_env \<Rightarrow> Event \<Rightarrow> unit result" where
  "validate_incoming_v2_event env e =
     rbind (validate_schema env e) (\<lambda>_.
     rbind (validate_persisted_event_payload env e) (\<lambda>_.
       if ev_integrity_sha256 e \<noteq> [] \<and> ev_integrity_sha256 e \<noteq> event_integrity env e
       then Inl (JournalIntegrityError (''EVENT_INTEGRITY_INVALID:'' @ ev_event_id e)) else Inr ()))"

definition validate_stored_integrity :: "journal_env \<Rightarrow> Event \<Rightarrow> unit result" where
  "validate_stored_integrity env e =
     (if ev_integrity_sha256 e \<noteq> event_integrity env e
         \<or> (ev_schema_version e \<ge> 2
            \<and> map_of (ev_integrity e) ''canonical_payload_hash'' \<noteq> Some (PStr (canonical_payload_hash env e)))
      then Inl (JournalIntegrityError (''EVENT_INTEGRITY_INVALID:'' @ ev_event_id e)) else Inr ())"

subsection \<open>Validation of what a file holds\<close>

definition FORBIDDEN_TRANSIENT_KEYS :: "string list" where
  "FORBIDDEN_TRANSIENT_KEYS = [''transient_input'', ''raw_response'', ''body'', ''candidate_text'']"

text \<open>The first forbidden key, objects and sequences in order.\<close>

fun transient_key :: "pyval \<Rightarrow> string option"
and transient_in_items :: "pyval list \<Rightarrow> string option"
and transient_in_fields :: "pydict \<Rightarrow> string option" where
  "transient_key (PDict d) = transient_in_fields d"
| "transient_key (PList xs) = transient_in_items xs"
| "transient_key (PTuple xs) = transient_in_items xs"
| "transient_key _ = None"
| "transient_in_items [] = None"
| "transient_in_items (x # xs) = (case transient_key x of Some k \<Rightarrow> Some k | None \<Rightarrow> transient_in_items xs)"
| "transient_in_fields [] = None"
| "transient_in_fields ((k, v) # d) = (if k \<in> set FORBIDDEN_TRANSIENT_KEYS then Some k
     else case transient_key v of Some k' \<Rightarrow> Some k' | None \<Rightarrow> transient_in_fields d)"

definition field_error :: "string \<Rightarrow> 'a result" where
  "field_error reason = schema_invalid (''event.'' @ reason)"

definition demand :: "bool \<Rightarrow> string \<Rightarrow> unit result" where
  "demand b reason = (if b then Inr () else field_error reason)"

fun nonempty_text :: "pyval \<Rightarrow> bool" where
  "nonempty_text (PStr s) = (s \<noteq> [])"
| "nonempty_text _ = False"

fun hash_text :: "pyval \<Rightarrow> bool" where
  "hash_text (PStr s) = hash_re s"
| "hash_text _ = False"

definition COMMON_REQUIRED :: "string list" where
  "COMMON_REQUIRED = [''event_id'', ''event_type'', ''occurred_at'', ''actor'', ''machine_id'', ''payload'', ''integrity_sha256'']"

definition V2_REQUIRED :: "string list" where
  "V2_REQUIRED = [''idempotency_key'', ''provenance'', ''integrity'']"

definition reject_extra :: "string \<Rightarrow> pydict \<Rightarrow> string list \<Rightarrow> unit result" where
  "reject_extra name d allowed = (case sort (filter (\<lambda>k. k \<notin> set allowed) (map fst d)) of
     [] \<Rightarrow> Inr () | k # _ \<Rightarrow> schema_invalid (name @ ''.'' @ k))"

fun demand_all :: "pydict \<Rightarrow> string list \<Rightarrow> unit result" where
  "demand_all d [] = Inr ()"
| "demand_all d (k # ks) = rbind (demand (has_key d k) k) (\<lambda>_. demand_all d ks)"

definition integrity_text_ok :: "pyval \<Rightarrow> bool" where
  "integrity_text_ok v = (case v of PStr s \<Rightarrow> s = [] \<or> (length s = 64 \<and> list_all hex_lower s) | _ \<Rightarrow> False)"

definition validate_v2_mapping :: "pydict \<Rightarrow> unit result" where
  "validate_v2_mapping d =
     rbind (demand (hash_text (get_default d ''idempotency_key'' PNone)) ''idempotency_key'') (\<lambda>_.
     case seq_items (get_default d ''provenance'' PNone) of
       None \<Rightarrow> field_error ''provenance''
     | Some items \<Rightarrow>
         rbind (demand (list_all nonempty_text items) ''provenance'') (\<lambda>_.
         case get_default d ''integrity'' PNone of
           PDict integrity \<Rightarrow>
             rbind (reject_extra ''event.integrity'' integrity [''algorithm'', ''canonical_payload_hash'']) (\<lambda>_.
             rbind (demand (map_of integrity ''algorithm'' = Some (PStr ''sha256'')) ''integrity.algorithm'') (\<lambda>_.
               demand (hash_text (get_default integrity ''canonical_payload_hash'' PNone)) ''canonical_payload_hash''))
         | _ \<Rightarrow> field_error ''type''))"

definition schema_version_of :: "pydict \<Rightarrow> int option" where
  "schema_version_of d = (case get_default d ''schema_version'' (PInt 1) of
     PInt v \<Rightarrow> if v \<in> {1, 2} then Some v else None | _ \<Rightarrow> None)"

definition validate_event_mapping :: "journal_env \<Rightarrow> pydict \<Rightarrow> Event result" where
  "validate_event_mapping env d = (case schema_version_of d of
     None \<Rightarrow> field_error ''schema_version''
   | Some version \<Rightarrow>
       let v2 = (version = 2); value = (\<lambda>k. get_default d k PNone) in
       rbind (demand_all d COMMON_REQUIRED) (\<lambda>_.
       rbind (if v2 then demand_all d V2_REQUIRED else Inr ()) (\<lambda>_.
       rbind (reject_extra ''event'' d (COMMON_REQUIRED @ [''schema_version''] @ (if v2 then V2_REQUIRED else []))) (\<lambda>_.
       rbind (demand (nonempty_text (value ''event_id'')) ''event_id'') (\<lambda>_.
       rbind (demand (nonempty_text (value ''event_type'')) ''event_type'') (\<lambda>_.
       rbind (demand (v2 \<longrightarrow> nonempty_text (value ''occurred_at'') \<and> jo_aware env (the_str (value ''occurred_at''))) ''occurred_at'') (\<lambda>_.
       rbind (demand (nonempty_text (value ''actor'')) ''actor'') (\<lambda>_.
       rbind (demand (nonempty_text (value ''machine_id'')) ''machine_id'') (\<lambda>_.
       rbind (demand (case value ''payload'' of PDict _ \<Rightarrow> True | _ \<Rightarrow> False) ''payload'') (\<lambda>_.
       rbind (demand (integrity_text_ok (value ''integrity_sha256'')) ''integrity_sha256'') (\<lambda>_.
       rbind (if v2 then validate_v2_mapping d else Inr ()) (\<lambda>_.
       rbind (case (if v2 then transient_key (value ''payload'') else None) of Some k \<Rightarrow> field_error k | None \<Rightarrow> Inr ()) (\<lambda>_.
       rbind (event_from_dict (PDict d)) (\<lambda>e.
       rbind (validate_schema env e) (\<lambda>_.
       rbind (validate_persisted_event_payload env e) (\<lambda>_.
         Inr e))))))))))))))))"

subsection \<open>Appending and reading\<close>

datatype entry = Json pyval | Garbage

type_synonym journal = "(string \<times> entry) list"

text \<open>\<open>except Exception\<close>: any other error of the validation is a schema error of the file.\<close>

definition as_schema_error :: "string \<Rightarrow> 'a result \<Rightarrow> 'a result" where
  "as_schema_error path r = (case r of
       Inl (JournalIntegrityError m) \<Rightarrow> Inl (JournalIntegrityError m)
     | Inl _ \<Rightarrow> schema_invalid path
     | Inr x \<Rightarrow> Inr x)"

definition read_event :: "journal_env \<Rightarrow> string \<Rightarrow> entry \<Rightarrow> Event result" where
  "read_event env path content = (case content of
     Garbage \<Rightarrow> schema_invalid path
   | Json (PDict d) \<Rightarrow>
       rbind (as_schema_error path (validate_event_mapping env d)) (\<lambda>e.
       rbind (validate_stored_integrity env e) (\<lambda>_. Inr e))
   | Json _ \<Rightarrow> field_error ''type'')"

fun scan_duplicate :: "journal_env \<Rightarrow> Event \<Rightarrow> journal \<Rightarrow> string option result" where
  "scan_duplicate env e [] = Inr None"
| "scan_duplicate env e ((path, content) # rest) =
     rbind (read_event env path content) (\<lambda>existing.
       if ev_schema_version existing < 2 \<or> ev_idempotency_key existing \<noteq> ev_idempotency_key e
         then scan_duplicate env e rest
       else if py_eq (PDict (idempotency_basis existing)) (PDict (idempotency_basis e)) then Inr (Some path)
       else Inl (JournalIntegrityError (''EVENT_ID_COLLISION:'' @ ev_idempotency_key e)))"

definition existing_duplicate :: "journal_env \<Rightarrow> Event \<Rightarrow> journal \<Rightarrow> string option result" where
  "existing_duplicate env e j = (if ev_schema_version e < 2 \<or> ev_idempotency_key e = [] then Inr None
     else scan_duplicate env e (sort_key fst j))"

definition event_path :: "journal_env \<Rightarrow> Event \<Rightarrow> string result" where
  "event_path env e = (case jo_partition env (ev_occurred_at e) of
       None \<Rightarrow> Inl (ValueError ''Invalid isoformat string'')
     | Some (year, month) \<Rightarrow> Inr (year @ ''/'' @ month @ ''/'' @ ev_event_id e @ ''.json''))"

definition sealed :: "journal_env \<Rightarrow> Event \<Rightarrow> Event result" where
  "sealed env e =
     (if ev_schema_version e \<ge> 2 then rbind (validate_incoming_v2_event env e) (\<lambda>_. Inr (materialize env e))
      else let m = materialize env e in
        rbind (validate_schema env m) (\<lambda>_. rbind (validate_persisted_event_payload env m) (\<lambda>_. Inr m)))"

definition append_event :: "journal_env \<Rightarrow> Event \<Rightarrow> journal \<Rightarrow> (journal \<times> string) result" where
  "append_event env event j =
     rbind (sealed env event) (\<lambda>e.
     rbind (existing_duplicate env e j) (\<lambda>duplicate. case duplicate of
         Some path \<Rightarrow> Inr (j, path)
       | None \<Rightarrow>
           rbind (event_path env e) (\<lambda>target. case map_of j target of
               Some content \<Rightarrow>
                 rbind (read_event env target content) (\<lambda>existing.
                   if \<not> py_eq (PDict (canonical_dict existing)) (PDict (canonical_dict e))
                   then Inl (JournalIntegrityError (''EVENT_ID_COLLISION:'' @ ev_event_id e))
                   else Inr (j, target))
             | None \<Rightarrow> Inr (dict_set target (Json (jsonify (PDict (event_to_dict e)))) j, target))))"

definition committed_changesets :: "journal_env \<Rightarrow> Event list \<Rightarrow> string list" where
  "committed_changesets env events = map (\<lambda>e. text_value env (get_default (ev_payload e) ''changeset_id'' PNone))
     (filter (\<lambda>e. ev_event_type e = ''curation.changeset.applied''
        \<and> truthy (get_default (ev_payload e) ''changeset_id'' PNone)) events)"

definition visible :: "journal_env \<Rightarrow> string list \<Rightarrow> Event \<Rightarrow> bool" where
  "visible env committed e \<longleftrightarrow> ev_event_type e = ''curation.changeset.applied''
   \<or> \<not> truthy (get_default (ev_payload e) ''changeset_id'' PNone)
   \<or> text_value env (get_default (ev_payload e) ''changeset_id'' PNone) \<in> set committed"

definition iter_events :: "journal_env \<Rightarrow> journal \<Rightarrow> bool \<Rightarrow> Event list result" where
  "iter_events env j include_uncommitted =
     rbind (rmap (\<lambda>(path, content). read_event env path content) (sort_key fst j)) (\<lambda>events.
       let ordered = sort_key (\<lambda>e. (ev_occurred_at e, ev_event_id e)) events in
       Inr (if include_uncommitted then ordered else filter (visible env (committed_changesets env ordered)) ordered))"

subsection \<open>What comes back from a file\<close>

definition json_fields :: "pydict \<Rightarrow> pydict" where
  "json_fields d = sort_key fst (map (\<lambda>(k, v). (k, jsonify v)) d)"

lemma jsonify_PDict: "jsonify (PDict d) = PDict (json_fields d)"
  by (simp add: json_fields_def)

lemma map_of_json_fields [simp]: "map_of (json_fields d) k = map_option jsonify (map_of d k)"
proof -
  have "map_of (map (\<lambda>(k, v). (k, jsonify v)) d) k = map_option jsonify (map_of d k)"
    by (induction d) auto
  then show ?thesis by (simp add: json_fields_def map_of_sort_key)
qed

lemma get_default_json [simp]: "get_default (json_fields d) k (jsonify v) = jsonify (get_default d k v)"
  by (simp add: get_default_def split: option.split)

lemma set_json_fields: "set (json_fields d) = (\<lambda>(k, v). (k, jsonify v)) ` set d"
  by (simp add: json_fields_def)

lemma has_key_json [simp]: "has_key (json_fields d) k = has_key d k"
  by (simp add: has_key_def)

lemma canonical_json_jsonify: "canonical_json repr (jsonify v) = canonical_json repr v"
proof (induction v rule: jsonify.induct)
  case (3 d)
  let ?h = "\<lambda>(k, v). (k, canonical_json repr v)"
  have "map ?h (json_fields d) = sort_key fst (map ?h (map (\<lambda>(k, v). (k, jsonify v)) d))"
    unfolding json_fields_def by (subst sort_key_map [where g = fst]) auto
  also have "map ?h (map (\<lambda>(k, v). (k, jsonify v)) d) = map ?h d"
    using 3 by auto
  finally have "sort_key fst (map ?h (json_fields d)) = sort_key fst (map ?h d)"
    by (simp add: sort_key_id_if_sorted)
  then show ?case unfolding jsonify_PDict canonical_json.simps by simp
qed (auto simp: comp_def cong: map_cong)

lemma label_json [simp]: "validate_host_label (jsonify v) field b = validate_host_label v field b"
  by (cases v) auto

lemma list_json [simp]: "validate_host_list (jsonify v) field = validate_host_list v field"
  by (cases v) (simp_all add: validate_host_list_def rmap_map comp_def)

lemma mapping_json: "validate_host_applicability_mapping (PDict (json_fields d)) b c = validate_host_applicability_mapping (PDict d) b c"
proof -
  have n: "get_default (json_fields d) k PNone = jsonify (get_default d k PNone)" for k
    using get_default_json [of d k PNone] by simp
  have s: "(case jsonify v of PStr s \<Rightarrow> f s | _ \<Rightarrow> z) = (case v of PStr s \<Rightarrow> f s | _ \<Rightarrow> z)" for v f and z :: "HostApplicability result"
    by (cases v) auto
  have h: "has_key (json_fields d) = has_key d" by (rule ext) simp
  show ?thesis by (simp only: validate_host_applicability_mapping.simps n h label_json list_json s)
qed

lemma list_all_is_str_json: "list_all is_str (map jsonify xs) = list_all is_str xs"
proof -
  have "is_str (jsonify v) = is_str v" for v by (cases v) auto
  then show ?thesis by (simp add: list_all_iff)
qed

lemma the_str_json: "map the_str (filter is_str (map jsonify xs)) = map the_str (filter is_str xs)"
proof -
  have "is_str (jsonify v) = is_str v \<and> the_str (jsonify v) = the_str v" for v by (cases v) auto
  then show ?thesis by (induction xs) auto
qed

lemma host_list_json: "host_list_issues pointer (map jsonify xs) = host_list_issues pointer xs"
  by (simp add: host_list_issues_def list_all_is_str_json the_str_json)

definition entry_clean :: "(string \<Rightarrow> string) \<Rightarrow> string \<Rightarrow> registry option \<Rightarrow> string \<Rightarrow> string \<Rightarrow> pyval \<Rightarrow> bool" where
  "entry_clean nfkc cl reg pointer k v \<longleftrightarrow> casefold k \<notin> set FORBIDDEN_KEYS
     \<and> (case reg of None \<Rightarrow> fst (walk nfkc cl None (pointer_to pointer k) (casefold k) None v) = []
        | Some known \<Rightarrow> (case map_of known k of None \<Rightarrow> False
            | Some e \<Rightarrow> fst (walk nfkc cl None (pointer_to pointer k) (casefold k) (Some e) v) = []))"

lemma walk_fields_Cons:
  "fst (walk_fields nfkc cl reg pointer ((k, v) # d)) = [] \<longleftrightarrow>
     entry_clean nfkc cl reg pointer k v \<and> fst (walk_fields nfkc cl reg pointer d) = []"
  by (auto simp: entry_clean_def Let_def split: option.split)

lemma walk_fields_Nil_iff:
  "fst (walk_fields nfkc cl reg pointer d) = [] \<longleftrightarrow> (\<forall>x \<in> set d. entry_clean nfkc cl reg pointer (fst x) (snd x))"
proof (induction d)
  case (Cons x d)
  then show ?case by (cases x) (simp only: walk_fields_Cons list.set ball_simps fst_conv snd_conv)
qed simp

lemma walk_json:
  "fst (walk nfkc cl reg pointer field e (jsonify v)) = [] \<longleftrightarrow> fst (walk nfkc cl reg pointer field e v) = []"
  "fst (walk_items nfkc cl pointer field e n (map jsonify xs)) = [] \<longleftrightarrow> fst (walk_items nfkc cl pointer field e n xs) = []"
  "fst (walk_fields nfkc cl reg pointer (json_fields d)) = [] \<longleftrightarrow> fst (walk_fields nfkc cl reg pointer d) = []"
proof (induction nfkc cl reg pointer field e v and nfkc cl pointer field e n xs and nfkc cl reg pointer d
    rule: walk_walk_items_walk_fields.induct)
  case (6 nfkc cl reg pointer field e d)
  then show ?case by (simp only: jsonify_PDict walk.simps) simp
next
  case (11 nfkc cl reg pointer)
  then show ?case by (simp add: json_fields_def)
next
  case (12 nfkc cl reg pointer key nested rest)
  have "entry_clean nfkc cl reg pointer key (jsonify nested) = entry_clean nfkc cl reg pointer key nested"
    using 12 by (auto simp: entry_clean_def split: option.split)
  then show ?case using 12(3)
    by (simp add: walk_fields_Nil_iff set_json_fields case_prod_unfold del: walk_fields.simps)
qed (simp_all add: host_list_json)


lemma valid_json:
  "in_valid (inspect_event_payload nfkc repr (PDict (json_fields d)) cl) \<longleftrightarrow> in_valid (inspect_event_payload nfkc repr (PDict d) cl)"
proof -
  have "utf8_length (canonical_json repr (PDict (json_fields d))) = utf8_length (canonical_json repr (PDict d))"
    using canonical_json_jsonify [of repr "PDict d"] unfolding jsonify_PDict by simp
  moreover have "list_ex (has_key (json_fields d)) HOST_APPLICABILITY_FIELDS = list_ex (has_key d) HOST_APPLICABILITY_FIELDS"
    by (simp add: list_ex_iff)
  ultimately show ?thesis
    unfolding inspect_event_payload_def valid_iff walk_json(3) mapping_json by simp
qed

lemma in_issues_valid: "in_valid (inspect_persistable nfkc repr v cl reg n) \<longleftrightarrow> in_issues (inspect_persistable nfkc repr v cl reg n) = []"
  by (simp add: inspect_persistable_def Let_def)

lemma privacy_invalid_iff [simp]:
  "privacy_invalid prefix (inspect_event_payload nfkc repr v cl) = Inr () \<longleftrightarrow> in_valid (inspect_event_payload nfkc repr v cl)"
  using in_issues_valid [of nfkc repr v cl "Some EVENT_PAYLOAD_FIELDS" "1024 * 1024"]
  by (auto simp: privacy_invalid_def inspect_event_payload_def split: list.splits)

lemma persisted_payload_iff:
  "validate_persisted_event_payload env e = Inr () \<longleftrightarrow>
     in_valid (inspect_event_payload (jo_nfkc env) (jo_repr env) (PDict (ev_payload e)) (payload_classification env e))
   \<and> in_valid (inspect_event_payload (jo_nfkc env) (jo_repr env) (PList (map PStr (ev_provenance e))) (payload_classification env e))"
  unfolding validate_persisted_event_payload_def Let_def rbind_unit privacy_invalid_iff ..

lemma require_iff [simp]: "require b r = Inr () \<longleftrightarrow> b"
  by (simp add: require_def schema_invalid_def)

lemma demand_iff [simp]: "demand b r = Inr () \<longleftrightarrow> b"
  by (simp add: demand_def field_error_def schema_invalid_def)

lemma validate_schema_iff:
  "validate_schema env e = Inr () \<longleftrightarrow>
     ev_schema_version e \<in> {1, 2} \<and> ev_event_id e \<noteq> [] \<and> ev_event_type e \<noteq> [] \<and> ev_actor e \<noteq> [] \<and> ev_machine_id e \<noteq> []
   \<and> utf8_length (canonical_json (jo_repr env) (PDict (ev_payload e))) \<le> MAX_EVENT_PAYLOAD_BYTES
   \<and> (ev_schema_version e = 2 \<longrightarrow> EVENT_ID_RE (ev_event_id e) \<and> ev_occurred_at e \<noteq> [] \<and> jo_aware env (ev_occurred_at e)
        \<and> hash_re (ev_idempotency_key e)
        \<and> list_all (\<lambda>(k, _). k \<in> {''algorithm'', ''canonical_payload_hash''}) (ev_integrity e)
        \<and> map_of (ev_integrity e) ''algorithm'' = Some (PStr ''sha256'')
        \<and> map_of (ev_integrity e) ''canonical_payload_hash'' = Some (PStr (canonical_payload_hash env e)))"
  unfolding validate_schema_def Let_def rbind_unit require_iff if_Inl_eq_Inr
  by (cases "ev_schema_version e = 2") (auto simp: rbind_unit not_less)


lemma reject_extra_iff [simp]: "reject_extra name d allowed = Inr () \<longleftrightarrow> (\<forall>k \<in> fst ` set d. k \<in> set allowed)"
proof -
  have "sort (filter (\<lambda>k. k \<notin> set allowed) (map fst d)) = [] \<longleftrightarrow> (\<forall>k \<in> fst ` set d. k \<in> set allowed)"
    by (metis (no_types, lifting) filter_empty_conv image_set length_0_conv length_sort)
  then show ?thesis by (auto simp: reject_extra_def schema_invalid_def split: list.splits)
qed

lemma demand_all_iff [simp]: "demand_all d ks = Inr () \<longleftrightarrow> (\<forall>k \<in> set ks. has_key d k)"
  by (induction ks) (auto simp: rbind_unit)

definition stored_event :: "Event \<Rightarrow> Event" where
  "stored_event m = (if ev_schema_version m \<ge> 2
     then m\<lparr>ev_payload := json_fields (ev_payload m), ev_integrity := json_fields (ev_integrity m)\<rparr>
     else m\<lparr>ev_payload := json_fields (ev_payload m), ev_idempotency_key := [], ev_provenance := [], ev_integrity := []\<rparr>)"

lemma event_value:
  "get_default (json_fields (event_to_dict m)) k PNone = jsonify (get_default (event_to_dict m) k PNone)"
  using get_default_json [of "event_to_dict m" k PNone] by simp

lemma event_from_stored: "event_from_dict (PDict (json_fields (event_to_dict m))) = Inr (stored_event m)"
  by (cases m) (simp add: event_from_dict_def event_to_dict_def canonical_dict_def EVENT_REQUIRED_def stored_event_def
      has_key_def get_default_def event_text_def jsonify_PDict comp_def del: jsonify.simps(3))

lemma walk_items_strings:
  "fst (walk_items nfkc cl pointer field (Some e) n xs) = [] \<Longrightarrow> fst e \<in> {''hash'', ''safe_label'', ''string''} \<Longrightarrow> list_all is_str xs"
proof (induction xs arbitrary: n)
  case (Cons x xs)
  then show ?case by (cases x) (auto simp: kind_is_def LIST_KINDS_def split: prod.splits)
qed simp

lemma forbidden_in_strings: "list_all is_str xs \<Longrightarrow> transient_in_items xs = None"
proof (induction xs)
  case (Cons x xs)
  then show ?case by (cases x) auto
qed simp

lemma forbidden_none: "fst (walk nfkc cl reg pointer field (Some e) v) = [] \<Longrightarrow> transient_key v = None"
  using child_kind [of e] walk_items_strings
  by (cases v) (fastforce intro: forbidden_in_strings split: if_splits)+

lemma registered_not_transient: "map_of EVENT_PAYLOAD_FIELDS k = Some e \<Longrightarrow> k \<notin> set FORBIDDEN_TRANSIENT_KEYS"
  by (auto simp: FORBIDDEN_TRANSIENT_KEYS_def EVENT_PAYLOAD_FIELDS_def)

lemma forbidden_fields_none:
  "fst (walk_fields nfkc cl (Some EVENT_PAYLOAD_FIELDS) pointer d) = [] \<Longrightarrow> transient_in_fields d = None"
proof (induction d)
  case (Cons x d)
  obtain k v where x: "x = (k, v)" by (cases x)
  have "entry_clean nfkc cl (Some EVENT_PAYLOAD_FIELDS) pointer k v" and rest: "transient_in_fields d = None"
    using Cons unfolding x walk_fields_Cons by blast+
  then obtain e where "map_of EVENT_PAYLOAD_FIELDS k = Some e"
    "fst (walk nfkc cl None (pointer_to pointer k) (casefold k) (Some e) v) = []"
    by (auto simp: entry_clean_def split: option.splits)
  then show ?case using rest registered_not_transient forbidden_none by (simp add: x)
qed simp


lemma canonical_json_fields [simp]: "canonical_json repr (PDict (json_fields d)) = canonical_json repr (PDict d)"
  using canonical_json_jsonify [of repr "PDict d"] unfolding jsonify_PDict .

lemma canonical_json_congr:
  "map (\<lambda>(k, v). (k, canonical_json repr v)) d = map (\<lambda>(k, v). (k, canonical_json repr v)) e
   \<Longrightarrow> canonical_json repr (PDict d) = canonical_json repr (PDict e)"
  by simp

lemma stored_integrity [simp]: "event_integrity env (stored_event m) = event_integrity env m"
  unfolding event_integrity_def
  by (rule arg_cong [OF canonical_json_congr]) (simp add: stored_event_def canonical_dict_def del: canonical_json.simps(8))

lemma stored_payload_hash [simp]: "canonical_payload_hash env (stored_event m) = canonical_payload_hash env m"
  by (simp add: canonical_payload_hash_def stored_event_def del: canonical_json.simps(8))

lemma stored_simps [simp]:
  "ev_event_id (stored_event m) = ev_event_id m" "ev_event_type (stored_event m) = ev_event_type m"
  "ev_occurred_at (stored_event m) = ev_occurred_at m" "ev_actor (stored_event m) = ev_actor m"
  "ev_machine_id (stored_event m) = ev_machine_id m" "ev_schema_version (stored_event m) = ev_schema_version m"
  "ev_payload (stored_event m) = json_fields (ev_payload m)" "ev_integrity_sha256 (stored_event m) = ev_integrity_sha256 m"
  by (simp_all add: stored_event_def)

lemma stored_schema: "validate_schema env m = Inr () \<Longrightarrow> validate_schema env (stored_event m) = Inr ()"
  unfolding validate_schema_iff stored_simps stored_payload_hash canonical_json_fields
  by (auto simp: stored_event_def list_all_iff set_json_fields)

lemma stored_classification [simp]: "payload_classification env (stored_event m) = text_value env
    (jsonify (get_default (ev_payload m) ''classification'' (PStr ''private-reusable'')))"
  using get_default_json [of "ev_payload m" "''classification''" "PStr ''private-reusable''"]
  by (simp add: payload_classification_def)

lemma registered_classification: "map_of EVENT_PAYLOAD_FIELDS ''classification'' = Some (''string'', Some 32)"
  by (simp add: EVENT_PAYLOAD_FIELDS_def)

text \<open>The classification of an accepted payload is a text, so it reads back as itself.\<close>

lemma classification_text:
  assumes "fst (walk_fields nfkc cl (Some EVENT_PAYLOAD_FIELDS) [] d) = []"
  shows "jsonify (get_default d ''classification'' (PStr ''private-reusable'')) = get_default d ''classification'' (PStr ''private-reusable'')"
proof (cases "map_of d ''classification''")
  case (Some v)
  then have "(''classification'', v) \<in> set d" by (rule map_of_SomeD)
  then have "entry_clean nfkc cl (Some EVENT_PAYLOAD_FIELDS) [] ''classification'' v"
    using assms unfolding walk_fields_Nil_iff by force
  then have "fst (walk nfkc cl None (pointer_to [] ''classification'') (casefold ''classification'') (Some (''string'', Some 32)) v) = []"
    by (simp add: entry_clean_def registered_classification)
  then have "jsonify v = v" by (cases v) (simp_all add: kind_is_def LIST_KINDS_def)
  then show ?thesis by (simp add: get_default_def Some)
qed (simp add: get_default_def)

lemma empty_provenance_valid: "in_valid (inspect_event_payload nfkc repr (PList []) cl)"
  by (simp add: inspect_event_payload_def inspect_persistable_def Let_def kind_is_def child_expected_def utf8_length_def
      raised_def join_comma_def)

lemma stored_persisted:
  assumes "validate_persisted_event_payload env m = Inr ()"
  shows "validate_persisted_event_payload env (stored_event m) = Inr ()"
proof -
  have valid: "in_valid (inspect_event_payload (jo_nfkc env) (jo_repr env) (PDict (ev_payload m)) (payload_classification env m))"
    and prov: "in_valid (inspect_event_payload (jo_nfkc env) (jo_repr env) (PList (map PStr (ev_provenance m))) (payload_classification env m))"
    using assms unfolding persisted_payload_iff by auto
  have "fst (walk_fields (jo_nfkc env) (payload_classification env m) (Some EVENT_PAYLOAD_FIELDS) [] (ev_payload m)) = []"
    using valid unfolding inspect_event_payload_def valid_iff by blast
  from classification_text [OF this]
  have cl: "payload_classification env (stored_event m) = payload_classification env m"
    unfolding stored_classification by (simp add: payload_classification_def)
  show ?thesis
    unfolding persisted_payload_iff cl stored_simps valid_json
    using valid prov empty_provenance_valid by (simp add: stored_event_def)
qed


lemma event_lookup:
  "get_default (event_to_dict m) ''event_id'' PNone = PStr (ev_event_id m)"
  "get_default (event_to_dict m) ''event_type'' PNone = PStr (ev_event_type m)"
  "get_default (event_to_dict m) ''occurred_at'' PNone = PStr (ev_occurred_at m)"
  "get_default (event_to_dict m) ''actor'' PNone = PStr (ev_actor m)"
  "get_default (event_to_dict m) ''machine_id'' PNone = PStr (ev_machine_id m)"
  "get_default (event_to_dict m) ''payload'' PNone = PDict (ev_payload m)"
  "get_default (event_to_dict m) ''integrity_sha256'' PNone = PStr (ev_integrity_sha256 m)"
  unfolding event_to_dict_def canonical_dict_def get_default_def by simp_all

lemma event_lookup_v2:
  assumes "ev_schema_version m \<ge> 2"
  shows "get_default (event_to_dict m) ''idempotency_key'' PNone = PStr (ev_idempotency_key m)"
  "get_default (event_to_dict m) ''provenance'' PNone = PList (map PStr (ev_provenance m))"
  "get_default (event_to_dict m) ''integrity'' PNone = PDict (ev_integrity m)"
  unfolding event_to_dict_def canonical_dict_def get_default_def using assms by simp_all

lemma event_keys:
  "\<forall>k \<in> set COMMON_REQUIRED. has_key (event_to_dict m) k"
  "ev_schema_version m \<ge> 2 \<Longrightarrow> \<forall>k \<in> set V2_REQUIRED. has_key (event_to_dict m) k"
  "\<forall>k \<in> fst ` set (event_to_dict m). k \<in> set (COMMON_REQUIRED @ [''schema_version''] @ (if ev_schema_version m \<ge> 2 then V2_REQUIRED else []))"
  unfolding event_to_dict_def canonical_dict_def has_key_def COMMON_REQUIRED_def V2_REQUIRED_def by (simp_all, blast)

lemma json_keys: "fst ` set (json_fields d) = fst ` set d"
  by (force simp: set_json_fields image_iff)

lemma stored_v2:
  assumes v2: "ev_schema_version m = 2" and schema: "validate_schema env m = Inr ()" and prov: "[] \<notin> set (ev_provenance m)"
    and sha: "\<forall>s. length (jo_sha256 env s) = 64 \<and> list_all hex_lower (jo_sha256 env s)"
  shows "validate_v2_mapping (json_fields (event_to_dict m)) = Inr ()"
proof -
  have "hash_re (canonical_payload_hash env m)"
    unfolding canonical_payload_hash_def hash_re_def prefixed_hex_append using sha by blast
  moreover have "get_default (json_fields (ev_integrity m)) ''canonical_payload_hash'' PNone = PStr (canonical_payload_hash env m)"
    using schema v2 unfolding validate_schema_iff by (simp add: get_default_def)
  moreover have "list_all nonempty_text (map (jsonify \<circ> PStr) (ev_provenance m))"
    using prov by (auto simp: list_all_iff)
  ultimately show ?thesis
    using schema v2 unfolding validate_schema_iff validate_v2_mapping_def event_value event_lookup_v2 [of m, unfolded v2, simplified]
    by (auto simp: rbind_unit json_keys list_all_iff jsonify_PDict simp del: jsonify.simps(3))
qed

lemma stored_readable:
  assumes schema: "validate_schema env m = Inr ()" and persisted: "validate_persisted_event_payload env m = Inr ()"
    and seal: "ev_integrity_sha256 m = event_integrity env m"
    and prov: "ev_schema_version m = 2 \<longrightarrow> [] \<notin> set (ev_provenance m)"
    and sha: "\<forall>s. length (jo_sha256 env s) = 64 \<and> list_all hex_lower (jo_sha256 env s)"
  shows "read_event env path (Json (jsonify (PDict (event_to_dict m)))) = Inr (stored_event m)"
proof -
  let ?d = "json_fields (event_to_dict m)"
  have facts: "ev_schema_version m \<in> {1, 2}" "ev_event_id m \<noteq> []" "ev_event_type m \<noteq> []" "ev_actor m \<noteq> []" "ev_machine_id m \<noteq> []"
    "ev_schema_version m = 2 \<longrightarrow> ev_occurred_at m \<noteq> [] \<and> jo_aware env (ev_occurred_at m)"
    using schema unfolding validate_schema_iff by auto
  have version: "schema_version_of ?d = Some (ev_schema_version m)"
    using facts(1) by (auto simp: schema_version_of_def get_default_def event_to_dict_def canonical_dict_def)
  have "fst (walk_fields (jo_nfkc env) (payload_classification env m) (Some EVENT_PAYLOAD_FIELDS) [] (json_fields (ev_payload m))) = []"
    using persisted unfolding persisted_payload_iff inspect_event_payload_def valid_iff walk_json(3) by blast
  then have forbidden: "transient_key (PDict (json_fields (ev_payload m))) = None"
    by (simp add: forbidden_fields_none)
  have keys: "\<forall>k \<in> set COMMON_REQUIRED. has_key ?d k" "ev_schema_version m = 2 \<Longrightarrow> \<forall>k \<in> set V2_REQUIRED. has_key ?d k"
    "\<forall>k \<in> fst ` set ?d. k \<in> set (COMMON_REQUIRED @ [''schema_version''] @ (if ev_schema_version m = 2 then V2_REQUIRED else []))"
    using facts(1) event_keys [of m] unfolding has_key_json json_keys by auto
  have integrity: "integrity_text_ok (PStr (ev_integrity_sha256 m))"
    using sha by (simp add: integrity_text_ok_def seal event_integrity_def)
  have "validate_event_mapping env ?d = Inr (stored_event m)"
    unfolding validate_event_mapping_def version option.case Let_def event_value event_lookup(1-7) jsonify_PDict rbind_unit
    using facts keys integrity forbidden stored_v2 [OF _ schema _ sha] prov
    by (auto simp: rbind_unit event_from_stored stored_schema [OF schema] stored_persisted [OF persisted]
        simp del: transient_key.simps)
  moreover have "ev_schema_version m = 2 \<Longrightarrow> map_of (ev_integrity (stored_event m)) ''canonical_payload_hash''
      = Some (PStr (canonical_payload_hash env m))"
    using schema unfolding validate_schema_iff by (simp add: stored_event_def)
  then have "validate_stored_integrity env (stored_event m) = Inr ()"
    unfolding validate_stored_integrity_def stored_integrity stored_payload_hash stored_simps using seal facts(1) by auto
  ultimately show ?thesis by (simp add: jsonify_PDict read_event_def as_schema_error_def del: jsonify.simps(3))
qed


lemma sealedE:
  assumes "sealed env e = Inr m"
  shows "m = materialize env e" "validate_schema env m = Inr ()" "validate_persisted_event_payload env m = Inr ()"
proof -
  have same: "canonical_payload_hash env (materialize env e) = canonical_payload_hash env e"
    by (simp add: materialize_def canonical_payload_hash_def Let_def del: canonical_json.simps)
  have "validate_schema env (materialize env e) = Inr ()" if "ev_schema_version e \<ge> 2" "validate_schema env e = Inr ()"
    using that same unfolding validate_schema_iff by (auto simp: materialize_def Let_def simp del: canonical_json.simps)
  moreover have "validate_persisted_event_payload env (materialize env e) = validate_persisted_event_payload env e"
    by (simp add: validate_persisted_event_payload_def payload_classification_def materialize_def Let_def)
  ultimately show "m = materialize env e" "validate_schema env m = Inr ()" "validate_persisted_event_payload env m = Inr ()"
    using assms by (auto simp: sealed_def validate_incoming_v2_event_def Let_def rbind_unit split: if_splits)
qed

lemma materialize_seal: "ev_integrity_sha256 (materialize env e) = event_integrity env (materialize env e)"
  by (simp add: materialize_def event_integrity_def canonical_dict_def Let_def del: canonical_json.simps)

lemma materialize_simps [simp]:
  "ev_schema_version (materialize env e) = ev_schema_version e" "ev_provenance (materialize env e) = ev_provenance e"
  "ev_payload (materialize env e) = ev_payload e" "ev_event_id (materialize env e) = ev_event_id e"
  "ev_occurred_at (materialize env e) = ev_occurred_at e" "ev_idempotency_key (materialize env e) = ev_idempotency_key e"
  by (simp_all add: materialize_def Let_def)

lemma scan_duplicate_key: "scan_duplicate env e j = Inr (Some path) \<Longrightarrow> path \<in> fst ` set j"
  by (induction j) (auto simp: result_simps split: if_splits)

lemma append_cases:
  assumes "append_event env event j = Inr (j', path)"
  obtains (there) "j' = j" "path \<in> fst ` set j"
  | (new) "map_of j path = None" "j' = dict_set path (Json (jsonify (PDict (event_to_dict (materialize env event))))) j"
      "sealed env event = Inr (materialize env event)" "event_path env (materialize env event) = Inr path"
      "existing_duplicate env (materialize env event) j = Inr None"
proof -
  obtain m where m: "sealed env event = Inr m" using assms by (auto simp: append_event_def result_simps)
  note m' = sealedE(1) [OF m]
  from assms m obtain dup where dup: "existing_duplicate env m j = Inr dup"
    and rest: "(case dup of Some path \<Rightarrow> Inr (j, path) | None \<Rightarrow>
           rbind (event_path env m) (\<lambda>target. case map_of j target of
               Some content \<Rightarrow> rbind (read_event env target content) (\<lambda>existing.
                   if \<not> py_eq (PDict (canonical_dict existing)) (PDict (canonical_dict m))
                   then Inl (JournalIntegrityError (''EVENT_ID_COLLISION:'' @ ev_event_id m)) else Inr (j, target))
             | None \<Rightarrow> Inr (dict_set target (Json (jsonify (PDict (event_to_dict m)))) j, target))) = Inr (j', path)"
    by (auto simp: append_event_def result_simps)
  show ?thesis
  proof (cases dup)
    case (Some p)
    have "p \<in> fst ` set j"
      using dup scan_duplicate_key [of env m "sort_key fst j" p] by (auto simp: existing_duplicate_def Some split: if_splits)
    then show ?thesis using rest Some there by simp
  next
    case None
    then obtain target where "event_path env m = Inr target" and t: "(case map_of j target of
               Some content \<Rightarrow> rbind (read_event env target content) (\<lambda>existing.
                   if \<not> py_eq (PDict (canonical_dict existing)) (PDict (canonical_dict m))
                   then Inl (JournalIntegrityError (''EVENT_ID_COLLISION:'' @ ev_event_id m)) else Inr (j, target))
             | None \<Rightarrow> Inr (dict_set target (Json (jsonify (PDict (event_to_dict m)))) j, target)) = Inr (j', path)"
      using rest by (auto simp: rbind_eq_Inr)
    show ?thesis
    proof (cases "map_of j target")
      case None
      then show ?thesis using t new m m' \<open>event_path env m = Inr target\<close> dup \<open>dup = None\<close> by auto
    next
      case (Some content)
      then have "j' = j" "path = target" using t by (auto simp: rbind_eq_Inr if_Inl_eq_Inr)
      then show ?thesis using Some there by (force dest: map_of_SomeD)
    qed
  qed
qed


lemma eq_fields_iff: "eq_fields d e \<longleftrightarrow> (\<forall>(k, v) \<in> set d. \<exists>w. map_of e k = Some w \<and> py_eq v w)"
  by (induction d) (auto split: option.splits)

lemma py_eq_congr:
  assumes "list_all2 (\<lambda>x y. fst x = fst y \<and> py_eq (snd x) (snd y)) d e" "distinct (map fst e)"
  shows "py_eq (PDict d) (PDict e)"
proof -
  have "\<exists>w. map_of e k = Some w \<and> py_eq v w" if "(k, v) \<in> set d" for k v
  proof -
    obtain i where i: "i < length d" "d ! i = (k, v)" using \<open>(k, v) \<in> set d\<close> by (auto simp: in_set_conv_nth)
    then have "fst (e ! i) = k" "py_eq v (snd (e ! i))" "e ! i \<in> set e"
      using assms(1) by (auto simp: list_all2_conv_all_nth)
    then show ?thesis using map_of_is_SomeI [OF assms(2)] by (metis prod.collapse)
  qed
  then show ?thesis using list_all2_lengthD [OF assms(1)] by (auto simp: eq_fields_iff)
qed

lemma eq_items_strings: "list_all is_str xs \<Longrightarrow> eq_items (map jsonify xs) xs"
proof (induction xs)
  case (Cons x xs)
  then show ?case by (cases x) auto
qed simp

definition is_tuple :: "pyval \<Rightarrow> bool" where
  "is_tuple v = (case v of PTuple _ \<Rightarrow> True | _ \<Rightarrow> False)"

lemma py_eq_field:
  assumes "fst (walk nfkc cl reg pointer field (Some e) v) = []" "\<not> is_tuple v"
  shows "py_eq (jsonify v) v"
proof (cases v)
  case (PList xs)
  obtain e' where e': "child_expected (Some e) = Some e'" "fst e' \<in> {''hash'', ''safe_label'', ''string''}" using child_kind by blast
  then have "fst (walk_items nfkc cl pointer field (Some e') 0 xs) = []" using assms(1) by (simp add: PList split: if_splits)
  then have "list_all is_str xs" using e'(2) by (rule walk_items_strings)
  then show ?thesis by (simp add: PList eq_items_strings)
qed (use assms in \<open>auto simp: is_tuple_def split: if_splits\<close>)

lemma py_eq_payload:
  assumes "fst (walk_fields nfkc cl (Some known) pointer d) = []" "list_all (\<lambda>(k, v). \<not> is_tuple v) d" "distinct (map fst d)"
  shows "py_eq (PDict (json_fields d)) (PDict d)"
proof -
  have "\<exists>w. map_of d k = Some w \<and> py_eq (jsonify v) w" if kv: "(k, v) \<in> set d" for k v
  proof -
    have "entry_clean nfkc cl (Some known) pointer k v" using assms(1) kv unfolding walk_fields_Nil_iff by force
    then obtain e where "fst (walk nfkc cl None (pointer_to pointer k) (casefold k) (Some e) v) = []"
      by (auto simp: entry_clean_def split: option.splits)
    moreover have "\<not> is_tuple v" using assms(2) kv by (auto simp: list_all_iff)
    ultimately have "py_eq (jsonify v) v" by (rule py_eq_field)
    then show ?thesis using map_of_is_SomeI [OF assms(3) kv] by simp
  qed
  moreover have "length (json_fields d) = length d" by (simp add: json_fields_def)
  ultimately show ?thesis by (auto simp: eq_fields_iff set_json_fields)
qed

lemma py_eq_texts: "py_eq (PList (map PStr xs)) (PList (map PStr xs))"
  by (induction xs) auto

lemma payload_walk:
  "validate_persisted_event_payload env m = Inr () \<Longrightarrow>
     fst (walk_fields (jo_nfkc env) (payload_classification env m) (Some EVENT_PAYLOAD_FIELDS) [] (ev_payload m)) = []"
  unfolding persisted_payload_iff inspect_event_payload_def valid_iff by blast

lemma stored_same:
  assumes "validate_persisted_event_payload env (materialize env e) = Inr ()"
    and "list_all (\<lambda>(k, v). \<not> is_tuple v) (ev_payload e)" "distinct (map fst (ev_payload e))"
  shows "py_eq (PDict (canonical_dict (stored_event (materialize env e)))) (PDict (canonical_dict (materialize env e)))"
    "ev_schema_version e \<ge> 2 \<Longrightarrow>
     py_eq (PDict (idempotency_basis (stored_event (materialize env e)))) (PDict (idempotency_basis (materialize env e)))"
proof -
  have payload: "py_eq (PDict (json_fields (ev_payload e))) (PDict (ev_payload e))"
    using py_eq_payload [OF payload_walk [OF assms(1)]] assms(2,3) by simp
  have integrity: "py_eq (PDict (json_fields (ev_integrity (materialize env e)))) (PDict (ev_integrity (materialize env e)))"
    if "ev_schema_version e \<ge> 2"
    using that by (simp add: materialize_def Let_def json_fields_def)
  show "py_eq (PDict (canonical_dict (stored_event (materialize env e)))) (PDict (canonical_dict (materialize env e)))"
    using payload integrity py_eq_texts
    by (intro py_eq_congr) (auto simp: canonical_dict_def stored_event_def simp del: py_eq.simps(8))
  show "py_eq (PDict (idempotency_basis (stored_event (materialize env e)))) (PDict (idempotency_basis (materialize env e)))"
    if "ev_schema_version e \<ge> 2"
    using payload py_eq_texts that
    by (intro py_eq_congr) (auto simp: idempotency_basis_def stored_event_def simp del: py_eq.simps(8))
qed


lemma scan_none_Cons:
  "scan_duplicate env m ((p, c) # js) = Inr None \<longleftrightarrow> (\<exists>e. read_event env p c = Inr e
     \<and> (ev_schema_version e < 2 \<or> ev_idempotency_key e \<noteq> ev_idempotency_key m)) \<and> scan_duplicate env m js = Inr None"
  by (cases "read_event env p c") (auto simp del: py_eq.simps)

lemma scan_none:
  "scan_duplicate env m js = Inr None \<longleftrightarrow> (\<forall>(p, c) \<in> set js. \<exists>e. read_event env p c = Inr e
     \<and> (ev_schema_version e < 2 \<or> ev_idempotency_key e \<noteq> ev_idempotency_key m))"
proof (induction js)
  case (Cons x js)
  then show ?case by (cases x) (simp only: scan_none_Cons list.set ball_simps prod.case)
qed simp

lemma scan_found:
  assumes "\<forall>(p, c) \<in> set js. p \<noteq> path \<longrightarrow> (\<exists>e. read_event env p c = Inr e
       \<and> (ev_schema_version e < 2 \<or> ev_idempotency_key e \<noteq> ev_idempotency_key m))"
    and "\<forall>c. (path, c) \<in> set js \<longrightarrow> (\<exists>e. read_event env path c = Inr e \<and> ev_schema_version e \<ge> 2
       \<and> ev_idempotency_key e = ev_idempotency_key m \<and> py_eq (PDict (idempotency_basis e)) (PDict (idempotency_basis m)))"
    and "path \<in> fst ` set js"
  shows "scan_duplicate env m js = Inr (Some path)"
  using assms
proof (induction js)
  case (Cons x js)
  obtain p c where x: "x = (p, c)" by (cases x)
  show ?case
  proof (cases "p = path")
    case True
    then obtain e where "read_event env path c = Inr e" "ev_schema_version e \<ge> 2"
      "ev_idempotency_key e = ev_idempotency_key m" "py_eq (PDict (idempotency_basis e)) (PDict (idempotency_basis m))"
      using Cons.prems(2) by (auto simp: x)
    then show ?thesis by (simp add: x True del: py_eq.simps)
  next
    case False
    then obtain e where "read_event env p c = Inr e" "ev_schema_version e < 2 \<or> ev_idempotency_key e \<noteq> ev_idempotency_key m"
      using Cons.prems(1) by (auto simp: x)
    moreover have "scan_duplicate env m js = Inr (Some path)" using Cons False by (auto simp: x)
    ultimately show ?thesis by (simp add: x)
  qed
qed simp

lemma read_checks:
  assumes "read_event env path content = Inr e"
  shows "ev_integrity_sha256 e = event_integrity env e \<and> validate_schema env e = Inr () \<and> validate_persisted_event_payload env e = Inr ()"
proof -
  obtain d where "content = Json (PDict d)"
    using assms by (auto simp: read_event_def field_error_def schema_invalid_def split: entry.splits pyval.splits)
  then have map: "validate_event_mapping env d = Inr e" and "validate_stored_integrity env e = Inr ()"
    using assms by (auto simp: read_event_def as_schema_error_def result_simps schema_invalid_def split: sum.splits exn.splits)
  moreover have "validate_schema env e = Inr () \<and> validate_persisted_event_payload env e = Inr ()"
    using map unfolding validate_event_mapping_def Let_def
    by (auto simp: result_simps field_error_def schema_invalid_def split: option.splits)
  ultimately show ?thesis by (auto simp: validate_stored_integrity_def split: if_splits)
qed

lemma read_closed:
  assumes "\<forall>s. jo_nfkc env (jo_nfkc env s) = jo_nfkc env s" "read_event env path content = Inr e"
  shows "\<forall>(k, v) \<in> set (ev_payload e). \<exists>kind. map_of EVENT_PAYLOAD_FIELDS k = Some kind \<and> field_ok (jo_nfkc env) kind v"
  using read_checks [OF assms(2)]
    valid_payload_closed [OF assms(1), of "jo_repr env" "ev_payload e" "payload_classification env e"]
  unfolding persisted_payload_iff by fast

lemma iterated_from_file:
  assumes "iter_events env j include_uncommitted = Inr events" "e \<in> set events"
  shows "\<exists>(path, content) \<in> set j. read_event env path content = Inr e"
proof -
  obtain raw where raw: "rmap (\<lambda>(path, content). read_event env path content) (sort_key fst j) = Inr raw" "set events \<subseteq> set raw"
    using assms(1) by (auto simp: iter_events_def rbind_eq_Inr Let_def split: if_splits)
  have all2: "list_all2 (\<lambda>(path, content) e. read_event env path content = Inr e) (sort_key fst j) raw"
    using raw(1) unfolding rmap_eq_Inr by (simp add: case_prod_unfold)
  have "e \<in> set raw" using raw(2) assms(2) by blast
  then show ?thesis using list_all2_sources [OF all2] by (force simp: case_prod_unfold)
qed

lemma iterated_registered:
  assumes "\<forall>s. jo_nfkc env (jo_nfkc env s) = jo_nfkc env s" "iter_events env j include_uncommitted = Inr events" "e \<in> set events"
  shows "fst ` set (ev_payload e) \<subseteq> fst ` set EVENT_PAYLOAD_FIELDS"
proof -
  obtain path content where "read_event env path content = Inr e"
    using iterated_from_file [OF assms(2,3)] by blast
  from read_closed [OF assms(1) this] show ?thesis by (force dest: map_of_SomeD)
qed

lemma appended_event_content:
  assumes "\<forall>s. length (jo_sha256 env s) = 64 \<and> list_all hex_lower (jo_sha256 env s)"
    and "append_event env e j = Inr (j', path)" "map_of j path = None"
    and "ev_schema_version e = 2 \<longrightarrow> [] \<notin> set (ev_provenance e)"
  shows "\<exists>content. map_of j' path = Some content \<and> read_event env path content = Inr (stored_event (materialize env e))"
  using assms(2)
proof (cases rule: append_cases)
  case there
  then show ?thesis using assms(3) by (simp add: map_of_eq_None_iff)
next
  case new
  note s = sealedE(2,3) [OF new(3)]
  have "read_event env path (Json (jsonify (PDict (event_to_dict (materialize env e))))) = Inr (stored_event (materialize env e))"
    using assms(1,4) by (intro stored_readable s materialize_seal) simp_all
  then show ?thesis using new(2) by (simp add: map_of_dict_set del: jsonify.simps)
qed

subsection \<open>Properties\<close>

text \<open>
  C12. What is appended can be read back: the file an accepted event was written to holds, after all
  validations of the reader, the event sealed with its digest, with its payload in the order and form
  of JSON (an event of the first schema version without the fields that version does not have). The
  digest has the form of a SHA-256 in hexadecimal; the exception is an event of the second version
  with an empty provenance text, which is accepted and not readable.
\<close>

theorem appended_event_reads_back:
  assumes "\<forall>s. length (jo_sha256 env s) = 64 \<and> list_all hex_lower (jo_sha256 env s)"
    and "append_event env e j = Inr (j', path)" "map_of j path = None"
    and "ev_schema_version e = 2 \<longrightarrow> [] \<notin> set (ev_provenance e)"
  shows "\<exists>content. map_of j' path = Some content \<and> read_event env path content = Inr (stored_event (materialize env e))"
  using assms by (rule appended_event_content)

text \<open>
  C34. Appending is idempotent: after an accepted append, appending the same event again returns the
  same file and changes nothing. The payload is a dictionary (its keys are distinct) and holds no
  tuple: a tuple comes back as a list, which Python holds for another value.
\<close>

theorem append_is_idempotent:
  assumes sha: "\<forall>s. length (jo_sha256 env s) = 64 \<and> list_all hex_lower (jo_sha256 env s)"
    and append: "append_event env e j = Inr (j', path)"
    and prov: "ev_schema_version e = 2 \<longrightarrow> [] \<notin> set (ev_provenance e)"
    and payload: "list_all (\<lambda>(k, v). \<not> is_tuple v) (ev_payload e)" "distinct (map fst (ev_payload e))"
  shows "append_event env e j' = Inr (j', path)"
  using append
proof (cases rule: append_cases)
  case there
  then show ?thesis using append by simp
next
  case new
  let ?m = "materialize env e" and ?c = "Json (jsonify (PDict (event_to_dict (materialize env e))))"
  note s = sealedE(2,3) [OF new(3)]
  have read: "read_event env path ?c = Inr (stored_event ?m)"
    using sha prov by (intro stored_readable s materialize_seal) simp_all
  note same = stored_same [OF s(2) payload]
  have j': "map_of j' path = Some ?c" "set j' = insert (path, ?c) (set j)" "path \<notin> fst ` set j"
    using new(1,2) by (simp_all add: map_of_dict_set set_dict_set_free map_of_eq_None_iff del: jsonify.simps)
  show ?thesis
  proof (cases "ev_schema_version e \<ge> 2 \<and> ev_idempotency_key e \<noteq> []")
    case False
    then have "existing_duplicate env ?m j' = Inr None" by (auto simp: existing_duplicate_def)
    then show ?thesis
      unfolding append_event_def new(3) rbind_Inr by (simp add: new(4) j'(1) read same(1) del: py_eq.simps jsonify.simps)
  next
    case True
    have "scan_duplicate env ?m (sort_key fst j) = Inr None"
      using new(5) True by (simp add: existing_duplicate_def)
    then have old: "\<forall>(p, c) \<in> set j. \<exists>e'. read_event env p c = Inr e'
       \<and> (ev_schema_version e' < 2 \<or> ev_idempotency_key e' \<noteq> ev_idempotency_key ?m)"
      unfolding scan_none by simp
    have "scan_duplicate env ?m (sort_key fst j') = Inr (Some path)"
    proof (rule scan_found)
      show "\<forall>(p, c) \<in> set (sort_key fst j'). p \<noteq> path \<longrightarrow> (\<exists>e'. read_event env p c = Inr e'
         \<and> (ev_schema_version e' < 2 \<or> ev_idempotency_key e' \<noteq> ev_idempotency_key ?m))"
        using old by (auto simp: j'(2) simp del: jsonify.simps)
      show "\<forall>c. (path, c) \<in> set (sort_key fst j') \<longrightarrow> (\<exists>e'. read_event env path c = Inr e' \<and> ev_schema_version e' \<ge> 2
         \<and> ev_idempotency_key e' = ev_idempotency_key ?m \<and> py_eq (PDict (idempotency_basis e')) (PDict (idempotency_basis ?m)))"
        using read same(2) True j'(3)
        by (auto simp: j'(2) stored_event_def rev_image_eqI simp del: py_eq.simps jsonify.simps)
    qed (auto simp: j'(2))
    then have "existing_duplicate env ?m j' = Inr (Some path)" using True by (simp add: existing_duplicate_def)
    then show ?thesis unfolding append_event_def new(3) rbind_Inr by simp
  qed
qed


text \<open>
  The journal only grows: an accepted append keeps every file as it is and adds at most the one it
  returns, which was not there before; a refused append leaves the journal as it was, since there is no
  new one.
\<close>

theorem append_keeps_history:
  assumes "append_event env e j = Inr (j', path)"
  shows "map_of j \<subseteq>\<^sub>m map_of j' \<and> path \<in> fst ` set j' \<and> (j' = j \<or> map_of j path = None \<and> length j' = Suc (length j))"
  using assms
proof (cases rule: append_cases)
  case new
  then show ?thesis
    by (auto simp: map_of_dict_set map_le_def dict_set_new map_of_eq_None_iff rev_image_eqI simp del: jsonify.simps)
qed auto

text \<open>
  Whatever iteration yields has passed the boundary: the events are exactly those of the files, in
  the order of their instants and ids; each has the digest it is sealed with and a closed payload; and
  unless uncommitted ones are asked for, an event that belongs to a change set appears only if the
  change set was applied.
\<close>

theorem iteration_is_validated:
  assumes "\<forall>s. jo_nfkc env (jo_nfkc env s) = jo_nfkc env s" and "iter_events env j include_uncommitted = Inr events"
  shows "sorted (map (\<lambda>e. (ev_occurred_at e, ev_event_id e)) events)
    \<and> (\<forall>e \<in> set events. (\<exists>(path, content) \<in> set j. read_event env path content = Inr e)
         \<and> ev_integrity_sha256 e = event_integrity env e
         \<and> (\<forall>(k, v) \<in> set (ev_payload e). \<exists>kind. map_of EVENT_PAYLOAD_FIELDS k = Some kind \<and> field_ok (jo_nfkc env) kind v))
    \<and> (include_uncommitted \<longrightarrow> (\<forall>(path, content) \<in> set j. \<exists>e \<in> set events. read_event env path content = Inr e))
    \<and> (\<not> include_uncommitted \<longrightarrow> (\<forall>e \<in> set events. truthy (get_default (ev_payload e) ''changeset_id'' PNone) \<longrightarrow>
         (\<exists>a \<in> set events. ev_event_type a = ''curation.changeset.applied''
            \<and> text_value env (get_default (ev_payload a) ''changeset_id'' PNone)
                = text_value env (get_default (ev_payload e) ''changeset_id'' PNone))))"
proof -
  obtain raw where raw: "rmap (\<lambda>(path, content). read_event env path content) (sort_key fst j) = Inr raw"
    and events: "events = (let ordered = sort_key (\<lambda>e. (ev_occurred_at e, ev_event_id e)) raw in
       if include_uncommitted then ordered else filter (visible env (committed_changesets env ordered)) ordered)"
    using assms(2) by (auto simp: iter_events_def rbind_eq_Inr Let_def)
  have all2: "list_all2 (\<lambda>(path, content) e. read_event env path content = Inr e) (sort_key fst j) raw"
    using raw unfolding rmap_eq_Inr by (simp add: case_prod_unfold)
  have from_file: "\<exists>(path, content) \<in> set j. read_event env path content = Inr e" if "e \<in> set raw" for e
    using list_all2_sources [OF all2 that] by (simp add: case_prod_unfold)
  have to_event: "\<exists>e \<in> set raw. read_event env path content = Inr e" if "(path, content) \<in> set j" for path content
    using list_all2_images [OF all2, of "(path, content)"] that by simp
  have clean: "ev_integrity_sha256 e = event_integrity env e
      \<and> (\<forall>(k, v) \<in> set (ev_payload e). \<exists>kind. map_of EVENT_PAYLOAD_FIELDS k = Some kind \<and> field_ok (jo_nfkc env) kind v)"
    if member: "e \<in> set raw" for e
  proof -
    obtain path content where "read_event env path content = Inr e" using from_file [OF member] by blast
    then show ?thesis using read_checks read_closed [OF assms(1)] by blast
  qed
  define ordered where "ordered = sort_key (\<lambda>e. (ev_occurred_at e, ev_event_id e)) raw"
  have ev: "events = (if include_uncommitted then ordered else filter (visible env (committed_changesets env ordered)) ordered)"
    and members: "set ordered = set raw" by (simp_all add: events ordered_def Let_def)
  have "sorted (map (\<lambda>e. (ev_occurred_at e, ev_event_id e)) ordered)" by (simp add: ordered_def)
  then have "sorted (map (\<lambda>e. (ev_occurred_at e, ev_event_id e)) events)" by (simp add: ev sorted_filter)
  moreover have "\<forall>e \<in> set events. (\<exists>(path, content) \<in> set j. read_event env path content = Inr e)
      \<and> ev_integrity_sha256 e = event_integrity env e
      \<and> (\<forall>(k, v) \<in> set (ev_payload e). \<exists>kind. map_of EVENT_PAYLOAD_FIELDS k = Some kind \<and> field_ok (jo_nfkc env) kind v)"
  proof
    fix e
    assume "e \<in> set events"
    then have "e \<in> set raw" using members by (auto simp: ev split: if_splits)
    then show "(\<exists>(path, content) \<in> set j. read_event env path content = Inr e) \<and> ev_integrity_sha256 e = event_integrity env e
      \<and> (\<forall>(k, v) \<in> set (ev_payload e). \<exists>kind. map_of EVENT_PAYLOAD_FIELDS k = Some kind \<and> field_ok (jo_nfkc env) kind v)"
      using from_file clean by blast
  qed
  moreover have "include_uncommitted \<longrightarrow> (\<forall>(path, content) \<in> set j. \<exists>e \<in> set events. read_event env path content = Inr e)"
    using to_event members by (auto simp: ev)
  moreover have "\<exists>a \<in> set events. ev_event_type a = ''curation.changeset.applied''
      \<and> text_value env (get_default (ev_payload a) ''changeset_id'' PNone) = text_value env (get_default (ev_payload e) ''changeset_id'' PNone)"
    if "\<not> include_uncommitted" "e \<in> set events" "truthy (get_default (ev_payload e) ''changeset_id'' PNone)" for e
  proof (cases "ev_event_type e = ''curation.changeset.applied''")
    case True
    then show ?thesis using that(2) by blast
  next
    case False
    then have "text_value env (get_default (ev_payload e) ''changeset_id'' PNone) \<in> set (committed_changesets env ordered)"
      using that by (simp add: ev visible_def)
    then obtain a where "a \<in> set ordered" "ev_event_type a = ''curation.changeset.applied''"
      "text_value env (get_default (ev_payload a) ''changeset_id'' PNone) = text_value env (get_default (ev_payload e) ''changeset_id'' PNone)"
      by (auto simp: committed_changesets_def)
    then show ?thesis using that(1) by (auto simp: ev visible_def)
  qed
  ultimately show ?thesis by blast
qed

subsection \<open>Samples\<close>

definition plain_env :: journal_env where
  "plain_env = \<lparr>jo_sha256 = (\<lambda>_. replicate 64 (CHR ''0'')), jo_repr = (\<lambda>_. []), jo_nfkc = (\<lambda>s. s), jo_str = (\<lambda>_. []),
     jo_aware = (\<lambda>_. True), jo_partition = (\<lambda>_. Some (''2024'', ''01''))\<rparr>"

definition sample_event :: "int \<Rightarrow> string list \<Rightarrow> Event" where
  "sample_event version provenance = \<lparr>ev_event_id = ''evt_20240101T000000Z_000000000000'', ev_event_type = ''observation.recorded'',
     ev_occurred_at = ''2024-01-01T00:00:00Z'', ev_actor = ''a'', ev_machine_id = ''m'', ev_payload = sample_payload,
     ev_schema_version = version, ev_integrity_sha256 = [], ev_idempotency_key = ''sha256:'' @ replicate 64 (CHR ''0''),
     ev_provenance = provenance,
     ev_integrity = [(''algorithm'', PStr ''sha256''), (''canonical_payload_hash'', PStr (''sha256:'' @ replicate 64 (CHR ''0'')))]\<rparr>"

lemma plain_simps [simp]:
  "jo_sha256 plain_env s = replicate 64 (CHR ''0'')" "jo_repr plain_env = (\<lambda>_. [])" "jo_nfkc plain_env = (\<lambda>s. s)"
  "jo_aware plain_env s" "jo_partition plain_env s = Some (''2024'', ''01'')"
  by (simp_all add: plain_env_def)

lemma plain_digest: "\<forall>s. length (jo_sha256 plain_env s) = 64 \<and> list_all hex_lower (jo_sha256 plain_env s)"
proof -
  have "hex_lower (CHR ''0'')" by code_simp
  then show ?thesis by (simp add: list_all_iff)
qed

lemma sample_schema: "version \<in> {1, 2} \<Longrightarrow> validate_schema plain_env (sample_event version provenance) = Inr ()"
proof -
  have "EVENT_ID_RE ''evt_20240101T000000Z_000000000000''" "hex_lower (CHR ''0'')" by code_simp+
  moreover from this(2) have "hash_re (''sha256:'' @ replicate 64 (CHR ''0''))"
    unfolding hash_re_def prefixed_hex_append by (simp add: list_all_iff)
  moreover have "utf8_length (canonical_json (\<lambda>_. []) (PDict sample_payload)) \<le> 64" by code_simp
  moreover assume "version \<in> {1, 2}"
  ultimately show ?thesis
    unfolding validate_schema_iff
    by (auto simp: sample_event_def canonical_payload_hash_def MAX_EVENT_PAYLOAD_BYTES_def simp del: canonical_json.simps)
qed

lemma sample_classification: "payload_classification plain_env (sample_event version provenance) = ''private-reusable''"
  by (simp add: payload_classification_def sample_event_def sample_payload_def get_default_def text_value_def)

lemma sample_provenance_valid: "in_valid (inspect_event_payload (\<lambda>s. s) (\<lambda>_. []) (PList [PStr []]) ''private-reusable'')"
proof -
  have "forbidden_path_reason (\<lambda>s. s) ''/0'' = None" "classify_source ''private-reusable'' \<in> {PUBLIC, PRIVATE_REUSABLE}"
    "\<not> windows_absolute_path []" "\<not> unix_personal_path []" "[] \<notin> set PATH_FIELD_NAMES" "\<not> contains ''email'' []"
    "[] \<notin> set PERSONAL_FIELD_NAMES" by code_simp+
  then have accepted: "validate_string (\<lambda>s. s) ''private-reusable'' ''/0'' [] [] None False = Inr []"
    by (intro validate_string_plain) simp_all
  have kind: "kind_refusal ''string'' [] [] = None" "(''string'' \<in> {''hash'', ''optional_hash''}) = False"
    "pointer_to [] (decimal_text (int 0)) = ''/0''" by code_simp+
  have "fst (walk_string (\<lambda>s. s) ''private-reusable'' ''/0'' [] None []) = []"
    unfolding walk_string_def Let_def option.case prod.case kind accepted by simp
  moreover have "utf8_length (canonical_json (\<lambda>_. []) (PList [PStr []])) \<le> 64" by code_simp
  ultimately show ?thesis
    by (simp add: inspect_event_payload_def inspect_persistable_def Let_def kind_is_def child_expected_def
        kind(3) [simplified] del: canonical_json.simps)
qed

lemma sample_persisted:
  assumes "provenance \<in> {[], [[]]}"
  shows "validate_persisted_event_payload plain_env (sample_event version provenance) = Inr ()"
proof -
  have "classify_source ''private-reusable'' \<in> {PUBLIC, PRIVATE_REUSABLE}" by code_simp
  from sample_payload_valid [OF this] show ?thesis
    using assms sample_provenance_valid empty_provenance_valid
    unfolding persisted_payload_iff sample_classification by (auto simp: sample_event_def)
qed

lemma sample_sealed:
  assumes "version \<in> {1, 2}" "provenance \<in> {[], [[]]}"
  shows "sealed plain_env (sample_event version provenance) = Inr (materialize plain_env (sample_event version provenance))"
proof -
  let ?e = "sample_event version provenance"
  have fresh: "ev_integrity_sha256 ?e = []" "ev_schema_version ?e = version" by (simp_all add: sample_event_def)
  have "validate_schema plain_env (materialize plain_env ?e) = Inr ()" if "version = 1"
    using sample_schema [of version provenance] that unfolding validate_schema_iff
    by (simp add: materialize_def sample_event_def Let_def)
  moreover have "validate_persisted_event_payload plain_env (materialize plain_env ?e) = validate_persisted_event_payload plain_env ?e"
    by (simp add: validate_persisted_event_payload_def payload_classification_def)
  ultimately show ?thesis
    using assms sample_schema [OF assms(1)] sample_persisted [OF assms(2)] fresh
    by (auto simp: sealed_def validate_incoming_v2_event_def Let_def)
qed

definition sample_path :: string where
  "sample_path = ''2024/01/evt_20240101T000000Z_000000000000.json''"

lemma sample_append:
  assumes "version \<in> {1, 2}" "provenance \<in> {[], [[]]}"
  shows "\<exists>j. append_event plain_env (sample_event version provenance) [] = Inr (j, sample_path)"
proof -
  have "event_path plain_env (materialize plain_env (sample_event version provenance)) = Inr sample_path"
    by (simp add: event_path_def sample_path_def sample_event_def)
  then show ?thesis
    unfolding append_event_def sample_sealed [OF assms] by (simp add: existing_duplicate_def del: jsonify.simps)
qed

theorem appended_event_reads_back_witness:
  "\<exists>j content. map_of j sample_path = Some content
     \<and> read_event plain_env sample_path content = Inr (stored_event (materialize plain_env (sample_event 2 [])))"
proof -
  obtain j where "append_event plain_env (sample_event 2 []) [] = Inr (j, sample_path)" using sample_append [of 2 "[]"] by auto
  from appended_event_reads_back [OF plain_digest this] show ?thesis by (auto simp: sample_event_def)
qed

theorem append_is_idempotent_witness:
  "\<exists>j. append_event plain_env (sample_event 2 []) j = Inr (j, sample_path)"
proof -
  obtain j where "append_event plain_env (sample_event 2 []) [] = Inr (j, sample_path)" using sample_append [of 2 "[]"] by auto
  from append_is_idempotent [OF plain_digest this] show ?thesis
    by (auto simp: sample_event_def sample_payload_def is_tuple_def)
qed

theorem append_keeps_history_witness: "\<exists>j :: journal. sample_path \<in> fst ` set j"
proof -
  obtain j where "append_event plain_env (sample_event 2 []) [] = Inr (j, sample_path)" using sample_append [of 2 "[]"] by auto
  from append_keeps_history [OF this] show ?thesis by blast
qed

theorem iteration_is_validated_witness:
  "\<exists>j. iter_events plain_env j False = Inr [stored_event (materialize plain_env (sample_event 2 []))]
     \<and> ev_integrity_sha256 (stored_event (materialize plain_env (sample_event 2 [])))
         = event_integrity plain_env (stored_event (materialize plain_env (sample_event 2 [])))"
proof -
  let ?m = "materialize plain_env (sample_event 2 [])"
  obtain j where j: "append_event plain_env (sample_event 2 []) [] = Inr (j, sample_path)" using sample_append [of 2 "[]"] by auto
  obtain c where "j = [(sample_path, c)]" and read: "read_event plain_env sample_path c = Inr (stored_event ?m)"
  proof (cases rule: append_cases [OF j])
    case 2
    then show ?thesis using that appended_event_content [OF plain_digest j] by (auto simp: sample_event_def)
  qed simp
  then have iter: "iter_events plain_env j False = Inr [stored_event ?m]"
    by (simp add: iter_events_def Let_def visible_def sample_event_def sample_payload_def json_fields_def get_default_def)
  show ?thesis using iteration_is_validated [OF _ iter] iter by auto
qed

text \<open>
  C40. An accepted event can make the journal unreadable: the append does not require the provenance
  texts of an event of the second version to be non-empty, the reader does, and after one such event no
  iteration over the journal returns.
\<close>

theorem empty_provenance_poisons_journal:
  assumes "append_event env e j = Inr (j', path)" and "map_of j path = None"
    and "ev_schema_version e = 2" and "[] \<in> set (ev_provenance e)"
  shows "isl (iter_events env j' include_uncommitted)"
  using assms(1)
proof (cases rule: append_cases)
  case there
  then show ?thesis using assms(2) by (simp add: map_of_eq_None_iff)
next
  case new
  let ?d = "json_fields (event_to_dict (materialize env e))"
  have member: "(path, Json (PDict ?d)) \<in> set j'"
    using new(1,2) by (simp add: set_dict_set_free jsonify_PDict del: jsonify.simps)
  have items: "get_default ?d ''provenance'' PNone = PList (map PStr (ev_provenance e))"
    using event_lookup_v2(2) [of "materialize env e"] assms(3) by (simp add: event_value comp_def)
  have version: "schema_version_of ?d = Some 2"
    using assms(3) by (auto simp: schema_version_of_def get_default_def event_to_dict_def canonical_dict_def)
  have "\<not> list_all nonempty_text (map PStr (ev_provenance e))" using assms(4) by (force simp: list_all_iff)
  then have "validate_v2_mapping ?d \<noteq> Inr ()"
    unfolding validate_v2_mapping_def items by (simp add: rbind_unit)
  then have "validate_event_mapping env ?d \<noteq> Inr x" for x
    unfolding validate_event_mapping_def version option.case Let_def by (auto simp: rbind_unit)
  then have unreadable: "read_event env path (Json (PDict ?d)) \<noteq> Inr x" for x
    by (auto simp: read_event_def as_schema_error_def rbind_eq_Inr schema_invalid_def split: sum.splits exn.splits)
  show ?thesis
  proof (cases "iter_events env j' include_uncommitted")
    case (Inr events)
    then obtain raw where "list_all2 (\<lambda>x y. (case x of (path, content) \<Rightarrow> read_event env path content) = Inr y) (sort_key fst j') raw"
      by (auto simp: iter_events_def rbind_eq_Inr rmap_eq_Inr)
    from list_all2_images [OF this] member unreadable show ?thesis by fastforce
  qed simp
qed

theorem empty_provenance_poisons_journal_witness:
  "\<exists>j. append_event plain_env (sample_event 2 [[]]) [] = Inr (j, sample_path) \<and> isl (iter_events plain_env j False)"
proof -
  obtain j where j: "append_event plain_env (sample_event 2 [[]]) [] = Inr (j, sample_path)" using sample_append [of 2 "[[]]"] by auto
  from empty_provenance_poisons_journal [OF j] j show ?thesis by (auto simp: sample_event_def)
qed

end
