(* ===== verification/Reconciliation.thy ===== *)
theory Reconciliation
  imports Claim_Clusters Knowledge_Lifecycle Event_Journal
begin

section \<open>Reconciliation of the journal\<close>

text \<open>
  \<^verbatim>\<open>src/src/ei/reconciliation.py\<close>: the observations of the journal are clustered, the events of the
  patterns are applied to the clusters, and what follows is appended: candidates, revisions, and what
  the lifecycle decides. Clustering is that of \<^verbatim>\<open>Claim_Clusters\<close>, the decisions are those of
  \<^verbatim>\<open>Knowledge_Lifecycle\<close>, the journal is that of \<^verbatim>\<open>Event_Journal\<close>.

  Sets are lists without repetitions. Further parameters: \<open>int\<close> of a value, \<open>fromisoformat\<close>, the ISO
  text one microsecond after an instant, and the machine id. Operation deadlines are not modelled.
\<close>

record reconcile_env =
  re_journal :: journal_env
  re_int :: "pyval \<Rightarrow> int result"
  re_parse :: "string \<Rightarrow> int option"
  re_after :: "string \<Rightarrow> string option"
  re_machine :: string

abbreviation sha_of :: "reconcile_env \<Rightarrow> string \<Rightarrow> string" where
  "sha_of env \<equiv> jo_sha256 (re_journal env)"

abbreviation nfkc_by :: "reconcile_env \<Rightarrow> string \<Rightarrow> string" where
  "nfkc_by env \<equiv> jo_nfkc (re_journal env)"

abbreviation repr_of :: "reconcile_env \<Rightarrow> rat \<Rightarrow> string" where
  "repr_of env \<equiv> jo_repr (re_journal env)"

definition ordered_events :: "Event list \<Rightarrow> Event list" where
  "ordered_events events = sort_key (\<lambda>e. (ev_occurred_at e, ev_event_id e)) events"

record ReconciliationResult =
  rc_created_events :: nat
  rc_candidate_events :: nat
  rc_promotion_events :: nat
  rc_revision_events :: nat
  rc_deprecation_events :: nat
  rc_tombstone_events :: nat
  rc_duplicate_observations :: nat
  rc_cluster_count :: nat

record ClusterRecord =
  kr_state :: ClusterState
  kr_observations :: "ObservationState list"
  kr_canonical_rule :: string
  kr_revision :: int

subsection \<open>Observations\<close>

definition payload_text :: "pydict \<Rightarrow> string \<Rightarrow> string \<Rightarrow> string" where
  "payload_text payload name other = (case get_default payload name (PStr other) of PStr s \<Rightarrow> s | _ \<Rightarrow> other)"

definition texts_of_field :: "pydict \<Rightarrow> string \<Rightarrow> string list" where
  "texts_of_field d name = (case seq_items (get_default d name PNone) of Some xs \<Rightarrow> map the_str xs | None \<Rightarrow> [])"

definition observation_state :: "Event \<Rightarrow> ObservationState result" where
  "observation_state e =
     (let payload = ev_payload e; source_hash = payload_text payload ''source_hash'' [];
          source_ref_hash = payload_text payload ''source_ref_hash'' [];
          provenance = or_text (payload_text payload ''provenance_key'' [])
            (payload_text payload ''source_kind'' ''native_memory'' @ '':'' @ or_text source_hash (or_text source_ref_hash (ev_event_id e)));
          applicability = (case seq_items (get_default payload ''applicability'' (PTuple [])) of
            Some xs \<Rightarrow> filter (\<lambda>s. s \<noteq> []) (map the_str (filter is_str xs)) | None \<Rightarrow> [])
      in rbind (host_applicability_fields (PDict payload) True True) (\<lambda>h.
        Inr \<lparr>ob_observation_id = payload_text payload ''observation_id'' (''obs_'' @ ev_event_id e),
          ob_title = payload_text payload ''title'' [], ob_claim = payload_text payload ''claim'' [],
          ob_domain = payload_text payload ''domain'' ''general'',
          ob_cwd_fingerprint = payload_text payload ''cwd_fingerprint'' [], ob_provenance_key = provenance,
          ob_outcome_status = payload_text payload ''outcome_status'' ''unknown'', ob_benefit = payload_text payload ''benefit'' [],
          ob_classification = payload_text payload ''classification'' ''private-reusable'', ob_source_hash = source_hash,
          ob_applicability = applicability, ob_scope = the_str (get_default h ''applicability_scope'' PNone),
          ob_provenance = [], ob_benefit_refs = [], ob_version_constraint = None, ob_status = ''OBSERVED'',
          ob_session_id_hash = None, ob_rollout_id_hash = None, ob_copied_from_hash = None, ob_source_family = [],
          ob_source_host_id = the_str (get_default h ''source_host_id'' PNone),
          ob_source_host_family = the_str (get_default h ''source_host_family'' PNone),
          ob_applicability_scope = the_str (get_default h ''applicability_scope'' PNone),
          ob_applicable_host_ids = texts_of_field h ''applicable_host_ids'',
          ob_applicable_host_families = texts_of_field h ''applicable_host_families''\<rparr>))"

definition scope_key :: "ObservationState \<Rightarrow> string" where
  "scope_key x = or_text (ob_cwd_fingerprint x) (''domain:'' @ ob_domain x)"

text \<open>The host contract that keeps clusters apart.\<close>

definition host_applicability_key :: "ObservationState \<Rightarrow> pyval" where
  "host_applicability_key x =
     (if ob_source_host_id x = [] \<or> ob_source_host_family x = [] then PTuple [PStr ''legacy'']
      else PTuple [PStr ''explicit'', PStr (ob_source_host_id x), PStr (ob_source_host_family x), PStr (ob_applicability_scope x),
        PTuple (map PStr (ob_applicable_host_ids x)), PTuple (map PStr (ob_applicable_host_families x))])"

definition cluster_id_of :: "reconcile_env \<Rightarrow> ObservationState \<Rightarrow> string" where
  "cluster_id_of env x =
     (let base = ''cluster_'' @ take 20 (claim_fingerprint (sha_of env) (nfkc_by env) (ob_claim x)); key = host_applicability_key x
      in if key = PTuple [PStr ''legacy''] then base
         else base @ ''_'' @ take 12 (stable_hash (sha_of env) (repr_of env) key))"

text \<open>The longest claim, the smallest in its normal form among those.\<close>

definition canonical_rule :: "reconcile_env \<Rightarrow> ObservationState list \<Rightarrow> string" where
  "canonical_rule env xs =
     (case sort_key (\<lambda>c. (- int (length (normalize_claim (nfkc_by env) c)), normalize_claim (nfkc_by env) c))
        (filter (\<lambda>c. c \<noteq> []) (map ob_claim xs)) of [] \<Rightarrow> [] | c # _ \<Rightarrow> c)"

definition state_host_fields :: "ClusterState \<Rightarrow> pydict result" where
  "state_host_fields c =
     (if cl_source_host_id c = [] \<or> cl_source_host_family c = [] then Inr []
      else let d = host_fields c in
        rbind (validate_host_applicability_mapping (PDict d) False True) (\<lambda>_. Inr d))"

definition pattern_body :: "ClusterRecord \<Rightarrow> pydict \<Rightarrow> PromotionPolicy \<Rightarrow> string \<Rightarrow> int option \<Rightarrow> pydict" where
  "pattern_body r payload policy reason new_version =
     (let c = kr_state r; refs = sort (if cl_evidence_refs c \<noteq> [] then cl_evidence_refs c else cl_provenances c)
      in update_dict
        [(''cluster_id'', PStr (cl_cluster_id c)), (''reason'', PStr reason), (''reason_code'', PStr reason),
         (''evidence_refs'', PList (map PStr refs)), (''policy_version'', PStr (pp_policy_version policy)),
         (''old_version'', PInt (kr_revision r)),
         (''new_version'', PInt (case new_version of None \<Rightarrow> kr_revision r | Some v \<Rightarrow> v))] payload)"

definition keyed_event :: "reconcile_env \<Rightarrow> string \<Rightarrow> ClusterRecord \<Rightarrow> string \<Rightarrow> pydict \<Rightarrow> Event" where
  "keyed_event env event_type r occurred_at body =
     (let cluster = (''cluster_id'', PStr (cl_cluster_id (kr_state r))); hash = stable_hash (sha_of env) (repr_of env);
          key = ''sha256:'' @ hash (PDict [(''event_type'', PStr event_type), cluster, (''occurred_at'', PStr occurred_at), (''payload'', PDict body)]);
          full = dict_set ''idempotency_key'' (PStr key) body;
          event_id = ''evt_reconcile_'' @ take 28 (hash (PDict [(''event_type'', PStr event_type), cluster, (''payload'', PDict full)]))
      in create_event event_type occurred_at ''reconcile'' (re_machine env) full event_id)"

definition event_for_pattern ::
  "reconcile_env \<Rightarrow> string \<Rightarrow> ClusterRecord \<Rightarrow> string \<Rightarrow> pydict \<Rightarrow> PromotionPolicy \<Rightarrow> string \<Rightarrow> int option \<Rightarrow> Event result" where
  "event_for_pattern env event_type r occurred_at payload policy reason new_version =
     rbind (state_host_fields (kr_state r)) (\<lambda>h. Inr (keyed_event env event_type r occurred_at
       (update_dict (pattern_body r payload policy reason new_version) h)))"

subsection \<open>Clustering\<close>

definition first_nonempty :: "string list \<Rightarrow> string option" where
  "first_nonempty xs = List.find (\<lambda>s. s \<noteq> []) xs"

definition nonempty_option :: "string \<Rightarrow> string option" where
  "nonempty_option s = (if s = [] then None else Some s)"

definition new_record :: "reconcile_env \<Rightarrow> string \<Rightarrow> ObservationState \<Rightarrow> string \<Rightarrow> ClusterRecord" where
  "new_record env cluster_id x last_used_at =
     (let rule = canonical_rule env [x] in
      \<lparr>kr_state = \<lparr>cl_cluster_id = cluster_id, cl_pattern_id = None, cl_status = ''raw'', cl_rule = rule,
          cl_provenances = [ob_provenance_key x], cl_scopes = [scope_key x], cl_benefit_count = of_bool (ob_benefit x \<noteq> []),
          cl_contradiction_provenances = [], cl_classification = ob_classification x, cl_last_used_at = Some last_used_at,
          cl_deprecated_at = None, cl_superseded_by = None, cl_replacement_active = False, cl_pinned = False,
          cl_legal_hold = False, cl_exposure_count = 0, cl_member_ids = [], cl_canonical_claim = [], cl_polarity = ''MIXED'',
          cl_contradiction_ids = [], cl_provenance_scopes = [], cl_last_observed_at = None,
          cl_precondition = nonempty_option (ob_domain x), cl_failure_mode = nonempty_option (ob_outcome_status x),
          cl_version_constraint = None, cl_evidence_refs = filter (\<lambda>s. s \<noteq> []) [ob_provenance_key x],
          cl_applicability = (if ob_domain x \<noteq> [] then [ob_domain x] else []), cl_revision = 0,
          cl_source_host_id = ob_source_host_id x, cl_source_host_family = ob_source_host_family x,
          cl_applicability_scope = ob_applicability_scope x, cl_applicable_host_ids = ob_applicable_host_ids x,
          cl_applicable_host_families = ob_applicable_host_families x\<rparr>,
       kr_observations = [x], kr_canonical_rule = rule, kr_revision = 0\<rparr>)"

definition adopt_host :: "ObservationState \<Rightarrow> ClusterState \<Rightarrow> ClusterState" where
  "adopt_host x c =
     (if cl_source_host_id c = [] \<and> ob_source_host_id x \<noteq> [] \<and> ob_source_host_family x \<noteq> [] then
        c\<lparr>cl_source_host_id := ob_source_host_id x, cl_source_host_family := ob_source_host_family x,
          cl_applicability_scope := ob_applicability_scope x, cl_applicable_host_ids := ob_applicable_host_ids x,
          cl_applicable_host_families := ob_applicable_host_families x\<rparr>
      else c)"

definition extended_record :: "reconcile_env \<Rightarrow> ObservationState \<Rightarrow> string \<Rightarrow> ClusterRecord \<Rightarrow> ClusterRecord" where
  "extended_record env x last_used_at r =
     (let xs = kr_observations r @ [x];
          c = (kr_state r)\<lparr>cl_rule := canonical_rule env xs, cl_provenances := unique (map ob_provenance_key xs),
            cl_scopes := unique (map scope_key xs), cl_benefit_count := int (length (filter (\<lambda>y. ob_benefit y \<noteq> []) xs)),
            cl_last_used_at := Some last_used_at,
            cl_applicability := sorted_set (filter (\<lambda>s. s \<noteq> []) (map ob_domain xs)),
            cl_precondition := first_nonempty (map ob_domain xs), cl_failure_mode := first_nonempty (map ob_outcome_status xs),
            cl_evidence_refs := sort (filter (\<lambda>s. s \<noteq> []) (map ob_provenance_key xs))\<rparr>;
          c' = adopt_host x c
      in r\<lparr>kr_state := c', kr_observations := xs, kr_canonical_rule := cl_rule c'\<rparr>)"

record clustering =
  kg_observations :: "ObservationState list"
  kg_clusters :: "string dict"
  kg_records :: "ClusterRecord dict"
  kg_duplicates :: nat
  kg_times :: "string dict"

definition clustering_start :: clustering where
  "clustering_start = \<lparr>kg_observations = [], kg_clusters = [], kg_records = [], kg_duplicates = 0, kg_times = []\<rparr>"

text \<open>An earlier observation of the cluster from elsewhere that says something else.\<close>

definition opposes :: "reconcile_env \<Rightarrow> string dict \<Rightarrow> string \<Rightarrow> ObservationState \<Rightarrow> ObservationState \<Rightarrow> bool" where
  "opposes env clusters cluster_id x prior \<longleftrightarrow> map_of clusters (ob_observation_id prior) = Some cluster_id
   \<and> ob_provenance_key prior \<noteq> ob_provenance_key x
   \<and> classify_polarity (nfkc_by env) (ob_claim prior) \<noteq> classify_polarity (nfkc_by env) (ob_claim x)"

definition place_observation ::
  "reconcile_env \<Rightarrow> string \<Rightarrow> ObservationState \<Rightarrow> ClusterDecision \<Rightarrow> string \<Rightarrow> clustering \<Rightarrow> clustering" where
  "place_observation env occurred_at x decision cluster_id k =
     (let clusters = dict_set (ob_observation_id x) cluster_id (kg_clusters k);
          last_used = max (get_default (kg_times k) cluster_id []) occurred_at;
          placed = (case map_of (kg_records k) cluster_id of
             None \<Rightarrow> new_record env cluster_id x occurred_at
           | Some r \<Rightarrow> extended_record env x last_used r);
          against = (list_ex (opposes env clusters cluster_id x) (kg_observations k)
             \<or> cd_kind decision = ''contradiction'' \<and> cd_independent_provenance decision);
          c = kr_state placed;
          c' = c\<lparr>cl_contradiction_provenances := unique (cl_contradiction_provenances c @ (if against then [ob_provenance_key x] else []))\<rparr>
      in \<lparr>kg_observations = kg_observations k @ [x], kg_clusters = clusters,
          kg_records = dict_set cluster_id (placed\<lparr>kr_state := c'\<rparr>) (kg_records k),
          kg_duplicates = kg_duplicates k + of_bool (cd_kind decision = ''duplicate''),
          kg_times = dict_set cluster_id last_used (kg_times k)\<rparr>)"

definition is_observation :: "Event \<Rightarrow> bool" where
  "is_observation e \<longleftrightarrow> ev_event_type e = ''observation.recorded'' \<and> truthy (get_default (ev_payload e) ''claim'' PNone)"

text \<open>Only observations under the same host contract are candidates; a decision has a target unless it is new.\<close>

definition decision_for :: "reconcile_env \<Rightarrow> ObservationState \<Rightarrow> clustering \<Rightarrow> ClusterDecision" where
  "decision_for env x k = assign_cluster (sha_of env) (nfkc_by env) x
     (map Observed (filter (\<lambda>y. host_applicability_key y = host_applicability_key x) (kg_observations k)))"

definition cluster_for :: "reconcile_env \<Rightarrow> ObservationState \<Rightarrow> clustering \<Rightarrow> string result" where
  "cluster_for env x k =
     (if cd_kind (decision_for env x k) = ''new'' then Inr (cluster_id_of env x)
      else case cd_target_observation_id (decision_for env x k) of
        None \<Rightarrow> Inr (cluster_id_of env x)
      | Some target \<Rightarrow> (case map_of (kg_clusters k) target of
            None \<Rightarrow> Inl (KeyError target) | Some cluster_id \<Rightarrow> Inr cluster_id))"

definition cluster_step :: "reconcile_env \<Rightarrow> Event \<Rightarrow> clustering \<Rightarrow> clustering result" where
  "cluster_step env e k =
     (if \<not> is_observation e then Inr k
      else rbind (observation_state e) (\<lambda>x. rbind (cluster_for env x k) (\<lambda>cluster_id.
        Inr (place_observation env (ev_occurred_at e) x (decision_for env x k) cluster_id k))))"

fun cluster_events :: "reconcile_env \<Rightarrow> Event list \<Rightarrow> clustering \<Rightarrow> clustering result" where
  "cluster_events env [] k = Inr k"
| "cluster_events env (e # es) k = rbind (cluster_step env e k) (cluster_events env es)"

definition cluster_observations :: "reconcile_env \<Rightarrow> Event list \<Rightarrow> clustering result" where
  "cluster_observations env events = cluster_events env events clustering_start"

subsection \<open>Events of patterns\<close>

record pattern_pass =
  xp_records :: "ClusterRecord dict"
  xp_exposure_counts :: "int dict"
  xp_exposure_times :: "string dict"

definition any_host_field :: "pydict \<Rightarrow> bool" where
  "any_host_field payload \<longleftrightarrow> list_ex (has_key payload) HOST_APPLICABILITY_FIELDS"

text \<open>The host contract an event carries replaces that of the cluster, once it is validated.\<close>

definition with_event_hosts :: "pydict \<Rightarrow> ClusterState \<Rightarrow> ClusterState result" where
  "with_event_hosts payload c = (if \<not> any_host_field payload then Inr c
     else rbind (host_applicability_fields (PDict payload) False True) (\<lambda>h. Inr (c\<lparr>
       cl_source_host_id := the_str (get_default h ''source_host_id'' PNone),
       cl_source_host_family := the_str (get_default h ''source_host_family'' PNone),
       cl_applicability_scope := the_str (get_default h ''applicability_scope'' PNone),
       cl_applicable_host_ids := texts_of_field h ''applicable_host_ids'',
       cl_applicable_host_families := texts_of_field h ''applicable_host_families''\<rparr>)))"

definition payload_str :: "reconcile_env \<Rightarrow> pydict \<Rightarrow> string \<Rightarrow> string \<Rightarrow> string" where
  "payload_str env payload name other = text_value (re_journal env) (get_default payload name (PStr other))"

definition state_text :: "string option \<Rightarrow> string" where
  "state_text v = (case v of None \<Rightarrow> [] | Some s \<Rightarrow> s)"

definition rule_of_event :: "reconcile_env \<Rightarrow> pydict \<Rightarrow> ClusterState \<Rightarrow> ClusterState" where
  "rule_of_event env payload c = c\<lparr>cl_rule := payload_str env payload ''rule'' (cl_rule c),
     cl_classification := payload_str env payload ''classification'' (cl_classification c)\<rparr>"

definition pattern_of_event :: "reconcile_env \<Rightarrow> string \<Rightarrow> pydict \<Rightarrow> ClusterState \<Rightarrow> ClusterState" where
  "pattern_of_event env status payload c = rule_of_event env payload
     (c\<lparr>cl_status := status, cl_pattern_id := Some (payload_str env payload ''pattern_id'' (state_text (cl_pattern_id c)))\<rparr>)"

definition pattern_event_on :: "reconcile_env \<Rightarrow> Event \<Rightarrow> ClusterRecord \<Rightarrow> ClusterRecord result" where
  "pattern_event_on env e r =
     (let payload = ev_payload e; c = kr_state r; kind = ev_event_type e;
          put = (\<lambda>c. Inr (r\<lparr>kr_state := c\<rparr>))
      in if kind = ''pattern.candidate_created'' then rbind (with_event_hosts payload (pattern_of_event env ''candidate'' payload c)) put
         else if kind = ''pattern.promoted'' then rbind (with_event_hosts payload (pattern_of_event env ''active'' payload c)) put
         else if kind = ''pattern.revised'' then
           rbind (re_int env (get_default payload ''revision'' (PInt 0))) (\<lambda>n.
           rbind (with_event_hosts payload (rule_of_event env payload c)) (\<lambda>c'.
             Inr (r\<lparr>kr_state := c', kr_revision := max (kr_revision r) n\<rparr>)))
         else if kind = ''pattern.deprecated'' then
           put (c\<lparr>cl_status := ''deprecated'', cl_deprecated_at := Some (ev_occurred_at e)\<rparr>)
         else if kind = ''pattern.superseded'' then
           put (c\<lparr>cl_status := ''superseded'', cl_superseded_by := Some (text_value (re_journal env)
               (get_default payload ''replacement_pattern_id'' (get_default payload ''superseded_by'' (PStr [])))),
             cl_replacement_active := truthy (get_default payload ''replacement_active'' (PBool False))\<rparr>)
         else if kind = ''pattern.tombstoned'' then put (c\<lparr>cl_status := ''tombstoned''\<rparr>)
         else Inr r)"

definition pattern_event_step :: "reconcile_env \<Rightarrow> Event \<Rightarrow> pattern_pass \<Rightarrow> pattern_pass result" where
  "pattern_event_step env e p =
     (let cluster_id = payload_str env (ev_payload e) ''cluster_id'' [] in
      case map_of (xp_records p) cluster_id of
        None \<Rightarrow> Inr p
      | Some r \<Rightarrow>
          if ev_event_type e \<in> {''pattern.exposed'', ''pattern.used''} then
            (let pattern_id = payload_str env (ev_payload e) ''pattern_id'' [] in
             Inr (p\<lparr>xp_exposure_counts := dict_set pattern_id (get_default (xp_exposure_counts p) pattern_id 0 + 1) (xp_exposure_counts p),
               xp_exposure_times := dict_set cluster_id
                 (max (get_default (xp_exposure_times p) cluster_id []) (ev_occurred_at e)) (xp_exposure_times p)\<rparr>))
          else rbind (pattern_event_on env e r) (\<lambda>r'.
            Inr (p\<lparr>xp_records := dict_set cluster_id
              (r'\<lparr>kr_canonical_rule := canonical_rule env (kr_observations r')\<rparr>) (xp_records p)\<rparr>)))"

fun pattern_events :: "reconcile_env \<Rightarrow> Event list \<Rightarrow> pattern_pass \<Rightarrow> pattern_pass result" where
  "pattern_events env [] p = Inr p"
| "pattern_events env (e # es) p = rbind (pattern_event_step env e p) (pattern_events env es)"

definition with_exposure :: "pattern_pass \<Rightarrow> ClusterRecord \<Rightarrow> ClusterRecord" where
  "with_exposure p r = (let c = kr_state r in
     if \<not> truthy_text (cl_pattern_id c) then r
     else r\<lparr>kr_state := c\<lparr>cl_exposure_count := get_default (xp_exposure_counts p) (state_text (cl_pattern_id c)) 0,
       cl_last_used_at := nonempty_option (max (state_text (cl_last_used_at c))
         (get_default (xp_exposure_times p) (cl_cluster_id c) []))\<rparr>\<rparr>)"

definition apply_pattern_events :: "reconcile_env \<Rightarrow> ClusterRecord dict \<Rightarrow> Event list \<Rightarrow> ClusterRecord dict result" where
  "apply_pattern_events env records events =
     rbind (pattern_events env events \<lparr>xp_records = records, xp_exposure_counts = [], xp_exposure_times = []\<rparr>) (\<lambda>p.
       Inr (map (\<lambda>(k, r). (k, with_exposure p r)) (xp_records p)))"

text \<open>The clusters of a journal with what its events made of their patterns, and the number of duplicates.\<close>

definition cluster_records :: "reconcile_env \<Rightarrow> Event list \<Rightarrow> (ClusterRecord dict \<times> nat) result" where
  "cluster_records env events =
     rbind (cluster_observations env events) (\<lambda>k.
     rbind (apply_pattern_events env (kg_records k) events) (\<lambda>records. Inr (records, kg_duplicates k)))"

subsection \<open>Diagnostics of candidates\<close>

record candidate_row =
  cw_pattern_id :: string
  cw_eligible :: bool
  cw_reason_codes :: "string list"
  cw_provenance_count :: nat
  cw_scope_count :: nat
  cw_benefit_count :: int
  cw_contradiction_count :: nat
  cw_policy_version :: string

fun open_candidates :: "reconcile_env \<Rightarrow> Event list \<Rightarrow> string dict \<Rightarrow> string dict" where
  "open_candidates env [] candidates = candidates"
| "open_candidates env (e # es) candidates = open_candidates env es
     (case get_default (ev_payload e) ''pattern_id'' PNone of
        PStr pattern_id \<Rightarrow>
          if pattern_id = [] then candidates
          else if ev_event_type e = ''pattern.candidate_created'' then
            dict_set pattern_id (payload_str env (ev_payload e) ''cluster_id'' []) candidates
          else if ev_event_type e \<in> {''pattern.promoted'', ''pattern.revised'', ''pattern.deprecated'',
              ''pattern.superseded'', ''pattern.tombstoned''} then AList.delete pattern_id candidates
          else candidates
      | _ \<Rightarrow> candidates)"

definition candidate_row_of :: "PromotionPolicy \<Rightarrow> ClusterRecord dict \<Rightarrow> string \<times> string \<Rightarrow> candidate_row" where
  "candidate_row_of policy records = (\<lambda>(pattern_id, cluster_id). case map_of records cluster_id of
       None \<Rightarrow> \<lparr>cw_pattern_id = pattern_id, cw_eligible = False, cw_reason_codes = [''CANDIDATE_EVIDENCE_UNAVAILABLE''],
         cw_provenance_count = 0, cw_scope_count = 0, cw_benefit_count = 0, cw_contradiction_count = 0,
         cw_policy_version = pp_policy_version policy\<rparr>
     | Some r \<Rightarrow> (let c = kr_state r; eligibility = promotion_eligibility c policy in
         \<lparr>cw_pattern_id = pattern_id, cw_eligible = vr_valid eligibility, cw_reason_codes = vr_reason_codes eligibility,
          cw_provenance_count = length (cl_provenances c), cw_scope_count = length (cl_scopes c),
          cw_benefit_count = cl_benefit_count c, cw_contradiction_count = length (cl_contradiction_provenances c),
          cw_policy_version = pp_policy_version policy\<rparr>))"

definition candidate_diagnostics :: "reconcile_env \<Rightarrow> Event list \<Rightarrow> PromotionPolicy \<Rightarrow> candidate_row list result" where
  "candidate_diagnostics env events policy =
     (let current = ordered_events events; candidates = open_candidates env current []
      in if candidates = [] then Inr []
         else rbind (cluster_records env current) (\<lambda>(records, _).
           Inr (map (candidate_row_of policy records) (sort candidates))))"

subsection \<open>Reconciling\<close>

definition evidence_of :: "ClusterRecord \<Rightarrow> pydict" where
  "evidence_of r = (let c = kr_state r in
     [(''rule'', PStr (kr_canonical_rule r)), (''provenances'', PList (map PStr (sort (cl_provenances c)))),
      (''scopes'', PList (map PStr (sort (cl_scopes c)))), (''applicability'', PList (map PStr (cl_applicability c))),
      (''benefit_count'', PInt (cl_benefit_count c)), (''classification'', PStr (cl_classification c))])"

definition needs_candidate :: "PromotionPolicy \<Rightarrow> ClusterRecord \<Rightarrow> bool" where
  "needs_candidate policy r \<longleftrightarrow> cl_status (kr_state r) \<in> {''raw'', ''candidate''}
   \<and> pp_independent_provenance_count policy \<le> int (length (cl_provenances (kr_state r)))
   \<and> \<not> truthy_text (cl_pattern_id (kr_state r))"

definition needs_revision :: "ClusterRecord \<Rightarrow> bool" where
  "needs_revision r \<longleftrightarrow> cl_status (kr_state r) = ''active'' \<and> kr_canonical_rule r \<noteq> []
   \<and> kr_canonical_rule r \<noteq> cl_rule (kr_state r)"

definition observed_at :: "reconcile_env \<Rightarrow> Event list \<Rightarrow> string \<Rightarrow> ClusterRecord \<Rightarrow> string" where
  "observed_at env events now r =
     (let ids = map ob_observation_id (kr_observations r);
          times = map ev_occurred_at (filter (\<lambda>e. ev_event_type e = ''observation.recorded''
            \<and> payload_str env (ev_payload e) ''observation_id'' [] \<in> set ids) events)
      in case times of [] \<Rightarrow> now | t # ts \<Rightarrow> fold max ts t)"

definition generated_events :: "reconcile_env \<Rightarrow> PromotionPolicy \<Rightarrow> Event list \<Rightarrow> string \<Rightarrow> ClusterRecord \<Rightarrow> Event list result" where
  "generated_events env policy events now r =
     (if needs_candidate policy r then
        rbind (event_for_pattern env ''pattern.candidate_created'' r (observed_at env events now r)
          ((''pattern_id'', PStr (''pat_'' @ take 20 (stable_hash (sha_of env) (repr_of env) (PStr (cl_cluster_id (kr_state r))))))
            # evidence_of r) policy ''REPEATED_OBSERVATION'' (Some 0)) (\<lambda>e. Inr [e])
      else if needs_revision r then
        (let revision = kr_revision r + 1 in
         rbind (event_for_pattern env ''pattern.revised'' r now
           ((''pattern_id'', text_or_none (cl_pattern_id (kr_state r))) # (''revision'', PInt revision) # evidence_of r)
           policy ''NEW_REUSABLE_EVIDENCE'' (Some revision)) (\<lambda>e. Inr [e]))
      else Inr [])"

text \<open>
  Appending stops at the first refusal; what was appended before it stays. The ids of known events grow
  with each append.
\<close>

fun append_new :: "journal_env \<Rightarrow> Event list \<Rightarrow> string list \<Rightarrow> journal \<Rightarrow> journal \<times> string list result" where
  "append_new env [] ids j = (j, Inr ids)"
| "append_new env (e # es) ids j =
     (if ev_event_id e \<in> set ids then append_new env es ids j
      else case append_event env e j of
          Inl x \<Rightarrow> (j, Inl x)
        | Inr (j', _) \<Rightarrow> append_new env es (ids @ [ev_event_id e]) j')"

definition latest_time :: "Event list \<Rightarrow> string" where
  "latest_time events = fold max (map ev_occurred_at events) []"

text \<open>The time of the run is after every event it reads.\<close>

definition time_of_run :: "reconcile_env \<Rightarrow> Event list \<Rightarrow> string \<Rightarrow> string result" where
  "time_of_run env events now =
     (if events = [] \<or> now > latest_time events then Inr now
      else case re_after env (latest_time events) of
          None \<Rightarrow> Inl (ValueError ''RECONCILIATION_TIMESTAMP_INVALID'') | Some t \<Rightarrow> Inr t)"

definition count_type :: "string \<Rightarrow> Event list \<Rightarrow> nat" where
  "count_type kind events = length (filter (\<lambda>e. ev_event_type e = kind) events)"

definition lifecycle_events :: "reconcile_env \<Rightarrow> PromotionPolicy \<Rightarrow> string \<Rightarrow> ClusterRecord dict \<Rightarrow> Event list" where
  "lifecycle_events env policy now records =
     concat (map (\<lambda>(_, r). evaluate_lifecycle (sha_of env) (repr_of env) (re_parse env) (kr_state r) policy (Some now)) records)"

text \<open>The second phase: what the lifecycle decides on the clusters with the generated events applied.\<close>

definition reconcile_phase ::
  "reconcile_env \<Rightarrow> PromotionPolicy \<Rightarrow> Event list \<Rightarrow> string \<Rightarrow> ClusterRecord dict \<times> nat \<Rightarrow> Event list \<Rightarrow> string list
     \<Rightarrow> journal \<Rightarrow> journal \<times> ReconciliationResult result" where
  "reconcile_phase env policy current now start generated ids j =
     (let original = map ev_event_id current;
          updated = ordered_events (current @ filter (\<lambda>e. ev_event_id e \<notin> set original) generated)
      in case (if generated = [] then Inr (fst start) else rbind (cluster_records env updated) (\<lambda>(r, _). Inr r)) of
          Inl x \<Rightarrow> (j, Inl x)
        | Inr records \<Rightarrow>
            (let events = lifecycle_events env policy now records;
                 (j', outcome) = append_new (re_journal env) events ids j
             in (j', rbind outcome (\<lambda>ids'. Inr
                  \<lparr>rc_created_events = length (filter (\<lambda>i. i \<notin> set original) ids'),
                   rc_candidate_events = count_type ''pattern.candidate_created'' generated,
                   rc_promotion_events = count_type ''pattern.promoted'' events,
                   rc_revision_events = count_type ''pattern.revised'' generated,
                   rc_deprecation_events = count_type ''pattern.deprecated'' events,
                   rc_tombstone_events = count_type ''pattern.tombstoned'' events,
                   rc_duplicate_observations = snd start, rc_cluster_count = length records\<rparr>))))"

definition reconcile_lifecycle ::
  "reconcile_env \<Rightarrow> Event list \<Rightarrow> journal \<Rightarrow> string \<Rightarrow> PromotionPolicy \<Rightarrow> journal \<times> ReconciliationResult result" where
  "reconcile_lifecycle env events j now_utc policy =
     (let current = ordered_events events in
      case rbind (cluster_records env current) (\<lambda>start.
           rbind (time_of_run env current now_utc) (\<lambda>now.
           rbind (rmap (\<lambda>(_, r). generated_events env policy current now r) (fst start)) (\<lambda>generated.
             Inr (start, now, concat generated)))) of
        Inl x \<Rightarrow> (j, Inl x)
      | Inr (start, now, generated) \<Rightarrow>
          (case append_new (re_journal env) generated (unique (map ev_event_id current)) j of
             (j', Inl x) \<Rightarrow> (j', Inl x)
           | (j', Inr ids) \<Rightarrow> reconcile_phase env policy current now start generated ids j'))"

end
