(* ===== verification/Reconcile_Laws.thy ===== *)
theory Reconcile_Laws
  imports Reconciliation
begin

section \<open>What reconciliation keeps\<close>

text \<open>
  The laws of \<^verbatim>\<open>Reconciliation\<close>: clustering loses and invents no observation and what a cluster
  says is determined by its members; the events of patterns never touch that evidence; whatever a run
  writes into the journal is justified by observations of the journal.
\<close>

subsection \<open>What clustering keeps\<close>

definition members :: "ClusterRecord dict \<Rightarrow> ObservationState list" where
  "members d = concat (map (kr_observations \<circ> snd) d)"

text \<open>What the members alone determine.\<close>

definition summarises :: "reconcile_env \<Rightarrow> string \<times> ClusterRecord \<Rightarrow> bool" where
  "summarises env = (\<lambda>(i, r). let c = kr_state r; xs = kr_observations r in
     xs \<noteq> [] \<and> cl_cluster_id c = i \<and> cl_rule c = canonical_rule env xs \<and> kr_canonical_rule r = canonical_rule env xs
   \<and> cl_provenances c = unique (map ob_provenance_key xs) \<and> cl_scopes c = unique (map scope_key xs)
   \<and> cl_benefit_count c = int (length (filter (\<lambda>y. ob_benefit y \<noteq> []) xs))
   \<and> cl_evidence_refs c = sort (filter (\<lambda>s. s \<noteq> []) (map ob_provenance_key xs))
   \<and> set (cl_contradiction_provenances c) \<subseteq> ob_provenance_key ` set xs \<and> distinct (cl_contradiction_provenances c)
   \<and> cl_status c = ''raw'' \<and> cl_pattern_id c = None)"

definition accounted :: "reconcile_env \<Rightarrow> clustering \<Rightarrow> bool" where
  "accounted env k \<longleftrightarrow> distinct (map fst (kg_records k)) \<and> mset (members (kg_records k)) = mset (kg_observations k)
   \<and> list_all (summarises env) (kg_records k)"

lemma unique_single [simp]: "unique [x] = [x]"
  by (simp add: unique_def)

lemma distinct_unique [simp]: "distinct (unique xs)"
  by (simp add: unique_def)

lemma length_unique: "length (unique xs) = card (set xs)"
  by (simp add: unique_def length_remdups_card_conv)

lemma adopt_host_keeps [simp]:
  "cl_cluster_id (adopt_host x c) = cl_cluster_id c" "cl_rule (adopt_host x c) = cl_rule c"
  "cl_provenances (adopt_host x c) = cl_provenances c" "cl_scopes (adopt_host x c) = cl_scopes c"
  "cl_benefit_count (adopt_host x c) = cl_benefit_count c" "cl_evidence_refs (adopt_host x c) = cl_evidence_refs c"
  "cl_contradiction_provenances (adopt_host x c) = cl_contradiction_provenances c"
  "cl_status (adopt_host x c) = cl_status c" "cl_pattern_id (adopt_host x c) = cl_pattern_id c"
  by (simp_all add: adopt_host_def)

lemma new_record_summarises: "summarises env (i, new_record env i x t)"
  by (simp add: summarises_def new_record_def Let_def)

lemma extended_summarises: "summarises env (i, r) \<Longrightarrow> summarises env (i, extended_record env x t r)"
  by (auto simp: summarises_def extended_record_def Let_def)

lemma new_record_observations [simp]: "kr_observations (new_record env i x t) = [x]"
  by (simp add: new_record_def Let_def)

lemma extended_observations [simp]: "kr_observations (extended_record env x t r) = kr_observations r @ [x]"
  by (simp add: extended_record_def Let_def)

lemma contradicting_summarises:
  "summarises env (i, r) \<Longrightarrow> x \<in> set (kr_observations r) \<Longrightarrow>
   summarises env (i, r\<lparr>kr_state := (kr_state r)\<lparr>cl_contradiction_provenances :=
     unique (cl_contradiction_provenances (kr_state r) @ (if b then [ob_provenance_key x] else []))\<rparr>\<rparr>)"
  by (auto simp: summarises_def Let_def)

lemma members_set: "members (dict_set i r d) = (case map_of d i of None \<Rightarrow> members d @ kr_observations r | Some _ \<Rightarrow> members (dict_set i r d))"
  by (auto simp: members_def dict_set_new map_of_eq_None_iff split: option.split)

lemma members_grow: "map_of d i = Some r \<Longrightarrow> kr_observations r' = kr_observations r @ [x]
   \<Longrightarrow> mset (members (dict_set i r' d)) = add_mset x (mset (members d))"
  by (induction d) (auto simp: members_def split: if_splits)

text \<open>The record an observation is placed in, before and after contradictions are noted.\<close>

definition placed_record :: "reconcile_env \<Rightarrow> string \<Rightarrow> ObservationState \<Rightarrow> string \<Rightarrow> clustering \<Rightarrow> ClusterRecord" where
  "placed_record env t x i k = (case map_of (kg_records k) i of
     None \<Rightarrow> new_record env i x t
   | Some r \<Rightarrow> extended_record env x (max (get_default (kg_times k) i []) t) r)"

lemma place_records: "\<exists>b. kg_records (place_observation env t x decision i k) = dict_set i
    ((placed_record env t x i k)\<lparr>kr_state := (kr_state (placed_record env t x i k))\<lparr>cl_contradiction_provenances :=
      unique (cl_contradiction_provenances (kr_state (placed_record env t x i k)) @ (if b then [ob_provenance_key x] else []))\<rparr>\<rparr>)
    (kg_records k)"
  unfolding place_observation_def placed_record_def Let_def by (intro exI) simp

lemma place_observations [simp]: "kg_observations (place_observation env t x decision i k) = kg_observations k @ [x]"
  by (simp add: place_observation_def Let_def)

lemma place_clusters [simp]: "kg_clusters (place_observation env t x decision i k) = dict_set (ob_observation_id x) i (kg_clusters k)"
  by (simp add: place_observation_def Let_def)

lemma placed_observations: "kr_observations (placed_record env t x i k) =
    (case map_of (kg_records k) i of None \<Rightarrow> [x] | Some r \<Rightarrow> kr_observations r @ [x])"
  by (simp add: placed_record_def split: option.split)

lemma placed_summarises:
  assumes "list_all (summarises env) (kg_records k)"
  shows "summarises env (i, placed_record env t x i k)"
  using assms by (auto simp: placed_record_def list_all_iff new_record_summarises intro!: extended_summarises
      dest: map_of_SomeD split: option.split)

lemma list_all_dict_set: "list_all P d \<Longrightarrow> P (i, v) \<Longrightarrow> list_all P (dict_set i v d)"
  by (induction d) auto

lemma place_accounted:
  assumes "accounted env k"
  shows "accounted env (place_observation env t x decision i k)"
proof -
  obtain b where records: "kg_records (place_observation env t x decision i k) = dict_set i
    ((placed_record env t x i k)\<lparr>kr_state := (kr_state (placed_record env t x i k))\<lparr>cl_contradiction_provenances :=
      unique (cl_contradiction_provenances (kr_state (placed_record env t x i k)) @ (if b then [ob_provenance_key x] else []))\<rparr>\<rparr>)
    (kg_records k)" (is "_ = dict_set i ?r _")
    using place_records by blast
  have all: "list_all (summarises env) (kg_records k)" using assms by (simp add: accounted_def)
  have x: "x \<in> set (kr_observations (placed_record env t x i k))" by (simp add: placed_observations split: option.split)
  have "summarises env (i, ?r)" by (rule contradicting_summarises [OF placed_summarises [OF all] x])
  then have "list_all (summarises env) (dict_set i ?r (kg_records k))" by (rule list_all_dict_set [OF all])
  moreover have "mset (members (dict_set i ?r (kg_records k))) = add_mset x (mset (members (kg_records k)))"
  proof (cases "map_of (kg_records k) i")
    case None
    then show ?thesis by (subst members_set) (simp add: placed_observations)
  next
    case (Some r)
    then show ?thesis by (intro members_grow) (simp_all add: placed_observations)
  qed
  ultimately show ?thesis using assms by (simp add: accounted_def records distinct_update)
qed

lemma cluster_step_cases [consumes 1, case_names other placed]:
  assumes "cluster_step env e k = Inr k'"
  obtains "\<not> is_observation e" "k' = k"
  | x i where "is_observation e" "observation_state e = Inr x" "cluster_for env x k = Inr i"
      "k' = place_observation env (ev_occurred_at e) x (decision_for env x k) i k"
  using assms unfolding cluster_step_def by (auto simp: rbind_eq_Inr split: if_splits)

lemma cluster_events_accounted:
  "cluster_events env es k = Inr k' \<Longrightarrow> accounted env k \<Longrightarrow> accounted env k'
   \<and> (\<exists>xs. rmap observation_state (filter is_observation es) = Inr xs \<and> kg_observations k' = kg_observations k @ xs)"
proof (induction es arbitrary: k)
  case (Cons e es)
  obtain k1 where step: "cluster_step env e k = Inr k1" and rest: "cluster_events env es k1 = Inr k'"
    using Cons.prems(1) by (auto simp: rbind_eq_Inr)
  from step show ?case
  proof (cases rule: cluster_step_cases)
    case other
    then show ?thesis using Cons.IH [of k] rest Cons.prems(2) by simp
  next
    case (placed x i)
    then show ?thesis using Cons.IH [of k1] rest place_accounted [OF Cons.prems(2)] by auto
  qed
qed simp

lemma accounted_start: "accounted env clustering_start"
  by (simp add: accounted_def clustering_start_def members_def)

lemma clusters_accounted:
  assumes "cluster_observations env events = Inr k"
  shows "accounted env k" "rmap observation_state (filter is_observation events) = Inr (kg_observations k)"
  using cluster_events_accounted [of env events clustering_start k] assms accounted_start
  by (auto simp: cluster_observations_def clustering_start_def)

subsection \<open>What the events of patterns leave\<close>

text \<open>The part of a record that only clustering writes.\<close>

definition evidence :: "ClusterRecord \<Rightarrow> ObservationState list \<times> string \<times> string list \<times> string list \<times> int \<times> string list" where
  "evidence r = (kr_observations r, cl_cluster_id (kr_state r), cl_provenances (kr_state r), cl_scopes (kr_state r),
     cl_benefit_count (kr_state r), cl_contradiction_provenances (kr_state r))"

lemma with_event_hosts_evidence:
  "with_event_hosts payload c = Inr c' \<Longrightarrow> cl_cluster_id c' = cl_cluster_id c \<and> cl_provenances c' = cl_provenances c
   \<and> cl_scopes c' = cl_scopes c \<and> cl_benefit_count c' = cl_benefit_count c
   \<and> cl_contradiction_provenances c' = cl_contradiction_provenances c
   \<and> cl_superseded_by c' = cl_superseded_by c \<and> cl_replacement_active c' = cl_replacement_active c"
  by (auto simp: with_event_hosts_def rbind_eq_Inr split: if_splits)

lemma with_rule [simp]:
  "kr_observations (r\<lparr>kr_state := c\<rparr>) = kr_observations r"
  "evidence (r\<lparr>kr_state := c, kr_revision := n\<rparr>) = evidence (r\<lparr>kr_state := c\<rparr>)"
  by (simp_all add: evidence_def)

lemma hosts_evidence:
  assumes "with_event_hosts payload c = Inr c'"
    "cl_cluster_id c = cl_cluster_id (kr_state r)" "cl_provenances c = cl_provenances (kr_state r)"
    "cl_scopes c = cl_scopes (kr_state r)" "cl_benefit_count c = cl_benefit_count (kr_state r)"
    "cl_contradiction_provenances c = cl_contradiction_provenances (kr_state r)"
  shows "evidence (r\<lparr>kr_state := c'\<rparr>) = evidence r"
  using with_event_hosts_evidence [OF assms(1)] assms(2-) by (simp add: evidence_def)

lemma pattern_event_on_evidence: "pattern_event_on env e r = Inr r' \<Longrightarrow> evidence r' = evidence r"
  unfolding pattern_event_on_def Let_def
  by (elim if_eqE; clarsimp simp: rbind_eq_Inr)
    ((erule hosts_evidence; simp add: pattern_of_event_def rule_of_event_def), (erule hosts_evidence; simp add: pattern_of_event_def rule_of_event_def),
     (erule hosts_evidence; simp add: pattern_of_event_def rule_of_event_def), (simp_all add: evidence_def))

lemma pattern_event_step_cases [consumes 1, case_names same changed]:
  assumes "pattern_event_step env e p = Inr p'"
  obtains "xp_records p' = xp_records p"
  | i r r' where "map_of (xp_records p) i = Some r" "pattern_event_on env e r = Inr r'"
      "xp_records p' = dict_set i (r'\<lparr>kr_canonical_rule := canonical_rule env (kr_observations r')\<rparr>) (xp_records p)"
proof (cases "map_of (xp_records p) (payload_str env (ev_payload e) ''cluster_id'' [])")
  case None
  then show ?thesis using assms that(1) by (simp add: pattern_event_step_def)
next
  case (Some r)
  from assms [unfolded pattern_event_step_def Let_def Some option.case] show ?thesis
  proof (rule if_eqE)
    assume "rbind (pattern_event_on env e r) (\<lambda>r'. Inr (p\<lparr>xp_records := dict_set (payload_str env (ev_payload e) ''cluster_id'' [])
       (r'\<lparr>kr_canonical_rule := canonical_rule env (kr_observations r')\<rparr>) (xp_records p)\<rparr>)) = Inr p'"
    then show ?thesis using that(2) [OF Some] by (auto simp: rbind_eq_Inr)
  qed (use that(1) in auto)
qed

lemma dict_set_present: "map_of d i = Some r \<Longrightarrow> f r' = f r
   \<Longrightarrow> map (\<lambda>(k, v). (k, f v)) (dict_set i r' d) = map (\<lambda>(k, v). (k, f v)) d"
  by (induction d) (auto split: if_splits)

lemma evidence_canonical [simp]: "evidence (r\<lparr>kr_canonical_rule := x\<rparr>) = evidence r"
  by (simp add: evidence_def)

lemma pattern_events_evidence:
  "pattern_events env es p = Inr p' \<Longrightarrow>
   map (\<lambda>(k, r). (k, evidence r)) (xp_records p') = map (\<lambda>(k, r). (k, evidence r)) (xp_records p)"
proof (induction es arbitrary: p)
  case (Cons e es)
  obtain p1 where step: "pattern_event_step env e p = Inr p1" and rest: "pattern_events env es p1 = Inr p'"
    using Cons.prems by (auto simp: rbind_eq_Inr)
  from step have "map (\<lambda>(k, r). (k, evidence r)) (xp_records p1) = map (\<lambda>(k, r). (k, evidence r)) (xp_records p)"
    by (cases rule: pattern_event_step_cases) (simp_all add: dict_set_present pattern_event_on_evidence)
  then show ?case using Cons.IH [OF rest] by simp
qed simp

lemma with_exposure_evidence [simp]: "evidence (with_exposure p r) = evidence r"
  by (simp add: with_exposure_def evidence_def Let_def)

text \<open>An observation of a journal, and the evidence of a cluster from it.\<close>

definition observations_of :: "Event list \<Rightarrow> ObservationState set" where
  "observations_of events = {x. \<exists>e \<in> set events. is_observation e \<and> observation_state e = Inr x}"

definition backed :: "reconcile_env \<Rightarrow> Event list \<Rightarrow> ClusterRecord \<Rightarrow> bool" where
  "backed env events r \<longleftrightarrow> set (kr_observations r) \<subseteq> observations_of events
   \<and> cl_provenances (kr_state r) = unique (map ob_provenance_key (kr_observations r))
   \<and> cl_scopes (kr_state r) = unique (map scope_key (kr_observations r))
   \<and> cl_benefit_count (kr_state r) = int (length (filter (\<lambda>y. ob_benefit y \<noteq> []) (kr_observations r)))
   \<and> set (cl_contradiction_provenances (kr_state r)) \<subseteq> ob_provenance_key ` set (kr_observations r)
   \<and> distinct (cl_contradiction_provenances (kr_state r)) \<and> kr_observations r \<noteq> []
   \<and> kr_canonical_rule r = canonical_rule env (kr_observations r)"

lemma backed_evidence:
  "evidence r = evidence r' \<Longrightarrow> kr_canonical_rule r = canonical_rule env (kr_observations r) \<Longrightarrow> backed env events r' \<Longrightarrow> backed env events r"
  by (simp add: backed_def evidence_def)

lemma pattern_events_canonical:
  assumes "pattern_events env es p = Inr p'"
    "list_all (\<lambda>(i, r). kr_canonical_rule r = canonical_rule env (kr_observations r)) (xp_records p)"
  shows "list_all (\<lambda>(i, r). kr_canonical_rule r = canonical_rule env (kr_observations r)) (xp_records p')"
  using assms
proof (induction es arbitrary: p)
  case (Cons e es)
  obtain p1 where step: "pattern_event_step env e p = Inr p1" and rest: "pattern_events env es p1 = Inr p'"
    using Cons.prems by (auto simp: rbind_eq_Inr)
  from step have "list_all (\<lambda>(i, r). kr_canonical_rule r = canonical_rule env (kr_observations r)) (xp_records p1)"
    by (cases rule: pattern_event_step_cases) (use Cons.prems(2) in \<open>auto intro!: list_all_dict_set\<close>)
  then show ?case using Cons.IH [OF rest] by simp
qed simp

lemma cluster_records_backed:
  assumes "cluster_records env events = Inr (records, n)" "(i, r) \<in> set records"
  shows "backed env events r"
proof -
  obtain k where k: "cluster_observations env events = Inr k" "apply_pattern_events env (kg_records k) events = Inr records"
    using assms(1) by (auto simp: cluster_records_def rbind_eq_Inr)
  obtain p where p: "pattern_events env events \<lparr>xp_records = kg_records k, xp_exposure_counts = [], xp_exposure_times = []\<rparr> = Inr p"
    and records: "records = map (\<lambda>(k, r). (k, with_exposure p r)) (xp_records p)"
    using k(2) by (auto simp: apply_pattern_events_def rbind_eq_Inr)
  have "map (\<lambda>(k, r). (k, evidence r)) records = map (\<lambda>(k, r). (k, evidence r)) (kg_records k)"
    using pattern_events_evidence [OF p] by (simp add: records case_prod_unfold o_def)
  then obtain r0 where r0: "(i, r0) \<in> set (kg_records k)" "evidence r = evidence r0"
    using assms(2) by (smt (verit, ccfv_threshold) case_prod_conv imageE image_eqI list.set_map prod.inject surj_pair)
  note acc = clusters_accounted [OF k(1)]
  have "set (kr_observations r0) \<subseteq> set (members (kg_records k))" using r0(1) by (force simp: members_def)
  also have "\<dots> = set (kg_observations k)" using acc(1) by (metis accounted_def mset_eq_setD)
  also have "\<dots> \<subseteq> observations_of events"
    using list_all2_sources [OF acc(2) [unfolded rmap_eq_Inr]] by (auto simp: observations_of_def)
  finally have "backed env events r0"
    using acc(1) r0(1) by (fastforce simp: accounted_def list_all_iff summarises_def backed_def Let_def)
  moreover have "list_all (\<lambda>(i, r). kr_canonical_rule r = canonical_rule env (kr_observations r)) (xp_records p)"
    using acc(1) by (intro pattern_events_canonical [OF p]) (auto simp: accounted_def list_all_iff summarises_def Let_def)
  then have "kr_canonical_rule r = canonical_rule env (kr_observations r)"
    using assms(2) by (auto simp: records list_all_iff with_exposure_def Let_def)
  ultimately show ?thesis by (intro backed_evidence [OF r0(2)])
qed


text \<open>Enough evidence for a promotion or a candidate, counted in the observations themselves.\<close>

definition enough_sources :: "PromotionPolicy \<Rightarrow> ObservationState list \<Rightarrow> bool" where
  "enough_sources policy xs \<longleftrightarrow> pp_independent_provenance_count policy \<le> int (card (ob_provenance_key ` set xs))"

definition enough_evidence :: "PromotionPolicy \<Rightarrow> ObservationState list \<Rightarrow> bool" where
  "enough_evidence policy xs \<longleftrightarrow> enough_sources policy xs
   \<and> pp_distinct_scope_count policy \<le> int (card (scope_key ` set xs))
   \<and> pp_benefit_evidence_count policy \<le> int (length (filter (\<lambda>x. ob_benefit x \<noteq> []) xs))"



text \<open>What justifies an event that a run writes.\<close>

definition justified :: "reconcile_env \<Rightarrow> PromotionPolicy \<Rightarrow> Event list \<Rightarrow> Event \<Rightarrow> bool" where
  "justified env policy events e \<longleftrightarrow> (\<exists>xs. xs \<noteq> [] \<and> set xs \<subseteq> observations_of events \<and>
     (ev_event_type e = ''pattern.candidate_created'' \<and> enough_sources policy xs
        \<and> map_of (ev_payload e) ''rule'' = Some (PStr (canonical_rule env xs))
    \<or> ev_event_type e = ''pattern.revised'' \<and> map_of (ev_payload e) ''rule'' = Some (PStr (canonical_rule env xs))
    \<or> ev_event_type e = ''pattern.promoted'' \<and> enough_evidence policy xs
    \<or> ev_event_type e = ''pattern.deprecated''
        \<and> (pp_contradiction_count_for_deprecation policy \<le> int (card (ob_provenance_key ` set xs))
           \<or> list_all (\<lambda>x. ob_benefit x = []) xs)
    \<or> ev_event_type e = ''pattern.tombstoned''))"

lemma event_for_pattern_payload:
  assumes "event_for_pattern env kind r t payload policy reason v = Inr e"
  shows "ev_event_type e = kind"
    and "map_of (rev payload) ''rule'' = Some x \<Longrightarrow> map_of (ev_payload e) ''rule'' = Some x"
proof -
  obtain h where h: "state_host_fields (kr_state r) = Inr h"
    and e: "e = keyed_event env kind r t (update_dict (pattern_body r payload policy reason v) h)"
    using assms unfolding event_for_pattern_def rbind_eq_Inr by blast
  show "ev_event_type e = kind" by (simp add: e keyed_event_def create_event_def Let_def)
  have "h = [] \<or> h = host_fields (kr_state r)"
    using h by (auto simp: state_host_fields_def Let_def rbind_eq_Inr simp del: validate_host_applicability_mapping.simps split: if_splits)
  then have "map_of (rev h) ''rule'' = None" using host_fields_lookup [of "''rule''" "kr_state r"] by auto
  then show "map_of (ev_payload e) ''rule'' = Some x" if "map_of (rev payload) ''rule'' = Some x"
    using that by (simp add: e keyed_event_def create_event_def Let_def map_of_dict_set update_dict_lookup pattern_body_def)
qed

lemma generated_justified:
  assumes "generated_events env policy all now r = Inr es" "e \<in> set es" "backed env events r"
  shows "justified env policy events e"
proof -
  have enough: "enough_sources policy (kr_observations r)" if "needs_candidate policy r"
    using that assms(3) by (simp add: needs_candidate_def backed_def enough_sources_def length_unique)
  have rule: "map_of (rev (evidence_of r)) ''rule'' = Some (PStr (canonical_rule env (kr_observations r)))"
    using assms(3) by (simp add: evidence_of_def Let_def backed_def)
  have "(ev_event_type e = ''pattern.candidate_created'' \<and> enough_sources policy (kr_observations r) \<or> ev_event_type e = ''pattern.revised'')
     \<and> map_of (ev_payload e) ''rule'' = Some (PStr (canonical_rule env (kr_observations r)))"
    using assms(1) [unfolded generated_events_def Let_def]
  proof (elim if_eqE)
    assume "Inr [] = Inr es"
    then show ?thesis using assms(2) by simp
  qed (use assms(2) rule enough in \<open>auto simp: rbind_eq_Inr dest: event_for_pattern_payload(1) intro: event_for_pattern_payload(2)\<close>)
  then show ?thesis using assms(3) unfolding justified_def backed_def by blast
qed

lemma lifecycle_justified:
  assumes "e \<in> set (evaluate_lifecycle sha256 repr parse (kr_state r) policy now_utc)" "backed env events r"
  shows "justified env policy events e"
proof -
  have "evaluate_lifecycle sha256 repr parse (kr_state r) policy now_utc \<noteq> []" using assms(1) by auto
  then show ?thesis
  proof (cases rule: evaluate_cases)
    case (single e')
    then have e: "e' = e" using assms(1) by simp
    have "card (set (cl_contradiction_provenances (kr_state r))) \<le> card (ob_provenance_key ` set (kr_observations r))"
      using assms(2) by (intro card_mono) (simp_all add: backed_def)
    then have against: "length (cl_contradiction_provenances (kr_state r)) \<le> card (ob_provenance_key ` set (kr_observations r))"
      using assms(2) by (simp add: backed_def distinct_card)
    have "ev_event_type e = ''pattern.promoted'' \<and> enough_evidence policy (kr_observations r)
      \<or> ev_event_type e = ''pattern.deprecated''
        \<and> (pp_contradiction_count_for_deprecation policy \<le> int (card (ob_provenance_key ` set (kr_observations r)))
           \<or> list_all (\<lambda>x. ob_benefit x = []) (kr_observations r))
      \<or> ev_event_type e = ''pattern.tombstoned''"
      using single(2) against assms(2)
      by (auto simp: e failing_def promotable_def backed_def enough_evidence_def enough_sources_def length_unique list_all_iff filter_empty_conv)
    then show ?thesis using assms(2) unfolding justified_def backed_def by blast
  qed
qed

definition file_of :: "reconcile_env \<Rightarrow> Event \<Rightarrow> entry" where
  "file_of env e = Json (jsonify (PDict (event_to_dict (materialize (re_journal env) e))))"

text \<open>A journal grown by files of events that satisfy a predicate.\<close>

definition grown :: "reconcile_env \<Rightarrow> (Event \<Rightarrow> bool) \<Rightarrow> journal \<Rightarrow> journal \<Rightarrow> bool" where
  "grown env P j j' \<longleftrightarrow> map_of j \<subseteq>\<^sub>m map_of j' \<and> (\<forall>(path, content) \<in> set j'. (path, content) \<in> set j \<or> (\<exists>e. P e \<and> content = file_of env e))"

lemma grown_refl [simp]: "grown env P j j"
  by (auto simp: grown_def)

lemma grown_trans: "grown env P j j' \<Longrightarrow> grown env P j' j'' \<Longrightarrow> grown env P j j''"
  unfolding grown_def by (blast intro: map_le_trans)

lemma append_grown:
  assumes "append_event (re_journal env) e j = Inr (j', path)" "P e"
  shows "grown env P j j'"
  using assms(1)
proof (cases rule: append_cases)
  case new
  then have "set j' = insert (path, file_of env e) (set j)" by (simp add: file_of_def set_dict_set_free del: jsonify.simps)
  moreover have "map_of j \<subseteq>\<^sub>m map_of j'" using new(1,2) by (auto simp: map_of_dict_set map_le_def simp del: jsonify.simps)
  ultimately show ?thesis using assms(2) by (auto simp: grown_def)
qed simp

lemma append_new_grown:
  "append_new (re_journal env) es ids j = (j', res) \<Longrightarrow> list_all P es \<Longrightarrow> grown env P j j'"
proof (induction es arbitrary: ids j)
  case (Cons e es)
  show ?case
  proof (cases "ev_event_id e \<in> set ids")
    case True
    then show ?thesis using Cons by simp
  next
    case new: False
    show ?thesis
    proof (cases "append_event (re_journal env) e j")
      case (Inl x)
      then show ?thesis using Cons.prems new by simp
    next
      case (Inr r)
      then obtain j1 path where r: "append_event (re_journal env) e j = Inr (j1, path)" by (cases r) simp
      have "grown env P j j1" using append_grown [OF r] Cons.prems(2) by simp
      moreover have "grown env P j1 j'" using Cons.IH Cons.prems new r by simp
      ultimately show ?thesis by (rule grown_trans)
    qed
  qed
qed simp

lemma set_ordered_events [simp]: "set (ordered_events es) = set es"
  by (simp add: ordered_events_def)

lemma observations_of_generated:
  assumes "list_all (justified env policy events) generated" "set generated' \<subseteq> set generated"
  shows "observations_of (events @ generated') \<subseteq> observations_of events"
  using assms by (fastforce simp: observations_of_def is_observation_def justified_def list_all_iff)

lemma justified_mono: "observations_of events \<subseteq> observations_of events' \<Longrightarrow> justified env policy events e \<Longrightarrow> justified env policy events' e"
  unfolding justified_def by (meson order_trans)

lemma lifecycle_events_justified:
  assumes "cluster_records env events = Inr (records, n)"
  shows "list_all (justified env policy events) (lifecycle_events env policy now records)"
  using cluster_records_backed [OF assms] lifecycle_justified by (fastforce simp: lifecycle_events_def list_all_iff)

lemma reconcile_grown:
  assumes "reconcile_lifecycle env events j now policy = (j', res)"
  shows "grown env (justified env policy events) j j'"
proof -
  define current where "current = ordered_events events"
  have same: "observations_of current = observations_of events" by (simp add: current_def observations_of_def)
  then have just: "justified env policy current = justified env policy events" by (simp add: justified_def fun_eq_iff)
  show ?thesis
  proof (cases "rbind (cluster_records env current) (\<lambda>start.
           rbind (time_of_run env current now) (\<lambda>t.
           rbind (rmap (\<lambda>(_, r). generated_events env policy current t r) (fst start)) (\<lambda>generated.
             Inr (start, t, concat generated))))")
    case (Inl x)
    then show ?thesis using assms by (simp add: reconcile_lifecycle_def current_def)
  next
    case (Inr y)
    then obtain records n t gs where start: "cluster_records env current = Inr (records, n)"
      and gs: "rmap (\<lambda>(_, r). generated_events env policy current t r) records = Inr gs"
      and y: "y = ((records, n), t, concat gs)"
      by (auto simp: rbind_eq_Inr)
    define generated where "generated = concat gs"
    have gen: "list_all (justified env policy events) generated"
    proof -
      have "justified env policy current e" if member: "es \<in> set gs" "e \<in> set es" for es e
      proof -
        obtain i r where "(i, r) \<in> set records" "generated_events env policy current t r = Inr es"
          using list_all2_sources [OF gs [unfolded rmap_eq_Inr] member(1)] by auto
        then show ?thesis using generated_justified member(2) cluster_records_backed [OF start] by blast
      qed
      then show ?thesis by (auto simp: generated_def list_all_iff just)
    qed
    obtain j1 res1 where first: "append_new (re_journal env) generated (unique (map ev_event_id current)) j = (j1, res1)"
      by fastforce
    have j1: "grown env (justified env policy events) j j1" by (rule append_new_grown [OF first gen])
    show ?thesis
    proof (cases res1)
      case (Inl x)
      then show ?thesis using assms Inr j1 first by (simp add: reconcile_lifecycle_def current_def [symmetric] y generated_def)
    next
      case (Inr ids)
      then have phase: "reconcile_phase env policy current t (records, n) generated ids j1 = (j', res)"
        using assms \<open>_ = Inr y\<close> first by (simp add: reconcile_lifecycle_def current_def [symmetric] y generated_def)
      define updated where "updated = ordered_events (current @ filter (\<lambda>e. ev_event_id e \<notin> ev_event_id ` set current) generated)"
      have upd: "observations_of updated \<subseteq> observations_of events"
        using observations_of_generated [OF gen, of "filter (\<lambda>e. ev_event_id e \<notin> ev_event_id ` set current) generated"]
        by (auto simp: updated_def current_def observations_of_def)
      note step = reconcile_phase_def [of env policy current t "(records, n)" generated ids j1, unfolded Let_def set_map fst_conv,
        folded updated_def]
      have "grown env (justified env policy events) j1 j'"
      proof (cases "if generated = [] then Inr records else rbind (cluster_records env updated) (\<lambda>(r, _). Inr r)")
        case (Inl x)
        then show ?thesis using phase by (simp add: step)
      next
        case (Inr records')
        then have "list_all (justified env policy events) (lifecycle_events env policy t records')"
          using lifecycle_events_justified [OF start, of policy t]
            lifecycle_events_justified [of env updated records' _ policy t] justified_mono [OF upd] just
          by (auto simp: rbind_eq_Inr list_all_iff split: if_splits)
        moreover have "j' = fst (append_new (re_journal env) (lifecycle_events env policy t records') ids j1)"
          using phase Inr by (simp add: step Let_def split: prod.splits)
        ultimately show ?thesis using append_new_grown by (metis prod.collapse)
      qed
      then show ?thesis using j1 grown_trans by blast
    qed
  qed
qed


subsection \<open>Clustering is total\<close>

definition placed :: "clustering \<Rightarrow> bool" where
  "placed k \<longleftrightarrow> (\<forall>x \<in> set (kg_observations k). has_key (kg_clusters k) (ob_observation_id x))"

lemma id_of_Observed [simp]: "id_of (Observed x) = ob_observation_id x"
  by (simp add: id_of_def)

lemma decision_target:
  assumes "cd_target_observation_id (decision_for env x k) = Some target"
  shows "\<exists>y \<in> set (kg_observations k). ob_observation_id y = target \<and> host_applicability_key y = host_applicability_key x"
proof -
  let ?cs = "map Observed (filter (\<lambda>y. host_applicability_key y = host_applicability_key x) (kg_observations k))"
  obtain c where "best_of (qualifies (sha_of env) (nfkc_by env) (Observed x)) (rank_of (sha_of env) (nfkc_by env) (Observed x)) None ?cs = Some c"
    and t: "target = id_of c"
    using assms by (auto simp: decision_for_def assign_cluster_def Let_def new_cluster_def split: if_splits option.splits)
  then have "c \<in> set ?cs"
    using best_of_spec [where ok = "qualifies (sha_of env) (nfkc_by env) (Observed x)"
        and rank = "rank_of (sha_of env) (nfkc_by env) (Observed x)" and cs = ?cs] by (simp add: is_best_def)
  then show ?thesis using t by auto
qed

lemma cluster_for_total: "placed k \<Longrightarrow> \<exists>i. cluster_for env x k = Inr i"
  by (cases "cd_target_observation_id (decision_for env x k)")
    (auto simp: cluster_for_def placed_def has_key_def dest!: decision_target bspec)

lemma place_placed: "placed k \<Longrightarrow> placed (place_observation env t x decision i k)"
  by (auto simp: placed_def dict_simps)

lemma cluster_events_total:
  "placed k \<Longrightarrow> (\<exists>k'. cluster_events env es k = Inr k') = (\<exists>xs. rmap observation_state (filter is_observation es) = Inr xs)"
proof (induction es arbitrary: k)
  case (Cons e es)
  show ?case
  proof (cases "is_observation e")
    case False
    then show ?thesis using Cons by (simp add: cluster_step_def)
  next
    case True
    show ?thesis
    proof (cases "observation_state e")
      case (Inl a)
      then show ?thesis using True by (simp add: cluster_step_def)
    next
      case (Inr x)
      obtain i where i: "cluster_for env x k = Inr i" using cluster_for_total [OF Cons.prems] by blast
      show ?thesis
        using Cons.IH [OF place_placed [OF Cons.prems, of env "ev_occurred_at e" x "decision_for env x k" i]] True Inr i
        by (simp add: cluster_step_def rbind_eq_Inr)
    qed
  qed
qed simp

lemma placed_start: "placed clustering_start"
  by (simp add: placed_def clustering_start_def)

subsection \<open>Host contracts stay apart\<close>

lemma place_lookup: "\<exists>r. map_of (kg_records (place_observation env t x decision i k)) = (map_of (kg_records k))(i \<mapsto> r)
    \<and> set (kg_records (place_observation env t x decision i k)) \<subseteq> insert (i, r) (set (kg_records k))
    \<and> kr_observations r = (case map_of (kg_records k) i of None \<Rightarrow> [x] | Some r \<Rightarrow> kr_observations r @ [x])"
proof -
  have sub: "set (dict_set i r d) \<subseteq> insert (i, r) (set d)" for r and d :: "ClusterRecord dict" by (induction d) auto
  obtain b where "kg_records (place_observation env t x decision i k) = dict_set i
    ((placed_record env t x i k)\<lparr>kr_state := (kr_state (placed_record env t x i k))\<lparr>cl_contradiction_provenances :=
      unique (cl_contradiction_provenances (kr_state (placed_record env t x i k)) @ (if b then [ob_provenance_key x] else []))\<rparr>\<rparr>)
    (kg_records k)" (is "_ = dict_set i ?r _")
    using place_records by blast
  then show ?thesis using sub placed_observations [of env t x i k] by (intro exI [of _ ?r]) (simp add: map_of_dict_set)
qed

lemma accounted_member:
  assumes "accounted env k" "(j, r) \<in> set (kg_records k)" "y \<in> set (kr_observations r)"
  shows "y \<in> set (kg_observations k)"
proof -
  have "y \<in> set (members (kg_records k))" using assms(2,3) by (force simp: members_def)
  then show ?thesis using assms(1) mset_eq_setD by (auto simp: accounted_def dest: mset_eq_setD)
qed

definition one_host :: "reconcile_env \<Rightarrow> string \<times> ClusterRecord \<Rightarrow> bool" where
  "one_host env = (\<lambda>(i, r). (\<exists>y \<in> set (kr_observations r). i = cluster_id_of env y)
     \<and> (\<forall>y \<in> set (kr_observations r). \<forall>z \<in> set (kr_observations r). host_applicability_key y = host_applicability_key z))"

definition located :: "clustering \<Rightarrow> string \<Rightarrow> string \<Rightarrow> bool" where
  "located k j i \<longleftrightarrow> (\<exists>r. map_of (kg_records k) i = Some r \<and> (\<exists>y \<in> set (kr_observations r). ob_observation_id y = j))"

definition apart :: "reconcile_env \<Rightarrow> clustering \<Rightarrow> bool" where
  "apart env k \<longleftrightarrow> (\<forall>p \<in> set (kg_records k). one_host env p)
   \<and> (\<forall>j i. map_of (kg_clusters k) j = Some i \<longrightarrow> located k j i)"

lemma place_apart:
  assumes "apart env k" "accounted env k" "cluster_for env x k = Inr i"
    and U: "set (kg_observations k) \<subseteq> U" "x \<in> U" "inj_on ob_observation_id U"
    and hash: "\<forall>y \<in> U. \<forall>z \<in> U. cluster_id_of env y = cluster_id_of env z \<longrightarrow> host_applicability_key y = host_applicability_key z"
  shows "apart env (place_observation env t x decision i k)"
proof -
  have members: "y \<in> set (kg_observations k)" if "(j, r) \<in> set (kg_records k)" "y \<in> set (kr_observations r)" for j r y
    by (rule accounted_member [OF assms(2) that])
  have one: "one_host env p" if "p \<in> set (kg_records k)" for p using assms(1) that by (simp add: apart_def)
  have there: "located k j n" if "map_of (kg_clusters k) j = Some n" for j n using assms(1) that by (simp add: apart_def)
  have old: "\<forall>y \<in> set (kr_observations r). host_applicability_key y = host_applicability_key x" if r: "map_of (kg_records k) i = Some r" for r
  proof -
    note ri = map_of_SomeD [OF r]
    have same: "\<forall>y \<in> set (kr_observations r). \<forall>z \<in> set (kr_observations r). host_applicability_key y = host_applicability_key z"
      using one ri by (auto simp: one_host_def)
    have "\<exists>y \<in> set (kr_observations r). host_applicability_key y = host_applicability_key x"
    proof (cases "i = cluster_id_of env x")
      case True
      obtain y where "y \<in> set (kr_observations r)" "i = cluster_id_of env y" using one ri by (auto simp: one_host_def)
      then show ?thesis using True hash U members [OF ri] by (metis subsetD)
    next
      case False
      then obtain target where target: "cd_target_observation_id (decision_for env x k) = Some target" "map_of (kg_clusters k) target = Some i"
        using assms(3) by (auto simp: cluster_for_def split: if_splits option.splits)
      obtain c where c: "c \<in> set (kg_observations k)" "ob_observation_id c = target" "host_applicability_key c = host_applicability_key x"
        using decision_target [OF target(1)] by blast
      obtain y where y: "y \<in> set (kr_observations r)" "ob_observation_id y = target"
        using there [OF target(2)] r by (auto simp: located_def)
      have "y = c" using U c y members [OF ri y(1)] by (metis inj_onD subsetD)
      then show ?thesis using c y by blast
    qed
    then show ?thesis using same by metis
  qed
  obtain r' where r': "map_of (kg_records (place_observation env t x decision i k)) = (map_of (kg_records k))(i \<mapsto> r')"
    "set (kg_records (place_observation env t x decision i k)) \<subseteq> insert (i, r') (set (kg_records k))"
    "kr_observations r' = (case map_of (kg_records k) i of None \<Rightarrow> [x] | Some r \<Rightarrow> kr_observations r @ [x])"
    using place_lookup by blast
  let ?k = "place_observation env t x decision i k"
  have fresh: "i = cluster_id_of env x" if none: "map_of (kg_records k) i = None"
  proof (rule ccontr)
    assume "i \<noteq> cluster_id_of env x"
    then obtain target where target: "map_of (kg_clusters k) target = Some i"
      using assms(3) by (auto simp: cluster_for_def split: if_splits option.splits)
    then show False using there [OF target] none by (auto simp: located_def)
  qed
  have "one_host env (i, r')"
  proof (cases "map_of (kg_records k) i")
    case None
    then show ?thesis using fresh r'(3) by (simp add: one_host_def)
  next
    case (Some r)
    have "\<exists>y \<in> set (kr_observations r). i = cluster_id_of env y"
      using one [OF map_of_SomeD [OF Some]] by (simp add: one_host_def)
    then show ?thesis using old [OF Some] r'(3) Some by (auto simp: one_host_def)
  qed
  then have "\<forall>p \<in> set (kg_records ?k). one_host env p" using r'(2) one by blast
  moreover have "located ?k j n" if "map_of (kg_clusters ?k) j = Some n" for j n
  proof (cases "j = ob_observation_id x")
    case True
    then show ?thesis using that r'(1,3) by (auto simp: map_of_dict_set located_def split: option.split)
  next
    case False
    then have "located k j n" using that there by (simp add: map_of_dict_set)
    then show ?thesis using r'(1,3) by (auto simp: located_def)
  qed
  ultimately show ?thesis by (simp add: apart_def)
qed

lemma cluster_events_apart:
  assumes "cluster_events env es k = Inr k'" "apart env k" "accounted env k" "inj_on ob_observation_id (set (kg_observations k'))"
    "\<forall>y \<in> set (kg_observations k'). \<forall>z \<in> set (kg_observations k'). cluster_id_of env y = cluster_id_of env z \<longrightarrow>
       host_applicability_key y = host_applicability_key z"
  shows "apart env k'"
  using assms
proof (induction es arbitrary: k)
  case (Cons e es)
  obtain k1 where step: "cluster_step env e k = Inr k1" and rest: "cluster_events env es k1 = Inr k'"
    using Cons.prems(1) by (auto simp: rbind_eq_Inr)
  from step show ?case
  proof (cases rule: cluster_step_cases)
    case other
    then have "cluster_events env es k = Inr k'" using rest by simp
    then show ?thesis by (rule Cons.IH [OF _ Cons.prems(2-5)])
  next
    case (placed x i)
    have acc: "accounted env k1" using place_accounted [OF Cons.prems(3)] placed(4) by simp
    obtain xs where "kg_observations k' = kg_observations k1 @ xs" using cluster_events_accounted [OF rest acc] by blast
    then have "set (kg_observations k) \<subseteq> set (kg_observations k')" "x \<in> set (kg_observations k')" by (auto simp: placed(4))
    then have "apart env k1"
      unfolding placed(4) by (rule place_apart [OF Cons.prems(2,3) placed(3) _ _ Cons.prems(4,5)])
    then show ?thesis by (rule Cons.IH [OF rest _ acc Cons.prems(4,5)])
  qed
qed simp

lemma clusters_apart:
  assumes "cluster_observations env events = Inr k" "inj_on ob_observation_id (set (kg_observations k))"
    "\<forall>y \<in> set (kg_observations k). \<forall>z \<in> set (kg_observations k). cluster_id_of env y = cluster_id_of env z \<longrightarrow>
       host_applicability_key y = host_applicability_key z"
  shows "apart env k"
  using assms(1) [unfolded cluster_observations_def] _ accounted_start assms(2,3)
  by (rule cluster_events_apart) (simp add: apart_def clustering_start_def)

subsection \<open>Superseded patterns\<close>

text \<open>No registered field of a payload can name a replacement.\<close>

definition unreplaced :: "ClusterState \<Rightarrow> bool" where
  "unreplaced c \<longleftrightarrow> \<not> truthy_text (cl_superseded_by c)"

definition registered :: "Event \<Rightarrow> bool" where
  "registered e \<longleftrightarrow> fst ` set (ev_payload e) \<subseteq> fst ` set EVENT_PAYLOAD_FIELDS"

lemma no_replacement_field:
  "registered e \<Longrightarrow> get_default (ev_payload e) ''replacement_pattern_id'' (get_default (ev_payload e) ''superseded_by'' (PStr [])) = PStr []"
proof -
  have "''replacement_pattern_id'' \<notin> fst ` set EVENT_PAYLOAD_FIELDS" "''superseded_by'' \<notin> fst ` set EVENT_PAYLOAD_FIELDS"
    by (simp_all add: EVENT_PAYLOAD_FIELDS_def)
  moreover assume "registered e"
  ultimately have "map_of (ev_payload e) ''replacement_pattern_id'' = None" "map_of (ev_payload e) ''superseded_by'' = None"
    by (auto simp: registered_def map_of_eq_None_iff)
  then show ?thesis by (simp add: get_default_def)
qed

lemma unreplaced_updates [simp]:
  "unreplaced (c\<lparr>cl_status := a\<rparr>) = unreplaced c" "unreplaced (c\<lparr>cl_deprecated_at := d\<rparr>) = unreplaced c"
  "unreplaced (c\<lparr>cl_replacement_active := b\<rparr>) = unreplaced c" "unreplaced (c\<lparr>cl_superseded_by := Some []\<rparr>)"
  by (simp_all add: unreplaced_def truthy_text_def)

lemma with_event_hosts_unreplaced: "with_event_hosts payload c = Inr c' \<Longrightarrow> unreplaced c' = unreplaced c"
  by (simp add: unreplaced_def with_event_hosts_evidence)

lemma rule_of_event_unreplaced [simp]: "unreplaced (rule_of_event env payload c) = unreplaced c"
  "unreplaced (pattern_of_event env status payload c) = unreplaced c"
  by (simp_all add: rule_of_event_def pattern_of_event_def unreplaced_def)

lemma pattern_event_on_unreplaced:
  assumes "pattern_event_on env e r = Inr r'" "registered e" "unreplaced (kr_state r)"
  shows "unreplaced (kr_state r')"
  using assms(1,3) unfolding pattern_event_on_def Let_def no_replacement_field [OF assms(2)]
  by (elim if_eqE; clarsimp simp: rbind_eq_Inr)
    (auto dest!: with_event_hosts_unreplaced simp: text_value_def)

lemma pattern_events_unreplaced:
  "pattern_events env es p = Inr p' \<Longrightarrow> list_all registered es \<Longrightarrow> list_all (\<lambda>(i, r). unreplaced (kr_state r)) (xp_records p)
   \<Longrightarrow> list_all (\<lambda>(i, r). unreplaced (kr_state r)) (xp_records p')"
proof (induction es arbitrary: p)
  case (Cons e es)
  obtain p1 where step: "pattern_event_step env e p = Inr p1" and rest: "pattern_events env es p1 = Inr p'"
    using Cons.prems by (auto simp: rbind_eq_Inr)
  have e: "registered e" "list_all registered es" using Cons.prems(2) by simp_all
  from step have "list_all (\<lambda>(i, r). unreplaced (kr_state r)) (xp_records p1)"
  proof (cases rule: pattern_event_step_cases)
    case (changed i r r')
    have "unreplaced (kr_state r)" using map_of_SomeD [OF changed(1)] Cons.prems(3) by (auto simp: list_all_iff)
    from pattern_event_on_unreplaced [OF changed(2) e(1) this] show ?thesis
      unfolding changed(3) by (intro list_all_dict_set Cons.prems(3)) simp
  qed (use Cons.prems(3) in simp)
  then show ?case by (rule Cons.IH [OF rest e(2)])
qed simp

lemma extended_superseded [simp]: "cl_superseded_by (kr_state (extended_record env x t r)) = cl_superseded_by (kr_state r)"
  by (simp add: extended_record_def adopt_host_def Let_def)

lemma new_superseded [simp]: "cl_superseded_by (kr_state (new_record env i x t)) = None"
  by (simp add: new_record_def Let_def)

lemma place_unreplaced:
  assumes "list_all (\<lambda>(i, r). unreplaced (kr_state r)) (kg_records k)"
  shows "list_all (\<lambda>(i, r). unreplaced (kr_state r)) (kg_records (place_observation env t x decision i k))"
proof -
  have "unreplaced (kr_state (placed_record env t x i k))"
    using assms by (auto simp: placed_record_def unreplaced_def truthy_text_def list_all_iff dest!: map_of_SomeD split: option.split)
  then show ?thesis using place_records [of env t x decision i k] assms
    by (auto simp: unreplaced_def intro!: list_all_dict_set)
qed

lemma cluster_events_unreplaced:
  "cluster_events env es k = Inr k' \<Longrightarrow> list_all (\<lambda>(i, r). unreplaced (kr_state r)) (kg_records k)
   \<Longrightarrow> list_all (\<lambda>(i, r). unreplaced (kr_state r)) (kg_records k')"
proof (induction es arbitrary: k)
  case (Cons e es)
  obtain k1 where step: "cluster_step env e k = Inr k1" and rest: "cluster_events env es k1 = Inr k'"
    using Cons.prems(1) by (auto simp: rbind_eq_Inr)
  from step have "list_all (\<lambda>(i, r). unreplaced (kr_state r)) (kg_records k1)"
    by (cases rule: cluster_step_cases) (simp_all only: place_unreplaced Cons.prems(2))
  then show ?case by (rule Cons.IH [OF rest])
qed simp

lemma with_exposure_superseded [simp]: "cl_superseded_by (kr_state (with_exposure p r)) = cl_superseded_by (kr_state r)"
  by (simp add: with_exposure_def Let_def)

lemma cluster_records_unreplaced:
  assumes "cluster_records env events = Inr (records, n)" "list_all registered events" "(i, r) \<in> set records"
  shows "unreplaced (kr_state r)"
proof -
  obtain k p where k: "cluster_observations env events = Inr k"
    and p: "pattern_events env events \<lparr>xp_records = kg_records k, xp_exposure_counts = [], xp_exposure_times = []\<rparr> = Inr p"
    and records: "records = map (\<lambda>(k, r). (k, with_exposure p r)) (xp_records p)"
    using assms(1) by (auto simp: cluster_records_def apply_pattern_events_def rbind_eq_Inr)
  have "list_all (\<lambda>(i, r). unreplaced (kr_state r)) (kg_records k)"
    using k unfolding cluster_observations_def by (rule cluster_events_unreplaced) (simp add: clustering_start_def)
  then have "list_all (\<lambda>(i, r). unreplaced (kr_state r)) (xp_records p)"
    using pattern_events_unreplaced [OF p assms(2)] by simp
  then show ?thesis using assms(3) by (auto simp: records list_all_iff unreplaced_def)
qed

lemma unreplaced_quiet:
  assumes "unreplaced c" "cl_status c = ''superseded''"
  shows "evaluate_lifecycle sha256 repr parse c policy now_utc = []"
proof -
  have "\<not> vr_valid (promotion_eligibility c policy)" using eligible_promotable [of c policy] assms(2) by (auto simp: promotable_def)
  then show ?thesis using assms by (simp add: evaluate_lifecycle_def Let_def unreplaced_def)
qed

subsection \<open>Samples\<close>

definition sample_reconcile :: reconcile_env where
  "sample_reconcile = \<lparr>re_journal = plain_env\<lparr>jo_sha256 := rev\<rparr>, re_int = (\<lambda>_. Inr 0), re_parse = (\<lambda>_. Some 0),
     re_after = (\<lambda>s. Some (s @ ''1'')), re_machine = ''m''\<rparr>"

definition journal_event :: "string \<Rightarrow> string \<Rightarrow> pydict \<Rightarrow> Event" where
  "journal_event i kind payload = create_event kind ''2024'' ''a'' ''m'' payload i"

definition observed :: "string \<Rightarrow> string \<Rightarrow> pydict \<Rightarrow> Event" where
  "observed i source hosts = journal_event i ''observation.recorded''
     ([(''observation_id'', PStr i), (''claim'', PStr ''w''), (''provenance_key'', PStr source)] @ hosts)"

definition family_fields :: "string \<Rightarrow> pydict" where
  "family_fields f = [(''source_host_id'', PStr f), (''source_host_family'', PStr f), (''applicability_scope'', PStr ''family''),
     (''applicable_host_ids'', PList []), (''applicable_host_families'', PList [PStr f])]"

definition sample_history :: "Event list" where
  "sample_history = [observed ''a'' ''p'' (family_fields ''f''), observed ''b'' ''q'' (family_fields ''g''), observed ''c'' ''r'' (family_fields ''f'')]"

subsection \<open>Properties\<close>

text \<open>
  C28. Clustering accounts for all evidence: the observations of the journal, in order, are exactly the
  members of the clusters, each in one; and what a cluster says is determined by its members: its rule,
  its independent sources and scopes, how many of them name a benefit, and its contradictions come from
  its own members.
\<close>

theorem clustering_accounts_for_evidence:
  assumes "cluster_observations env events = Inr k"
  shows "rmap observation_state (filter is_observation events) = Inr (kg_observations k)
    \<and> mset (members (kg_records k)) = mset (kg_observations k) \<and> distinct (map fst (kg_records k))
    \<and> (\<forall>(i, r) \<in> set (kg_records k). kr_observations r \<noteq> [] \<and> cl_rule (kr_state r) = canonical_rule env (kr_observations r)
         \<and> set (cl_provenances (kr_state r)) = ob_provenance_key ` set (kr_observations r) \<and> distinct (cl_provenances (kr_state r))
         \<and> set (cl_scopes (kr_state r)) = scope_key ` set (kr_observations r) \<and> distinct (cl_scopes (kr_state r))
         \<and> cl_benefit_count (kr_state r) = int (length (filter (\<lambda>y. ob_benefit y \<noteq> []) (kr_observations r)))
         \<and> set (cl_contradiction_provenances (kr_state r)) \<subseteq> ob_provenance_key ` set (kr_observations r))"
proof -
  note acc = clusters_accounted [OF assms]
  have "\<forall>p \<in> set (kg_records k). summarises env p" using acc(1) by (simp add: accounted_def list_all_iff)
  then show ?thesis using acc by (auto simp: accounted_def summarises_def Let_def)
qed

theorem clustering_accounts_for_evidence_witness:
  "\<exists>k. cluster_observations sample_reconcile sample_history = Inr k \<and> length (kg_records k) = 2
    \<and> mset (members (kg_records k)) = mset (kg_observations k)"
proof -
  have "map_sum (\<lambda>_. ()) (\<lambda>k. length (kg_records k)) (cluster_observations sample_reconcile sample_history) = Inr 2" by code_simp
  then obtain k where "cluster_observations sample_reconcile sample_history = Inr k" "length (kg_records k) = 2"
    by (cases "cluster_observations sample_reconcile sample_history") auto
  then show ?thesis using clustering_accounts_for_evidence by blast
qed

text \<open>
  C29. Clustering ends with a result unless the host contract of an observation is invalid: no other
  error is possible, in particular the cluster of the matched observation is always known.
\<close>

theorem clustering_is_total:
  "(\<exists>k. cluster_observations env events = Inr k) = (\<exists>xs. rmap observation_state (filter is_observation events) = Inr xs)"
  unfolding cluster_observations_def by (rule cluster_events_total [OF placed_start])


definition sample_view :: "clustering \<Rightarrow> string list list \<times> string list \<times> bool" where
  "sample_view k = (map (\<lambda>(i, r). map ob_observation_id (kr_observations r)) (kg_records k), map ob_observation_id (kg_observations k),
     list_all (\<lambda>y. list_all (\<lambda>z. cluster_id_of sample_reconcile y = cluster_id_of sample_reconcile z \<longrightarrow>
       host_applicability_key y = host_applicability_key z) (kg_observations k)) (kg_observations k))"




text \<open>
  A superseded pattern is never buried: burying it needs the pattern that replaces it, which
  reconciliation reads from \<open>replacement_pattern_id\<close> or \<open>superseded_by\<close> of an event, and neither is a
  field the journal lets through. For events as the journal yields them, the lifecycle has nothing to
  say about a superseded pattern, however long it was not used.
\<close>

theorem superseded_is_never_buried:
  assumes "list_all registered events" "cluster_records env events = Inr (records, n)" "(i, r) \<in> set records"
    "cl_status (kr_state r) = ''superseded''"
  shows "evaluate_lifecycle sha256 repr parse (kr_state r) policy now_utc = []"
  using cluster_records_unreplaced [OF assms(2,1,3)] assms(4) by (rule unreplaced_quiet)

definition superseding_history :: "Event list" where
  "superseding_history = [observed ''a'' ''p'' [], journal_event ''e'' ''pattern.superseded'' [(''cluster_id'', PStr ''cluster_w''), (''pattern_id'', PStr ''p'')]]"

theorem superseded_is_never_buried_witness:
  "\<exists>records n i r. cluster_records sample_reconcile superseding_history = Inr (records, n) \<and> (i, r) \<in> set records
     \<and> evaluate_lifecycle (\<lambda>s. s) (\<lambda>_. []) sample_parse (kr_state r) default_promotion_policy (Some ''n'') = []"
proof -
  have reg: "list_all registered superseding_history"
    by (simp add: superseding_history_def observed_def journal_event_def create_event_def registered_def EVENT_PAYLOAD_FIELDS_def)
  have "map_sum (\<lambda>_. ()) (\<lambda>(records, n). map (\<lambda>(i, r). cl_status (kr_state r)) records) (cluster_records sample_reconcile superseding_history)
     = Inr [''superseded'']" by code_simp
  then obtain records n i r where "cluster_records sample_reconcile superseding_history = Inr (records, n)" "(i, r) \<in> set records"
    "cl_status (kr_state r) = ''superseded''"
    by (cases "cluster_records sample_reconcile superseding_history") (auto simp: map_eq_Cons_conv)
  then show ?thesis using superseded_is_never_buried [OF reg] by blast
qed

end
