(* ===== verification/Command_Quote.thy ===== *)
theory Command_Quote
  imports Ei_Prelude
begin

section \<open>Commands for hosts that take one string\<close>

text \<open>
  \<^verbatim>\<open>src/src/ei/command_quote.py\<close>: the engine works with argument vectors; a host that wants a
  command line gets one string, quoted for the Windows C runtime (\<open>subprocess.list2cmdline\<close>) or for a
  POSIX shell (\<open>shlex.join\<close>). Both routines of the standard library are modelled as they are written,
  and each is read back by a reader of its own: the argument rules of the C runtime, and the words of
  a shell that refuses every character it would interpret.

  Paths are texts; \<open>pathlib\<close> and \<open>os.path\<close> enter as one record of parameters.
\<close>

subsection \<open>Argument vectors\<close>

definition quote_error :: "string \<Rightarrow> 'a result" where
  "quote_error reason = Inl (CommandQuoteError reason)"

definition argument_control :: "char \<Rightarrow> bool" where
  "argument_control c \<longleftrightarrow> (of_char c :: nat) < 32 \<and> c \<noteq> CHR 0x09"

definition validated_argument :: "pyval \<Rightarrow> string result" where
  "validated_argument v = (case v of
       PStr s \<Rightarrow> if s = [] then quote_error ''COMMAND_ARGUMENT_INVALID''
         else if list_ex argument_control s then quote_error ''COMMAND_ARGUMENT_CONTROL_CHARACTER'' else Inr s
     | _ \<Rightarrow> quote_error ''COMMAND_ARGUMENT_INVALID'')"

text \<open>What \<open>tuple(argv)\<close> makes of the value; a number or \<open>None\<close> cannot be iterated.\<close>

definition iterated :: "pyval \<Rightarrow> pyval list result" where
  "iterated v = (case v of PList xs \<Rightarrow> Inr xs | PTuple xs \<Rightarrow> Inr xs | PDict d \<Rightarrow> Inr (map (PStr \<circ> fst) d)
     | _ \<Rightarrow> Inl (TypeError ''object is not iterable''))"

definition validated_argv :: "pyval \<Rightarrow> string list result" where
  "validated_argv argv =
     (if is_str argv then quote_error ''COMMAND_ARGV_REQUIRED''
      else rbind (iterated argv) (\<lambda>values.
        if values = [] then quote_error ''COMMAND_ARGV_EMPTY'' else rmap validated_argument values))"

subsection \<open>Quoting for the Windows C runtime\<close>

definition backslash :: char where "backslash = CHR 0x5C"
definition dquote :: char where "dquote = CHR 0x22"
definition squote :: char where "squote = CHR 0x27"

definition blank :: "char \<Rightarrow> bool" where
  "blank c \<longleftrightarrow> c = CHR 0x20 \<or> c = CHR 0x09"

text \<open>The pending backslashes are written single, or double when a quotation mark follows.\<close>

fun windows_chars :: "bool \<Rightarrow> nat \<Rightarrow> string \<Rightarrow> string" where
  "windows_chars needquote n [] = replicate n backslash @ (if needquote then replicate n backslash @ [dquote] else [])"
| "windows_chars needquote n (c # cs) =
     (if c = backslash then windows_chars needquote (Suc n) cs
      else if c = dquote then replicate (2 * n) backslash @ [backslash, dquote] @ windows_chars needquote 0 cs
      else replicate n backslash @ c # windows_chars needquote 0 cs)"

definition windows_word :: "string \<Rightarrow> string" where
  "windows_word arg = (let needquote = list_ex blank arg \<or> arg = [] in
     (if needquote then [dquote] else []) @ windows_chars needquote 0 arg)"

fun joined_by_space :: "string list \<Rightarrow> string" where
  "joined_by_space [] = []"
| "joined_by_space [w] = w"
| "joined_by_space (w # ws) = w @ CHR 0x20 # joined_by_space ws"

definition list2cmdline :: "string list \<Rightarrow> string" where
  "list2cmdline argv = joined_by_space (map windows_word argv)"

subsection \<open>Quoting for a POSIX shell\<close>

definition shell_safe :: "char \<Rightarrow> bool" where
  "shell_safe c \<longleftrightarrow> ascii_alpha c \<or> ascii_digit c \<or> c \<in> set ''_@%+=:,./-''"

definition shlex_quote :: "string \<Rightarrow> string" where
  "shlex_quote s =
     (if s = [] then [squote, squote]
      else if list_all shell_safe s then s
      else squote # concat (map (\<lambda>c. if c = squote then [squote, dquote, squote, dquote, squote] else [c]) s) @ [squote])"

definition shlex_join :: "string list \<Rightarrow> string" where
  "shlex_join argv = joined_by_space (map shlex_quote argv)"

subsection \<open>The commands of the module\<close>

definition quote_windows_argument :: "pyval \<Rightarrow> string result" where
  "quote_windows_argument v = rbind (validated_argv (PTuple [v])) (\<lambda>argv. Inr (list2cmdline [hd argv]))"

definition quote_posix_argument :: "pyval \<Rightarrow> string result" where
  "quote_posix_argument v = rbind (validated_argv (PTuple [v])) (\<lambda>argv. Inr (shlex_quote (hd argv)))"

definition quote_windows_command :: "pyval \<Rightarrow> string result" where
  "quote_windows_command argv = rbind (validated_argv argv) (\<lambda>ws. Inr (list2cmdline ws))"

definition quote_posix_command :: "pyval \<Rightarrow> string result" where
  "quote_posix_command argv = rbind (validated_argv argv) (\<lambda>ws. Inr (shlex_join ws))"

text \<open>\<open>on_windows\<close> is \<open>os.name == "nt"\<close>.\<close>

definition selected_platform :: "bool \<Rightarrow> string option \<Rightarrow> string" where
  "selected_platform on_windows platform = casefold (case platform of
     Some p \<Rightarrow> if p \<noteq> [] then p else if on_windows then ''windows'' else ''posix''
   | None \<Rightarrow> if on_windows then ''windows'' else ''posix'')"

definition WINDOWS_NAMES :: "string list" where
  "WINDOWS_NAMES = [''windows'', ''win32'', ''nt'']"

definition POSIX_NAMES :: "string list" where
  "POSIX_NAMES = [''posix'', ''linux'', ''darwin'', ''macos'', ''unix'']"

definition quote_command :: "bool \<Rightarrow> pyval \<Rightarrow> string option \<Rightarrow> string result" where
  "quote_command on_windows argv platform =
     (let selected = selected_platform on_windows platform in
      if selected \<in> set WINDOWS_NAMES then quote_windows_command argv
      else if selected \<in> set POSIX_NAMES then quote_posix_command argv
      else quote_error ''COMMAND_PLATFORM_UNSUPPORTED'')"

subsection \<open>Argument vectors of the hooks\<close>

text \<open>
  Parameters: the text of \<open>Path(root).expanduser() / "src"\<close>, the text of the launcher in a skill
  directory, and \<open>os.path.normcase(os.path.abspath(p))\<close>.
\<close>

record path_env =
  pq_src :: "string \<Rightarrow> string"
  pq_launcher :: "string \<Rightarrow> string"
  pq_normal :: "string \<Rightarrow> string"

definition MODULE_BOOTSTRAP :: string where
  "MODULE_BOOTSTRAP = ''import runpy,sys;source=sys.argv.pop(1);module=sys.argv.pop(1);sys.path.insert(0,source);runpy.run_module(module,run_name='' @ [squote] @ ''__main__'' @ [squote] @ '')''"

definition SCRIPT_BOOTSTRAP :: string where
  "SCRIPT_BOOTSTRAP = ''import os,runpy,sys;script=sys.argv.pop(1);sys.path.insert(0,os.path.dirname(script));runpy.run_path(script,run_name='' @ [squote] @ ''__main__'' @ [squote] @ '')''"

definition path_value :: "string \<Rightarrow> string result" where
  "path_value raw = (if raw = [] then quote_error ''COMMAND_PATH_REQUIRED'' else Inr raw)"

definition ISOLATED :: "string list" where
  "ISOLATED = [''-I'', ''-B'', ''-X'', ''utf8'']"

definition trusted_module_argv :: "path_env \<Rightarrow> string \<Rightarrow> string \<Rightarrow> string \<Rightarrow> string list result" where
  "trusted_module_argv env executable engine_root module_name =
     rbind (path_value engine_root) (\<lambda>engine. rbind (path_value executable) (\<lambda>exe.
       Inr (exe # ISOLATED @ [''-c'', MODULE_BOOTSTRAP, pq_src env engine, module_name])))"

definition flag_path :: "string \<Rightarrow> string option \<Rightarrow> string list result" where
  "flag_path flag value = (case value of None \<Rightarrow> Inr [] | Some p \<Rightarrow> rbind (path_value p) (\<lambda>raw. Inr [flag, raw]))"

record hook_request =
  hq_host_id :: string
  hq_engine_root :: string
  hq_personal_root :: "string option"
  hq_team_root :: "string option"
  hq_runtime_root :: "string option"
  hq_host_home :: "string option"
  hq_knowledge_root :: "string option"

definition personal_root :: "path_env \<Rightarrow> hook_request \<Rightarrow> (string \<times> string) result" where
  "personal_root env q = (case (hq_personal_root q, hq_knowledge_root q) of
       (Some p, Some k) \<Rightarrow> if pq_normal env p \<noteq> pq_normal env k then quote_error ''COMMAND_PERSONAL_ROOT_CONFLICT''
         else Inr (''--personal-knowledge-root'', p)
     | (Some p, None) \<Rightarrow> Inr (''--personal-knowledge-root'', p)
     | (None, Some k) \<Rightarrow> Inr (''--knowledge-root'', k)
     | (None, None) \<Rightarrow> quote_error ''COMMAND_PERSONAL_ROOT_REQUIRED'')"

definition build_hook_argv :: "path_env \<Rightarrow> string \<Rightarrow> hook_request \<Rightarrow> string list result" where
  "build_hook_argv env executable q =
     (if hq_host_id q = [] then quote_error ''COMMAND_HOST_ID_REQUIRED''
      else rbind (personal_root env q) (\<lambda>(flag, personal).
        case hq_runtime_root q of
          None \<Rightarrow> quote_error ''COMMAND_RUNTIME_ROOT_REQUIRED''
        | Some runtime \<Rightarrow>
            rbind (trusted_module_argv env executable (hq_engine_root q) ''ei.hook_entry'') (\<lambda>start.
            rbind (flag_path ''--engine-root'' (Some (hq_engine_root q))) (\<lambda>engine.
            rbind (flag_path flag (Some personal)) (\<lambda>knowledge.
            rbind (flag_path ''--team-knowledge-root'' (hq_team_root q)) (\<lambda>team.
            rbind (flag_path ''--runtime-root'' (Some runtime)) (\<lambda>run.
            rbind (flag_path ''--codex-home'' (hq_host_home q)) (\<lambda>home.
              validated_argv (PTuple (map PStr
                (start @ [''--host-id'', hq_host_id q] @ engine @ knowledge @ team @ run @ home)))))))))))"

definition build_observe_argv :: "path_env \<Rightarrow> string \<Rightarrow> string option \<Rightarrow> string option \<Rightarrow> string option \<Rightarrow> string list result" where
  "build_observe_argv env executable engine_root knowledge_root runtime_root =
     (let command = [''observe'', ''--stdin-json'', ''--json''] in
      case (engine_root, knowledge_root, runtime_root) of
        (None, None, None) \<Rightarrow>
          rbind (path_value executable) (\<lambda>exe. validated_argv (PTuple (map PStr (exe # ISOLATED @ [''-m'', ''ei.cli''] @ command))))
      | (Some engine, Some knowledge, Some runtime) \<Rightarrow>
          rbind (trusted_module_argv env executable engine ''ei.cli'') (\<lambda>start.
          rbind (flag_path ''--engine-root'' (Some engine)) (\<lambda>a.
          rbind (flag_path ''--knowledge-root'' (Some knowledge)) (\<lambda>b.
          rbind (flag_path ''--runtime-root'' (Some runtime)) (\<lambda>c.
            validated_argv (PTuple (map PStr (start @ command @ a @ b @ c)))))))
      | _ \<Rightarrow> quote_error ''COMMAND_ROOTS_INCOMPLETE'')"

definition build_skill_launcher_argv :: "path_env \<Rightarrow> string \<Rightarrow> string \<Rightarrow> string \<Rightarrow> string \<Rightarrow> string list result" where
  "build_skill_launcher_argv env executable skill_destination engine_root runtime_root =
     rbind (path_value skill_destination) (\<lambda>skill.
     rbind (path_value executable) (\<lambda>exe.
     rbind (flag_path ''--engine-root'' (Some engine_root)) (\<lambda>a.
     rbind (flag_path ''--runtime-root'' (Some runtime_root)) (\<lambda>b.
       validated_argv (PTuple (map PStr (exe # ISOLATED @ [''-c'', SCRIPT_BOOTSTRAP, pq_launcher env skill] @ a @ b)))))))"

subsection \<open>Readers\<close>

text \<open>
  The argument rules of the C runtime: blanks separate arguments outside quotes; backslashes are
  literal unless a quotation mark follows them, then every pair is one backslash and an odd one makes
  the mark literal.
\<close>

definition finished :: "nat \<Rightarrow> string option \<Rightarrow> string list" where
  "finished n word = (case word of
     Some w \<Rightarrow> [w @ replicate n backslash] | None \<Rightarrow> if n = 0 then [] else [replicate n backslash])"

definition grow :: "string option \<Rightarrow> string \<Rightarrow> string option" where
  "grow word s = Some ((case word of None \<Rightarrow> [] | Some w \<Rightarrow> w) @ s)"

fun windows_argv :: "bool \<Rightarrow> nat \<Rightarrow> string option \<Rightarrow> string \<Rightarrow> string list" where
  "windows_argv quoted n word [] = finished n word"
| "windows_argv quoted n word (c # cs) =
     (if c = backslash then windows_argv quoted (Suc n) word cs
      else if c = dquote then
        (if even n then windows_argv (\<not> quoted) 0 (grow word (replicate (n div 2) backslash)) cs
         else windows_argv quoted 0 (grow word (replicate (n div 2) backslash @ [dquote])) cs)
      else if blank c \<and> \<not> quoted then finished n word @ windows_argv quoted 0 None cs
      else windows_argv quoted 0 (grow word (replicate n backslash @ [c])) cs)"

text \<open>The words of a shell; \<^const>\<open>None\<close> when it would interpret a character or a quote stays open.\<close>

datatype shell_mode = Plain | Single | Double

fun shell_words :: "shell_mode \<Rightarrow> string option \<Rightarrow> string \<Rightarrow> string list option" where
  "shell_words mode word [] = (if mode = Plain then Some (finished 0 word) else None)"
| "shell_words Plain word (c # cs) =
     (if c = squote then shell_words Single (grow word []) cs
      else if c = dquote then shell_words Double (grow word []) cs
      else if blank c then map_option ((@) (finished 0 word)) (shell_words Plain None cs)
      else if shell_safe c then shell_words Plain (grow word [c]) cs
      else None)"
| "shell_words Single word (c # cs) =
     (if c = squote then shell_words Plain word cs else shell_words Single (grow word [c]) cs)"
| "shell_words Double word (c # cs) =
     (if c = dquote then shell_words Plain word cs
      else if c \<in> set [CHR ''$'', CHR 0x60, backslash, CHR ''!''] then None
      else shell_words Double (grow word [c]) cs)"

subsection \<open>Reading back\<close>

lemma char_facts [simp]: "dquote \<noteq> backslash" "backslash \<noteq> dquote" "\<not> blank backslash" "\<not> blank dquote" "dquote \<noteq> squote"
  "squote \<noteq> dquote" "\<not> blank squote" "blank (CHR '' '')" "CHR '' '' \<noteq> backslash" "CHR '' '' \<noteq> dquote" "CHR '' '' \<noteq> squote"
  "\<not> shell_safe squote" "\<not> shell_safe dquote" "squote \<notin> set [CHR ''$'', CHR 0x60, backslash, CHR ''!'']"
  by (simp_all add: dquote_def backslash_def squote_def blank_def shell_safe_def ascii_alpha_def ascii_digit_def)

lemma safe_not_special: "shell_safe c \<Longrightarrow> c \<noteq> squote \<and> c \<noteq> dquote \<and> \<not> blank c"
  by (auto simp: shell_safe_def squote_def dquote_def blank_def ascii_alpha_def ascii_digit_def)

lemma grow_simps [simp]: "grow (grow w s) t = grow w (s @ t)" "grow (Some v) s = Some (v @ s)" "grow None s = Some s"
  by (cases w) (simp_all add: grow_def)

lemma windows_backslashes: "windows_argv q n w (replicate k backslash @ s) = windows_argv q (n + k) w s"
  by (induction k arbitrary: n) simp_all

lemma grow_Some: "grow w s = Some ((case w of None \<Rightarrow> [] | Some v \<Rightarrow> v) @ s)"
  by (simp add: grow_def)

text \<open>What follows a word: nothing, or a space and the rest.\<close>

definition windows_rest :: "string \<Rightarrow> string list \<Rightarrow> bool" where
  "windows_rest s rest \<longleftrightarrow> s = [] \<and> rest = [] \<or> (\<exists>t. s = CHR '' '' # t \<and> rest = windows_argv False 0 None t)"

lemma windows_rest_word: "windows_rest s rest \<Longrightarrow> windows_argv False n (Some w) s = (w @ replicate n backslash) # rest"
  by (auto simp: windows_rest_def finished_def)

lemma windows_quoted:
  "windows_argv True 0 (Some w) (windows_chars True n cs @ s) = windows_argv False 0 (Some (w @ replicate n backslash @ cs)) s"
proof (induction cs arbitrary: n w)
  case Nil
  have "windows_argv True 0 (Some w) (replicate n backslash @ replicate n backslash @ dquote # s)
      = windows_argv True (n + n) (Some w) (dquote # s)" by (simp add: windows_backslashes)
  then show ?case by simp
next
  case (Cons c cs)
  consider "c = backslash" | "c = dquote" | "c \<noteq> backslash" "c \<noteq> dquote" by blast
  then show ?case
  proof cases
    case 1
    then show ?thesis using Cons.IH [of w "Suc n"] by (simp add: replicate_app_Cons_same)
  next
    case 2
    then show ?thesis using Cons.IH [of "w @ replicate n backslash @ [dquote]" 0] by (simp add: windows_backslashes)
  next
    case 3
    then show ?thesis using Cons.IH [of "w @ replicate n backslash @ [c]" 0] by (simp add: windows_backslashes)
  qed
qed

lemma windows_unquoted:
  assumes "windows_rest s rest" "\<not> list_ex blank cs" "w \<noteq> None \<or> n \<noteq> 0 \<or> cs \<noteq> []"
  shows "windows_argv False 0 w (windows_chars False n cs @ s) = the (grow w (replicate n backslash @ cs)) # rest"
  using assms(2,3)
proof (induction cs arbitrary: n w)
  case Nil
  have "windows_argv False n w s = finished n w @ rest" using assms(1) by (auto simp: windows_rest_def)
  then show ?case using Nil by (auto simp: windows_backslashes finished_def grow_def split: option.split)
next
  case (Cons c cs)
  consider "c = backslash" | "c = dquote" | "c \<noteq> backslash" "c \<noteq> dquote" "\<not> blank c" using Cons.prems by auto
  then show ?case
  proof cases
    case 1
    then show ?thesis using Cons.IH [of w "Suc n"] Cons.prems by (simp add: replicate_app_Cons_same)
  next
    case 2
    then show ?thesis using Cons.IH [of "grow w (replicate n backslash @ [dquote])" 0] Cons.prems
      by (simp add: windows_backslashes grow_Some)
  next
    case 3
    then show ?thesis using Cons.IH [of "grow w (replicate n backslash @ [c])" 0] Cons.prems
      by (simp add: windows_backslashes grow_Some)
  qed
qed

lemma windows_word_read:
  assumes "windows_rest s rest"
  shows "windows_argv False 0 None (windows_word a @ s) = a # rest"
proof (cases "list_ex blank a \<or> a = []")
  case True
  then have "windows_argv False 0 None (windows_word a @ s) = windows_argv True 0 (Some []) (windows_chars True 0 a @ s)"
    by (simp add: windows_word_def)
  then show ?thesis using windows_rest_word [OF assms, of 0 a] by (simp add: windows_quoted)
next
  case False
  then show ?thesis using windows_unquoted [OF assms, of a None 0] by (simp add: windows_word_def)
qed

lemma windows_command_read: "windows_argv False 0 None (list2cmdline argv) = argv"
proof (induction "map windows_word argv" arbitrary: argv rule: joined_by_space.induct)
  case 1
  then show ?case by (simp add: list2cmdline_def finished_def)
next
  case (2 w)
  then obtain a where "argv = [a]" by (cases argv) auto
  then show ?case using windows_word_read [of "[]" "[]" a] by (simp add: list2cmdline_def windows_rest_def)
next
  case (3 w v ws)
  then obtain a b rest where argv: "argv = a # b # rest" by (metis map_eq_Cons_D)
  with 3 have "windows_argv False 0 None (list2cmdline (b # rest)) = b # rest" by simp
  then have "windows_rest (CHR '' '' # list2cmdline (b # rest)) (b # rest)" by (simp add: windows_rest_def)
  then show ?case using windows_word_read by (simp add: argv list2cmdline_def)
qed

definition shell_rest :: "string \<Rightarrow> string list option \<Rightarrow> bool" where
  "shell_rest s rest \<longleftrightarrow> s = [] \<and> rest = Some [] \<or> (\<exists>t. s = CHR '' '' # t \<and> rest = shell_words Plain None t)"

lemma shell_rest_word: "shell_rest s rest \<Longrightarrow> shell_words Plain (Some w) s = map_option ((#) w) rest"
  by (auto simp: shell_rest_def finished_def cong: map_option_cong)

lemma shell_safe_word:
  "list_all shell_safe a \<Longrightarrow> shell_words Plain (Some w) (a @ s) = shell_words Plain (Some (w @ a)) s"
  by (induction a arbitrary: w) (auto dest: safe_not_special)

lemma shell_single:
  "shell_words Single (Some w) (concat (map (\<lambda>c. if c = squote then [squote, dquote, squote, dquote, squote] else [c]) a) @ squote # s)
     = shell_words Plain (Some (w @ a)) s"
  by (induction a arbitrary: w) (simp_all del: set_simps)

lemma shlex_quote_read:
  assumes "shell_rest s rest"
  shows "shell_words Plain None (shlex_quote a @ s) = map_option ((#) a) rest"
proof (cases a)
  case Nil
  then show ?thesis using shell_rest_word [OF assms, of "[]"] by (simp add: shlex_quote_def)
next
  case (Cons c cs)
  show ?thesis
  proof (cases "list_all shell_safe a")
    case True
    then have "shell_words Plain None (a @ s) = shell_words Plain (Some [c]) (cs @ s)"
      using Cons safe_not_special [of c] by simp
    also have "\<dots> = shell_words Plain (Some a) s" using True Cons shell_safe_word [of cs "[c]" s] by simp
    finally show ?thesis using True Cons shell_rest_word [OF assms] by (simp add: shlex_quote_def)
  next
    case False
    then have quote: "shlex_quote a = squote # concat (map (\<lambda>c. if c = squote then [squote, dquote, squote, dquote, squote] else [c]) a) @ [squote]"
      using Cons by (simp add: shlex_quote_def)
    have "shell_words Plain None (shlex_quote a @ s) = shell_words Plain (Some a) s"
      unfolding quote using shell_single [of "[]" a s] by simp
    then show ?thesis using shell_rest_word [OF assms] by simp
  qed
qed

lemma shell_command_read: "shell_words Plain None (shlex_join argv) = Some argv"
proof (induction "map shlex_quote argv" arbitrary: argv rule: joined_by_space.induct)
  case 1
  then show ?case by (simp add: shlex_join_def finished_def)
next
  case (2 w)
  then obtain a where "argv = [a]" by (cases argv) auto
  then show ?case using shlex_quote_read [of "[]" "Some []" a] by (simp add: shlex_join_def shell_rest_def)
next
  case (3 w v ws)
  then obtain a b rest where argv: "argv = a # b # rest" by (metis map_eq_Cons_D)
  with 3 have "shell_words Plain None (shlex_join (b # rest)) = Some (b # rest)" by simp
  then have "shell_rest (CHR '' '' # shlex_join (b # rest)) (Some (b # rest))" by (simp add: shell_rest_def)
  then show ?case using shlex_quote_read by (simp add: argv shlex_join_def)
qed

subsection \<open>Properties\<close>

lemma validated_argv_texts: "validated_argv argv = Inr ws \<Longrightarrow> validated_argv (PTuple (map PStr ws)) = Inr ws"
proof -
  assume "validated_argv argv = Inr ws"
  then obtain items where v: "items \<noteq> []" "rmap validated_argument items = Inr ws"
    by (auto simp: validated_argv_def result_simps quote_error_def split: if_splits)
  have same: "validated_argument v = Inr w \<Longrightarrow> validated_argument (PStr w) = Inr w" for v w
    by (auto simp: validated_argument_def quote_error_def split: pyval.splits if_splits)
  have all2: "list_all2 (\<lambda>v w. validated_argument v = Inr w) items ws" using v(2) by (simp add: rmap_eq_Inr)
  then have "list_all2 (\<lambda>v w. validated_argument v = Inr w) (map PStr ws) ws"
    by (induction rule: list_all2_induct) (auto dest: same)
  then have "rmap validated_argument (map PStr ws) = Inr ws" by (simp add: rmap_eq_Inr)
  moreover have "ws \<noteq> []" using v(1) all2 by auto
  ultimately show ?thesis by (simp add: validated_argv_def iterated_def)
qed

lemma validated_argv_same: "validated_argv (PTuple (map PStr ws)) = Inr vs \<Longrightarrow> vs = ws"
proof -
  have "rmap validated_argument (map PStr us) = Inr vs \<Longrightarrow> vs = us" for us vs
    by (induction us arbitrary: vs) (auto simp: result_simps validated_argument_def quote_error_def split: if_splits)
  moreover assume "validated_argv (PTuple (map PStr ws)) = Inr vs"
  ultimately show ?thesis by (auto simp: validated_argv_def iterated_def quote_error_def split: if_splits)
qed

lemma flag_path_Some: "flag_path flag (Some p) = Inr xs \<longleftrightarrow> p \<noteq> [] \<and> xs = [flag, p]"
  by (auto simp: flag_path_def path_value_def quote_error_def)

lemma flag_path_None: "flag_path flag None = Inr xs \<longleftrightarrow> xs = []"
  by (auto simp: flag_path_def)



text \<open>
  A hook is started as it was requested: when the vector of a hook can be built, it can be quoted
  for both platforms and arrives unchanged, isolated before any module is loaded, with the host and
  each root behind its flag.
\<close>

theorem hook_command_arrives:
  assumes "build_hook_argv env executable q = Inr argv"
  shows "\<exists>flag personal runtime team home. argv = executable # ISOLATED @ [''-c'', MODULE_BOOTSTRAP, pq_src env (hq_engine_root q), ''ei.hook_entry'',
        ''--host-id'', hq_host_id q, ''--engine-root'', hq_engine_root q, flag, personal] @ team @ [''--runtime-root'', runtime] @ home
    \<and> Some personal \<in> {hq_personal_root q, hq_knowledge_root q} \<and> hq_runtime_root q = Some runtime
    \<and> team = (case hq_team_root q of None \<Rightarrow> [] | Some p \<Rightarrow> [''--team-knowledge-root'', p])
    \<and> home = (case hq_host_home q of None \<Rightarrow> [] | Some p \<Rightarrow> [''--codex-home'', p])
    \<and> (\<exists>command. quote_windows_command (PTuple (map PStr argv)) = Inr command \<and> windows_argv False 0 None command = argv)
    \<and> (\<exists>command. quote_posix_command (PTuple (map PStr argv)) = Inr command \<and> shell_words Plain None command = Some argv)"
proof -
  have "hq_host_id q \<noteq> []" using assms by (auto simp: build_hook_argv_def quote_error_def)
  then obtain flag personal runtime start team home where steps: "personal_root env q = Inr (flag, personal)" "hq_runtime_root q = Some runtime"
      "trusted_module_argv env executable (hq_engine_root q) ''ei.hook_entry'' = Inr start"
      "flag_path ''--team-knowledge-root'' (hq_team_root q) = Inr team" "flag_path ''--codex-home'' (hq_host_home q) = Inr home"
    and built: "validated_argv (PTuple (map PStr (start @ [''--host-id'', hq_host_id q] @ [''--engine-root'', hq_engine_root q]
        @ [flag, personal] @ team @ [''--runtime-root'', runtime] @ home))) = Inr argv"
    using assms unfolding build_hook_argv_def
    by (auto simp: rbind_eq_Inr flag_path_Some quote_error_def split: option.splits)
  have start: "start = executable # ISOLATED @ [''-c'', MODULE_BOOTSTRAP, pq_src env (hq_engine_root q), ''ei.hook_entry'']"
    using steps(3) by (auto simp: trusted_module_argv_def rbind_eq_Inr path_value_def quote_error_def split: if_splits)
  note argv = validated_argv_same [OF built]
  have tail: "team = (case hq_team_root q of None \<Rightarrow> [] | Some p \<Rightarrow> [''--team-knowledge-root'', p])"
    "home = (case hq_host_home q of None \<Rightarrow> [] | Some p \<Rightarrow> [''--codex-home'', p])"
    using steps(4,5) by (auto simp: flag_path_Some flag_path_None split: option.splits)
  have root: "Some personal \<in> {hq_personal_root q, hq_knowledge_root q}"
    using steps(1) by (auto simp: personal_root_def quote_error_def split: option.splits if_splits)
  have "validated_argv (PTuple (map PStr argv)) = Inr argv" using validated_argv_texts [OF built] .
  then have "quote_windows_command (PTuple (map PStr argv)) = Inr (list2cmdline argv)"
    "quote_posix_command (PTuple (map PStr argv)) = Inr (shlex_join argv)"
    by (simp_all add: quote_windows_command_def quote_posix_command_def)
  then show ?thesis using argv start tail root steps(2) windows_command_read shell_command_read by auto
qed

definition sample_request :: hook_request where
  "sample_request = \<lparr>hq_host_id = ''h'', hq_engine_root = ''/e x'', hq_personal_root = Some ''/p'', hq_team_root = None,
     hq_runtime_root = Some ''/r'', hq_host_home = None, hq_knowledge_root = None\<rparr>"

definition sample_paths :: path_env where
  "sample_paths = \<lparr>pq_src = (\<lambda>r. r @ ''/src''), pq_launcher = (\<lambda>s. s @ ''/scripts/launcher.py''), pq_normal = (\<lambda>s. s)\<rparr>"

theorem hook_command_arrives_witness:
  "\<exists>argv command. build_hook_argv sample_paths ''py'' sample_request = Inr argv
     \<and> quote_posix_command (PTuple (map PStr argv)) = Inr command \<and> shell_words Plain None command = Some argv"
proof -
  have "\<not> isl (build_hook_argv sample_paths ''py'' sample_request)" by code_simp
  then obtain argv where "build_hook_argv sample_paths ''py'' sample_request = Inr argv"
    by (cases "build_hook_argv sample_paths ''py'' sample_request") auto
  then show ?thesis using hook_command_arrives by blast
qed

end
