(* ===== verification/Sync_Policy.thy ===== *)
theory Sync_Policy
  imports Privacy_Policy
begin

section \<open>What the automatic synchronization may touch\<close>

text \<open>
  \<^verbatim>\<open>src/src/ei/sync_policy.py\<close> and the plan of \<^verbatim>\<open>src/src/ei/sync.py\<close>: repository paths are
  normalized and classified, and a synchronization is planned from the lines of \<open>git status\<close> only when
  every change is a new or generated file of the engine. The plan changes nothing itself.

  \<open>nfkc\<close> is NFKC, \<open>py_str\<close> is \<open>str\<close> of a value. The rest of \<open>sync.py\<close> runs git, locks and retries and is
  not modelled.
\<close>

subsection \<open>Lists of the policy\<close>

definition DEFAULT_MANAGED_PATHS :: "string list" where
  "DEFAULT_MANAGED_PATHS = [''events/**'', ''knowledge/**'']"

definition MANAGED_ROOTS :: "string list" where
  "MANAGED_ROOTS = [''events'', ''knowledge'']"

definition REVIEW_REQUIRED_ROOTS :: "string list" where
  "REVIEW_REQUIRED_ROOTS = [''config'', ''docs'', ''hooks'', ''policies'', ''schemas'', ''scripts'', ''skills'', ''src'',
     ''templates'', ''tests'']"

definition REVIEW_REQUIRED_FILES :: "string list" where
  "REVIEW_REQUIRED_FILES = [''.gitignore'', ''AGENTS.md'', ''README.md'', ''pyproject.toml'', ''requirements-build.lock'',
     ''requirements-ci.lock'', ''requirements-runtime.lock'']"

definition MACHINE_LOCAL_COMPONENTS :: "string list" where
  "MACHINE_LOCAL_COMPONENTS = [''.ei-local'', ''.ei-runtime'', ''backups'', ''body'', ''body.json'', ''cache'', ''cursor'',
     ''emergency-spool'', ''install-manifest.json'', ''key'', ''key.json'', ''locks'', ''logs'', ''queue'', ''quarantine'',
     ''spool'', ''state'', ''transcripts'']"

definition ALLOWED_KNOWLEDGE_SUFFIXES :: "string list" where
  "ALLOWED_KNOWLEDGE_SUFFIXES = [''.md'', ''.json'']"

subsection \<open>Paths\<close>

definition slashed :: "string \<Rightarrow> string" where
  "slashed s = map (\<lambda>c. if c = CHR 0x5C then CHR ''/'' else c) s"

fun joined_by :: "char \<Rightarrow> string list \<Rightarrow> string" where
  "joined_by d [] = []"
| "joined_by d [w] = w"
| "joined_by d (w # ws) = w @ d # joined_by d ws"

text \<open>\<open>PurePosixPath(p).parts\<close> of a relative path: empty components and single dots disappear.\<close>

definition posix_parts :: "string \<Rightarrow> string list" where
  "posix_parts s = filter (\<lambda>p. p \<noteq> [] \<and> p \<noteq> ''.'') (split_on (CHR ''/'') s)"

definition normalize_repo_path :: "(string \<Rightarrow> string) \<Rightarrow> string \<Rightarrow> string result" where
  "normalize_repo_path nfkc path =
     (let normalized = strip (slashed (nfkc path)); parts = posix_parts normalized in
      if normalized = [] \<or> starts_with ''/'' normalized \<or> (length normalized \<ge> 2 \<and> normalized ! 1 = CHR '':'')
         \<or> parts = [] \<or> ''..'' \<in> set parts
      then Inl (ValueError ''SYNC_PATH_INVALID'') else Inr (joined_by (CHR ''/'') parts))"

definition path_root :: "(string \<Rightarrow> string) \<Rightarrow> string \<Rightarrow> string" where
  "path_root nfkc path = (case normalize_repo_path nfkc path of
     Inl _ \<Rightarrow> [] | Inr p \<Rightarrow> casefold (hd (split_on (CHR ''/'') p)))"

text \<open>\<open>Path(name).suffix\<close>: from the last dot, unless it is the first or the last character.\<close>

definition name_suffix :: "string \<Rightarrow> string" where
  "name_suffix name = (let tail = takeWhile (\<lambda>c. c \<noteq> CHR ''.'') (rev name); i = length name - length tail in
     if CHR ''.'' \<in> set name \<and> 1 < i \<and> tail \<noteq> [] then CHR ''.'' # rev tail else [])"

definition is_managed_path :: "(string \<Rightarrow> string) \<Rightarrow> string \<Rightarrow> bool" where
  "is_managed_path nfkc path = (case normalize_repo_path nfkc path of
     Inl _ \<Rightarrow> False
   | Inr p \<Rightarrow> (let parts = split_on (CHR ''/'') p; root = casefold (hd parts) in
       if p = ''knowledge/.gitattributes'' then True
       else if root = ''events'' then length parts \<ge> 2 \<and> ends_with ''.json'' (casefold (last parts))
       else if root = ''knowledge'' then length parts \<ge> 2 \<and> casefold (name_suffix (last parts)) \<in> set ALLOWED_KNOWLEDGE_SUFFIXES
       else False))"

definition managed_path_reason :: "(string \<Rightarrow> string) \<Rightarrow> string \<Rightarrow> string" where
  "managed_path_reason nfkc path = (case normalize_repo_path nfkc path of
     Inl _ \<Rightarrow> ''SYNC_PATH_INVALID''
   | Inr p \<Rightarrow> (let root = path_root nfkc p in
       if root \<in> set MACHINE_LOCAL_COMPONENTS
          \<or> list_ex (\<lambda>part. part \<in> set MACHINE_LOCAL_COMPONENTS) (split_on (CHR ''/'') (casefold p)) then ''MACHINE_LOCAL_PATH''
       else if is_managed_path nfkc p then ''MANAGED_ENGINE_PATH''
       else if casefold p \<in> set REVIEW_REQUIRED_FILES \<or> root \<in> set REVIEW_REQUIRED_ROOTS then ''REVIEW_REQUIRED_SOURCE_CHANGE''
       else ''UNRELATED_WORKTREE_CHANGES''))"

definition protected_change :: "(string \<Rightarrow> string) \<Rightarrow> string \<Rightarrow> bool" where
  "protected_change nfkc path \<longleftrightarrow> managed_path_reason nfkc path = ''REVIEW_REQUIRED_SOURCE_CHANGE''"

subsection \<open>The locked allowlist\<close>

definition validate_managed_path_config :: "(pyval \<Rightarrow> string) \<Rightarrow> pyval \<Rightarrow> string list result" where
  "validate_managed_path_config py_str v = (case seq_items v of
     None \<Rightarrow> Inl (ValueError ''SYNC_MANAGED_PATHS_INVALID'')
   | Some items \<Rightarrow> (let normalized = map (\<lambda>i. case i of PStr s \<Rightarrow> s | _ \<Rightarrow> py_str i) items in
       if normalized \<noteq> DEFAULT_MANAGED_PATHS then Inl (ValueError ''SYNC_MANAGED_PATHS_INVALID'') else Inr normalized))"

text \<open>The document under \<open>config/defaults.json\<close>, or \<^const>\<open>None\<close> when it cannot be read.\<close>

definition configured_managed_paths :: "(pyval \<Rightarrow> string) \<Rightarrow> pyval option \<Rightarrow> string list result" where
  "configured_managed_paths py_str document = (case document of
     None \<Rightarrow> Inl (ValueError ''SYNC_DEFAULTS_READ_FAILED'')
   | Some (PDict d) \<Rightarrow> (case get_default d ''sync'' (PDict []) of
       PDict s \<Rightarrow> validate_managed_path_config py_str (get_default s ''managed_paths'' (PList (map PStr DEFAULT_MANAGED_PATHS)))
     | _ \<Rightarrow> Inl (ValueError ''SYNC_DEFAULTS_INVALID''))
   | Some _ \<Rightarrow> Inl (ValueError ''SYNC_DEFAULTS_INVALID''))"

subsection \<open>Lines of git status\<close>

record StatusEntry =
  se_path :: string
  se_xy :: string
  se_original_path :: "string option"

record SyncPlan =
  sp_allowed :: bool
  sp_reason_code :: string
  sp_stage_paths :: "string list"
  sp_unrelated_paths :: "string list"
  sp_review_paths :: "string list"

text \<open>\<open>s.split(" -> ", 1)\<close>, and \<open>s.strip('"')\<close>.\<close>

fun split_arrow :: "string \<Rightarrow> (string \<times> string) option" where
  "split_arrow [] = None"
| "split_arrow (c # cs) = (if starts_with '' -> '' (c # cs) then Some ([], drop 4 (c # cs))
     else map_option (\<lambda>(a, b). (c # a, b)) (split_arrow cs))"

definition unquoted :: "string \<Rightarrow> string" where
  "unquoted s = rev (dropWhile (\<lambda>c. c = CHR 0x22) (rev (dropWhile (\<lambda>c. c = CHR 0x22) s)))"

definition normalize_status_path :: "string \<Rightarrow> string" where
  "normalize_status_path text = (let path = strip (slashed text) in
     unquoted (strip (case split_arrow path of Some (_, new) \<Rightarrow> new | None \<Rightarrow> path)))"

definition status_entry :: "string \<Rightarrow> StatusEntry option" where
  "status_entry line =
     (if strip line = [] then None
      else let coded = length line \<ge> 3 \<and> line ! 2 = CHR '' '';
               xy = (if coded then take 2 line else ''??''); raw = (if coded then drop 3 line else line);
               (old, new) = (case split_arrow raw of Some (old, new) \<Rightarrow> (Some (normalize_status_path old), new) | None \<Rightarrow> (None, raw));
               path = normalize_status_path new
           in if path = [] then None else Some \<lparr>se_path = path, se_xy = xy, se_original_path = old\<rparr>)"

definition status_entries :: "string list \<Rightarrow> StatusEntry list" where
  "status_entries lines = List.map_filter status_entry lines"

subsection \<open>The plan\<close>

text \<open>What becomes of one entry.\<close>

datatype change = Staged | Review | Unrelated | Unsafe | Mutation

definition journal_mutation :: "(string \<Rightarrow> string) \<Rightarrow> StatusEntry \<Rightarrow> bool" where
  "journal_mutation nfkc e \<longleftrightarrow> se_original_path e \<noteq> None
   \<or> (let flags = filter (\<lambda>c. c \<noteq> CHR '' '') (se_xy e) in
        path_root nfkc (se_path e) = ''events'' \<and> flags \<noteq> [] \<and> CHR ''?'' \<notin> set flags \<and> CHR ''A'' \<notin> set flags)"

definition change_of :: "(string \<Rightarrow> string) \<Rightarrow> StatusEntry \<Rightarrow> change" where
  "change_of nfkc e =
     (if path_root nfkc (se_path e) \<in> set MANAGED_ROOTS \<and> \<not> is_managed_path nfkc (se_path e) then Unsafe
      else let reason = managed_path_reason nfkc (se_path e) in
        if reason = ''MANAGED_ENGINE_PATH'' then (if journal_mutation nfkc e then Mutation else Staged)
        else if reason = ''REVIEW_REQUIRED_SOURCE_CHANGE'' then Review
        else Unrelated)"

definition paths_with :: "(string \<Rightarrow> string) \<Rightarrow> change \<Rightarrow> StatusEntry list \<Rightarrow> string list" where
  "paths_with nfkc kind entries = map se_path (filter (\<lambda>e. change_of nfkc e = kind) entries)"

definition refused :: "string \<Rightarrow> string list \<Rightarrow> string list \<Rightarrow> SyncPlan" where
  "refused reason unrelated review = \<lparr>sp_allowed = False, sp_reason_code = reason, sp_stage_paths = [],
     sp_unrelated_paths = unrelated, sp_review_paths = review\<rparr>"

text \<open>\<open>config\<close> is \<^const>\<open>None\<close> when there are no settings or no defaults file.\<close>

definition build_sync_plan :: "(string \<Rightarrow> string) \<Rightarrow> (pyval \<Rightarrow> string) \<Rightarrow> pyval option option \<Rightarrow> string list \<Rightarrow> SyncPlan" where
  "build_sync_plan nfkc py_str config lines =
     (let entries = status_entries lines; of_kind = (\<lambda>kind. sort (paths_with nfkc kind entries)) in
      if (case config of None \<Rightarrow> False | Some document \<Rightarrow> isl (configured_managed_paths py_str document))
        then refused ''SYNC_POLICY_INVALID'' [] []
      else if entries = [] then refused ''NO_ENGINE_CHANGES'' [] []
      else if of_kind Mutation \<noteq> [] then refused ''EVENT_JOURNAL_MODIFICATION_FORBIDDEN'' (of_kind Mutation) []
      else if of_kind Unsafe \<noteq> [] then refused ''UNSAFE_ENGINE_PATH'' (of_kind Unsafe) []
      else if of_kind Review \<noteq> [] then refused ''REVIEW_REQUIRED_SOURCE_CHANGE'' (of_kind Review) (of_kind Review)
      else if of_kind Unrelated \<noteq> [] then refused ''UNRELATED_WORKTREE_CHANGES'' (of_kind Unrelated) []
      else if of_kind Staged = [] then refused ''NO_ENGINE_CHANGES'' [] []
      else \<lparr>sp_allowed = True, sp_reason_code = ''ENGINE_PATHS_READY'', sp_stage_paths = sorted_set (paths_with nfkc Staged entries),
             sp_unrelated_paths = [], sp_review_paths = []\<rparr>)"

subsection \<open>What a plan stages\<close>

text \<open>A generated file: under a managed root, of an allowed kind, never local to the machine, never above the repository.\<close>

definition engine_file :: "(string \<Rightarrow> string) \<Rightarrow> string \<Rightarrow> bool" where
  "engine_file nfkc path \<longleftrightarrow> (\<exists>p q. normalize_repo_path nfkc path = Inr p \<and> normalize_repo_path nfkc p = Inr q
     \<and> ''..'' \<notin> set (posix_parts (strip (slashed (nfkc path))))
     \<and> list_all (\<lambda>part. part \<notin> set MACHINE_LOCAL_COMPONENTS) (split_on (CHR ''/'') (casefold p))
     \<and> casefold (hd (split_on (CHR ''/'') q)) \<notin> set MACHINE_LOCAL_COMPONENTS
     \<and> (q = ''knowledge/.gitattributes''
        \<or> casefold (hd (split_on (CHR ''/'') q)) = ''events'' \<and> ends_with ''.json'' (casefold (last (split_on (CHR ''/'') q)))
        \<or> casefold (hd (split_on (CHR ''/'') q)) = ''knowledge''
          \<and> casefold (name_suffix (last (split_on (CHR ''/'') q))) \<in> set ALLOWED_KNOWLEDGE_SUFFIXES))"

lemma managed_engine_file:
  assumes "managed_path_reason nfkc path = ''MANAGED_ENGINE_PATH''"
  shows "engine_file nfkc path"
proof -
  obtain p where p: "normalize_repo_path nfkc path = Inr p"
    using assms by (cases "normalize_repo_path nfkc path") (simp_all add: managed_path_reason_def)
  have reason: "(if path_root nfkc p \<in> set MACHINE_LOCAL_COMPONENTS
      \<or> list_ex (\<lambda>part. part \<in> set MACHINE_LOCAL_COMPONENTS) (split_on (CHR ''/'') (casefold p)) then ''MACHINE_LOCAL_PATH''
    else if is_managed_path nfkc p then ''MANAGED_ENGINE_PATH''
    else if casefold p \<in> set REVIEW_REQUIRED_FILES \<or> path_root nfkc p \<in> set REVIEW_REQUIRED_ROOTS
      then ''REVIEW_REQUIRED_SOURCE_CHANGE'' else ''UNRELATED_WORKTREE_CHANGES'') = ''MANAGED_ENGINE_PATH''"
    using assms unfolding managed_path_reason_def p sum.case Let_def .
  then have managed: "is_managed_path nfkc p" and local: "path_root nfkc p \<notin> set MACHINE_LOCAL_COMPONENTS"
    "list_all (\<lambda>part. part \<notin> set MACHINE_LOCAL_COMPONENTS) (split_on (CHR ''/'') (casefold p))"
    by (auto simp: list_all_iff list_ex_iff split: if_splits)
  obtain q where q: "normalize_repo_path nfkc p = Inr q"
    using managed by (cases "normalize_repo_path nfkc p") (simp_all add: is_managed_path_def)
  have "''..'' \<notin> set (posix_parts (strip (slashed (nfkc path))))"
    using p by (auto simp: normalize_repo_path_def Let_def split: if_splits)
  then show ?thesis using managed local p q unfolding engine_file_def
    by (auto simp: is_managed_path_def path_root_def Let_def split: if_splits)
qed

lemma staged_change:
  assumes "change_of nfkc e = Staged"
  shows "managed_path_reason nfkc (se_path e) = ''MANAGED_ENGINE_PATH'' \<and> \<not> journal_mutation nfkc e"
  using assms by (simp add: change_of_def Let_def split: if_splits)

lemma paths_with_Nil: "sort (paths_with nfkc kind entries) = [] \<longleftrightarrow> (\<forall>e \<in> set entries. change_of nfkc e \<noteq> kind)"
  by (metis (mono_tags, lifting) filter_empty_conv list.map_disc_iff paths_with_def set_empty set_sort)

lemma allowed_all_staged:
  assumes "sp_allowed (build_sync_plan nfkc py_str config lines)"
  shows "status_entries lines \<noteq> []" "\<forall>e \<in> set (status_entries lines). change_of nfkc e = Staged"
    "sp_stage_paths (build_sync_plan nfkc py_str config lines) = sorted_set (paths_with nfkc Staged (status_entries lines))"
    "\<forall>document. config = Some document \<longrightarrow> configured_managed_paths py_str document = Inr DEFAULT_MANAGED_PATHS"
proof -
  note plan = assms [unfolded build_sync_plan_def Let_def]
  have locked: "m = DEFAULT_MANAGED_PATHS" if "configured_managed_paths py_str document = Inr m" for document m
    using that by (auto simp: configured_managed_paths_def validate_managed_path_config_def Let_def
      split: option.splits pyval.splits if_splits)
  have cases: "\<not> (case config of None \<Rightarrow> False | Some document \<Rightarrow> isl (configured_managed_paths py_str document))"
    "status_entries lines \<noteq> []" "sort (paths_with nfkc Mutation (status_entries lines)) = []"
    "sort (paths_with nfkc Unsafe (status_entries lines)) = []" "sort (paths_with nfkc Review (status_entries lines)) = []"
    "sort (paths_with nfkc Unrelated (status_entries lines)) = []" "sort (paths_with nfkc Staged (status_entries lines)) \<noteq> []"
    using plan by (auto simp: refused_def split: if_splits)
  show "status_entries lines \<noteq> []" by (rule cases)
  show "\<forall>e \<in> set (status_entries lines). change_of nfkc e = Staged"
    using cases(3-6) unfolding paths_with_Nil by (metis change.exhaust)
  show "sp_stage_paths (build_sync_plan nfkc py_str config lines) = sorted_set (paths_with nfkc Staged (status_entries lines))"
    unfolding build_sync_plan_def Let_def using cases by (simp only: if_False simp_thms SyncPlan.simps)
  show "\<forall>document. config = Some document \<longrightarrow> configured_managed_paths py_str document = Inr DEFAULT_MANAGED_PATHS"
  proof (intro allI impI)
    fix document
    assume "config = Some document"
    then obtain m where "configured_managed_paths py_str document = Inr m"
      using cases(1) by (cases "configured_managed_paths py_str document") auto
    then show "configured_managed_paths py_str document = Inr DEFAULT_MANAGED_PATHS" using locked by blast
  qed
qed

subsection \<open>Properties\<close>

text \<open>
  C14. The automatic synchronization stages only what the engine generated, and never rewrites history: a
  plan is allowed only if the allowlist of the configuration is the locked one and every change git
  reports is staged; each is a generated file under a managed root, none is a rename, and a file
  under \<open>events\<close> is new.
\<close>

theorem plan_stages_generated_files:
  assumes "sp_allowed (build_sync_plan nfkc py_str config lines)"
  shows "set (sp_stage_paths (build_sync_plan nfkc py_str config lines)) = se_path ` set (status_entries lines)
    \<and> (\<forall>document. config = Some document \<longrightarrow> configured_managed_paths py_str document = Inr DEFAULT_MANAGED_PATHS)
    \<and> (\<forall>e \<in> set (status_entries lines). engine_file nfkc (se_path e) \<and> se_original_path e = None
         \<and> (path_root nfkc (se_path e) = ''events'' \<longrightarrow>
             CHR ''?'' \<in> set (se_xy e) \<or> CHR ''A'' \<in> set (se_xy e) \<or> set (se_xy e) \<subseteq> {CHR '' ''}))"
proof -
  note allowed = allowed_all_staged [OF assms]
  have "set (sp_stage_paths (build_sync_plan nfkc py_str config lines)) = se_path ` set (status_entries lines)"
    using allowed(2) unfolding allowed(3) by (auto simp: paths_with_def)
  moreover have "engine_file nfkc (se_path e) \<and> se_original_path e = None
      \<and> (path_root nfkc (se_path e) = ''events'' \<longrightarrow>
          CHR ''?'' \<in> set (se_xy e) \<or> CHR ''A'' \<in> set (se_xy e) \<or> set (se_xy e) \<subseteq> {CHR '' ''})"
    if "e \<in> set (status_entries lines)" for e
  proof -
    have staged: "managed_path_reason nfkc (se_path e) = ''MANAGED_ENGINE_PATH''" "\<not> journal_mutation nfkc e"
      using staged_change allowed(2) that by blast+
    show ?thesis using managed_engine_file [OF staged(1)] staged(2)
      by (auto simp: journal_mutation_def Let_def filter_empty_conv)
  qed
  ultimately show ?thesis using allowed(4) by blast
qed

theorem plan_stages_generated_files_witness:
  "sp_allowed (build_sync_plan (\<lambda>s. s) (\<lambda>_. []) None [''?? events/a.json'', '' M knowledge/b.md''])
   \<and> set (sp_stage_paths (build_sync_plan (\<lambda>s. s) (\<lambda>_. []) None [''?? events/a.json'', '' M knowledge/b.md'']))
       = se_path ` set (status_entries [''?? events/a.json'', '' M knowledge/b.md''])"
proof -
  have "sp_allowed (build_sync_plan (\<lambda>s. s) (\<lambda>_. []) None [''?? events/a.json'', '' M knowledge/b.md''])" by code_simp
  then show ?thesis using plan_stages_generated_files by blast
qed

text \<open>
  The files the policy lists with capital letters are not protected: the path is compared after
  case folding, so \<open>README.md\<close> and \<open>AGENTS.md\<close> are classified as unrelated changes and not as source
  changes that need a review.
\<close>

theorem capital_files_are_not_protected:
  assumes "normalize_repo_path nfkc path = Inr p" "p \<in> {''README.md'', ''AGENTS.md''}" "nfkc p = p"
  shows "p \<in> set REVIEW_REQUIRED_FILES \<and> managed_path_reason nfkc path = ''UNRELATED_WORKTREE_CHANGES'' \<and> \<not> protected_change nfkc path"
proof -
  have "p \<in> set REVIEW_REQUIRED_FILES" using assms(2) by (auto simp: REVIEW_REQUIRED_FILES_def)
  moreover have "managed_path_reason nfkc path = managed_path_reason (\<lambda>s. s) p"
  proof -
    have same: "normalize_repo_path nfkc p = normalize_repo_path (\<lambda>s. s) p" using assms(3) by (simp add: normalize_repo_path_def)
    have "normalize_repo_path (\<lambda>s. s) p = Inr p" using assms(2) by (elim insertE) (simp_all, code_simp+)
    then have roots: "is_managed_path nfkc p = is_managed_path (\<lambda>s. s) p" "path_root nfkc p = path_root (\<lambda>s. s) p"
      unfolding is_managed_path_def path_root_def same by simp_all
    show ?thesis
      unfolding managed_path_reason_def assms(1) \<open>normalize_repo_path (\<lambda>s. s) p = Inr p\<close> sum.case roots ..
  qed
  moreover have "managed_path_reason (\<lambda>s. s) ''README.md'' = ''UNRELATED_WORKTREE_CHANGES''"
    "managed_path_reason (\<lambda>s. s) ''AGENTS.md'' = ''UNRELATED_WORKTREE_CHANGES''" by code_simp+
  ultimately show ?thesis using assms(2) by (auto simp: protected_change_def)
qed

theorem capital_files_are_not_protected_witness: "\<not> protected_change (\<lambda>s. s) ''./README.md''"
proof -
  have "normalize_repo_path (\<lambda>s. s) ''./README.md'' = Inr ''README.md''" by code_simp
  from capital_files_are_not_protected [OF this] show ?thesis by simp
qed

end
