(* ===== verification/Plain_Payloads.thy ===== *)
theory Plain_Payloads
  imports Persistable_Fields
begin

section \<open>Plain payloads\<close>

text \<open>
  A sufficient condition for an inspection without issues that is cheap to evaluate, for payloads of
  short plain texts and digests in a world where NFKC changes nothing. The concrete inputs of later
  theories are checked with it.
\<close>

definition digest_char :: "char \<Rightarrow> bool" where
  "digest_char c \<longleftrightarrow> c \<in> set ''sha256:0123456789abcdef''"

lemma digest_char_lower: "digest_char c \<Longrightarrow> ascii_lower c = c"
  unfolding digest_char_def by (auto simp: ascii_lower_def)

lemma folded_exceeds: "(\<forall>c. ascii_lower c = ascii_lower d \<longrightarrow> \<not> digest_char c) \<longleftrightarrow> \<not> digest_char (ascii_lower d)"
  using digest_char_lower by metis

lemma rules_exceed_digests: "list_all (\<lambda>rule. requires (\<lambda>c. \<not> digest_char c) (snd rule)) SECRET_RULES"
  by (simp add: SECRET_RULES_def header_rule_def assignment_rule_def in_set_def not_in_def lit_def ilit_def
      plus_def opt_def at_least_def folded_exceeds) (simp add: digest_char_def ascii_lower_def)

lemma digest_secret_free:
  assumes "list_all digest_char s"
  shows "secret_free (\<lambda>s. s) s"
proof -
  have "\<not> digest_char (CHR ''['')" by code_simp
  then have plain: "strip_markers s = s" using assms by (intro strip_markers_id) (auto simp: list_all_iff)
  have none: "\<not> list_ex (\<lambda>c. \<not> digest_char c) s" using assms by (simp add: list_all_iff list_ex_iff)
  have "\<not> occurs (snd rule) s" if "rule \<in> set SECRET_RULES" for rule
    using rules_exceed_digests [unfolded list_all_iff, THEN bspec, OF that] none by (rule not_occurs_without)
  then show ?thesis unfolding secret_free_def plain by blast
qed

text \<open>Or a colon, an equals sign, a space, or one of the letters \<open>k\<close>, \<open>p\<close>, \<open>x\<close>.\<close>

definition marking :: "char \<Rightarrow> bool" where
  "marking c \<longleftrightarrow> c \<in> set '':= kpx''"

lemma rules_require_marking: "list_all (\<lambda>rule. requires marking (snd rule)) SECRET_RULES"
  by (simp add: SECRET_RULES_def header_rule_def assignment_rule_def in_set_def not_in_def lit_def ilit_def
      plus_def opt_def at_least_def marking_def ascii_lower_space)

lemma unmarked_secret_free: "CHR ''['' \<notin> set s \<Longrightarrow> \<not> list_ex marking s \<Longrightarrow> secret_free (\<lambda>s. s) s"
  using rules_require_marking [unfolded list_all_iff] not_occurs_without by (auto simp: secret_free_def strip_markers_id)

definition plain_text :: "string \<Rightarrow> bool" where
  "plain_text s \<longleftrightarrow> (if list_all digest_char s \<or> \<not> list_ex (\<lambda>c. c = CHR ''['' \<or> telling c) s
       \<or> \<not> list_ex (\<lambda>c. c = CHR ''['' \<or> marking c) s then True else secret_match (\<lambda>s. s) s = None) \<and> \<not> list_ex control_char s
     \<and> \<not> windows_absolute_path s \<and> \<not> unix_personal_path s \<and> int (length s) \<le> 2000000"

lemma plain_secret_free: "plain_text s \<Longrightarrow> secret_free (\<lambda>s. s) s"
  using digest_secret_free secret_free_plain [of "\<lambda>s. s" s] unmarked_secret_free [of s]
  by (auto simp: plain_text_def list_ex_iff secret_match_None split: if_splits)

lemma plain_inspected:
  assumes "secret_free (\<lambda>s. s) s" "int (length s) \<le> 2000000" "forbidden_path_reason (\<lambda>s. s) ref = None"
    and "classify_source kind \<in> {PUBLIC, PRIVATE_REUSABLE}"
  shows "pd_reason_code (inspect_text (\<lambda>s. s) s kind ref) = ''CLASSIFIED''"
proof -
  have "secret_match (\<lambda>s. s) s = None" using assms(1) by (simp add: secret_match_None)
  then show ?thesis using assms(2-4) by (auto simp: inspect_text_def Let_def decision_defs)
qed

definition plain_field :: "string \<Rightarrow> string \<Rightarrow> string \<Rightarrow> bool" where
  "plain_field cl pointer name \<longleftrightarrow> name \<notin> set PATH_FIELD_NAMES \<and> \<not> contains ''email'' name \<and> name \<notin> set PERSONAL_FIELD_NAMES
     \<and> forbidden_path_reason (\<lambda>s. s) pointer = None \<and> classify_source cl \<in> {PUBLIC, PRIVATE_REUSABLE}"

definition plain_string :: "string \<Rightarrow> string \<Rightarrow> string \<Rightarrow> (string \<times> nat option) option \<Rightarrow> string \<Rightarrow> bool" where
  "plain_string cl pointer name expected s \<longleftrightarrow> plain_field cl pointer name \<and> plain_text s
     \<and> (let (kind, limit) = (case expected of Some e \<Rightarrow> e | None \<Rightarrow> (''string'', None)) in
          kind_refusal kind name s = None \<and> (case limit of None \<Rightarrow> True | Some n \<Rightarrow> length s \<le> n)
        \<and> (kind \<in> {''hash'', ''optional_hash''} \<longrightarrow> s = [] \<or> hash_re s))"

lemma plain_walk_string:
  assumes "plain_string cl pointer name expected s"
  shows "fst (walk_string (\<lambda>s. s) cl pointer name expected s) = []"
proof -
  obtain kind limit where e: "(case expected of Some e \<Rightarrow> e | None \<Rightarrow> (''string'', None)) = (kind, limit)" by force
  have "pd_reason_code (inspect_text (\<lambda>s. s) s cl pointer) = ''CLASSIFIED''"
    using assms plain_secret_free [of s] by (intro plain_inspected) (auto simp: plain_string_def plain_field_def plain_text_def)
  moreover have "\<not> list_ex control_char s" using assms by (simp add: plain_string_def plain_text_def)
  ultimately have "pd_reason_code (inspect_persisted_text (\<lambda>s. s) s cl pointer) = ''CLASSIFIED''"
    by (simp add: inspect_persisted_text_def Let_def)
  then have "validate_string (\<lambda>s. s) cl pointer name s limit (kind \<in> {''hash'', ''optional_hash''}) = Inr s"
    using assms e by (auto simp: validate_string_def plain_string_def plain_field_def plain_text_def Let_def split: option.splits)
  moreover have "kind_refusal kind name s = None" using assms e by (simp add: plain_string_def Let_def)
  ultimately show ?thesis unfolding walk_string_def Let_def e by simp
qed

fun plain :: "string \<Rightarrow> registry option \<Rightarrow> string \<Rightarrow> string \<Rightarrow> (string \<times> nat option) option \<Rightarrow> pyval \<Rightarrow> bool"
and plain_items :: "string \<Rightarrow> string \<Rightarrow> string \<Rightarrow> (string \<times> nat option) option \<Rightarrow> nat \<Rightarrow> pyval list \<Rightarrow> bool"
and plain_fields :: "string \<Rightarrow> registry option \<Rightarrow> string \<Rightarrow> pydict \<Rightarrow> bool" where
  "plain cl reg pointer name expected (PStr s) = plain_string cl pointer name expected s"
| "plain cl reg pointer name expected PNone = kind_is expected [''nullable_string'']"
| "plain cl reg pointer name expected (PBool b) = kind_is expected [''boolean'']"
| "plain cl reg pointer name expected (PInt i) = (expected = None \<or> kind_is expected [''nonnegative_integer'', ''string_or_integer''] \<and> 0 \<le> i)"
| "plain cl reg pointer name expected (PFloat q) = (expected = None)"
| "plain cl reg pointer name expected (PDict d) = (expected = None \<and> plain_fields cl reg pointer d)"
| "plain cl reg pointer name expected (PList xs) = (kind_is expected LIST_KINDS
     \<and> (expected = None \<or> \<not> kind_is expected [''host_label_list'']
        \<or> length xs \<le> 16 \<and> list_all is_str xs \<and> distinct (map the_str (filter is_str xs)))
     \<and> plain_items cl pointer name (child_expected expected) 0 xs)"
| "plain cl reg pointer name expected (PTuple xs) = False"
| "plain_items cl pointer name expected n [] = True"
| "plain_items cl pointer name expected n (x # xs) = (plain cl None (pointer_to pointer (decimal_text (int n))) name expected x
     \<and> plain_items cl pointer name expected (Suc n) xs)"
| "plain_fields cl reg pointer [] = True"
| "plain_fields cl reg pointer ((key, nested) # rest) = (casefold key \<notin> set FORBIDDEN_KEYS
     \<and> (case reg of
          None \<Rightarrow> plain cl None (pointer_to pointer key) (casefold key) None nested
        | Some known \<Rightarrow> (case map_of known key of None \<Rightarrow> False
            | Some e \<Rightarrow> plain cl None (pointer_to pointer key) (casefold key) (Some e) nested))
     \<and> plain_fields cl reg pointer rest)"

lemma plain_walks:
  "plain cl reg pointer name expected v \<Longrightarrow> fst (walk (\<lambda>s. s) cl reg pointer name expected v) = []"
  "plain_items cl pointer name expected n xs \<Longrightarrow> fst (walk_items (\<lambda>s. s) cl pointer name expected n xs) = []"
  "plain_fields cl reg pointer d \<Longrightarrow> fst (walk_fields (\<lambda>s. s) cl reg pointer d) = []"
proof (induction cl reg pointer name expected v and cl pointer name expected n xs and cl reg pointer d
    rule: plain_plain_items_plain_fields.induct)
  case (1 cl reg pointer name expected s)
  then show ?case by (simp add: plain_walk_string)
next
  case (12 cl reg pointer key nested rest)
  then show ?case by (auto simp: Let_def split: option.splits prod.splits)
qed (auto simp: host_list_issues_def)

text \<open>A payload given with the registered kind of each field.\<close>

definition plain_entry :: "string \<Rightarrow> string \<times> (string \<times> nat option) \<times> pyval \<Rightarrow> bool" where
  "plain_entry cl x = (case x of (k, e, v) \<Rightarrow> casefold k \<notin> set FORBIDDEN_KEYS \<and> plain cl None (pointer_to [] k) (casefold k) (Some e) v)"

definition untyped :: "(string \<times> (string \<times> nat option) \<times> pyval) list \<Rightarrow> pydict" where
  "untyped xs = map (\<lambda>(k, e, v). (k, v)) xs"

lemma plain_typed:
  "list_all (\<lambda>(k, e, _). map_of known k = Some e) xs \<Longrightarrow> list_all (plain_entry cl) xs \<Longrightarrow> plain_fields cl (Some known) [] (untyped xs)"
  by (induction xs) (auto simp: plain_entry_def untyped_def)

lemma plain_valid:
  "plain_fields cl reg [] d \<Longrightarrow> utf8_length (canonical_json repr (PDict d)) \<le> n \<Longrightarrow>
   \<not> list_ex (has_key d) HOST_APPLICABILITY_FIELDS \<or> \<not> isl (validate_host_applicability_mapping (PDict d) False True) \<Longrightarrow>
   in_valid (inspect_persistable (\<lambda>s. s) repr (PDict d) cl reg n)"
  unfolding valid_iff using plain_walks(3) by blast

end
