(* ===== verification/Change_Set.thy ===== *)
theory Change_Set
  imports Knowledge_Lifecycle Event_Journal
begin

section \<open>Change sets and their validation\<close>

text \<open>
  \<^verbatim>\<open>src/src/ei/changeset.py\<close>, first half, with the schema of change sets of
  \<^verbatim>\<open>src/src/ei/journal.py\<close> and \<open>domain_hash\<close> of \<^verbatim>\<open>src/src/ei/redaction.py\<close>: operations, change sets
  and their mappings, the states of the patterns as the journal tells them, and the validation of a
  change set against them. \<^verbatim>\<open>Change_Apply\<close> models what applying one writes.

  The states of patterns are objects that two keys may share (a pattern and its cluster), so they
  live in a store. Settings carry the promotion policy as it was read, the configured source hashes,
  the two permissions and whether the runtime directory is outside the repository. The text of an
  integer is parsed by a parameter. Operation deadlines are not modelled.
\<close>

record change_env =
  cx_journal :: journal_env
  cx_parse_int :: "string \<Rightarrow> int option"
  cx_machine :: string

record change_settings =
  sg_policy :: "PromotionPolicy result"
  sg_source_hashes :: "string list option"
  sg_allow_proposal_apply :: bool
  sg_allow_redaction :: bool
  sg_runtime_outside :: bool

abbreviation digest_by :: "change_env \<Rightarrow> string \<Rightarrow> string" where
  "digest_by env \<equiv> jo_sha256 (cx_journal env)"

abbreviation repr_by :: "change_env \<Rightarrow> rat \<Rightarrow> string" where
  "repr_by env \<equiv> jo_repr (cx_journal env)"

abbreviation folded_by :: "change_env \<Rightarrow> string \<Rightarrow> string" where
  "folded_by env \<equiv> jo_nfkc (cx_journal env)"

abbreviation str_by :: "change_env \<Rightarrow> pyval \<Rightarrow> string" where
  "str_by env \<equiv> text_value (cx_journal env)"

subsection \<open>Python conversions\<close>

text \<open>\<open>int(v)\<close>, \<open>list(v)\<close>, \<open>v or w\<close>, and whether a value can be in a set.\<close>

definition int_value :: "change_env \<Rightarrow> pyval \<Rightarrow> int result" where
  "int_value env v = (case v of
       PInt i \<Rightarrow> Inr i
     | PBool b \<Rightarrow> Inr (of_bool b)
     | PFloat q \<Rightarrow> Inr (if q < 0 then \<lceil>q\<rceil> else \<lfloor>q\<rfloor>)
     | PStr s \<Rightarrow> (case cx_parse_int env s of None \<Rightarrow> Inl (ValueError ''invalid literal for int()'') | Some i \<Rightarrow> Inr i)
     | _ \<Rightarrow> Inl (TypeError ''int()''))"

definition list_value :: "pyval \<Rightarrow> pyval list result" where
  "list_value v = (case v of
       PList xs \<Rightarrow> Inr xs
     | PTuple xs \<Rightarrow> Inr xs
     | PStr s \<Rightarrow> Inr (map (\<lambda>c. PStr [c]) s)
     | PDict d \<Rightarrow> Inr (map (\<lambda>(k, _). PStr k) d)
     | _ \<Rightarrow> Inl (TypeError ''not iterable''))"

definition value_or :: "pyval \<Rightarrow> pyval \<Rightarrow> pyval" where
  "value_or v w = (if truthy v then v else w)"

fun can_hash :: "pyval \<Rightarrow> bool" where
  "can_hash (PList _) = False"
| "can_hash (PDict _) = False"
| "can_hash (PTuple xs) = list_all can_hash xs"
| "can_hash _ = True"

abbreviation item_of :: "pydict \<Rightarrow> string \<Rightarrow> pyval" where
  "item_of d k \<equiv> get_default d k PNone"

subsection \<open>Identifiers\<close>

definition OPERATIONS :: "string list" where
  "OPERATIONS = [''CREATE_OBSERVATION'', ''ATTACH_EVIDENCE'', ''CREATE_CANDIDATE'', ''PROMOTE_PATTERN'', ''REVISE_PATTERN'',
     ''DEPRECATE_PATTERN'', ''TOMBSTONE_PATTERN'', ''REDACT_REFERENCE'', ''NO_CHANGE'']"

definition WRITABLE :: "string list" where
  "WRITABLE = [''public'', ''private-reusable'']"

definition SAFE_CHANGE_ID :: "string \<Rightarrow> bool" where
  "SAFE_CHANGE_ID s = (case s of [] \<Rightarrow> False
     | c # cs \<Rightarrow> (ascii_alpha c \<or> ascii_digit c) \<and> length cs \<le> 159
         \<and> list_all (\<lambda>c. ascii_alpha c \<or> ascii_digit c \<or> c \<in> set ''_.:-'') cs)"

definition APPLICATION_MARKER_ID :: "string \<Rightarrow> bool" where
  "APPLICATION_MARKER_ID s = prefixed_hex ''evt_changeset_'' 32 s"

definition FORBIDDEN_CHANGE_KEYS :: "string list" where
  "FORBIDDEN_CHANGE_KEYS = [''body'', ''candidate_text'', ''raw'', ''raw_input'', ''raw_response'', ''response'', ''transcript'',
     ''tool_output'', ''prompt'', ''query'', ''context'', ''secret'', ''token'', ''password'']"

definition PATH_KEYS :: "string list" where
  "PATH_KEYS = [''path'', ''file'', ''file_path'', ''target_path'', ''relative_path'', ''repository_path'']"

definition domain_hash :: "change_env \<Rightarrow> string \<Rightarrow> string \<Rightarrow> string result" where
  "domain_hash env v domain =
     (let d = strip (folded_by env domain); w = folded_by env v in
      if domain = [] then Inl (ValueError ''DOMAIN_HASH_INPUT_INVALID'')
      else if d = [] \<or> CHR 0x00 \<in> set d \<or> CHR 0x00 \<in> set w then Inl (ValueError ''DOMAIN_HASH_INPUT_INVALID'')
      else Inr (''sha256:'' @ digest_by env (''ei:'' @ d @ '':v1'' @ CHR 0x00 # w)))"

definition persisted_identifier :: "change_env \<Rightarrow> string \<Rightarrow> string \<Rightarrow> bool \<Rightarrow> string result" where
  "persisted_identifier env v domain allow_empty =
     (if v = [] \<and> allow_empty then Inr [] else if hash_re v then Inr v else domain_hash env v domain)"

subsection \<open>Operations and change sets\<close>

record ChangeOperation =
  op_operation :: string
  op_target_id :: "string option"
  op_payload :: pydict

definition make_operation :: "ChangeOperation \<Rightarrow> ChangeOperation result" where
  "make_operation x = (if op_operation x \<notin> set OPERATIONS then Inl (ValueError ''CHANGE_OPERATION_FORBIDDEN'') else Inr x)"

definition target_value :: "string option \<Rightarrow> pyval" where
  "target_value t = (case t of None \<Rightarrow> PNone | Some s \<Rightarrow> PStr s)"

definition operation_to_dict :: "ChangeOperation \<Rightarrow> pydict" where
  "operation_to_dict x = [(''operation'', PStr (op_operation x)), (''target_id'', target_value (op_target_id x)),
     (''payload'', PDict (op_payload x))]"

definition operation_from_mapping :: "pyval \<Rightarrow> ChangeOperation result" where
  "operation_from_mapping v = (case v of
     PDict d \<Rightarrow> (if set (map fst d) \<noteq> {''operation'', ''target_id'', ''payload''} then Inl (ValueError ''CHANGE_OPERATION_SCHEMA_INVALID'')
       else case item_of d ''payload'' of
         PDict payload \<Rightarrow> (case (item_of d ''operation'', item_of d ''target_id'') of
             (PStr operation, PNone) \<Rightarrow> make_operation \<lparr>op_operation = operation, op_target_id = None, op_payload = payload\<rparr>
           | (PStr operation, PStr target) \<Rightarrow> make_operation \<lparr>op_operation = operation, op_target_id = Some target, op_payload = payload\<rparr>
           | _ \<Rightarrow> Inl (ValueError ''CHANGE_OPERATION_SCHEMA_INVALID''))
       | _ \<Rightarrow> Inl (ValueError ''CHANGE_PAYLOAD_INVALID''))
   | _ \<Rightarrow> Inl (ValueError ''CHANGE_OPERATION_SCHEMA_INVALID''))"

record ChangeSet =
  cs_changeset_id :: string
  cs_candidate_id :: string
  cs_operations :: "ChangeOperation list"
  cs_source_hashes :: "string list"
  cs_policy_version :: string
  cs_generated_at :: string
  cs_provider_id :: string
  cs_source_host_id :: string
  cs_source_host_family :: string
  cs_applicability_scope :: string
  cs_applicable_host_ids :: "string list"
  cs_applicable_host_families :: "string list"

definition timestamp_check :: "change_env \<Rightarrow> string \<Rightarrow> unit result" where
  "timestamp_check env s =
     (if s = [] \<or> jo_partition (cx_journal env) s = None then Inl (ValueError ''TIMESTAMP_INVALID'')
      else if \<not> jo_aware (cx_journal env) s then Inl (ValueError ''TIMESTAMP_TIMEZONE_REQUIRED'') else Inr ())"

definition changeset_hosts :: "ChangeSet \<Rightarrow> pydict" where
  "changeset_hosts c = [(''source_host_id'', PStr (cs_source_host_id c)), (''source_host_family'', PStr (cs_source_host_family c)),
     (''applicability_scope'', PStr (cs_applicability_scope c)),
     (''applicable_host_ids'', PList (map PStr (cs_applicable_host_ids c))),
     (''applicable_host_families'', PList (map PStr (cs_applicable_host_families c)))]"

definition has_hosts :: "ChangeSet \<Rightarrow> bool" where
  "has_hosts c \<longleftrightarrow> cs_source_host_id c \<noteq> [] \<or> cs_source_host_family c \<noteq> [] \<or> cs_applicability_scope c \<noteq> ''universal''
     \<or> cs_applicable_host_ids c \<noteq> [] \<or> cs_applicable_host_families c \<noteq> []"

definition make_changeset :: "change_env \<Rightarrow> ChangeSet \<Rightarrow> ChangeSet result" where
  "make_changeset env c =
     (if \<not> SAFE_CHANGE_ID (cs_changeset_id c) then Inl (ValueError ''CHANGESET_ID_INVALID'')
      else if \<not> SAFE_CHANGE_ID (cs_candidate_id c) then Inl (ValueError ''CANDIDATE_ID_INVALID'')
      else if cs_operations c = [] then Inl (ValueError ''CHANGESET_EMPTY'')
      else if cs_source_hashes c = [] \<or> \<not> list_all hash_re (cs_source_hashes c) then Inl (ValueError ''SOURCE_HASH_INVALID'')
      else if cs_policy_version c = [] then Inl (ValueError ''POLICY_VERSION_INVALID'')
      else rbind (timestamp_check env (cs_generated_at c)) (\<lambda>_.
        if \<not> SAFE_HOST_LABEL_RE (cs_provider_id c) then Inl (ValueError ''PROVIDER_ID_INVALID'')
        else if isl (validate_host_label (PStr (cs_source_host_id c)) ''source_host_id'' True)
          \<or> isl (validate_host_label (PStr (cs_source_host_family c)) ''source_host_family'' True)
          then Inl (ValueError ''SOURCE_HOST_LABEL_INVALID'')
        else if isl (validate_host_applicability_mapping (PDict (changeset_hosts c)) True (has_hosts c))
          then Inl (ValueError ''APPLICABILITY_INVALID'')
        else Inr c))"

definition changeset_to_dict :: "ChangeSet \<Rightarrow> pydict" where
  "changeset_to_dict c = [(''changeset_id'', PStr (cs_changeset_id c)), (''candidate_id'', PStr (cs_candidate_id c)),
      (''operations'', PList (map (\<lambda>x. PDict (operation_to_dict x)) (cs_operations c))),
      (''source_hashes'', PList (map PStr (cs_source_hashes c))), (''policy_version'', PStr (cs_policy_version c)),
      (''generated_at'', PStr (cs_generated_at c)), (''provider_id'', PStr (cs_provider_id c))]
    @ (if cs_source_host_id c \<noteq> [] \<and> cs_source_host_family c \<noteq> [] then changeset_hosts c else [])"

definition changeset_fingerprint :: "change_env \<Rightarrow> ChangeSet \<Rightarrow> string" where
  "changeset_fingerprint env c = ''sha256:'' @ digest_by env (canonical_json (repr_by env) (PDict (changeset_to_dict c)))"

subsection \<open>The schema of a change set\<close>

definition change_demand :: "bool \<Rightarrow> string \<Rightarrow> unit result" where
  "change_demand b reason = (if b then Inr () else schema_invalid (''change-set.'' @ reason))"

fun checked_all :: "('a \<Rightarrow> unit result) \<Rightarrow> 'a list \<Rightarrow> unit result" where
  "checked_all f [] = Inr ()"
| "checked_all f (x # xs) = rbind (f x) (\<lambda>_. checked_all f xs)"

definition checked_member :: "pyval \<Rightarrow> string list \<Rightarrow> string \<Rightarrow> unit result" where
  "checked_member v allowed reason = (if \<not> can_hash v then Inl (TypeError ''unhashable type'')
     else change_demand (v \<in> set (map PStr allowed)) reason)"

definition payload_class :: "change_env \<Rightarrow> pydict \<Rightarrow> string" where
  "payload_class env payload = str_by env (get_default payload ''classification'' (PStr ''private-reusable''))"

definition inspected_payload :: "change_env \<Rightarrow> pydict \<Rightarrow> PersistableInspection" where
  "inspected_payload env payload =
     inspect_changeset_payload (folded_by env) (repr_by env) (PDict payload) (payload_class env payload)"

definition validate_operation_schema :: "change_env \<Rightarrow> pyval \<Rightarrow> unit result" where
  "validate_operation_schema env v = (case v of
     PDict d \<Rightarrow>
       rbind (reject_extra ''change-set.operations'' d [''operation'', ''target_id'', ''payload'']) (\<lambda>_.
       rbind (change_demand (list_all (has_key d) [''operation'', ''target_id'', ''payload'']) ''operations.required'') (\<lambda>_.
       rbind (checked_member (item_of d ''operation'') OPERATIONS ''operation'') (\<lambda>_.
       rbind (change_demand (item_of d ''target_id'' = PNone \<or> nonempty_text (item_of d ''target_id'')) ''target_id'') (\<lambda>_.
       case item_of d ''payload'' of
         PDict payload \<Rightarrow> (case in_issues (inspected_payload env payload) of
             [] \<Rightarrow> Inr () | i # _ \<Rightarrow> change_demand False (pi_pointer i @ '':'' @ pi_reason_code i))
       | _ \<Rightarrow> change_demand False ''type''))))
   | _ \<Rightarrow> schema_invalid ''change-set.operations.type'')"

definition CHANGE_SET_FIELDS :: "string list" where
  "CHANGE_SET_FIELDS = [''changeset_id'', ''candidate_id'', ''operations'', ''source_hashes'', ''policy_version'', ''generated_at'',
     ''provider_id'']"

definition checked_label :: "pydict \<Rightarrow> string \<Rightarrow> unit result" where
  "checked_label d k = change_demand (has_key d k \<longrightarrow> \<not> isl (validate_host_label (item_of d k) k True)) k"

definition checked_host_list :: "pydict \<Rightarrow> string \<Rightarrow> unit result" where
  "checked_host_list d k = (if \<not> has_key d k then Inr () else case seq_items (item_of d k) of
       None \<Rightarrow> change_demand False k
     | Some xs \<Rightarrow> if length xs > 16 then change_demand False k
         else if \<not> list_all can_hash xs then Inl (TypeError ''unhashable type'')
         else change_demand (distinct xs \<and> list_all (\<lambda>x. \<not> isl (validate_host_label x k False)) xs) k)"

definition checked_hosts :: "pydict \<Rightarrow> unit result" where
  "checked_hosts d = (if \<not> list_ex (has_key d) HOST_APPLICABILITY_FIELDS then Inr ()
     else case validate_host_applicability_mapping (PDict d) False True of
       Inr _ \<Rightarrow> Inr ()
     | Inl (ValueError e) \<Rightarrow> change_demand False (map ascii_lower (takeWhile (\<lambda>c. c \<noteq> CHR '':'') e))
     | Inl e \<Rightarrow> Inl e)"

definition validate_change_set :: "change_env \<Rightarrow> pydict \<Rightarrow> unit result" where
  "validate_change_set env d =
     rbind (reject_extra ''change-set'' d (CHANGE_SET_FIELDS @ HOST_APPLICABILITY_FIELDS)) (\<lambda>_.
     rbind (checked_all (\<lambda>k. change_demand (has_key d k) k) CHANGE_SET_FIELDS) (\<lambda>_.
     rbind (change_demand (nonempty_text (item_of d ''changeset_id'')) ''changeset_id'') (\<lambda>_.
     rbind (change_demand (nonempty_text (item_of d ''candidate_id'')) ''candidate_id'') (\<lambda>_.
     case seq_items (item_of d ''operations'') of
       None \<Rightarrow> change_demand False ''operations''
     | Some operations \<Rightarrow>
         rbind (change_demand (operations \<noteq> []) ''operations'') (\<lambda>_.
         rbind (checked_all (validate_operation_schema env) operations) (\<lambda>_.
         case seq_items (item_of d ''source_hashes'') of
           None \<Rightarrow> change_demand False ''source_hashes''
         | Some hashes \<Rightarrow>
             rbind (change_demand (hashes \<noteq> [] \<and> list_all hash_text hashes) ''source_hashes'') (\<lambda>_.
             rbind (change_demand (nonempty_text (item_of d ''policy_version'')) ''policy_version'') (\<lambda>_.
             rbind (change_demand (case item_of d ''generated_at'' of PStr s \<Rightarrow> timestamp_check env s = Inr () | _ \<Rightarrow> False) ''generated_at'') (\<lambda>_.
             rbind (change_demand (nonempty_text (item_of d ''provider_id'')) ''provider_id'') (\<lambda>_.
             rbind (checked_label d ''source_host_id'') (\<lambda>_.
             rbind (checked_label d ''source_host_family'') (\<lambda>_.
             rbind (if has_key d ''applicability_scope''
               then checked_member (item_of d ''applicability_scope'') [''universal'', ''family'', ''host''] ''applicability_scope'' else Inr ()) (\<lambda>_.
             rbind (checked_host_list d ''applicable_host_ids'') (\<lambda>_.
             rbind (checked_host_list d ''applicable_host_families'') (\<lambda>_.
               checked_hosts d)))))))))))))))"

definition texts_at :: "pydict \<Rightarrow> string \<Rightarrow> string list" where
  "texts_at d k = (case seq_items (get_default d k (PTuple [])) of Some xs \<Rightarrow> map the_str xs | None \<Rightarrow> [])"

definition changeset_from_mapping :: "change_env \<Rightarrow> pyval \<Rightarrow> ChangeSet result" where
  "changeset_from_mapping env v = (case v of
     PDict d \<Rightarrow>
       rbind (validate_change_set env d) (\<lambda>_.
       rbind (rmap operation_from_mapping (case seq_items (item_of d ''operations'') of Some xs \<Rightarrow> xs | None \<Rightarrow> [])) (\<lambda>operations.
         make_changeset env \<lparr>cs_changeset_id = the_str (item_of d ''changeset_id''), cs_candidate_id = the_str (item_of d ''candidate_id''),
           cs_operations = operations, cs_source_hashes = texts_at d ''source_hashes'',
           cs_policy_version = the_str (item_of d ''policy_version''), cs_generated_at = the_str (item_of d ''generated_at''),
           cs_provider_id = the_str (item_of d ''provider_id''),
           cs_source_host_id = the_str (get_default d ''source_host_id'' (PStr [])),
           cs_source_host_family = the_str (get_default d ''source_host_family'' (PStr [])),
           cs_applicability_scope = the_str (get_default d ''applicability_scope'' (PStr ''universal'')),
           cs_applicable_host_ids = texts_at d ''applicable_host_ids'',
           cs_applicable_host_families = texts_at d ''applicable_host_families''\<rparr>))
   | _ \<Rightarrow> schema_invalid ''change-set.type'')"

datatype change_input = Built ChangeSet | Mapping pyval

definition coerced :: "change_env \<Rightarrow> change_input \<Rightarrow> ChangeSet result" where
  "coerced env v = (case v of Built c \<Rightarrow> Inr c | Mapping m \<Rightarrow> changeset_from_mapping env m)"

text \<open>What is assumed of SHA-256 where it matters: a digest has 64 hexadecimal digits.\<close>

definition sha256_texts :: "change_env \<Rightarrow> bool" where
  "sha256_texts env \<longleftrightarrow> (\<forall>s. length (digest_by env s) = 64 \<and> list_all hex_lower (digest_by env s))"

lemma sha256_hash_re: "sha256_texts env \<Longrightarrow> hash_re (''sha256:'' @ digest_by env s)"
  unfolding hash_re_def sha256_texts_def by (simp add: prefixed_hex_append [of "''sha256:''", simplified])
end
