(* ===== verification/Change_Validation.thy ===== *)
theory Change_Validation
  imports Change_Set
begin

section \<open>Validation of a change set against the journal\<close>

text \<open>
  \<^verbatim>\<open>src/src/ei/changeset.py\<close>: the states of the patterns that the events of the journal tell, and
  \<open>validate_changeset\<close>, which runs the operations over a copy of them and collects the reasons
  against the change set. The lifecycle of a pattern is the abstract machine that the last section
  compares the validation with.
\<close>

subsection \<open>The states of the patterns\<close>

text \<open>Two names of one state share its cell.\<close>

record state_store =
  ss_names :: "nat dict"
  ss_cells :: "pydict list"

definition state_named :: "state_store \<Rightarrow> string \<Rightarrow> pydict option" where
  "state_named st name = map_option (\<lambda>a. ss_cells st ! a) (map_of (ss_names st) name)"

definition text_or :: "change_env \<Rightarrow> pydict \<Rightarrow> string \<Rightarrow> string \<Rightarrow> pyval" where
  "text_or env d k other = PStr (str_by env (value_or (get_default d k (PStr other)) (PStr other)))"

definition count_or_zero :: "change_env \<Rightarrow> pydict \<Rightarrow> string \<Rightarrow> pyval result" where
  "count_or_zero env d k = map_sum id PInt (int_value env (value_or (get_default d k (PInt 0)) (PInt 0)))"

definition items_at :: "pydict \<Rightarrow> string \<Rightarrow> pyval result" where
  "items_at d k = map_sum id PList (list_value (get_default d k (PTuple [])))"

definition initial_state :: "change_env \<Rightarrow> string \<Rightarrow> pydict \<Rightarrow> pydict result" where
  "initial_state env pattern_id payload =
     rbind (map_sum id PList (list_value (get_default payload ''provenances'' (get_default payload ''evidence_refs'' (PTuple []))))) (\<lambda>provenances.
     rbind (items_at payload ''scopes'') (\<lambda>scopes.
     rbind (items_at payload ''applicability'') (\<lambda>applicability.
     rbind (count_or_zero env payload ''benefit_count'') (\<lambda>benefit.
     rbind (count_or_zero env payload ''contradiction_count'') (\<lambda>contradictions.
     rbind (count_or_zero env payload ''revision'') (\<lambda>revision.
     rbind (items_at payload ''applicable_host_ids'') (\<lambda>host_ids.
     rbind (items_at payload ''applicable_host_families'') (\<lambda>host_families.
       Inr [(''pattern_id'', PStr pattern_id),
         (''cluster_id'', PStr (str_by env (get_default payload ''cluster_id'' (PStr pattern_id)))),
         (''status'', PStr ''candidate''), (''rule'', PStr (str_by env (get_default payload ''rule'' (PStr [])))),
         (''classification'', PStr (payload_class env payload)), (''provenances'', provenances), (''scopes'', scopes),
         (''applicability'', applicability), (''benefit_count'', benefit), (''contradiction_count'', contradictions),
         (''precondition'', PStr (str_by env (get_default payload ''precondition'' (PStr [])))),
         (''failure_mode'', PStr (str_by env (get_default payload ''failure_mode'' (PStr [])))),
         (''version_constraint'', item_of payload ''version_constraint''), (''revision'', revision),
         (''source_host_id'', text_or env payload ''source_host_id'' []),
         (''source_host_family'', text_or env payload ''source_host_family'' []),
         (''applicability_scope'', text_or env payload ''applicability_scope'' ''universal''),
         (''applicable_host_ids'', host_ids), (''applicable_host_families'', host_families)]))))))))"

text \<open>The fields an event replaces: texts that are there, lists without empty or repeated items, counts.\<close>

definition replaced_value :: "pydict \<Rightarrow> string \<Rightarrow> pydict \<Rightarrow> pydict" where
  "replaced_value payload k state = (if item_of payload k = PNone then state else dict_set k (item_of payload k) state)"

definition texts_without_empty :: "change_env \<Rightarrow> pyval list \<Rightarrow> string list" where
  "texts_without_empty env xs = filter (\<lambda>s. s \<noteq> []) (map (str_by env) xs)"

definition replaced_items :: "change_env \<Rightarrow> pydict \<Rightarrow> string \<Rightarrow> pydict \<Rightarrow> pydict" where
  "replaced_items env payload k state = (case seq_items (item_of payload k) of
       None \<Rightarrow> state
     | Some xs \<Rightarrow> dict_set k (PList (map PStr (unique (texts_without_empty env xs)))) state)"

definition replaced_count :: "change_env \<Rightarrow> pydict \<Rightarrow> string \<Rightarrow> pydict \<Rightarrow> pydict" where
  "replaced_count env payload k state = (if \<not> has_key payload k then state
     else dict_set k (PInt (case int_value env (item_of payload k) of Inr i \<Rightarrow> i | Inl _ \<Rightarrow> 0)) state)"

definition EVENT_STATUS :: "string dict" where
  "EVENT_STATUS = [(''pattern.candidate_created'', ''candidate''), (''pattern.promoted'', ''active''), (''pattern.revised'', ''active''),
     (''pattern.deprecated'', ''deprecated''), (''pattern.superseded'', ''superseded''), (''pattern.tombstoned'', ''tombstoned'')]"

definition replaced_fields :: "change_env \<Rightarrow> string \<Rightarrow> pydict \<Rightarrow> pydict \<Rightarrow> pydict" where
  "replaced_fields env kind payload state =
     (let s1 = fold (replaced_value payload) [''cluster_id'', ''rule'', ''classification'', ''precondition'', ''failure_mode'',
            ''version_constraint'', ''source_host_id'', ''source_host_family'', ''applicability_scope''] state;
          s2 = fold (replaced_items env payload) [''provenances'', ''scopes'', ''applicability'', ''applicable_host_ids'',
            ''applicable_host_families''] s1;
          s3 = fold (replaced_count env payload) [''benefit_count'', ''contradiction_count'', ''revision''] s2
      in case map_of EVENT_STATUS kind of None \<Rightarrow> s3 | Some status \<Rightarrow> dict_set ''status'' (PStr status) s3)"

definition state_step :: "change_env \<Rightarrow> Event \<Rightarrow> state_store \<Rightarrow> state_store result" where
  "state_step env e st =
     (let payload = ev_payload e in
      case item_of payload ''pattern_id'' of
        PStr name \<Rightarrow>
          (if \<not> starts_with ''pattern.'' (ev_event_type e) \<or> name = [] then Inr st
           else rbind (initial_state env name payload) (\<lambda>start.
             let (a, st') = (case map_of (ss_names st) name of
                   Some a \<Rightarrow> (a, st)
                 | None \<Rightarrow> (length (ss_cells st), \<lparr>ss_names = dict_set name (length (ss_cells st)) (ss_names st),
                     ss_cells = ss_cells st @ [start]\<rparr>))
             in Inr (st'\<lparr>ss_cells := (ss_cells st')[a := replaced_fields env (ev_event_type e) payload (ss_cells st' ! a)]\<rparr>)))
      | _ \<Rightarrow> Inr st)"

fun state_events :: "change_env \<Rightarrow> Event list \<Rightarrow> state_store \<Rightarrow> state_store result" where
  "state_events env [] st = Inr st"
| "state_events env (e # es) st = rbind (state_step env e st) (state_events env es)"

text \<open>A cluster is another name of the first of its patterns, unless the name is taken.\<close>

definition alias_cluster :: "change_env \<Rightarrow> pydict list \<Rightarrow> nat \<Rightarrow> nat dict \<Rightarrow> nat dict" where
  "alias_cluster env cells a names =
     (let cluster_id = str_by env (get_default (cells ! a) ''cluster_id'' (PStr [])) in
      if cluster_id \<noteq> [] \<and> \<not> has_key names cluster_id then dict_set cluster_id a names else names)"

definition pattern_states :: "change_env \<Rightarrow> Event list \<Rightarrow> state_store result" where
  "pattern_states env events =
     rbind (state_events env (sort_key (\<lambda>e. (ev_occurred_at e, ev_event_id e)) events) \<lparr>ss_names = [], ss_cells = []\<rparr>) (\<lambda>st.
       Inr (st\<lparr>ss_names := fold (alias_cluster env (ss_cells st)) [0..<length (ss_cells st)] (ss_names st)\<rparr>))"

subsection \<open>Reasons against the document\<close>

fun forbidden_key_in :: "pyval \<Rightarrow> bool" where
  "forbidden_key_in (PDict d) = list_ex (\<lambda>(k, v). casefold k \<in> set FORBIDDEN_CHANGE_KEYS \<or> forbidden_key_in v) d"
| "forbidden_key_in (PList xs) = list_ex forbidden_key_in xs"
| "forbidden_key_in (PTuple xs) = list_ex forbidden_key_in xs"
| "forbidden_key_in _ = False"

definition safe_target :: "string option \<Rightarrow> bool" where
  "safe_target t = (case t of None \<Rightarrow> True
     | Some s \<Rightarrow> SAFE_CHANGE_ID s \<and> CHR ''/'' \<notin> set s \<and> CHR 0x5C \<notin> set s \<and> \<not> contains ''..'' s)"

definition bad_path :: "pyval \<Rightarrow> bool" where
  "bad_path v = (case v of PStr s \<Rightarrow> is_path_like s | _ \<Rightarrow> False)"

fun hashes_in :: "pyval \<Rightarrow> string list" where
  "hashes_in (PStr s) = (if hash_re s then [s] else [])"
| "hashes_in (PDict d) = concat (map (\<lambda>(_, v). hashes_in v) d)"
| "hashes_in (PList xs) = concat (map hashes_in xs)"
| "hashes_in (PTuple xs) = concat (map hashes_in xs)"
| "hashes_in _ = []"

definition change_text :: "pydict \<Rightarrow> string" where
  "change_text payload = join_lines (concat (map (\<lambda>k. case item_of payload k of
       PStr s \<Rightarrow> [s]
     | v \<Rightarrow> (case seq_items v of Some xs \<Rightarrow> map the_str (filter is_str xs) | None \<Rightarrow> []))
     [''title'', ''claim'', ''rule'', ''precondition'', ''failure_mode'', ''benefit'', ''exception'', ''scope'', ''version_constraint'']))"

text \<open>The separators \<open>json.dumps\<close> writes with a space when none are given.\<close>

fun separators :: "pyval \<Rightarrow> nat" where
  "separators (PList xs) = sum_list (map separators xs) + (length xs - 1)"
| "separators (PTuple xs) = sum_list (map separators xs) + (length xs - 1)"
| "separators (PDict d) = sum_list (map (\<lambda>(_, v). separators v) d) + length d + (length d - 1)"
| "separators _ = 0"

definition reasons_if :: "bool \<Rightarrow> string \<Rightarrow> string list" where
  "reasons_if b reason = (if b then [reason] else [])"

definition reason_codes :: "PersistableInspection \<Rightarrow> string list" where
  "reason_codes inspection = unique (map pi_reason_code (in_issues inspection))"

definition document_reasons :: "change_env \<Rightarrow> change_settings \<Rightarrow> PromotionPolicy \<Rightarrow> ChangeSet \<Rightarrow> string list" where
  "document_reasons env settings policy c =
     (let document = PDict (changeset_to_dict c) in
      reasons_if (cs_policy_version c \<noteq> pp_policy_version policy) ''STALE_POLICY''
    @ reasons_if (\<not> SAFE_HOST_LABEL_RE (cs_provider_id c)) ''PROVIDER_ID_INVALID''
    @ reasons_if (forbidden_key_in document) ''RAW_CONTENT_FORBIDDEN''
    @ reason_codes (inspect_persistable (folded_by env) (repr_by env) document ''private-reusable'' None (512 * 1024))
    @ reasons_if (case sg_source_hashes settings of None \<Rightarrow> False | Some known \<Rightarrow> \<not> set (cs_source_hashes c) \<subseteq> set known) ''STALE_SOURCE_HASH''
    @ reasons_if (utf8_length (canonical_json (repr_by env) document) + separators document > 512 * 1024) ''CHANGESET_TOO_LARGE'')"

subsection \<open>Reasons against an operation\<close>

definition SYNCABLE_REASONS :: "string list" where
  "SYNCABLE_REASONS = [''CLASSIFIED'', ''GENERALIZATION_VERIFIED'']"

definition class_reasons :: "change_env \<Rightarrow> pydict \<Rightarrow> string list result" where
  "class_reasons env payload =
     (let v = get_default payload ''classification'' (PStr ''private-reusable'') in
      if \<not> can_hash v then Inl (TypeError ''unhashable type'')
      else if v \<notin> set (map PStr WRITABLE) then Inr [''CLASSIFICATION_NOT_SYNCABLE'']
      else Inr (reasons_if (pd_reason_code (inspect_text (folded_by env) (change_text payload) (the_str v) ''change-set'')
        \<notin> set SYNCABLE_REASONS) ''PRIVACY_REJECTED''))"

definition provider_matches :: "ChangeSet \<Rightarrow> pydict \<Rightarrow> bool" where
  "provider_matches c payload \<longleftrightarrow> get_default payload ''provider_id'' (PStr (cs_provider_id c)) = PStr (cs_provider_id c)
     \<and> SAFE_HOST_LABEL_RE (cs_provider_id c)"

definition source_reasons :: "ChangeSet \<Rightarrow> ChangeOperation \<Rightarrow> string list" where
  "source_reasons c x = (let hashes = hashes_in (PDict (op_payload x)) in
     reasons_if (\<not> list_ex (\<lambda>h. h \<in> set (cs_source_hashes c)) hashes) ''SOURCE_HASH_MISMATCH''
   @ reasons_if (op_operation x \<noteq> ''NO_CHANGE'' \<and> hashes = []) ''SOURCE_HASH_MISSING'')"

definition observation_reasons :: "pydict \<Rightarrow> string list" where
  "observation_reasons payload =
     reasons_if (\<not> (case item_of payload ''title'' of PStr s \<Rightarrow> s \<noteq> [] \<and> length s \<le> 160 | _ \<Rightarrow> False)) ''OBSERVATION_TITLE_INVALID''
   @ reasons_if (\<not> (case item_of payload ''claim'' of PStr s \<Rightarrow> 20 \<le> length s \<and> length s \<le> 1200 | _ \<Rightarrow> False)) ''OBSERVATION_CLAIM_INVALID''"

definition rule_reasons :: "PromotionPolicy \<Rightarrow> ChangeOperation \<Rightarrow> string list" where
  "rule_reasons policy x = (case item_of (op_payload x) ''rule'' of
       PStr s \<Rightarrow> (if int (length s) > pp_always_on_hard_cap_chars policy then [''RULE_HARD_CAP_EXCEEDED'']
         else reasons_if (int (length s) > pp_max_rule_chars policy) ''RULE_LENGTH_INVALID'')
     | _ \<Rightarrow> reasons_if (op_operation x \<in> {''CREATE_CANDIDATE'', ''PROMOTE_PATTERN'', ''REVISE_PATTERN''}) ''RULE_MISSING'')"

definition operation_reasons :: "change_env \<Rightarrow> PromotionPolicy \<Rightarrow> ChangeSet \<Rightarrow> ChangeOperation \<Rightarrow> string list result" where
  "operation_reasons env policy c x =
     (let payload = op_payload x in
      rbind (class_reasons env payload) (\<lambda>class_found. Inr (
          reason_codes (inspected_payload env payload)
        @ reasons_if (\<not> safe_target (op_target_id x)) ''PATH_TRAVERSAL''
        @ reasons_if (forbidden_key_in (PDict payload)) ''RAW_CONTENT_FORBIDDEN''
        @ concat (map (\<lambda>(k, v). reasons_if (casefold k \<in> set PATH_KEYS \<and> bad_path v) ''PATH_TRAVERSAL'') payload)
        @ reasons_if (\<not> (case item_of payload ''actor'' of PStr s \<Rightarrow> SAFE_HOST_LABEL_RE s | _ \<Rightarrow> False)) ''ACTOR_INVALID''
        @ reasons_if (\<not> provider_matches c payload) ''PROVIDER_MISMATCH''
        @ class_found @ source_reasons c x
        @ (if op_operation x = ''CREATE_OBSERVATION'' then observation_reasons payload else [])
        @ rule_reasons policy x)))"

subsection \<open>Transitions of the projected states\<close>

definition status_in :: "pydict option \<Rightarrow> string list \<Rightarrow> bool" where
  "status_in state allowed = (case state of None \<Rightarrow> False | Some s \<Rightarrow> item_of s ''status'' \<in> set (map PStr allowed))"

definition set_status :: "string option \<Rightarrow> string \<Rightarrow> pydict dict \<Rightarrow> pydict dict" where
  "set_status target status projected = (case target of None \<Rightarrow> projected
     | Some t \<Rightarrow> (case map_of projected t of None \<Rightarrow> projected
         | Some s \<Rightarrow> dict_set t (dict_set ''status'' (PStr status) s) projected))"

definition projected_candidate :: "change_env \<Rightarrow> string \<Rightarrow> pydict \<Rightarrow> pyval \<Rightarrow> pydict result" where
  "projected_candidate env target payload provenances =
     rbind (map_sum id PList (list_value provenances)) (\<lambda>provenances.
     rbind (items_at payload ''scopes'') (\<lambda>scopes.
     rbind (items_at payload ''applicability'') (\<lambda>applicability.
     rbind (count_or_zero env payload ''benefit_count'') (\<lambda>benefit.
     rbind (count_or_zero env payload ''contradiction_count'') (\<lambda>contradictions.
     rbind (items_at payload ''applicable_host_ids'') (\<lambda>host_ids.
     rbind (items_at payload ''applicable_host_families'') (\<lambda>host_families.
       Inr [(''pattern_id'', PStr target),
         (''cluster_id'', PStr (str_by env (get_default payload ''cluster_id'' (PStr target)))),
         (''status'', PStr ''candidate''), (''rule'', PStr (str_by env (get_default payload ''rule'' (PStr [])))),
         (''classification'', PStr (payload_class env payload)), (''provenances'', provenances), (''scopes'', scopes),
         (''applicability'', applicability), (''benefit_count'', benefit), (''contradiction_count'', contradictions),
         (''revision'', PInt 0), (''source_host_id'', text_or env payload ''source_host_id'' []),
         (''source_host_family'', text_or env payload ''source_host_family'' []),
         (''applicability_scope'', text_or env payload ''applicability_scope'' ''universal''),
         (''applicable_host_ids'', host_ids), (''applicable_host_families'', host_families)])))))))"

definition create_candidate ::
  "change_env \<Rightarrow> PromotionPolicy \<Rightarrow> ChangeOperation \<Rightarrow> pydict dict \<Rightarrow> (string list \<times> pydict dict) result" where
  "create_candidate env policy x projected =
     (let payload = op_payload x; provenances = get_default payload ''provenances'' (get_default payload ''evidence_refs'' (PTuple []));
          count = (case seq_items provenances of Some xs \<Rightarrow> length xs | None \<Rightarrow> 0)
      in case op_target_id x of
           None \<Rightarrow> Inr ([''TARGET_ALREADY_EXISTS''], projected)
         | Some t \<Rightarrow>
             if t = [] \<or> has_key projected t then Inr ([''TARGET_ALREADY_EXISTS''], projected)
             else if int count < pp_independent_provenance_count policy then Inr ([''CANDIDATE_POLICY_INELIGIBLE''], projected)
             else rbind (projected_candidate env t payload provenances) (\<lambda>s. Inr ([], dict_set t s projected)))"

definition stripped_text :: "change_env \<Rightarrow> pyval \<Rightarrow> string" where
  "stripped_text env v = strip (str_by env v)"

definition promotion_objections :: "change_env \<Rightarrow> PromotionPolicy \<Rightarrow> pydict \<Rightarrow> pydict option \<Rightarrow> string list result" where
  "promotion_objections env policy payload state =
     (let known = (case state of None \<Rightarrow> PInt 0 | Some s \<Rightarrow> get_default s ''contradiction_count'' (PInt 0)) in
      rbind (int_value env (value_or (get_default payload ''contradiction_count'' known) (PInt 0))) (\<lambda>n. Inr (
          reasons_if (\<not> status_in state [''candidate'']) ''INVALID_LIFECYCLE_TRANSITION''
        @ reasons_if (n > pp_max_unresolved_contradictions policy) ''UNRESOLVED_CONTRADICTION''
        @ reasons_if (\<not> nonempty_text (item_of payload ''precondition'')) ''PRECONDITION_MISSING''
        @ reasons_if (\<not> nonempty_text (item_of payload ''failure_mode'')) ''FAILURE_MODE_MISSING''
        @ reasons_if (\<not> (case seq_items (get_default payload ''applicability'' (PTuple [])) of None \<Rightarrow> False
            | Some xs \<Rightarrow> list_ex (\<lambda>v. stripped_text env v \<noteq> []) xs)) ''APPLICABILITY_MISSING'')))"

definition revised_rule :: "string option \<Rightarrow> pydict \<Rightarrow> pydict dict \<Rightarrow> pydict dict" where
  "revised_rule target payload projected = (case target of None \<Rightarrow> projected
     | Some t \<Rightarrow> (case map_of projected t of None \<Rightarrow> projected
         | Some s \<Rightarrow> dict_set t (dict_set ''rule'' (get_default payload ''rule'' (get_default s ''rule'' (PStr []))) s) projected))"

definition transition ::
  "change_env \<Rightarrow> change_settings \<Rightarrow> PromotionPolicy \<Rightarrow> ChangeOperation \<Rightarrow> pydict dict \<Rightarrow> (string list \<times> pydict dict) result" where
  "transition env settings policy x projected =
     (let kind = op_operation x; payload = op_payload x; target = op_target_id x;
          state = (case target of None \<Rightarrow> None | Some t \<Rightarrow> if t = [] then None else map_of projected t);
          wrong = (\<lambda>allowed. reasons_if (\<not> status_in state allowed) ''INVALID_LIFECYCLE_TRANSITION'')
      in if kind = ''ATTACH_EVIDENCE'' then
           Inr (reasons_if (\<not> status_in state [''active'', ''candidate'']) ''TARGET_STATE_INVALID'', projected)
         else if kind = ''CREATE_CANDIDATE'' then create_candidate env policy x projected
         else if kind = ''PROMOTE_PATTERN'' then
           rbind (promotion_objections env policy payload state) (\<lambda>reasons. Inr (reasons,
             if state = None then projected else set_status target ''active'' projected))
         else if kind = ''REVISE_PATTERN'' then
           Inr (wrong [''active'', ''candidate'']
               @ reasons_if (truthy (item_of payload ''proposal_only'') \<and> \<not> sg_allow_proposal_apply settings) ''REVIEW_REQUIRED'',
             if state = None then projected else revised_rule target payload (set_status target ''active'' projected))
         else if kind = ''DEPRECATE_PATTERN'' then
           Inr (wrong [''active''], if state = None then projected else set_status target ''deprecated'' projected)
         else if kind = ''TOMBSTONE_PATTERN'' then
           Inr (wrong [''deprecated'', ''superseded''], if state = None then projected else set_status target ''tombstoned'' projected)
         else if kind = ''REDACT_REFERENCE'' then
           Inr (reasons_if (\<not> sg_allow_redaction settings
             \<or> \<not> truthy (value_or (item_of payload ''approval_identity_hash'') (item_of payload ''approved_by''))) ''REDACTION_REQUIRES_APPROVAL'', projected)
         else
           Inr (reasons_if (kind = ''NO_CHANGE'' \<and> item_of payload ''reason_code'' \<noteq> PNone
             \<and> \<not> SAFE_HOST_LABEL_RE (str_by env (item_of payload ''reason_code''))) ''REASON_CODE_INVALID'', projected))"

fun checked_operations ::
  "change_env \<Rightarrow> change_settings \<Rightarrow> PromotionPolicy \<Rightarrow> ChangeSet \<Rightarrow> ChangeOperation list \<Rightarrow> pydict dict \<Rightarrow> string list result" where
  "checked_operations env settings policy c [] projected = Inr []"
| "checked_operations env settings policy c (x # xs) projected =
     rbind (operation_reasons env policy c x) (\<lambda>found.
     rbind (transition env settings policy x projected) (\<lambda>(reasons, projected').
     rbind (checked_operations env settings policy c xs projected') (\<lambda>rest. Inr (found @ reasons @ rest))))"

subsection \<open>The validation\<close>

definition journal_events :: "change_env \<Rightarrow> journal \<Rightarrow> Event list result" where
  "journal_events env j = (case iter_events (cx_journal env) j False of
     Inl _ \<Rightarrow> Inl (ValueError ''JOURNAL_CORRUPT'') | Inr events \<Rightarrow> Inr events)"

definition projected_states :: "state_store \<Rightarrow> pydict dict" where
  "projected_states st = map (\<lambda>(name, a). (name, ss_cells st ! a)) (ss_names st)"

definition exn_text :: "exn \<Rightarrow> string" where
  "exn_text e = (case e of ValueError s \<Rightarrow> s | TypeError s \<Rightarrow> s | KeyError s \<Rightarrow> s | QueueError s \<Rightarrow> s | CaptureLedgerError s \<Rightarrow> s
     | ProviderSelectionError s \<Rightarrow> s | PrivacyError s \<Rightarrow> s | JournalIntegrityError s \<Rightarrow> s | CommandQuoteError s \<Rightarrow> s)"

definition invalid_because :: "string \<Rightarrow> ValidationResult" where
  "invalid_because reason = \<lparr>vr_valid = False, vr_reason_codes = [reason]\<rparr>"

definition validate_changeset :: "change_env \<Rightarrow> change_settings \<Rightarrow> change_input \<Rightarrow> journal \<Rightarrow> ValidationResult result" where
  "validate_changeset env settings v j = (case coerced env v of
       Inl _ \<Rightarrow> Inr (invalid_because ''CHANGESET_SCHEMA_INVALID'')
     | Inr c \<Rightarrow> (case sg_policy settings of
           Inl e \<Rightarrow> Inr (invalid_because (exn_text e))
         | Inr policy \<Rightarrow> (case journal_events env j of
               Inl e \<Rightarrow> Inr (invalid_because (exn_text e))
             | Inr events \<Rightarrow>
                 rbind (pattern_states env events) (\<lambda>st.
                 rbind (checked_operations env settings policy c (cs_operations c) (projected_states st)) (\<lambda>found.
                   let reasons = document_reasons env settings policy c @ found
                   in Inr \<lparr>vr_valid = (reasons = []), vr_reason_codes = unique (filter (\<lambda>s. s \<noteq> []) reasons)\<rparr>)))))"
end
