(* ===== verification/Change_Laws.thy ===== *)
theory Change_Laws
  imports Change_Validation Plain_Payloads
begin

section \<open>What the validation of a change set guarantees\<close>

text \<open>
  The lifecycle of patterns as an abstract machine over their statuses, and the refinement: the
  validation of \<^verbatim>\<open>Change_Validation\<close> lets a change set pass only if its operations are a run of that
  machine from the states the journal tells.
\<close>

subsection \<open>The abstract lifecycle\<close>

type_synonym statuses = "string \<Rightarrow> string option"

definition move :: "statuses \<Rightarrow> string \<Rightarrow> string list \<Rightarrow> string \<Rightarrow> statuses option" where
  "move s target allowed status = (case s target of
     None \<Rightarrow> None | Some u \<Rightarrow> if u \<in> set allowed then Some (s(target \<mapsto> status)) else None)"

definition lifecycle :: "string \<times> string option \<Rightarrow> statuses \<Rightarrow> statuses option" where
  "lifecycle x s = (case x of
     (kind, None) \<Rightarrow> if kind \<in> {''ATTACH_EVIDENCE'', ''CREATE_CANDIDATE'', ''PROMOTE_PATTERN'', ''REVISE_PATTERN'', ''DEPRECATE_PATTERN'',
         ''TOMBSTONE_PATTERN''} then None else Some s
   | (kind, Some t) \<Rightarrow>
       if kind = ''ATTACH_EVIDENCE'' then map_option (\<lambda>_. s) (move s t [''active'', ''candidate''] ''active'')
       else if kind = ''CREATE_CANDIDATE'' then (if s t = None then Some (s(t \<mapsto> ''candidate'')) else None)
       else if kind = ''PROMOTE_PATTERN'' then move s t [''candidate''] ''active''
       else if kind = ''REVISE_PATTERN'' then move s t [''active'', ''candidate''] ''active''
       else if kind = ''DEPRECATE_PATTERN'' then move s t [''active''] ''deprecated''
       else if kind = ''TOMBSTONE_PATTERN'' then move s t [''deprecated'', ''superseded''] ''tombstoned''
       else Some s)"

fun lifecycle_run :: "(string \<times> string option) list \<Rightarrow> statuses \<Rightarrow> statuses option" where
  "lifecycle_run [] s = Some s"
| "lifecycle_run (x # xs) s = Option.bind (lifecycle x s) (lifecycle_run xs)"

definition moves :: "ChangeSet \<Rightarrow> (string \<times> string option) list" where
  "moves c = map (\<lambda>x. (op_operation x, op_target_id x)) (cs_operations c)"

definition status_of :: "pydict \<Rightarrow> string option" where
  "status_of s = (case item_of s ''status'' of PStr u \<Rightarrow> Some u | _ \<Rightarrow> None)"

definition statuses_of :: "pydict dict \<Rightarrow> statuses" where
  "statuses_of projected = (\<lambda>t. Option.bind (map_of projected t) status_of)"

subsection \<open>The refinement\<close>

lemma reasons_if_Nil [simp]: "reasons_if b r = [] \<longleftrightarrow> \<not> b"
  by (simp add: reasons_if_def)

lemma status_set: "status_of (dict_set ''status'' (PStr u) s) = Some u"
  by (simp add: status_of_def get_default_def dict_simps)

lemma status_other: "k \<noteq> ''status'' \<Longrightarrow> status_of (dict_set k v s) = status_of s"
  by (simp add: status_of_def get_default_def dict_simps)

lemma statuses_set: "map_of p t = Some s \<Longrightarrow> statuses_of (set_status (Some t) u p) = (statuses_of p)(t \<mapsto> u)"
  by (auto simp: statuses_of_def set_status_def fun_eq_iff dict_simps status_set)

lemma statuses_revised: "statuses_of (revised_rule (Some t) payload p) = statuses_of p"
  by (auto simp: statuses_of_def revised_rule_def fun_eq_iff dict_simps status_other split: option.splits)

lemma status_in_some:
  assumes "status_in (map_of p t) allowed"
  obtains s u where "map_of p t = Some s" "statuses_of p t = Some u" "u \<in> set allowed"
  using assms by (auto simp: status_in_def statuses_of_def status_of_def split: option.splits)

lemma move_status: "status_in (map_of p t) allowed \<Longrightarrow> move (statuses_of p) t allowed u = Some (statuses_of (set_status (Some t) u p))"
  by (erule status_in_some) (simp add: move_def statuses_set)

lemma created_status:
  "projected_candidate env t payload provenances = Inr s \<Longrightarrow> status_of s = Some ''candidate''"
  by (auto simp: projected_candidate_def result_simps status_of_def get_default_def)

lemma create_refines:
  assumes "create_candidate env policy x p = Inr ([], p')"
  obtains t where "op_target_id x = Some t" "statuses_of p t = None" "statuses_of p' = (statuses_of p)(t \<mapsto> ''candidate'')"
proof -
  obtain t where t: "op_target_id x = Some t" using assms by (cases "op_target_id x") (simp_all add: create_candidate_def Let_def)
  have free: "\<not> has_key p t" using assms by (auto simp: create_candidate_def t Let_def)
  obtain v where v: "projected_candidate env t (op_payload x) v = Inr (the (map_of p' t))" "p' = dict_set t (the (map_of p' t)) p"
    using assms free by (auto simp: create_candidate_def t Let_def result_simps dict_simps split: if_splits)
  have "statuses_of p t = None" using free by (simp add: statuses_of_def has_key_def)
  moreover have "statuses_of p' = (statuses_of p)(t \<mapsto> ''candidate'')"
    using created_status [OF v(1)] by (subst v(2)) (auto simp: statuses_of_def fun_eq_iff dict_simps)
  ultimately show ?thesis using t that by blast
qed

lemma state_of_target:
  "status_in (case target of None \<Rightarrow> None | Some t \<Rightarrow> if t = [] then None else map_of p t) allowed \<longleftrightarrow>
     (\<exists>t. target = Some t \<and> t \<noteq> [] \<and> status_in (map_of p t) allowed)"
  by (auto simp: status_in_def split: option.splits if_splits)

text \<open>One step: an operation without reasons is a step of the machine.\<close>

lemma transition_refines:
  assumes "transition env settings policy x p = Inr ([], p')"
  shows "lifecycle (op_operation x, op_target_id x) (statuses_of p) = Some (statuses_of p')"
proof -
  let ?state = "case op_target_id x of None \<Rightarrow> None | Some t \<Rightarrow> if t = [] then None else map_of p t"
  note tr = assms [unfolded transition_def Let_def]
  consider "op_operation x = ''ATTACH_EVIDENCE''" | "op_operation x = ''CREATE_CANDIDATE''" | "op_operation x = ''PROMOTE_PATTERN''"
    | "op_operation x = ''REVISE_PATTERN''" | "op_operation x = ''DEPRECATE_PATTERN''" | "op_operation x = ''TOMBSTONE_PATTERN''"
    | "op_operation x \<notin> {''ATTACH_EVIDENCE'', ''CREATE_CANDIDATE'', ''PROMOTE_PATTERN'', ''REVISE_PATTERN'', ''DEPRECATE_PATTERN'', ''TOMBSTONE_PATTERN''}"
    by blast
  then show ?thesis
  proof cases
    case 1
    then have "status_in ?state [''active'', ''candidate'']" "p' = p" using tr by simp_all
    then obtain t where "op_target_id x = Some t" "status_in (map_of p t) [''active'', ''candidate'']"
      unfolding state_of_target by blast
    then show ?thesis using 1 \<open>p' = p\<close> by (simp add: lifecycle_def move_status)
  next
    case 2
    then have "create_candidate env policy x p = Inr ([], p')" using tr by simp
    then obtain t where "op_target_id x = Some t" "statuses_of p t = None" "statuses_of p' = (statuses_of p)(t \<mapsto> ''candidate'')"
      by (rule create_refines)
    then show ?thesis using 2 by (simp add: lifecycle_def)
  next
    case 3
    then have "status_in ?state [''candidate'']" "p' = (if ?state = None then p else set_status (op_target_id x) ''active'' p)"
      using tr by (auto simp: promotion_objections_def result_simps Let_def)
    then obtain t where "op_target_id x = Some t" "t \<noteq> []" "status_in (map_of p t) [''candidate'']"
      "p' = (if ?state = None then p else set_status (op_target_id x) ''active'' p)"
      unfolding state_of_target by blast
    then show ?thesis using 3 by (auto simp: lifecycle_def move_status status_in_def split: option.splits)
  next
    case 4
    then have "status_in ?state [''active'', ''candidate'']"
      "p' = (if ?state = None then p else revised_rule (op_target_id x) (op_payload x) (set_status (op_target_id x) ''active'' p))"
      using tr by auto
    then obtain t where "op_target_id x = Some t" "t \<noteq> []" "status_in (map_of p t) [''active'', ''candidate'']"
      "p' = (if ?state = None then p else revised_rule (op_target_id x) (op_payload x) (set_status (op_target_id x) ''active'' p))"
      unfolding state_of_target by blast
    then show ?thesis using 4 by (auto simp: lifecycle_def move_status statuses_revised status_in_def split: option.splits)
  next
    case 5
    then have "status_in ?state [''active'']" "p' = (if ?state = None then p else set_status (op_target_id x) ''deprecated'' p)"
      using tr by auto
    then obtain t where "op_target_id x = Some t" "t \<noteq> []" "status_in (map_of p t) [''active'']"
      "p' = (if ?state = None then p else set_status (op_target_id x) ''deprecated'' p)"
      unfolding state_of_target by blast
    then show ?thesis using 5 by (auto simp: lifecycle_def move_status status_in_def split: option.splits)
  next
    case 6
    then have "status_in ?state [''deprecated'', ''superseded'']" "p' = (if ?state = None then p else set_status (op_target_id x) ''tombstoned'' p)"
      using tr by auto
    then obtain t where "op_target_id x = Some t" "t \<noteq> []" "status_in (map_of p t) [''deprecated'', ''superseded'']"
      "p' = (if ?state = None then p else set_status (op_target_id x) ''tombstoned'' p)"
      unfolding state_of_target by blast
    then show ?thesis using 6 by (auto simp: lifecycle_def move_status status_in_def split: option.splits)
  next
    case 7
    then show ?thesis using tr by (auto simp: lifecycle_def split: option.splits if_splits)
  qed
qed

text \<open>What an operation without reasons is like: clean, of a class that may be synchronized, backed by a source.\<close>

definition operation_clean :: "change_env \<Rightarrow> ChangeSet \<Rightarrow> ChangeOperation \<Rightarrow> bool" where
  "operation_clean env c x \<longleftrightarrow> in_valid (inspected_payload env (op_payload x))
     \<and> get_default (op_payload x) ''classification'' (PStr ''private-reusable'') \<in> set (map PStr WRITABLE)
     \<and> secret_free (folded_by env) (folded_by env (change_text (op_payload x)))
     \<and> list_ex (\<lambda>h. h \<in> set (cs_source_hashes c)) (hashes_in (PDict (op_payload x)))
     \<and> safe_target (op_target_id x) \<and> provider_matches c (op_payload x)"

lemma generalized_secret_free:
  "pd_reason_code (inspect_text nfkc text kind ref) \<in> set SYNCABLE_REASONS \<Longrightarrow> secret_free nfkc (nfkc text)"
  by (auto simp: inspect_text_def SYNCABLE_REASONS_def Let_def decision_defs secret_match_None [symmetric] forbidden_path_reason_def
      split: option.splits Classification.splits if_splits)

lemma inspected_valid: "reason_codes (inspected_payload env payload) = [] \<longleftrightarrow> in_valid (inspected_payload env payload)"
  by (simp add: reason_codes_def inspected_payload_def inspect_changeset_payload_def in_issues_valid)

lemma class_reasonsD:
  assumes "class_reasons env payload = Inr []"
  shows "get_default payload ''classification'' (PStr ''private-reusable'') \<in> set (map PStr WRITABLE)"
    "secret_free (folded_by env) (folded_by env (change_text payload))"
  using assms generalized_secret_free by (auto simp: class_reasons_def Let_def split: if_splits)

lemma clean_operation:
  assumes "operation_reasons env policy c x = Inr []"
  shows "operation_clean env c x"
proof -
  obtain found where found: "class_reasons env (op_payload x) = Inr found"
    using assms by (auto simp: operation_reasons_def result_simps Let_def)
  then have "found = []" using assms by (simp add: operation_reasons_def Let_def)
  with found class_reasonsD [of env "op_payload x"] assms show ?thesis
    by (simp add: operation_clean_def operation_reasons_def Let_def inspected_valid source_reasons_def)
qed

lemma checked_refines:
  assumes "checked_operations env settings policy c xs p = Inr []"
  shows "lifecycle_run (map (\<lambda>x. (op_operation x, op_target_id x)) xs) (statuses_of p) \<noteq> None \<and> list_all (operation_clean env c) xs"
  using assms
proof (induction xs arbitrary: p)
  case (Cons x xs)
  then obtain found reasons p' rest where parts: "operation_reasons env policy c x = Inr found"
    "transition env settings policy x p = Inr (reasons, p')" "checked_operations env settings policy c xs p' = Inr rest"
    "found @ reasons @ rest = []" by (auto simp: result_simps)
  then have "found = []" "reasons = []" "rest = []" by simp_all
  then show ?case using transition_refines [of env settings policy x p p'] clean_operation parts Cons.IH [of p'] by simp
qed simp

lemma valid_changeset:
  assumes "validate_changeset env settings v j = Inr r" "vr_valid r"
  obtains c policy events st where "coerced env v = Inr c" "sg_policy settings = Inr policy" "journal_events env j = Inr events"
    "pattern_states env events = Inr st" "checked_operations env settings policy c (cs_operations c) (projected_states st) = Inr []"
    "document_reasons env settings policy c = []"
  using assms unfolding validate_changeset_def
  by (auto simp: result_simps invalid_because_def Let_def split: sum.splits)

subsection \<open>Properties\<close>

text \<open>
  C2. The validation refines the lifecycle of patterns: the operations of a valid change set are a run
  of the abstract machine from the statuses the journal tells, so nothing is promoted but a candidate,
  deprecated but an active pattern, buried but a deprecated or superseded one, and nothing is created
  twice; and every payload is closed, of a class that may be synchronized, free of secrets and backed
  by one of the sources of the change set.
\<close>

theorem valid_changeset_follows_lifecycle:
  assumes "validate_changeset env settings v j = Inr r" "vr_valid r"
  shows "\<exists>c events st. coerced env v = Inr c \<and> journal_events env j = Inr events \<and> pattern_states env events = Inr st
    \<and> lifecycle_run (moves c) (statuses_of (projected_states st)) \<noteq> None
    \<and> list_all (operation_clean env c) (cs_operations c)"
proof (rule valid_changeset [OF assms])
  fix c policy events st
  assume known: "coerced env v = Inr c" "journal_events env j = Inr events" "pattern_states env events = Inr st"
    and checked: "checked_operations env settings policy c (cs_operations c) (projected_states st) = Inr []"
  from checked_refines [OF checked] known show ?thesis unfolding moves_def by blast
qed

definition sample_change_env :: change_env where
  "sample_change_env = \<lparr>cx_journal = \<lparr>jo_sha256 = (\<lambda>s. hex_digit (length s mod 16) # replicate 63 (CHR ''0'')), jo_repr = (\<lambda>_. ''0.5''), jo_nfkc = (\<lambda>s. s),
     jo_str = (\<lambda>_. []), jo_aware = (\<lambda>_. True), jo_partition = (\<lambda>_. Some (''2026'', ''01''))\<rparr>, cx_parse_int = (\<lambda>_. None), cx_machine = ''m''\<rparr>"

definition sample_change_settings :: change_settings where
  "sample_change_settings = \<lparr>sg_policy = Inr (default_promotion_policy\<lparr>pp_independent_provenance_count := 1\<rparr>),
     sg_source_hashes = None, sg_allow_proposal_apply = False, sg_allow_redaction = False, sg_runtime_outside = True\<rparr>"

definition sample_source :: string where
  "sample_source = ''sha256:'' @ replicate 64 (CHR ''a'')"

definition sample_change_payload :: pydict where
  "sample_change_payload = [(''actor'', PStr ''ei''), (''rule'', PStr ''Retry''), (''provenances'', PList [PStr sample_source])]"

definition sample_operation :: ChangeOperation where
  "sample_operation = \<lparr>op_operation = ''CREATE_CANDIDATE'', op_target_id = Some ''pat_1'', op_payload = sample_change_payload\<rparr>"

definition sample_change :: ChangeSet where
  "sample_change = \<lparr>cs_changeset_id = ''cs_1'', cs_candidate_id = ''cand_1'', cs_operations = [sample_operation],
     cs_source_hashes = [sample_source], cs_policy_version = ''promotion-v1'', cs_generated_at = ''20260101T000000Z'',
     cs_provider_id = ''p'', cs_source_host_id = [], cs_source_host_family = [], cs_applicability_scope = ''universal'',
     cs_applicable_host_ids = [], cs_applicable_host_families = []\<rparr>"

lemma sample_inspected: "in_valid (inspected_payload sample_change_env sample_change_payload)"
proof -
  have "plain_fields ''private-reusable'' (Some CHANGESET_PAYLOAD_FIELDS) [] sample_change_payload"
    "payload_class sample_change_env sample_change_payload = ''private-reusable''"
    "int (utf8_length (canonical_json (repr_by sample_change_env) (PDict sample_change_payload))) \<le> 1000"
    "\<not> list_ex (has_key sample_change_payload) HOST_APPLICABILITY_FIELDS" by code_simp+
  then show ?thesis unfolding inspected_payload_def inspect_changeset_payload_def pyval.case
    by (subst sample_change_env_def) (simp add: plain_valid)
qed

lemma sample_document: "in_valid (inspect_persistable (\<lambda>s. s) (repr_by sample_change_env) (PDict (changeset_to_dict sample_change)) ''private-reusable'' None (512 * 1024))"
proof -
  have facts: "plain_fields ''private-reusable'' None [] (changeset_to_dict sample_change)"
    "int (utf8_length (canonical_json (repr_by sample_change_env) (PDict (changeset_to_dict sample_change)))) \<le> 1000"
    "\<not> list_ex (has_key (changeset_to_dict sample_change)) HOST_APPLICABILITY_FIELDS" by code_simp+
  then show ?thesis by (intro plain_valid [OF facts(1) _ disjI1 [OF facts(3)]]) linarith
qed

lemma sample_change_env_simps: "folded_by sample_change_env = (\<lambda>s. s)"
  by (simp add: sample_change_env_def)

lemma sample_document_reasons:
  "document_reasons sample_change_env sample_change_settings (default_promotion_policy\<lparr>pp_independent_provenance_count := 1\<rparr>) sample_change = []"
proof -
  have "cs_policy_version sample_change = pp_policy_version (default_promotion_policy\<lparr>pp_independent_provenance_count := 1\<rparr>)"
    "SAFE_HOST_LABEL_RE (cs_provider_id sample_change)" "\<not> forbidden_key_in (PDict (changeset_to_dict sample_change))"
    "sg_source_hashes sample_change_settings = None"
    "int (utf8_length (canonical_json (repr_by sample_change_env) (PDict (changeset_to_dict sample_change))) + separators (PDict (changeset_to_dict sample_change))) \<le> 1000"
    by code_simp+
  moreover have "reason_codes (inspect_persistable (\<lambda>s. s) (repr_by sample_change_env) (PDict (changeset_to_dict sample_change)) ''private-reusable'' None (512 * 1024)) = []"
    using sample_document unfolding in_issues_valid reason_codes_def by simp
  ultimately show ?thesis unfolding document_reasons_def Let_def sample_change_env_simps reasons_if_def by simp
qed

lemma sample_operation_reasons:
  "operation_reasons sample_change_env (default_promotion_policy\<lparr>pp_independent_provenance_count := 1\<rparr>) sample_change sample_operation = Inr []"
proof -
  let ?policy = "default_promotion_policy\<lparr>pp_independent_provenance_count := 1\<rparr>"
  have payload: "op_payload sample_operation = sample_change_payload" by (simp add: sample_operation_def)
  have "get_default sample_change_payload ''classification'' (PStr ''private-reusable'') = PStr ''private-reusable''"
    "change_text sample_change_payload = ''Retry''" "forbidden_path_reason (\<lambda>s. s) ''change-set'' = None" "plain_text ''Retry''"
    "classify_source ''private-reusable'' \<in> {PUBLIC, PRIVATE_REUSABLE}" "''private-reusable'' \<in> set WRITABLE"
    "''CLASSIFIED'' \<in> set SYNCABLE_REASONS"
    by code_simp+
  then have "class_reasons sample_change_env sample_change_payload = Inr []"
    using plain_inspected [OF plain_secret_free [OF \<open>plain_text ''Retry''\<close>], of "''change-set''" "''private-reusable''"]
    by (simp add: class_reasons_def sample_change_env_simps)
  moreover have "reason_codes (inspected_payload sample_change_env sample_change_payload) = []"
    using sample_inspected by (simp add: inspected_valid)
  moreover have "safe_target (op_target_id sample_operation)" "\<not> forbidden_key_in (PDict sample_change_payload)"
    "concat (map (\<lambda>(k, v). reasons_if (casefold k \<in> set PATH_KEYS \<and> bad_path v) ''PATH_TRAVERSAL'') sample_change_payload) = []"
    "(case item_of sample_change_payload ''actor'' of PStr s \<Rightarrow> SAFE_HOST_LABEL_RE s | _ \<Rightarrow> False)"
    "provider_matches sample_change sample_change_payload" "source_reasons sample_change sample_operation = []"
    "op_operation sample_operation \<noteq> ''CREATE_OBSERVATION''" "rule_reasons ?policy sample_operation = []" by code_simp+
  ultimately show ?thesis unfolding operation_reasons_def Let_def payload by simp
qed

lemma sample_change_valid:
  "validate_changeset sample_change_env sample_change_settings (Built sample_change) [] = Inr \<lparr>vr_valid = True, vr_reason_codes = []\<rparr>"
proof -
  let ?policy = "default_promotion_policy\<lparr>pp_independent_provenance_count := 1\<rparr>"
  have "journal_events sample_change_env [] = Inr []"
    "pattern_states sample_change_env [] = Inr \<lparr>ss_names = [], ss_cells = []\<rparr>"
    "projected_states \<lparr>ss_names = [], ss_cells = []\<rparr> = []" "cs_operations sample_change = [sample_operation]"
    "sg_policy sample_change_settings = Inr ?policy" "coerced sample_change_env (Built sample_change) = Inr sample_change"
    by (simp_all add: journal_events_def iter_events_def pattern_states_def projected_states_def coerced_def sample_change_def
        sample_change_settings_def)
  moreover have "\<exists>p. transition sample_change_env sample_change_settings ?policy sample_operation [] = Inr ([], p)"
  proof -
    have "map_sum id fst (transition sample_change_env sample_change_settings ?policy sample_operation []) = Inr []" by code_simp
    then show ?thesis by (cases "transition sample_change_env sample_change_settings ?policy sample_operation []") auto
  qed
  ultimately show ?thesis using sample_document_reasons sample_operation_reasons by (auto simp: validate_changeset_def)
qed

theorem valid_changeset_follows_lifecycle_witness:
  "\<exists>c events st. coerced sample_change_env (Built sample_change) = Inr c \<and> journal_events sample_change_env [] = Inr events
    \<and> pattern_states sample_change_env events = Inr st
    \<and> lifecycle_run (moves c) (statuses_of (projected_states st)) \<noteq> None
    \<and> list_all (operation_clean sample_change_env c) (cs_operations c)"
  using valid_changeset_follows_lifecycle [OF sample_change_valid] by simp

end
