(* ===== verification/Change_Apply.thy ===== *)
theory Change_Apply
  imports Change_Validation
begin

section \<open>Applying a change set\<close>

text \<open>
  \<^verbatim>\<open>src/src/ei/changeset.py\<close>, second half: the events the operations become, the marker that commits
  them, and \<open>apply_changeset\<close>; \<open>read_application_proof\<close> is not modelled. The world is the journal and the log of
  failed change sets. Appending is the one of \<^verbatim>\<open>Event_Journal\<close>; the events of a change set are written
  one after the other and the marker last, so a failure between two of them is a state of the journal
  like any other. Operation deadlines are not modelled.
\<close>

subsection \<open>Events of the operations\<close>

definition item_texts :: "change_env \<Rightarrow> pydict \<Rightarrow> string \<Rightarrow> string list" where
  "item_texts env d k = (case get_default d k (PTuple []) of
       PStr s \<Rightarrow> if s = [] then [] else [s]
     | v \<Rightarrow> (case seq_items v of Some xs \<Rightarrow> sorted_set (texts_without_empty env xs) | None \<Rightarrow> []))"

definition items_or :: "'a list \<Rightarrow> 'a list \<Rightarrow> 'a list" where
  "items_or xs ys = (if xs \<noteq> [] then xs else ys)"

abbreviation text_items :: "string list \<Rightarrow> pyval" where
  "text_items xs \<equiv> PList (map PStr xs)"

definition either_text :: "change_env \<Rightarrow> pydict \<Rightarrow> pydict \<Rightarrow> string \<Rightarrow> string \<Rightarrow> pyval" where
  "either_text env payload current k other = PStr (str_by env (value_or (item_of payload k) (value_or (item_of current k) (PStr other))))"

definition kept_items :: "change_env \<Rightarrow> pydict \<Rightarrow> pydict \<Rightarrow> string \<Rightarrow> string list" where
  "kept_items env current payload k = (if has_key current k then item_texts env current k else item_texts env payload k)"

definition merged_hosts :: "change_env \<Rightarrow> pydict \<Rightarrow> pydict \<Rightarrow> pydict" where
  "merged_hosts env payload current =
     (let pick = (\<lambda>k other. value_or (item_of current k) (value_or (item_of payload k) (PStr other)));
          host_id = pick ''source_host_id'' []; family = pick ''source_host_family'' []
      in if truthy host_id \<and> truthy family then
           [(''source_host_id'', host_id), (''source_host_family'', family), (''applicability_scope'', pick ''applicability_scope'' ''universal''),
            (''applicable_host_ids'', text_items (sorted_set (kept_items env current payload ''applicable_host_ids''))),
            (''applicable_host_families'', text_items (sorted_set (kept_items env current payload ''applicable_host_families'')))]
         else [])"

definition merged_pattern :: "change_env \<Rightarrow> pydict \<Rightarrow> pydict option \<Rightarrow> string \<Rightarrow> pydict result" where
  "merged_pattern env payload state target =
     (let current = (case state of None \<Rightarrow> [] | Some s \<Rightarrow> s);
          items = item_texts env;
          provenance = items_or (items payload ''provenances'') (items_or (items payload ''evidence_refs'') (items current ''provenances''));
          both = (\<lambda>k. text_items (sorted_set (items_or (items payload k) (items current k))));
          count = (\<lambda>k. map_sum id PInt (int_value env (value_or (get_default payload k (get_default current k (PInt 0))) (PInt 0))))
      in rbind (count ''benefit_count'') (\<lambda>benefit.
         rbind (count ''contradiction_count'') (\<lambda>contradictions.
           Inr ([(''pattern_id'', PStr (or_text target (str_by env (get_default payload ''pattern_id'' (PStr []))))),
             (''cluster_id'', either_text env payload current ''cluster_id'' target), (''rule'', either_text env payload current ''rule'' []),
             (''provenances'', text_items (sorted_set provenance)), (''scopes'', both ''scopes''), (''applicability'', both ''applicability''),
             (''benefit_count'', benefit), (''classification'', either_text env payload current ''classification'' ''private-reusable''),
             (''precondition'', either_text env payload current ''precondition'' []),
             (''failure_mode'', either_text env payload current ''failure_mode'' []),
             (''version_constraint'', get_default payload ''version_constraint'' (item_of current ''version_constraint'')),
             (''contradiction_count'', contradictions)] @ merged_hosts env payload current))))"

definition chosen_items :: "change_env \<Rightarrow> pydict \<Rightarrow> pydict \<Rightarrow> string \<Rightarrow> string list \<Rightarrow> pyval" where
  "chosen_items env existing source k other = text_items (if has_key existing k then item_texts env existing k
     else if has_key source k then item_texts env source k else other)"

definition common_hosts :: "change_env \<Rightarrow> ChangeSet \<Rightarrow> pydict \<Rightarrow> pydict \<Rightarrow> pydict" where
  "common_hosts env c source existing =
     (let pick = (\<lambda>k own other. str_by env (value_or (item_of existing k) (value_or (item_of source k)
            (value_or (PStr own) (PStr other)))));
          host_id = pick ''source_host_id'' (cs_source_host_id c) []; family = pick ''source_host_family'' (cs_source_host_family c) []
      in if host_id \<noteq> [] \<and> family \<noteq> [] then
           [(''source_host_id'', PStr host_id), (''source_host_family'', PStr family),
            (''applicability_scope'', PStr (pick ''applicability_scope'' (cs_applicability_scope c) ''universal'')),
            (''applicable_host_ids'', chosen_items env existing source ''applicable_host_ids'' (cs_applicable_host_ids c)),
            (''applicable_host_families'', chosen_items env existing source ''applicable_host_families'' (cs_applicable_host_families c))]
         else [])"

definition common_fields :: "change_env \<Rightarrow> ChangeSet \<Rightarrow> ChangeOperation \<Rightarrow> pydict option \<Rightarrow> pydict result" where
  "common_fields env c x state = (case map_of (op_payload x) ''actor'' of
       None \<Rightarrow> Inl (KeyError ''actor'')
     | Some actor \<Rightarrow> Inr ([(''changeset_id'', PStr (cs_changeset_id c)), (''candidate_id'', PStr (cs_candidate_id c)),
          (''change_operation'', PStr (op_operation x)), (''policy_version'', PStr (cs_policy_version c)),
          (''provider_id'', PStr (cs_provider_id c)), (''actor'', PStr (str_by env actor)),
          (''source_hashes'', text_items (cs_source_hashes c)), (''classification'', PStr (payload_class env (op_payload x)))]
        @ common_hosts env c (op_payload x) (case state of None \<Rightarrow> [] | Some s \<Rightarrow> s)))"

definition source_text :: "change_env \<Rightarrow> pydict \<Rightarrow> string \<Rightarrow> string \<Rightarrow> string" where
  "source_text env d k other = str_by env (get_default d k (PStr other))"

definition target_text :: "ChangeOperation \<Rightarrow> string" where
  "target_text x = (case op_target_id x of None \<Rightarrow> [] | Some t \<Rightarrow> t)"

definition observation_event :: "change_env \<Rightarrow> ChangeSet \<Rightarrow> ChangeOperation \<Rightarrow> pydict \<Rightarrow> pydict result" where
  "observation_event env c x common =
     (let source = op_payload x; source_hash = str_by env (value_or (item_of source ''source_hash'') (PStr (hd (cs_source_hashes c))));
          claim = source_text env source ''claim'' [];
          observation_id = or_text (target_text x) (''obs_'' @ take 20 (digest_by env (claim @ source_hash)))
      in rbind (persisted_identifier env (source_text env source ''source_ref'' ''curation'') ''source-ref'' False) (\<lambda>ref_hash.
         rbind (persisted_identifier env (str_by env (value_or (item_of source ''provenance_key'') (PStr source_hash))) ''provenance'' False) (\<lambda>provenance.
         rbind (persisted_identifier env (source_text env source ''cwd_fingerprint'' []) ''cwd'' True) (\<lambda>cwd.
           Inr (update_dict common [(''observation_id'', PStr observation_id), (''title'', PStr (source_text env source ''title'' ''observation'')),
             (''claim'', PStr claim), (''source_kind'', PStr (source_text env source ''source_kind'' ''private-reusable'')),
             (''source_ref_hash'', PStr ref_hash), (''source_hash'', PStr source_hash), (''provenance_key'', PStr provenance),
             (''cwd_fingerprint'', PStr cwd), (''domain'', PStr (source_text env source ''domain'' ''general'')),
             (''outcome_status'', PStr (source_text env source ''outcome_status'' ''unknown'')),
             (''benefit'', PStr (source_text env source ''benefit'' [])), (''applicability'', text_items (item_texts env source ''applicability'')),
             (''record_fingerprint'', PStr (''sha256:'' @ digest_by env (observation_id @ source_hash)))])))))"

text \<open>The fields that the body of a pattern gets after the common ones.\<close>

definition with_evidence :: "string list \<Rightarrow> pydict \<Rightarrow> pydict" where
  "with_evidence refs body = update_dict body [(''evidence_refs'', text_items refs), (''evidence_count'', PInt (int (length refs)))]"

definition body_provenances :: "pydict \<Rightarrow> string list" where
  "body_provenances body = (case item_of body ''provenances'' of PList xs \<Rightarrow> map the_str xs | _ \<Rightarrow> [])"

definition is_active :: "pydict option \<Rightarrow> bool" where
  "is_active state \<longleftrightarrow> status_in state [''active'']"

definition known_revision :: "change_env \<Rightarrow> pydict option \<Rightarrow> int result" where
  "known_revision env state = int_value env (case state of None \<Rightarrow> PInt 0 | Some s \<Rightarrow> get_default s ''revision'' (PInt 0))"

definition attached_event :: "change_env \<Rightarrow> ChangeOperation \<Rightarrow> pydict option \<Rightarrow> pydict \<Rightarrow> (string \<times> pydict) result" where
  "attached_event env x state common =
     rbind (merged_pattern env (op_payload x) state (target_text x)) (\<lambda>merged.
     rbind (known_revision env state) (\<lambda>revision.
       let body = dict_set ''pattern_id'' (target_value (op_target_id x)) (update_dict merged common);
           refs = sorted_set (body_provenances body @ item_texts env (op_payload x) ''evidence_refs'')
       in Inr (if is_active state then ''pattern.revised'' else ''pattern.candidate_created'',
            dict_set ''revision'' (PInt (revision + of_bool (is_active state))) (with_evidence refs body))))"

definition created_event :: "change_env \<Rightarrow> ChangeOperation \<Rightarrow> pydict \<Rightarrow> (string \<times> pydict) result" where
  "created_event env x common =
     rbind (merged_pattern env (op_payload x) None (or_text (target_text x) (source_text env (op_payload x) ''pattern_id'' []))) (\<lambda>merged.
       let body = update_dict merged common; reason = PStr (source_text env (op_payload x) ''reason_code'' ''CURATOR_NEW_OBSERVATION'')
       in Inr (''pattern.candidate_created'', with_evidence (body_provenances body)
            (update_dict body [(''reason'', reason), (''reason_code'', reason)])))"

definition updated_event :: "change_env \<Rightarrow> ChangeOperation \<Rightarrow> pydict option \<Rightarrow> pydict \<Rightarrow> (string \<times> pydict) result" where
  "updated_event env x state common =
     rbind (merged_pattern env (op_payload x) state (target_text x)) (\<lambda>merged.
     rbind (int_value env (value_or (get_default (op_payload x) ''revision''
         (case state of None \<Rightarrow> PInt 0 | Some s \<Rightarrow> get_default s ''revision'' (PInt 0))) (PInt 0))) (\<lambda>revision.
       let body = dict_set ''pattern_id'' (target_value (op_target_id x)) (update_dict merged common);
           reason = PStr (source_text env (op_payload x) ''reason_code'' ''CURATOR_UPDATE'')
       in Inr (if op_operation x = ''PROMOTE_PATTERN'' then ''pattern.promoted'' else ''pattern.revised'',
            update_dict (with_evidence (body_provenances body) body)
              [(''revision'', PInt revision), (''reason'', reason), (''reason_code'', reason)])))"

definition ended_event :: "change_env \<Rightarrow> ChangeOperation \<Rightarrow> pydict option \<Rightarrow> pydict \<Rightarrow> string \<times> pydict" where
  "ended_event env x state common =
     (let deprecates = (op_operation x = ''DEPRECATE_PATTERN''); known = (case state of None \<Rightarrow> [] | Some s \<Rightarrow> s);
          reason = PStr (source_text env (op_payload x) ''reason_code'' (if deprecates then ''CONTRADICTION_REVIEW'' else ''RETENTION_EXPIRED''))
      in (if deprecates then ''pattern.deprecated'' else ''pattern.tombstoned'',
          update_dict common [(''pattern_id'', target_value (op_target_id x)),
            (''cluster_id'', PStr (str_by env (get_default known ''cluster_id'' (target_value (op_target_id x))))),
            (''reason'', reason), (''reason_code'', reason),
            (''evidence_refs'', text_items (items_or (item_texts env (op_payload x) ''evidence_refs'') (item_texts env known ''provenances'')))]))"

definition redacted_event :: "change_env \<Rightarrow> ChangeSet \<Rightarrow> ChangeOperation \<Rightarrow> pydict \<Rightarrow> (string \<times> pydict) result" where
  "redacted_event env c x common =
     (let source = op_payload x in
      rbind (persisted_identifier env (str_by env (value_or (item_of source ''reference_hash'') (PStr (hd (cs_source_hashes c))))) ''reference'' False) (\<lambda>ref_hash.
      rbind (persisted_identifier env (str_by env (value_or (item_of source ''approval_identity_hash'') (get_default source ''approved_by'' (PStr []))))
          ''approval-identity'' False) (\<lambda>approval.
        Inr (''reference.redacted'', update_dict common [(''reference_id'', target_value (op_target_id x)),
          (''reference_hash'', PStr ref_hash), (''approval_identity_hash'', PStr approval)]))))"

definition event_payload :: "change_env \<Rightarrow> ChangeSet \<Rightarrow> ChangeOperation \<Rightarrow> pydict option \<Rightarrow> (string \<times> pydict) result" where
  "event_payload env c x state =
     (let kind = op_operation x in
      rbind (common_fields env c x state) (\<lambda>common.
        if kind = ''CREATE_OBSERVATION'' then map_sum id (\<lambda>body. (''observation.recorded'', body)) (observation_event env c x common)
        else if kind = ''ATTACH_EVIDENCE'' then attached_event env x state common
        else if kind = ''CREATE_CANDIDATE'' then created_event env x common
        else if kind \<in> {''PROMOTE_PATTERN'', ''REVISE_PATTERN''} then updated_event env x state common
        else if kind \<in> {''DEPRECATE_PATTERN'', ''TOMBSTONE_PATTERN''} then Inr (ended_event env x state common)
        else if kind = ''REDACT_REFERENCE'' then redacted_event env c x common
        else Inr (''curation.no_change'', dict_set ''reason_code'' (PStr (source_text env (op_payload x) ''reason_code'' ''NO_CHANGE'')) common)))"

definition operation_event_id :: "change_env \<Rightarrow> string \<Rightarrow> nat \<Rightarrow> ChangeOperation \<Rightarrow> string" where
  "operation_event_id env changeset_id index x = ''evt_changeset_'' @ take 32 (stable_hash (digest_by env) (repr_by env)
     (PDict [(''changeset_id'', PStr changeset_id), (''index'', PInt (int index)), (''operation'', PDict (operation_to_dict x))]))"

definition application_marker_id :: "change_env \<Rightarrow> string \<Rightarrow> pydict \<Rightarrow> string" where
  "application_marker_id env changeset_id payload = ''evt_changeset_'' @ take 32 (stable_hash (digest_by env) (repr_by env)
     (PDict [(''changeset_id'', PStr changeset_id), (''marker'', PDict payload)]))"

definition change_event :: "change_env \<Rightarrow> ChangeSet \<Rightarrow> string \<Rightarrow> pydict \<Rightarrow> string \<Rightarrow> Event" where
  "change_event env c kind payload event_id =
     create_event kind (cs_generated_at c) ''external-intelligence'' (cx_machine env) payload event_id"

text \<open>What an operation does to the states that the later ones of the change set see.\<close>

definition OPERATION_STATUS :: "string dict" where
  "OPERATION_STATUS = [(''PROMOTE_PATTERN'', ''active''), (''REVISE_PATTERN'', ''active''), (''DEPRECATE_PATTERN'', ''deprecated''),
     (''TOMBSTONE_PATTERN'', ''tombstoned'')]"

definition store_after :: "change_env \<Rightarrow> ChangeOperation \<Rightarrow> pydict \<Rightarrow> state_store \<Rightarrow> state_store result" where
  "store_after env x payload st = (case op_target_id x of
       None \<Rightarrow> Inr st
     | Some t \<Rightarrow>
         if t = [] then Inr st
         else if op_operation x = ''CREATE_CANDIDATE'' then
           rbind (items_at payload ''provenances'') (\<lambda>provenances. Inr
             \<lparr>ss_names = dict_set t (length (ss_cells st)) (ss_names st), ss_cells = ss_cells st @
               [[(''pattern_id'', PStr t), (''cluster_id'', PStr (source_text env payload ''cluster_id'' t)), (''status'', PStr ''candidate''),
                 (''rule'', PStr (source_text env payload ''rule'' [])), (''classification'', PStr (payload_class env payload)),
                 (''provenances'', provenances), (''revision'', PInt 0)]]\<rparr>)
         else (case map_of (ss_names st) t of
             None \<Rightarrow> Inr st
           | Some a \<Rightarrow>
               let status = (case map_of OPERATION_STATUS (op_operation x) of Some u \<Rightarrow> PStr u
                     | None \<Rightarrow> get_default (ss_cells st ! a) ''status'' (PStr ''candidate''))
               in Inr (st\<lparr>ss_cells := (ss_cells st)[a := dict_set ''status'' status (ss_cells st ! a)]\<rparr>)))"

fun built_events :: "change_env \<Rightarrow> ChangeSet \<Rightarrow> nat \<Rightarrow> ChangeOperation list \<Rightarrow> state_store \<Rightarrow> Event list result" where
  "built_events env c index [] st = Inr []"
| "built_events env c index (x # xs) st =
     rbind (event_payload env c x (if target_text x = [] then None else state_named st (target_text x))) (\<lambda>(kind, payload).
     rbind (store_after env x payload st) (\<lambda>st'.
     rbind (built_events env c (Suc index) xs st') (\<lambda>events.
       Inr (change_event env c kind payload (operation_event_id env (cs_changeset_id c) index x) # events))))"

definition marker_payload :: "change_env \<Rightarrow> ChangeSet \<Rightarrow> string list \<Rightarrow> pydict" where
  "marker_payload env c ids =
     [(''changeset_id'', PStr (cs_changeset_id c)), (''candidate_id'', PStr (cs_candidate_id c)),
      (''changeset_hash'', PStr (changeset_fingerprint env c)), (''operation_count'', PInt (int (length (cs_operations c)))),
      (''event_ids'', text_items ids), (''policy_version'', PStr (cs_policy_version c)), (''provider_id'', PStr (cs_provider_id c)),
      (''actor'', PStr ''external-intelligence''), (''source_hashes'', text_items (cs_source_hashes c))]"

definition marker_event :: "change_env \<Rightarrow> ChangeSet \<Rightarrow> string list \<Rightarrow> Event" where
  "marker_event env c ids = change_event env c ''curation.changeset.applied'' (marker_payload env c ids)
     (application_marker_id env (cs_changeset_id c) (marker_payload env c ids))"

subsection \<open>Results and failures\<close>

record AppliedMarkerRef =
  am_marker_id :: string
  am_occurred_at :: string
  am_changeset_hash :: string

record ChangeResult =
  ca_applied :: bool
  ca_reason_code :: string
  ca_event_ids :: "string list"
  ca_changeset_id :: string
  ca_already_applied :: bool
  ca_validation :: ValidationResult
  ca_application_ref :: "AppliedMarkerRef option"

record change_world =
  aw_journal :: journal
  aw_failures :: "pydict list"

definition no_validation :: ValidationResult where
  "no_validation = \<lparr>vr_valid = False, vr_reason_codes = []\<rparr>"

definition not_applied :: "string \<Rightarrow> string \<Rightarrow> ValidationResult \<Rightarrow> ChangeResult" where
  "not_applied reason changeset_id validation = \<lparr>ca_applied = False, ca_reason_code = reason, ca_event_ids = [], ca_changeset_id = changeset_id,
     ca_already_applied = False, ca_validation = validation, ca_application_ref = None\<rparr>"

definition application_ref :: "change_env \<Rightarrow> Event \<Rightarrow> AppliedMarkerRef option" where
  "application_ref env marker = (case item_of (ev_payload marker) ''changeset_hash'' of
       PStr hash \<Rightarrow> if APPLICATION_MARKER_ID (ev_event_id marker) \<and> timestamp_check env (ev_occurred_at marker) = Inr () \<and> hash_re hash
         then Some \<lparr>am_marker_id = ev_event_id marker, am_occurred_at = ev_occurred_at marker, am_changeset_hash = hash\<rparr> else None
     | _ \<Rightarrow> None)"

definition applied_marker :: "Event list \<Rightarrow> string \<Rightarrow> Event option" where
  "applied_marker events changeset_id = List.find (\<lambda>e. ev_event_type e = ''curation.changeset.applied''
     \<and> item_of (ev_payload e) ''changeset_id'' = PStr changeset_id) events"

fun first_pointer :: "change_env \<Rightarrow> nat \<Rightarrow> ChangeOperation list \<Rightarrow> string" where
  "first_pointer env index [] = ''/''"
| "first_pointer env index (x # xs) = (case in_issues (inspected_payload env (op_payload x)) of
       [] \<Rightarrow> first_pointer env (Suc index) xs
     | i # _ \<Rightarrow> ''/operations/'' @ decimal_text (int index) @ ''/payload'' @ (if pi_pointer i \<in> {[], ''/''} then [] else pi_pointer i))"

definition failure_row :: "change_env \<Rightarrow> ChangeSet \<Rightarrow> string \<Rightarrow> pydict" where
  "failure_row env c reason =
     [(''reason_code'', PStr (if SAFE_HOST_LABEL_RE reason then reason else ''APPLY_FAILED'')),
      (''source_hashes'', text_items (cs_source_hashes c)), (''field_path'', PStr (first_pointer env 0 (cs_operations c))),
      (''policy_version'', PStr (if SAFE_HOST_LABEL_RE (cs_policy_version c) then cs_policy_version c else ''unknown''))]"

definition log_failure :: "change_env \<Rightarrow> change_settings \<Rightarrow> ChangeSet \<Rightarrow> string \<Rightarrow> change_world \<Rightarrow> change_world" where
  "log_failure env settings c reason w =
     (if sg_runtime_outside settings then w\<lparr>aw_failures := aw_failures w @ [failure_row env c reason]\<rparr> else w)"

text \<open>\<open>type(exc).__name__\<close>.\<close>

definition exn_class :: "exn \<Rightarrow> string" where
  "exn_class e = (case e of ValueError _ \<Rightarrow> ''ValueError'' | TypeError _ \<Rightarrow> ''TypeError'' | KeyError _ \<Rightarrow> ''KeyError''
     | QueueError _ \<Rightarrow> ''QueueError'' | CaptureLedgerError _ \<Rightarrow> ''CaptureLedgerError''
     | ProviderSelectionError _ \<Rightarrow> ''ProviderSelectionError'' | PrivacyError _ \<Rightarrow> ''PrivacyError''
     | JournalIntegrityError _ \<Rightarrow> ''JournalIntegrityError'' | CommandQuoteError _ \<Rightarrow> ''CommandQuoteError'')"

subsection \<open>The application\<close>

text \<open>The events are written in order; the journal keeps those before a failure.\<close>

fun append_built :: "change_env \<Rightarrow> Event list \<Rightarrow> journal \<Rightarrow> journal \<times> unit result" where
  "append_built env [] j = (j, Inr ())"
| "append_built env (e # es) j = (case append_event (cx_journal env) e j of
     Inl x \<Rightarrow> (j, Inl x) | Inr (j', _) \<Rightarrow> append_built env es j')"

definition write_changeset ::
  "change_env \<Rightarrow> change_settings \<Rightarrow> ChangeSet \<Rightarrow> ValidationResult \<Rightarrow> Event list \<Rightarrow> change_world \<Rightarrow> change_world \<times> ChangeResult" where
  "write_changeset env settings c validation built w =
     (let marker = marker_event env c (map ev_event_id built);
          (j, written) = append_built env (built @ [marker]) (aw_journal w); w' = w\<lparr>aw_journal := j\<rparr>
      in case written of
           Inl e \<Rightarrow> (log_failure env settings c (exn_class e) w', not_applied (exn_class e) (cs_changeset_id c) (invalid_because (exn_class e)))
         | Inr _ \<Rightarrow> (w', \<lparr>ca_applied = True, ca_reason_code = ''APPLIED'', ca_event_ids = map ev_event_id (built @ [marker]),
             ca_changeset_id = cs_changeset_id c, ca_already_applied = False, ca_validation = validation,
             ca_application_ref = application_ref env marker\<rparr>))"

definition refused_changeset :: "change_env \<Rightarrow> change_settings \<Rightarrow> ChangeSet \<Rightarrow> ValidationResult \<Rightarrow> change_world \<Rightarrow> change_world \<times> ChangeResult" where
  "refused_changeset env settings c validation w =
     (let reason = (case vr_reason_codes validation of [] \<Rightarrow> ''CHANGESET_INVALID'' | r # _ \<Rightarrow> r)
      in (log_failure env settings c reason w, not_applied reason (cs_changeset_id c) validation))"

definition already_applied :: "change_env \<Rightarrow> ChangeSet \<Rightarrow> Event \<Rightarrow> ChangeResult" where
  "already_applied env c marker = \<lparr>ca_applied = True, ca_reason_code = ''ALREADY_APPLIED'', ca_event_ids = [],
     ca_changeset_id = cs_changeset_id c, ca_already_applied = True,
     ca_validation = \<lparr>vr_valid = True, vr_reason_codes = [''ALREADY_APPLIED'']\<rparr>, ca_application_ref = application_ref env marker\<rparr>"

definition apply_changeset ::
  "change_env \<Rightarrow> change_settings \<Rightarrow> change_input \<Rightarrow> change_world \<Rightarrow> (change_world \<times> ChangeResult) result" where
  "apply_changeset env settings v w = (case coerced env v of
       Inl _ \<Rightarrow> Inr (w, not_applied ''CHANGESET_SCHEMA_INVALID'' ''unknown'' no_validation)
     | Inr c \<Rightarrow> (case journal_events env (aw_journal w) of
           Inl e \<Rightarrow> Inr (refused_changeset env settings c (invalid_because (exn_text e)) w)
         | Inr existing \<Rightarrow> (case applied_marker existing (cs_changeset_id c) of
               Some marker \<Rightarrow> Inr (w, already_applied env c marker)
             | None \<Rightarrow>
                 rbind (validate_changeset env settings (Built c) (aw_journal w)) (\<lambda>validation.
                   if \<not> vr_valid validation then Inr (refused_changeset env settings c validation w)
                   else
                     rbind (pattern_states env existing) (\<lambda>st.
                     rbind (built_events env c 0 (cs_operations c) st) (\<lambda>built.
                       Inr (write_changeset env settings c validation built w)))))))"
end
