(* ===== verification/Change_Atomicity.thy ===== *)
theory Change_Atomicity
  imports Change_Apply Change_Laws
begin

section \<open>A change set is applied as a whole\<close>

text \<open>
  What readers of the journal see of a change set: nothing before the marker is written, and all of it
  afterwards. The events of a change set name it, and iteration hides events whose change set has no
  marker.
\<close>

subsection \<open>Iteration as a function of the files\<close>

definition event_at :: "journal_env \<Rightarrow> string \<times> entry \<Rightarrow> Event" where
  "event_at env x = (case read_event env (fst x) (snd x) of Inr e \<Rightarrow> e | Inl _ \<Rightarrow> undefined)"

definition readable :: "journal_env \<Rightarrow> string \<times> entry \<Rightarrow> bool" where
  "readable env x \<longleftrightarrow> (\<exists>e. read_event env (fst x) (snd x) = Inr e)"

lemma rmap_total: "rmap f xs = Inr ys \<longleftrightarrow> (\<forall>x \<in> set xs. \<exists>y. f x = Inr y) \<and> ys = map (\<lambda>x. projr (f x)) xs"
  by (induction xs arbitrary: ys) (auto simp: result_simps)

lemma read_all:
  "rmap (\<lambda>(path, content). read_event env path content) js = Inr es \<longleftrightarrow> (\<forall>x \<in> set js. readable env x) \<and> es = map (event_at env) js"
proof -
  have "map (\<lambda>x. projr (case x of (path, content) \<Rightarrow> read_event env path content)) js = map (event_at env) js"
    if "\<forall>x \<in> set js. readable env x"
    using that by (auto simp: event_at_def readable_def case_prod_unfold)
  then show ?thesis unfolding rmap_total by (auto simp: readable_def case_prod_unfold)
qed

definition event_key :: "Event \<Rightarrow> string \<times> string" where
  "event_key e = (ev_occurred_at e, ev_event_id e)"

text \<open>The change sets a list of events commits, and what iteration shows of a journal.\<close>

definition committed :: "journal_env \<Rightarrow> journal \<Rightarrow> string set" where
  "committed env j = set (committed_changesets env (map (event_at env) j))"

definition shown :: "journal_env \<Rightarrow> string set \<Rightarrow> Event \<Rightarrow> bool" where
  "shown env ids e \<longleftrightarrow> ev_event_type e = ''curation.changeset.applied''
   \<or> \<not> truthy (item_of (ev_payload e) ''changeset_id'') \<or> text_value env (item_of (ev_payload e) ''changeset_id'') \<in> ids"

lemma iterated_iff:
  "iter_events env j False = Inr events \<longleftrightarrow> (\<forall>x \<in> set j. readable env x)
     \<and> events = sort_key event_key (filter (shown env (committed env j)) (map (event_at env) (sort_key fst j)))"
proof -
  have same: "set (committed_changesets env (sort_key event_key (map (event_at env) (sort_key fst j)))) = committed env j"
    by (simp add: committed_def committed_changesets_def)
  have keys: "(\<lambda>e. (ev_occurred_at e, ev_event_id e)) = event_key" by (simp add: fun_eq_iff event_key_def)
  have "visible env ids = shown env (set ids)" for ids by (simp add: fun_eq_iff visible_def shown_def)
  then show ?thesis
    unfolding iter_events_def Let_def rbind_eq_Inr read_all keys by (auto simp: same filter_sort)
qed

lemma committed_append: "committed env (j @ [x]) = committed env j \<union> set (committed_changesets env [event_at env x])"
  by (simp add: committed_def committed_changesets_def)

lemma committed_other: "ev_event_type e \<noteq> ''curation.changeset.applied'' \<Longrightarrow> committed_changesets env [e] = []"
  by (simp add: committed_changesets_def)

lemma hidden_append:
  assumes "readable env x" "ev_event_type (event_at env x) \<noteq> ''curation.changeset.applied''"
    and "\<not> shown env (committed env j) (event_at env x)" "iter_events env j False = Inr events"
  shows "iter_events env (j @ [x]) False = Inr events"
proof -
  have ids: "committed env (j @ [x]) = committed env j"
    unfolding committed_append using committed_other [OF assms(2)] by simp
  have "filter (shown env ids) (map (event_at env) (sort_key fst (j @ [x]))) = filter (shown env ids) (map (event_at env) (sort_key fst j))"
    if "\<not> shown env ids (event_at env x)" for ids
    using that by (simp add: filter_map filter_sort)
  then show ?thesis using assms unfolding iterated_iff ids by auto
qed

subsection \<open>Events of a change set\<close>

text \<open>An event names the change set it belongs to.\<close>

definition belongs :: "string \<Rightarrow> Event \<Rightarrow> bool" where
  "belongs cid e \<longleftrightarrow> map_of (ev_payload e) ''changeset_id'' = Some (PStr cid)"

definition operation_event :: "string \<Rightarrow> Event \<Rightarrow> bool" where
  "operation_event cid e \<longleftrightarrow> belongs cid e \<and> ev_event_type e \<noteq> ''curation.changeset.applied'' \<and> ev_schema_version e = 1
     \<and> distinct (map fst (ev_payload e))"

lemma kept_key: "k \<notin> fst ` set e \<Longrightarrow> map_of (update_dict d e) k = map_of d k"
proof -
  assume "k \<notin> fst ` set e"
  then have "map_of (rev e) k = None" by (simp add: map_of_eq_None_iff)
  then show ?thesis by (simp add: update_dict_lookup)
qed

lemma put_key: "distinct (map fst e) \<Longrightarrow> map_of e k = Some v \<Longrightarrow> map_of (update_dict d e) k = Some v"
proof -
  assume e: "distinct (map fst e)" "map_of e k = Some v"
  have "distinct (map fst (rev e))" using e(1) unfolding rev_map [symmetric] distinct_rev .
  then have "map_of (rev e) = map_of e" using e(1) by (subst map_of_inject_set) simp_all
  then show ?thesis using e(2) by (simp add: update_dict_lookup)
qed

lemma common_fields_id:
  assumes "common_fields env c x state = Inr common"
  shows "distinct (map fst common)" "map_of common ''changeset_id'' = Some (PStr (cs_changeset_id c))"
  using assms by (auto simp: common_fields_def common_hosts_def Let_def split: option.splits if_splits)

lemma body_id:
  assumes "common_fields env c x state = Inr common"
  shows "map_of (update_dict d common) ''changeset_id'' = Some (PStr (cs_changeset_id c))"
  using common_fields_id [OF assms] by (rule put_key)

lemma distinct_update_dict: "distinct (map fst d) \<Longrightarrow> distinct (map fst (update_dict d e))"
  unfolding update_dict_def by (rule distinct_fold_dict_set)

lemma merged_distinct: "merged_pattern env payload state target = Inr merged \<Longrightarrow> distinct (map fst merged)"
  by (auto simp: merged_pattern_def merged_hosts_def Let_def rbind_eq_Inr split: if_splits)

lemma event_payload_distinct:
  assumes "event_payload env c x state = Inr (kind, payload)"
  shows "distinct (map fst payload)"
proof -
  obtain common where common: "common_fields env c x state = Inr common"
    using assms by (auto simp: event_payload_def Let_def rbind_eq_Inr)
  note parts = common_fields_id(1) [OF common] merged_distinct
  show ?thesis using assms unfolding event_payload_def Let_def common rbind_Inr
    by (elim if_eqE)
      (auto simp: parts(1) observation_event_def attached_event_def created_event_def updated_event_def ended_event_def redacted_event_def
        with_evidence_def Let_def rbind_eq_Inr distinct_update_dict distinct_update dest!: map_sum_Inr merged_distinct)
qed

lemma event_payload_id:
  assumes "event_payload env c x state = Inr (kind, payload)"
  shows "map_of payload ''changeset_id'' = Some (PStr (cs_changeset_id c)) \<and> kind \<noteq> ''curation.changeset.applied''"
proof -
  obtain common where common: "common_fields env c x state = Inr common"
    using assms by (auto simp: event_payload_def Let_def rbind_eq_Inr)
  note ids = common_fields_id(2) [OF common] body_id [OF common]
  show ?thesis using assms unfolding event_payload_def Let_def common rbind_Inr
    by (elim if_eqE)
      (auto simp: ids observation_event_def attached_event_def created_event_def updated_event_def ended_event_def redacted_event_def
        with_evidence_def Let_def rbind_eq_Inr kept_key map_of_dict_set dest!: map_sum_Inr split: if_splits)
qed

lemma built_belong:
  assumes "built_events env c n xs st = Inr built"
  shows "\<forall>e \<in> set built. operation_event (cs_changeset_id c) e"
  using assms
proof (induction xs arbitrary: n st built)
  case (Cons x xs)
  then obtain kind payload st' events where "event_payload env c x (if target_text x = [] then None else state_named st (target_text x)) = Inr (kind, payload)"
    "built_events env c (Suc n) xs st' = Inr events"
    "built = change_event env c kind payload (operation_event_id env (cs_changeset_id c) n x) # events"
    by (auto simp: rbind_eq_Inr split: prod.splits)
  with Cons.IH event_payload_id event_payload_distinct show ?case
    by (fastforce simp: operation_event_def belongs_def change_event_def create_event_def)
qed simp

lemma marker_belongs: "belongs (cs_changeset_id c) (marker_event env c ids)"
  by (simp add: belongs_def marker_event_def change_event_def create_event_def marker_payload_def)

subsection \<open>Appending the events of a change set\<close>

definition sha_digests :: "journal_env \<Rightarrow> bool" where
  "sha_digests env \<longleftrightarrow> (\<forall>s. length (jo_sha256 env s) = 64 \<and> list_all hex_lower (jo_sha256 env s))"

text \<open>The payloads the files hold are dictionaries.\<close>

definition dictionaries :: "journal_env \<Rightarrow> journal \<Rightarrow> bool" where
  "dictionaries env j \<longleftrightarrow> (\<forall>x \<in> set j. readable env x \<longrightarrow> distinct (map fst (ev_payload (event_at env x))))"

text \<open>An event of the change set is in the journal.\<close>

definition holds_event :: "journal_env \<Rightarrow> string \<Rightarrow> journal \<Rightarrow> Event \<Rightarrow> bool" where
  "holds_event env cid j e \<longleftrightarrow> (\<exists>x \<in> set j. readable env x \<and> ev_event_id (event_at env x) = ev_event_id e
     \<and> ev_event_type (event_at env x) = ev_event_type e \<and> belongs cid (event_at env x))"

lemma equal_payloads:
  assumes "py_eq (PDict d) (PDict e)" "distinct (map fst d)" "map_of e k = Some (PStr s)"
  shows "map_of d k = Some (PStr s)"
proof -
  have len: "length d = length e" and eq: "\<forall>(k, v) \<in> set d. \<exists>w. map_of e k = Some w \<and> py_eq v w"
    using assms(1) by (simp_all add: eq_fields_iff)
  have "fst ` set d \<subseteq> fst ` set e" using eq by (force dest: map_of_SomeD)
  moreover have "card (fst ` set e) \<le> card (fst ` set d)"
    using len distinct_card [OF assms(2)] card_length [of "map fst e"] by simp
  ultimately have "fst ` set d = fst ` set e" by (intro card_seteq) simp_all
  then have "k \<in> fst ` set d" using assms(3) by (metis map_of_eq_None_iff option.distinct(1))
  then obtain v where v: "map_of d k = Some v" by (metis map_of_eq_None_iff not_None_eq)
  then have "py_eq v (PStr s)" using eq assms(3) by (fastforce dest: map_of_SomeD)
  then show ?thesis using v by (cases v) (auto split: if_splits)
qed

lemma equal_canonical:
  assumes "py_eq (PDict (canonical_dict a)) (PDict (canonical_dict b))"
  shows "ev_event_id a = ev_event_id b \<and> ev_event_type a = ev_event_type b \<and> py_eq (PDict (ev_payload a)) (PDict (ev_payload b))"
  using assms by (simp add: canonical_dict_def split: if_splits)

lemma distinct_json_fields: "distinct (map fst (json_fields d)) \<longleftrightarrow> distinct (map fst d)"
proof -
  have "mset (map fst (json_fields d)) = mset (map fst d)"
    by (simp add: json_fields_def image_mset.compositionality comp_def case_prod_unfold)
  then show ?thesis by (rule mset_eq_imp_distinct_iff)
qed

lemma stored_belongs: "belongs cid e \<Longrightarrow> belongs cid (stored_event (materialize env e))"
  by (simp add: belongs_def)

lemma materialized_type: "ev_event_type (materialize env e) = ev_event_type e"
  by (simp add: materialize_def Let_def)

lemma sealed_v1:
  assumes "ev_schema_version e = 1" "append_event env e j = Inr (j', path)"
  obtains "sealed env e = Inr (materialize env e)" "existing_duplicate env (materialize env e) j = Inr None"
    "event_path env (materialize env e) = Inr path"
proof -
  obtain m where m: "sealed env e = Inr m" using assms(2) by (auto simp: append_event_def rbind_eq_Inr)
  note m' = sealedE(1) [OF m]
  have "existing_duplicate env m j = Inr None" using assms(1) by (simp add: existing_duplicate_def m')
  moreover have "event_path env m = Inr path"
    using assms(2) unfolding append_event_def m rbind_Inr calculation option.case
    by (auto simp: rbind_eq_Inr if_Inl_eq_Inr split: option.splits)
  ultimately show ?thesis using m m' that by simp
qed

text \<open>A successful append: the file is there, with the event; the journal has at most this new file.\<close>

lemma appended_file:
  assumes sha: "sha_digests env" and version: "ev_schema_version e = 1" and cid: "belongs cid e" "distinct (map fst (ev_payload e))"
    and append: "append_event env e j = Inr (j', path)" and dicts: "dictionaries env j"
  obtains content where "readable env (path, content)" "ev_event_id (event_at env (path, content)) = ev_event_id e"
    "ev_event_type (event_at env (path, content)) = ev_event_type e" "belongs cid (event_at env (path, content))"
    "(path, content) \<in> set j'" "j' = j \<or> j' = j @ [(path, content)]" "dictionaries env j'"
proof (rule sealed_v1 [OF version append])
  let ?m = "materialize env e"
  assume s: "sealed env e = Inr ?m" "existing_duplicate env ?m j = Inr None" "event_path env ?m = Inr path"
  show ?thesis
  proof (cases "map_of j path")
    case None
    let ?c = "Json (jsonify (PDict (event_to_dict ?m)))"
    have j': "j' = j @ [(path, ?c)]"
      using append None unfolding append_event_def s rbind_Inr option.case
      by (simp add: dict_set_new map_of_eq_None_iff del: jsonify.simps)
    have read: "read_event env path ?c = Inr (stored_event ?m)"
      using sha version by (intro stored_readable sealedE(2,3) [OF s(1)] materialize_seal) (simp_all add: sha_digests_def)
    then have at: "event_at env (path, ?c) = stored_event ?m" "readable env (path, ?c)" by (simp_all add: event_at_def readable_def)
    have "distinct (map fst (ev_payload (stored_event ?m)))" using cid(2) by (simp add: distinct_json_fields)
    then show ?thesis using that [of ?c] at j' dicts cid
      by (auto simp: stored_belongs materialized_type dictionaries_def simp del: jsonify.simps)
  next
    case (Some content)
    then have "\<exists>existing. read_event env path content = Inr existing \<and> py_eq (PDict (canonical_dict existing)) (PDict (canonical_dict ?m)) \<and> j' = j"
      using append unfolding append_event_def s rbind_Inr option.case by (auto simp: rbind_eq_Inr if_Inl_eq_Inr)
    then obtain existing where ex: "read_event env path content = Inr existing"
      "py_eq (PDict (canonical_dict existing)) (PDict (canonical_dict ?m))" "j' = j" by blast
    have member: "(path, content) \<in> set j" using Some by (rule map_of_SomeD)
    have at: "event_at env (path, content) = existing" "readable env (path, content)" using ex(1) by (simp_all add: event_at_def readable_def)
    then have "distinct (map fst (ev_payload existing))" using dicts member by (auto simp: dictionaries_def)
    then have "belongs cid existing"
      using equal_payloads [of "ev_payload existing" "ev_payload ?m"] equal_canonical [OF ex(2)] cid by (simp add: belongs_def)
    then show ?thesis using that [of content] at ex(3) member dicts equal_canonical [OF ex(2)] by (simp add: materialized_type)
  qed
qed

definition names_change :: "journal_env \<Rightarrow> string \<Rightarrow> Event \<Rightarrow> bool" where
  "names_change env cid e \<longleftrightarrow> text_value env (item_of (ev_payload e) ''changeset_id'') = cid"

lemma belongs_shown: "belongs cid e \<Longrightarrow> cid \<in> ids \<Longrightarrow> shown env ids e"
  by (simp add: belongs_def shown_def get_default_def text_value_def)

lemma belongs_hidden:
  "belongs cid e \<Longrightarrow> cid \<noteq> [] \<Longrightarrow> cid \<notin> ids \<Longrightarrow> ev_event_type e \<noteq> ''curation.changeset.applied'' \<Longrightarrow> \<not> shown env ids e"
  by (simp add: belongs_def shown_def get_default_def text_value_def)

lemma belongs_names: "belongs cid e \<Longrightarrow> names_change env cid e"
  by (simp add: belongs_def names_change_def get_default_def text_value_def)

lemma holds_mono: "holds_event env cid j e \<Longrightarrow> set j \<subseteq> set j' \<Longrightarrow> holds_event env cid j' e"
  by (auto simp: holds_event_def)

text \<open>Writing the events of the operations shows nothing, wherever it stops.\<close>

lemma operations_hidden:
  assumes "sha_digests (cx_journal env)" "cid \<noteq> []" "\<forall>e \<in> set es. operation_event cid e"
    and "dictionaries (cx_journal env) j" "iter_events (cx_journal env) j False = Inr before" "cid \<notin> committed (cx_journal env) j"
    and "append_built env es j = (j', r)"
  shows "iter_events (cx_journal env) j' False = Inr before \<and> dictionaries (cx_journal env) j' \<and> set j \<subseteq> set j'
    \<and> cid \<notin> committed (cx_journal env) j' \<and> (r = Inr () \<longrightarrow> (\<forall>e \<in> set es. holds_event (cx_journal env) cid j' e))"
  using assms(3-7)
proof (induction es arbitrary: j)
  case (Cons e es)
  let ?env = "cx_journal env"
  show ?case
  proof (cases "append_event ?env e j")
    case (Inl x)
    then show ?thesis using Cons.prems by auto
  next
    case (Inr out)
    obtain j1 path where out: "out = (j1, path)" by (cases out)
    have e: "belongs cid e" "distinct (map fst (ev_payload e))" "ev_event_type e \<noteq> ''curation.changeset.applied''" "ev_schema_version e = 1"
      using Cons.prems(1) by (simp_all add: operation_event_def)
    obtain content where c: "readable ?env (path, content)" "ev_event_id (event_at ?env (path, content)) = ev_event_id e"
      "ev_event_type (event_at ?env (path, content)) = ev_event_type e" "belongs cid (event_at ?env (path, content))"
      "(path, content) \<in> set j1" "j1 = j \<or> j1 = j @ [(path, content)]" "dictionaries ?env j1"
      using Inr out by (auto intro: appended_file [OF assms(1) e(4,1,2) _ Cons.prems(2)])
    have "iter_events ?env j1 False = Inr before"
      using c(6) hidden_append [OF c(1) _ belongs_hidden [OF c(4) assms(2) Cons.prems(4)]] c(3) e(3) Cons.prems(3) by auto
    moreover have "cid \<notin> committed ?env j1"
      using c(6) Cons.prems(4) committed_append committed_other [of "event_at ?env (path, content)"] c(3) e(3) by auto
    ultimately have step: "iter_events ?env j' False = Inr before" "dictionaries ?env j'" "set j1 \<subseteq> set j'"
      "cid \<notin> committed ?env j'" "r = Inr () \<longrightarrow> (\<forall>e \<in> set es. holds_event ?env cid j' e)"
      using Cons.IH [of j1] Cons.prems(1,5) c(7) by (auto simp: Inr out)
    have "holds_event ?env cid j1 e" using c(1-5) by (auto simp: holds_event_def)
    then show ?thesis using step c(6) holds_mono [OF _ step(3)] by auto
  qed
qed auto

text \<open>The marker shows everything that names the change set.\<close>

lemma marker_commits:
  assumes sha: "sha_digests env" and cid: "cid \<noteq> []" and m: "belongs cid m" "ev_event_type m = ''curation.changeset.applied''"
      "ev_schema_version m = 1" "distinct (map fst (ev_payload m))"
    and j: "dictionaries env j" "iter_events env j False = Inr before" and append: "append_event env m j = Inr (j', path)"
  obtains after where "iter_events env j' False = Inr after" "set before \<subseteq> set after" "\<forall>e \<in> set after - set before. names_change env cid e"
    "\<And>e. holds_event env cid j e \<Longrightarrow> \<exists>a \<in> set after. ev_event_id a = ev_event_id e \<and> belongs cid a"
    "\<exists>a \<in> set after. ev_event_id a = ev_event_id m \<and> ev_event_type a = ev_event_type m \<and> belongs cid a"
proof (rule appended_file [OF sha m(3,1,4) append j(1)])
  fix content :: entry
  let ?x = "(path, content)"
  assume c: "readable env ?x" "ev_event_id (event_at env ?x) = ev_event_id m" "ev_event_type (event_at env ?x) = ev_event_type m"
    "belongs cid (event_at env ?x)" "?x \<in> set j'" and grown: "j' = j \<or> j' = j @ [?x]"
  note before = j(2) [unfolded iterated_iff]
  define after where "after = sort_key event_key (filter (shown env (committed env j')) (map (event_at env) (sort_key fst j')))"
  have all: "\<forall>x \<in> set j'. readable env x" using before grown c(1) by auto
  then have after: "iter_events env j' False = Inr after" unfolding iterated_iff after_def by simp
  have members: "set after = {e \<in> event_at env ` set j'. shown env (committed env j') e}" by (auto simp: after_def)
  have old: "set before = {e \<in> event_at env ` set j. shown env (committed env j) e}" using before by auto
  have ids: "cid \<in> committed env j'" "committed env j \<subseteq> committed env j'" "committed env j' \<subseteq> insert cid (committed env j)"
  proof -
    have own: "committed_changesets env [event_at env ?x] = [cid]"
      using c(3,4) m(2) cid by (simp add: committed_changesets_def belongs_def get_default_def text_value_def)
    have "set (committed_changesets env [event_at env ?x]) \<subseteq> committed env j'"
      using c(5) unfolding committed_def committed_changesets_def by auto
    then show "cid \<in> committed env j'" by (simp add: own)
    show "committed env j \<subseteq> committed env j'" "committed env j' \<subseteq> insert cid (committed env j)"
      using grown by (auto simp: committed_append own)
  qed
  have "set before \<subseteq> set after" using grown ids(2) unfolding old members by (auto simp: shown_def)
  moreover have "\<forall>e \<in> set after - set before. names_change env cid e"
    using grown ids(3) c(4) belongs_names [of cid _ env] unfolding old members by (auto simp: shown_def names_change_def)
  moreover have "\<exists>a \<in> set after. ev_event_id a = ev_event_id e \<and> belongs cid a" if held: "holds_event env cid j e" for e
  proof -
    obtain x where x: "x \<in> set j" "ev_event_id (event_at env x) = ev_event_id e" "belongs cid (event_at env x)"
      using held unfolding holds_event_def by blast
    have "x \<in> set j'" using x(1) grown by auto
    then show ?thesis using x(2,3) belongs_shown [OF x(3) ids(1)] unfolding members by blast
  qed
  moreover have "\<exists>a \<in> set after. ev_event_id a = ev_event_id m \<and> ev_event_type a = ev_event_type m \<and> belongs cid a"
    using c belongs_shown [OF c(4) ids(1)] unfolding members by blast
  ultimately show ?thesis using that after by blast
qed

subsection \<open>Properties\<close>

lemma fresh_changeset:
  assumes "\<forall>s. jo_nfkc env (jo_nfkc env s) = jo_nfkc env s" "iter_events env j False = Inr before" "applied_marker before cid = None"
    and "cid \<noteq> []"
  shows "cid \<notin> committed env j"
proof
  assume "cid \<in> committed env j"
  then obtain e where e: "e \<in> event_at env ` set j" "ev_event_type e = ''curation.changeset.applied''"
    "text_value env (item_of (ev_payload e) ''changeset_id'') = cid" "truthy (item_of (ev_payload e) ''changeset_id'')"
    by (auto simp: committed_def committed_changesets_def)
  have "e \<in> set before" using assms(2) e(1,2) unfolding iterated_iff by (auto simp: shown_def)
  moreover obtain path content where "read_event env path content = Inr e" using iterated_from_file [OF assms(2) calculation] by blast
  then have fields: "\<forall>(k, v) \<in> set (ev_payload e). \<exists>kind. map_of EVENT_PAYLOAD_FIELDS k = Some kind \<and> field_ok (jo_nfkc env) kind v"
    using read_closed [OF assms(1)] by blast
  have kind: "map_of EVENT_PAYLOAD_FIELDS ''changeset_id'' = Some (''string'', Some 160)" by (simp add: EVENT_PAYLOAD_FIELDS_def)
  have "item_of (ev_payload e) ''changeset_id'' = PStr cid"
  proof (cases "map_of (ev_payload e) ''changeset_id''")
    case None
    then show ?thesis using e(4) by (simp add: get_default_def)
  next
    case (Some v)
    then have "field_ok (jo_nfkc env) (''string'', Some 160) v" using fields kind by (fastforce dest: map_of_SomeD)
    then show ?thesis using Some e(3) by (cases v) (auto simp: field_ok_def LIST_KINDS_def get_default_def text_value_def)
  qed
  ultimately show False using assms(3) e(2) by (auto simp: applied_marker_def find_None_iff)
qed

lemma applied_marker_found: "e \<in> set events \<Longrightarrow> ev_event_type e = ''curation.changeset.applied'' \<Longrightarrow> belongs cid e \<Longrightarrow>
    \<exists>m. applied_marker events cid = Some m"
  by (cases "applied_marker events cid") (auto simp: applied_marker_def find_None_iff belongs_def get_default_def)

text \<open>The ways an application can end.\<close>

lemma application_cases:
  assumes "apply_changeset env settings v w = Inr (w', r)" "coerced env v = Inr c"
  obtains (refused) "aw_journal w' = aw_journal w" "\<not> ca_applied r"
  | (again) existing marker where "journal_events env (aw_journal w) = Inr existing" "applied_marker existing (cs_changeset_id c) = Some marker"
      "w' = w" "r = already_applied env c marker"
  | (written) existing validation st built where "journal_events env (aw_journal w) = Inr existing"
      "applied_marker existing (cs_changeset_id c) = None" "built_events env c 0 (cs_operations c) st = Inr built"
      "write_changeset env settings c validation built w = (w', r)"
proof -
  have logs: "aw_journal (log_failure env settings c reason w) = aw_journal w" for reason by (simp add: log_failure_def)
  show ?thesis
    using assms that
    by (auto simp: apply_changeset_def refused_changeset_def not_applied_def logs rbind_eq_Inr Let_def
        split: sum.splits option.splits if_splits)
qed


text \<open>Writing: everything or nothing.\<close>

lemma write_outcome:
  assumes sha: "sha_digests (cx_journal env)" and cid: "cs_changeset_id c \<noteq> []"
    and built: "\<forall>e \<in> set built. operation_event (cs_changeset_id c) e"
    and dicts: "dictionaries (cx_journal env) (aw_journal w)" and before: "iter_events (cx_journal env) (aw_journal w) False = Inr before"
    and fresh: "cs_changeset_id c \<notin> committed (cx_journal env) (aw_journal w)"
    and out: "write_changeset env settings c validation built w = (w', r)"
  shows "\<not> ca_applied r \<and> iter_events (cx_journal env) (aw_journal w') False = Inr before
    \<or> ca_applied r \<and> (\<exists>after. iter_events (cx_journal env) (aw_journal w') False = Inr after \<and> set before \<subseteq> set after
        \<and> (\<forall>e \<in> set after - set before. names_change (cx_journal env) (cs_changeset_id c) e)
        \<and> (\<forall>i \<in> set (ca_event_ids r). \<exists>e \<in> set after. ev_event_id e = i \<and> belongs (cs_changeset_id c) e)
        \<and> (\<exists>a \<in> set after. ev_event_type a = ''curation.changeset.applied'' \<and> belongs (cs_changeset_id c) a))"
proof -
  let ?env = "cx_journal env" and ?m = "marker_event env c (map ev_event_id built)"
  obtain j1 r1 where first: "append_built env built (aw_journal w) = (j1, r1)" by force
  note hidden = operations_hidden [OF sha cid built dicts before fresh first]
  have m: "belongs (cs_changeset_id c) ?m" "ev_event_type ?m = ''curation.changeset.applied''" "ev_schema_version ?m = 1"
    "distinct (map fst (ev_payload ?m))"
    by (simp_all add: marker_belongs) (simp_all add: marker_event_def change_event_def create_event_def marker_payload_def)
  have logs: "aw_journal (log_failure env settings c reason x) = aw_journal x" for reason x by (simp add: log_failure_def)
  have chain: "append_built env (xs @ [y]) j = (case append_built env xs j of (j', Inl e) \<Rightarrow> (j', Inl e) | (j', Inr _) \<Rightarrow> append_built env [y] j')"
    for xs y j by (induction xs arbitrary: j) (auto split: sum.splits)
  show ?thesis
  proof (cases r1)
    case (Inl e)
    then show ?thesis using out hidden by (auto simp: write_changeset_def chain first Let_def not_applied_def logs)
  next
    case (Inr u)
    show ?thesis
    proof (cases "append_event ?env ?m j1")
      case (Inl e)
      then show ?thesis using out hidden Inr by (auto simp: write_changeset_def chain first Let_def not_applied_def logs \<open>r1 = Inr u\<close>)
    next
      case (Inr x)
      obtain j2 path where x: "x = (j2, path)" by (cases x)
      have r: "aw_journal w' = j2" "ca_applied r" "ca_event_ids r = map ev_event_id (built @ [?m])"
        using out Inr by (auto simp: write_changeset_def chain first Let_def \<open>r1 = Inr u\<close> x)
      have held: "holds_event ?env (cs_changeset_id c) j1 e" if "e \<in> set built" for e
        using hidden \<open>r1 = Inr u\<close> that by simp
      show ?thesis
        by (rule marker_commits [OF sha cid m, of j1 before j2 path]) (use hidden Inr x r held m(2) in \<open>auto 0 4\<close>)
    qed
  qed
qed


text \<open>
  C4. A change set is applied as a whole: whatever fails, and wherever it fails, readers of the journal
  see what they saw before; if it is applied they see, besides that, every event it reports, each
  naming the change set, and whatever else they see for the first time names the change set too.
\<close>

theorem changeset_is_applied_as_a_whole:
  assumes "sha_digests (cx_journal env)" "\<forall>s. jo_nfkc (cx_journal env) (jo_nfkc (cx_journal env) s) = jo_nfkc (cx_journal env) s"
    and "dictionaries (cx_journal env) (aw_journal w)" "iter_events (cx_journal env) (aw_journal w) False = Inr before"
    and "coerced env v = Inr c" "cs_changeset_id c \<noteq> []" "apply_changeset env settings v w = Inr (w', r)"
  shows "\<exists>after. iter_events (cx_journal env) (aw_journal w') False = Inr after \<and> set before \<subseteq> set after
    \<and> (\<not> ca_applied r \<longrightarrow> after = before)
    \<and> (ca_applied r \<longrightarrow> (\<forall>i \<in> set (ca_event_ids r). \<exists>e \<in> set after. ev_event_id e = i \<and> belongs (cs_changeset_id c) e))
    \<and> (\<forall>e \<in> set after - set before. names_change (cx_journal env) (cs_changeset_id c) e)"
  using assms(7,5)
proof (cases rule: application_cases)
  case refused
  then show ?thesis using assms(4) by auto
next
  case (again existing marker)
  then show ?thesis using assms(4) by (auto simp: already_applied_def)
next
  case (written existing validation st built)
  have "existing = before" using written(1) assms(4) by (simp add: journal_events_def)
  with written(2) have fresh: "cs_changeset_id c \<notin> committed (cx_journal env) (aw_journal w)"
    using fresh_changeset [OF assms(2,4) _ assms(6)] by simp
  show ?thesis
    using write_outcome [OF assms(1,6) built_belong [OF written(3)] assms(3,4) fresh written(4)] by blast
qed

text \<open>
  Applying is idempotent: once a change set is applied, applying it again reports that and changes
  nothing, neither the journal nor the log of failures.
\<close>

theorem second_application_changes_nothing:
  assumes "sha_digests (cx_journal env)" "\<forall>s. jo_nfkc (cx_journal env) (jo_nfkc (cx_journal env) s) = jo_nfkc (cx_journal env) s"
    and "dictionaries (cx_journal env) (aw_journal w)" "iter_events (cx_journal env) (aw_journal w) False = Inr before"
    and "coerced env v = Inr c" "cs_changeset_id c \<noteq> []" "apply_changeset env settings v w = Inr (w', r)" "ca_applied r"
  shows "\<exists>r'. apply_changeset env settings v w' = Inr (w', r') \<and> ca_applied r' \<and> ca_already_applied r'"
proof -
  have found: "\<exists>r'. apply_changeset env settings v w' = Inr (w', r') \<and> ca_applied r' \<and> ca_already_applied r'"
    if "journal_events env (aw_journal w') = Inr events" "applied_marker events (cs_changeset_id c) = Some m" for events m
    using that by (simp add: apply_changeset_def assms(5) already_applied_def)
  show ?thesis
    using assms(7,5)
  proof (cases rule: application_cases)
    case refused
    then show ?thesis using assms(8) by simp
  next
    case (again existing marker)
    then show ?thesis using found by simp
  next
    case (written existing validation st built)
    have "existing = before" using written(1) assms(4) by (simp add: journal_events_def)
    with written(2) have fresh: "cs_changeset_id c \<notin> committed (cx_journal env) (aw_journal w)"
      using fresh_changeset [OF assms(2,4) _ assms(6)] by simp
    obtain after a where after: "iter_events (cx_journal env) (aw_journal w') False = Inr after" "a \<in> set after"
        "ev_event_type a = ''curation.changeset.applied''" "belongs (cs_changeset_id c) a"
      using write_outcome [OF assms(1,6) built_belong [OF written(3)] assms(3,4) fresh written(4)] assms(8) by blast
    then obtain m where "applied_marker after (cs_changeset_id c) = Some m" using applied_marker_found by blast
    then show ?thesis using found [of after m] after(1) by (simp add: journal_events_def)
  qed
qed

subsection \<open>Samples\<close>

definition sample_world :: change_world where
  "sample_world = \<lparr>aw_journal = [], aw_failures = []\<rparr>"

definition sample_event_fields :: "(string \<times> (string \<times> nat option) \<times> pyval) list" where
  "sample_event_fields = [(''pattern_id'', (''string'', Some 160), PStr ''pat_1''), (''cluster_id'', (''string'', Some 160), PStr ''pat_1''), (''rule'', (''string'', Some 12000), PStr ''Retry''),
     (''provenances'', (''string_list'', Some 240), PList [PStr sample_source]), (''scopes'', (''string_list'', Some 240), PList []), (''applicability'', (''string_list'', Some 240), PList []), (''benefit_count'', (''nonnegative_integer'', None), PInt 0),
     (''classification'', (''string'', Some 32), PStr ''private-reusable''), (''precondition'', (''string'', Some 500), PStr []), (''failure_mode'', (''string'', Some 500), PStr []),
     (''version_constraint'', (''nullable_string'', Some 160), PNone), (''contradiction_count'', (''nonnegative_integer'', None), PInt 0), (''changeset_id'', (''string'', Some 160), PStr ''cs_1''),
     (''candidate_id'', (''string'', Some 160), PStr ''cand_1''), (''change_operation'', (''string'', Some 80), PStr ''CREATE_CANDIDATE''), (''policy_version'', (''string'', Some 160), PStr ''promotion-v1''),
     (''provider_id'', (''string'', Some 160), PStr ''p''), (''actor'', (''string'', Some 160), PStr ''ei''), (''source_hashes'', (''hash_list'', Some 71), PList [PStr sample_source]),
     (''reason'', (''string'', Some 160), PStr ''CURATOR_NEW_OBSERVATION''), (''reason_code'', (''reason'', Some 80), PStr ''CURATOR_NEW_OBSERVATION''),
     (''evidence_refs'', (''string_list'', Some 240), PList [PStr sample_source]), (''evidence_count'', (''nonnegative_integer'', None), PInt 1)]"

definition sample_event_payload :: pydict where
  "sample_event_payload = untyped sample_event_fields"

lemma sample_event_payload: "event_payload sample_change_env sample_change sample_operation None = Inr (''pattern.candidate_created'', sample_event_payload)"
  by code_simp

definition sample_built :: Event where
  "sample_built = change_event sample_change_env sample_change ''pattern.candidate_created'' sample_event_payload
     (operation_event_id sample_change_env ''cs_1'' 0 sample_operation)"

definition sample_marker_fields :: "(string \<times> (string \<times> nat option) \<times> pyval) list" where
  "sample_marker_fields = [(''changeset_id'', (''string'', Some 160), PStr ''cs_1''), (''candidate_id'', (''string'', Some 160), PStr ''cand_1''),
     (''changeset_hash'', (''string'', Some 160), PStr (''sha256:5'' @ replicate 63 (CHR ''0''))), (''operation_count'', (''nonnegative_integer'', None), PInt 1),
     (''event_ids'', (''string_list'', Some 160), PList [PStr (''evt_changeset_4'' @ replicate 31 (CHR ''0''))]), (''policy_version'', (''string'', Some 160), PStr ''promotion-v1''),
     (''provider_id'', (''string'', Some 160), PStr ''p''), (''actor'', (''string'', Some 160), PStr ''external-intelligence''), (''source_hashes'', (''hash_list'', Some 71), PList [PStr sample_source])]"

definition sample_marker_payload :: pydict where
  "sample_marker_payload = untyped sample_marker_fields"

lemma sample_marker_payload:
  "marker_payload sample_change_env sample_change [''evt_changeset_4'' @ replicate 31 (CHR ''0'')] = sample_marker_payload"
  by code_simp

definition sample_marker :: Event where
  "sample_marker = marker_event sample_change_env sample_change [ev_event_id sample_built]"

definition plain_payload :: "pydict \<Rightarrow> bool" where
  "plain_payload d \<longleftrightarrow> int (utf8_length (canonical_json (repr_by sample_change_env) (PDict d))) \<le> 5000
     \<and> plain_fields ''private-reusable'' (Some EVENT_PAYLOAD_FIELDS) [] d \<and> \<not> list_ex (has_key d) HOST_APPLICABILITY_FIELDS
     \<and> get_default d ''classification'' (PStr ''private-reusable'') = PStr ''private-reusable''"

lemma plain_appended:
  assumes e: "e = change_event sample_change_env sample_change kind d i" "kind \<noteq> []" "i \<noteq> []"
    and d: "plain_payload d" and free: "map_of j (''2026/01/'' @ i @ ''.json'') = None"
  shows "\<exists>content. append_event (cx_journal sample_change_env) e j =
    Inr (j @ [(''2026/01/'' @ i @ ''.json'', content)], ''2026/01/'' @ i @ ''.json'')"
proof -
  let ?env = "cx_journal sample_change_env" and ?m = "materialize (cx_journal sample_change_env) e"
  have nfkc: "jo_nfkc ?env = (\<lambda>s. s)" by (rule sample_change_env_simps)
  have v: "ev_schema_version e = 1" "ev_payload e = d" "ev_provenance e = []" "ev_event_id e = i" "ev_event_type e = kind"
    "ev_actor e \<noteq> []" "ev_machine_id e \<noteq> []"
    by (simp_all add: e change_event_def create_event_def sample_change_env_def)
  have m: "ev_event_type ?m = kind" "ev_actor ?m = ev_actor e" "ev_machine_id ?m = ev_machine_id e"
    by (simp_all add: materialize_def v)
  have "utf8_length (canonical_json (jo_repr ?env) (PDict d)) \<le> 1024 * 1024"
    using d by (simp add: plain_payload_def del: canonical_json.simps)
  then have "validate_schema ?env ?m = Inr ()"
    unfolding validate_schema_iff m materialize_simps v MAX_EVENT_PAYLOAD_BYTES_def using e(2,3) v(6,7) by simp
  moreover have "payload_classification ?env ?m = ''private-reusable''"
    using d by (simp add: payload_classification_def v plain_payload_def text_value_def)
  then have "validate_persisted_event_payload ?env ?m = Inr ()"
    using d plain_valid [of "''private-reusable''" "Some EVENT_PAYLOAD_FIELDS" d "jo_repr ?env" "1024 * 1024"] empty_provenance_valid
    unfolding persisted_payload_iff nfkc inspect_event_payload_def
    by (simp add: plain_payload_def v del: canonical_json.simps)
  ultimately have "sealed ?env e = Inr ?m" by (simp add: sealed_def v)
  moreover have "event_path ?env ?m = Inr (''2026/01/'' @ i @ ''.json'')"
    by (simp add: event_path_def sample_change_env_def v)
  moreover have "existing_duplicate ?env ?m j = Inr None" by (simp add: existing_duplicate_def v)
  moreover have "dict_set (''2026/01/'' @ i @ ''.json'') content j = j @ [(''2026/01/'' @ i @ ''.json'', content)]" for content
    using free unfolding map_of_eq_None_iff by (rule dict_set_new)
  ultimately show ?thesis unfolding append_event_def using free by (simp only: rbind_Inr option.case sum.inject prod.inject) blast
qed

lemma chunked: "list_all P (take n xs) \<Longrightarrow> list_all P (drop n xs) \<Longrightarrow> list_all P xs"
  by (metis append_take_drop_id list_all_append)

lemma sample_fields_plain:
  "list_all (plain_entry ''private-reusable'') (take 6 (take 12 sample_event_fields))"
  "list_all (plain_entry ''private-reusable'') (drop 6 (take 12 sample_event_fields))"
  "list_all (plain_entry ''private-reusable'') (take 5 (drop 12 sample_event_fields))"
  "list_all (plain_entry ''private-reusable'') (drop 5 (drop 12 sample_event_fields))"
proof -
  show "list_all (plain_entry ''private-reusable'') (take 6 (take 12 sample_event_fields))" by code_simp
  show "list_all (plain_entry ''private-reusable'') (drop 6 (take 12 sample_event_fields))" by code_simp
  show "list_all (plain_entry ''private-reusable'') (take 5 (drop 12 sample_event_fields))" by code_simp
  show "list_all (plain_entry ''private-reusable'') (drop 5 (drop 12 sample_event_fields))" by code_simp
qed

lemma sample_fields_typed:
  "list_all (\<lambda>(k, e, _). map_of EVENT_PAYLOAD_FIELDS k = Some e) (take 6 (take 12 sample_event_fields))"
  "list_all (\<lambda>(k, e, _). map_of EVENT_PAYLOAD_FIELDS k = Some e) (drop 6 (take 12 sample_event_fields))"
  "list_all (\<lambda>(k, e, _). map_of EVENT_PAYLOAD_FIELDS k = Some e) (take 5 (drop 12 sample_event_fields))"
  "list_all (\<lambda>(k, e, _). map_of EVENT_PAYLOAD_FIELDS k = Some e) (drop 5 (drop 12 sample_event_fields))"
proof -
  show "list_all (\<lambda>(k, e, _). map_of EVENT_PAYLOAD_FIELDS k = Some e) (take 6 (take 12 sample_event_fields))" by (simp add: sample_event_fields_def EVENT_PAYLOAD_FIELDS_def)
  show "list_all (\<lambda>(k, e, _). map_of EVENT_PAYLOAD_FIELDS k = Some e) (drop 6 (take 12 sample_event_fields))" by (simp add: sample_event_fields_def EVENT_PAYLOAD_FIELDS_def)
  show "list_all (\<lambda>(k, e, _). map_of EVENT_PAYLOAD_FIELDS k = Some e) (take 5 (drop 12 sample_event_fields))" by (simp add: sample_event_fields_def EVENT_PAYLOAD_FIELDS_def)
  show "list_all (\<lambda>(k, e, _). map_of EVENT_PAYLOAD_FIELDS k = Some e) (drop 5 (drop 12 sample_event_fields))" by (simp add: sample_event_fields_def EVENT_PAYLOAD_FIELDS_def)
qed

lemma sample_built_plain: "plain_payload sample_event_payload"
proof -
  have "list_all (\<lambda>(k, e, _). map_of EVENT_PAYLOAD_FIELDS k = Some e) sample_event_fields"
    using chunked [OF chunked [OF sample_fields_typed(1,2)] chunked [OF sample_fields_typed(3,4)]] .
  moreover have "list_all (plain_entry ''private-reusable'') sample_event_fields"
    using chunked [OF chunked [OF sample_fields_plain(1,2)] chunked [OF sample_fields_plain(3,4)]] .
  moreover have "int (utf8_length (canonical_json (repr_by sample_change_env) (PDict sample_event_payload))) \<le> 5000"
    "\<not> list_ex (has_key sample_event_payload) HOST_APPLICABILITY_FIELDS"
    "get_default sample_event_payload ''classification'' (PStr ''private-reusable'') = PStr ''private-reusable''" by code_simp+
  ultimately show ?thesis unfolding plain_payload_def using plain_typed unfolding sample_event_payload_def by blast
qed

lemma sample_marker_plain: "plain_payload sample_marker_payload"
proof -
  have "list_all (\<lambda>(k, e, _). map_of EVENT_PAYLOAD_FIELDS k = Some e) sample_marker_fields"
    by (simp add: sample_marker_fields_def EVENT_PAYLOAD_FIELDS_def)
  moreover have "list_all (plain_entry ''private-reusable'') sample_marker_fields"
    "int (utf8_length (canonical_json (repr_by sample_change_env) (PDict sample_marker_payload))) \<le> 5000"
    "\<not> list_ex (has_key sample_marker_payload) HOST_APPLICABILITY_FIELDS"
    "get_default sample_marker_payload ''classification'' (PStr ''private-reusable'') = PStr ''private-reusable''" by code_simp+
  ultimately show ?thesis unfolding plain_payload_def using plain_typed unfolding sample_marker_payload_def by blast
qed

lemma sample_ids: "operation_event_id sample_change_env ''cs_1'' 0 sample_operation = ''evt_changeset_4'' @ replicate 31 (CHR ''0'')"
   "application_marker_id sample_change_env ''cs_1'' sample_marker_payload = ''evt_changeset_c'' @ replicate 31 (CHR ''0'')"
  by code_simp+


lemma sample_appended:
  "\<exists>j. append_built sample_change_env [sample_built, sample_marker] [] = (j, Inr ())"
proof -
  have ids: "ev_event_id sample_built = ''evt_changeset_4'' @ replicate 31 (CHR ''0'')"
    by (simp add: sample_built_def change_event_def create_event_def sample_ids)
  have built: "sample_built = change_event sample_change_env sample_change ''pattern.candidate_created'' sample_event_payload
      (''evt_changeset_4'' @ replicate 31 (CHR ''0''))"
    by (simp add: sample_built_def sample_ids)
  have marker: "sample_marker = change_event sample_change_env sample_change ''curation.changeset.applied'' sample_marker_payload
      (''evt_changeset_c'' @ replicate 31 (CHR ''0''))"
    unfolding sample_marker_def marker_event_def ids sample_marker_payload by (simp add: sample_change_def sample_ids)
  obtain c1 where first: "append_event (cx_journal sample_change_env) sample_built [] = Inr ([] @ [(''2026/01/'' @ (''evt_changeset_4'' @ replicate 31 (CHR ''0'')) @ ''.json'', c1)],
      ''2026/01/'' @ (''evt_changeset_4'' @ replicate 31 (CHR ''0'')) @ ''.json'')"
    using plain_appended [OF built _ _ sample_built_plain, of "[]"] by auto
  have "map_of ([] @ [(''2026/01/'' @ (''evt_changeset_4'' @ replicate 31 (CHR ''0'')) @ ''.json'', c1)])
      (''2026/01/'' @ (''evt_changeset_c'' @ replicate 31 (CHR ''0'')) @ ''.json'') = None" by simp
  from plain_appended [OF marker _ _ sample_marker_plain this] first show ?thesis by auto
qed

lemma sample_applied:
  "\<exists>w r. apply_changeset sample_change_env sample_change_settings (Built sample_change) sample_world = Inr (w, r) \<and> ca_applied r"
proof -
  have known: "journal_events sample_change_env (aw_journal sample_world) = Inr []" "coerced sample_change_env (Built sample_change) = Inr sample_change"
    "pattern_states sample_change_env [] = Inr \<lparr>ss_names = [], ss_cells = []\<rparr>" "aw_journal sample_world = []"
    by (simp_all add: journal_events_def iter_events_def sample_world_def coerced_def pattern_states_def)
  have "built_events sample_change_env sample_change 0 (cs_operations sample_change) \<lparr>ss_names = [], ss_cells = []\<rparr> = Inr [sample_built]"
  proof -
    have ops: "cs_operations sample_change = [sample_operation]" "cs_changeset_id sample_change = ''cs_1''" by (simp_all add: sample_change_def)
    have "state_named \<lparr>ss_names = [], ss_cells = []\<rparr> (target_text sample_operation) = None" by (simp add: state_named_def)
    moreover have "\<exists>st. store_after sample_change_env sample_operation sample_event_payload \<lparr>ss_names = [], ss_cells = []\<rparr> = Inr st"
      by (simp add: store_after_def sample_operation_def items_at_def list_value_def get_default_def sample_event_payload_def untyped_def
          sample_event_fields_def)
    ultimately show ?thesis by (auto simp: ops sample_event_payload sample_built_def)
  qed
  moreover have "marker_event sample_change_env sample_change (map ev_event_id [sample_built]) = sample_marker"
    by (simp add: sample_marker_def)
  ultimately show ?thesis
    using sample_appended sample_change_valid known
    by (auto simp: apply_changeset_def applied_marker_def write_changeset_def Let_def)
qed

lemma sample_hypotheses:
  "sha_digests (cx_journal sample_change_env)"
  "\<forall>s. jo_nfkc (cx_journal sample_change_env) (jo_nfkc (cx_journal sample_change_env) s) = jo_nfkc (cx_journal sample_change_env) s"
  "dictionaries (cx_journal sample_change_env) (aw_journal sample_world)"
  "iter_events (cx_journal sample_change_env) (aw_journal sample_world) False = Inr []"
  "coerced sample_change_env (Built sample_change) = Inr sample_change" "cs_changeset_id sample_change \<noteq> []"
  "cs_changeset_id sample_change = ''cs_1''"
proof -
  have "hex_lower (hex_digit n)" if "n < 16" for n
  proof -
    have "list_all (\<lambda>n. hex_lower (hex_digit n)) [0..<16]" by code_simp
    then show ?thesis using that by (simp add: list_all_iff)
  qed
  moreover have "hex_lower (CHR ''0'')" by code_simp
  ultimately show "sha_digests (cx_journal sample_change_env)"
    by (simp add: sha_digests_def sample_change_env_def list_all_iff)
qed (simp_all add: sample_change_env_simps dictionaries_def sample_world_def iter_events_def coerced_def sample_change_def)

theorem changeset_is_applied_as_a_whole_witness:
  "\<exists>w r after. apply_changeset sample_change_env sample_change_settings (Built sample_change) sample_world = Inr (w, r) \<and> ca_applied r
    \<and> iter_events (cx_journal sample_change_env) (aw_journal w) False = Inr after
    \<and> list_all (\<lambda>i. list_ex (\<lambda>e. ev_event_id e = i \<and> belongs ''cs_1'' e) after) (ca_event_ids r)"
proof -
  obtain w r where out: "apply_changeset sample_change_env sample_change_settings (Built sample_change) sample_world = Inr (w, r)" "ca_applied r"
    using sample_applied by blast
  from changeset_is_applied_as_a_whole [OF sample_hypotheses(1-6) out(1)] out show ?thesis
    unfolding sample_hypotheses(7) list_all_iff list_ex_iff by blast
qed

theorem second_application_changes_nothing_witness:
  "\<exists>w r. apply_changeset sample_change_env sample_change_settings (Built sample_change) w = Inr (w, r) \<and> ca_already_applied r"
proof -
  obtain w r where out: "apply_changeset sample_change_env sample_change_settings (Built sample_change) sample_world = Inr (w, r)" "ca_applied r"
    using sample_applied by blast
  from second_application_changes_nothing [OF sample_hypotheses(1-6) out] show ?thesis by blast
qed

end
