(* ===== verification/Curator.thy ===== *)
theory Curator
  imports Change_Validation Claim_Text Inheritance_Gate
begin

section \<open>The curator\<close>

text \<open>
  \<^verbatim>\<open>src/src/ei/curator.py\<close>: a candidate the gate accepted becomes a change set. It is attached to
  the pattern that states the same claim, proposed as a revision of one it contradicts, or recorded as a new
  observation, and as a candidate if its evidence suffices. The applicability to hosts that comes with it
  is never widened. A candidate that is an object is the mapping of its attributes; so is a provider.
\<close>

subsection \<open>Applicability\<close>

definition host_label :: "pyval \<Rightarrow> string option" where
  "host_label v = (case validate_host_label v ''host'' False of Inr s \<Rightarrow> Some s | Inl _ \<Rightarrow> None)"

definition label_or_empty :: "pyval \<Rightarrow> string" where
  "label_or_empty v = (case host_label v of Some s \<Rightarrow> s | None \<Rightarrow> [])"

fun labels_of :: "pyval list \<Rightarrow> string list \<Rightarrow> string list option" where
  "labels_of [] found = Some found"
| "labels_of (v # vs) found = (case host_label v of
     None \<Rightarrow> None | Some s \<Rightarrow> if s \<in> set found then None else labels_of vs (found @ [s]))"

definition MAX_HOST_TARGETS :: nat where
  "MAX_HOST_TARGETS = 16"

definition host_labels :: "pyval \<Rightarrow> string list option" where
  "host_labels v = (case seq_items v of
     None \<Rightarrow> None
   | Some xs \<Rightarrow> (case labels_of xs [] of
         None \<Rightarrow> None | Some found \<Rightarrow> if length found > MAX_HOST_TARGETS then None else Some (sort found)))"

definition source_fallback :: "string \<Rightarrow> string \<Rightarrow> HostApplicability" where
  "source_fallback source_id source_family =
     (if source_id \<noteq> [] \<and> source_family \<noteq> [] then \<lparr>ha_scope = Host, ha_host_ids = [source_id], ha_host_families = []\<rparr>
      else \<lparr>ha_scope = Universal, ha_host_ids = [], ha_host_families = []\<rparr>)"

definition normalize_host_applicability :: "pyval \<Rightarrow> pyval \<Rightarrow> pyval \<Rightarrow> HostApplicability" where
  "normalize_host_applicability data source_host_id source_host_family =
     (let source_id = label_or_empty source_host_id; source_family = label_or_empty source_host_family;
          fallback = source_fallback source_id source_family
      in case data of
        PDict d \<Rightarrow> (case item_of d ''applicability_scope'' of
            PStr s \<Rightarrow> (case scope_of s of
                None \<Rightarrow> fallback
              | Some scope \<Rightarrow>
                  if scope = Universal \<and> (\<not> has_key d ''applicable_host_ids'' \<or> \<not> has_key d ''applicable_host_families'') then fallback
                  else (case (host_labels (get_default d ''applicable_host_ids'' (PTuple [])),
                      host_labels (get_default d ''applicable_host_families'' (PTuple []))) of
                    (Some ids, Some families) \<Rightarrow>
                      (case scope of
                         Universal \<Rightarrow> if ids \<noteq> [] \<or> families \<noteq> [] then fallback else \<lparr>ha_scope = Universal, ha_host_ids = [], ha_host_families = []\<rparr>
                       | Family \<Rightarrow> if families = [] \<or> ids \<noteq> [] \<or> source_family = [] \<or> source_family \<notin> set families then fallback
                           else \<lparr>ha_scope = Family, ha_host_ids = [], ha_host_families = families\<rparr>
                       | Host \<Rightarrow> if ids = [] \<or> families \<noteq> [] \<or> source_id = [] \<or> source_id \<notin> set ids then fallback
                           else \<lparr>ha_scope = Host, ha_host_ids = ids, ha_host_families = []\<rparr>)
                  | _ \<Rightarrow> fallback))
          | _ \<Rightarrow> fallback)
      | _ \<Rightarrow> fallback)"

subsection \<open>Reading a candidate\<close>

fun text_at :: "pydict \<Rightarrow> string list \<Rightarrow> string" where
  "text_at d [] = []"
| "text_at d (k # ks) = (case get_default d k (PStr []) of
     PStr s \<Rightarrow> if strip s \<noteq> [] then strip s else text_at d ks | _ \<Rightarrow> text_at d ks)"

definition nonblank_texts :: "pyval list \<Rightarrow> string list" where
  "nonblank_texts xs = sorted_set (filter (\<lambda>s. s \<noteq> []) (map (strip \<circ> the_str) (filter is_str xs)))"

fun list_at :: "pydict \<Rightarrow> string list \<Rightarrow> string list" where
  "list_at d [] = []"
| "list_at d (k # ks) = (case get_default d k (PStr []) of
     PStr s \<Rightarrow> if strip s \<noteq> [] then [strip s] else list_at d ks
   | v \<Rightarrow> (case seq_items v of Some xs \<Rightarrow> nonblank_texts xs | None \<Rightarrow> list_at d ks))"

declare text_at.simps [simp del] list_at.simps [simp del]

definition hash_of :: "change_env \<Rightarrow> string \<Rightarrow> string" where
  "hash_of env s = (if hash_re s then s else ''sha256:'' @ digest_by env s)"

definition curating_provider :: "pydict \<Rightarrow> string" where
  "curating_provider provider =
     (if nonempty_text (item_of provider ''provider_id'') then the_str (item_of provider ''provider_id'')
      else if nonempty_text (item_of provider ''id'') then the_str (item_of provider ''id'')
      else ''deterministic-curator'')"

datatype curator_input = Decided GateDecision | Fields pydict | Attributes pydict

definition CANDIDATE_ATTRIBUTES :: "string list" where
  "CANDIDATE_ATTRIBUTES = [''title'', ''claim'', ''rule'', ''precondition'', ''failure_mode'', ''benefit'', ''classification'',
     ''evidence_refs'', ''provenances'', ''scopes'', ''applicability'', ''domain'', ''source_ref'', ''source_kind'', ''cwd'',
     ''cwd_fingerprint'', ''outcome_status'', ''version_constraint'', ''exception'', ''exceptions'', ''source_host_id'',
     ''source_host_family'', ''applicability_scope'', ''applicable_host_ids'', ''applicable_host_families'']"

definition text_list :: "string list \<Rightarrow> pyval" where
  "text_list xs = PList (map PStr xs)"

definition candidate_data :: "curator_input \<Rightarrow> pydict" where
  "candidate_data c = (case c of
     Decided g \<Rightarrow> [(''title'', PStr (gd_candidate_title g)), (''claim'', PStr (gd_candidate_claim g)), (''benefit'', PStr (gd_benefit g)),
       (''classification'', PStr (gd_classification g)), (''evidence_refs'', text_list (gd_evidence_refs g)),
       (''source_host_id'', PStr (gd_source_host_id g)), (''source_host_family'', PStr (gd_source_host_family g)),
       (''applicability_scope'', PStr (gd_applicability_scope g)), (''applicable_host_ids'', text_list (gd_applicable_host_ids g)),
       (''applicable_host_families'', text_list (gd_applicable_host_families g))]
   | Fields d \<Rightarrow> d
   | Attributes d \<Rightarrow> map (\<lambda>k. (k, item_of d k)) (filter (has_key d) CANDIDATE_ATTRIBUTES))"

text \<open>A policy is given with the candidate or the default one; its fields have been checked.\<close>

definition curation_privacy :: "change_env \<Rightarrow> pydict \<Rightarrow> bool" where
  "curation_privacy env d =
     (let classification = str_by env (get_default d ''classification'' (PStr ''private-reusable''));
          material = join_lines (map (\<lambda>k. str_by env (get_default d k (PStr [])))
            [''title'', ''claim'', ''rule'', ''benefit'', ''precondition'', ''failure_mode''])
      in if classification \<notin> set WRITABLE then False
         else privacy_reusable (inspect_text (folded_by env) material classification (str_by env (get_default d ''source_ref'' (PStr ''curator'')))))"

subsection \<open>Payloads\<close>

definition curated_hosts :: "pydict \<Rightarrow> pydict" where
  "curated_hosts d =
     (let source_id = label_or_empty (item_of d ''source_host_id''); family = label_or_empty (item_of d ''source_host_family'');
          scope = normalize_host_applicability (PDict d) (PStr source_id) (PStr family)
      in [(''source_host_id'', PStr source_id), (''source_host_family'', PStr family), (''applicability_scope'', PStr (scope_name (ha_scope scope))),
          (''applicable_host_ids'', text_list (ha_host_ids scope)), (''applicable_host_families'', text_list (ha_host_families scope))])"

definition SAFE_REASON :: "string \<Rightarrow> bool" where
  "SAFE_REASON s \<longleftrightarrow> 1 \<le> length s \<and> length s \<le> 80
     \<and> list_all (\<lambda>c. CHR ''A'' \<le> c \<and> c \<le> CHR ''Z'' \<or> ascii_digit c \<or> c \<in> set ''_.:-'') s"

definition changeset_hosts_from :: "pydict \<Rightarrow> ChangeSet \<Rightarrow> ChangeSet" where
  "changeset_hosts_from payload c = c\<lparr>
     cs_source_host_id := the_str (item_of payload ''source_host_id''),
     cs_source_host_family := the_str (item_of payload ''source_host_family''),
     cs_applicability_scope := the_str (item_of payload ''applicability_scope''),
     cs_applicable_host_ids := map the_str (case seq_items (item_of payload ''applicable_host_ids'') of Some xs \<Rightarrow> xs | None \<Rightarrow> []),
     cs_applicable_host_families := map the_str (case seq_items (item_of payload ''applicable_host_families'') of Some xs \<Rightarrow> xs | None \<Rightarrow> [])\<rparr>"

definition curated_set :: "string \<Rightarrow> string \<Rightarrow> ChangeOperation list \<Rightarrow> string list \<Rightarrow> string \<Rightarrow> string \<Rightarrow> ChangeSet" where
  "curated_set changeset_id candidate_id operations hashes now provider_id =
     changeset_hosts_from (case operations of x # _ \<Rightarrow> op_payload x | [] \<Rightarrow> [])
       \<lparr>cs_changeset_id = changeset_id, cs_candidate_id = candidate_id, cs_operations = operations, cs_source_hashes = hashes,
        cs_policy_version = ''promotion-v1'', cs_generated_at = now, cs_provider_id = provider_id, cs_source_host_id = [],
        cs_source_host_family = [], cs_applicability_scope = [], cs_applicable_host_ids = [], cs_applicable_host_families = []\<rparr>"

definition no_change_payload :: "pydict \<Rightarrow> string \<Rightarrow> string \<Rightarrow> string list \<Rightarrow> pydict" where
  "no_change_payload d provider_id reason hashes =
     [(''actor'', PStr ''external-intelligence''), (''provider_id'', PStr provider_id), (''classification'', PStr ''private-reusable''),
      (''source_hashes'', text_list hashes), (''reason_code'', PStr reason)] @ curated_hosts d"

definition no_change :: "change_env \<Rightarrow> string \<Rightarrow> pydict \<Rightarrow> string \<Rightarrow> string \<Rightarrow> string list \<Rightarrow> ChangeSet result" where
  "no_change env now d provider_id reason hashes =
     (let safe = (if SAFE_REASON reason then reason else ''NO_CHANGE'');
          candidate_id = ''cand_'' @ take 20 (stable_hash (digest_by env) (repr_by env) (PDict [(''claim'', PStr (text_at d [''claim''])), (''reason'', PStr safe)]))
      in rbind (make_operation \<lparr>op_operation = ''NO_CHANGE'', op_target_id = None, op_payload = no_change_payload d provider_id safe hashes\<rparr>) (\<lambda>x.
         make_changeset env (curated_set (''cs_'' @ take 24 (stable_hash (digest_by env) (repr_by env)
             (PDict [(''candidate_id'', PStr candidate_id), (''operation'', PDict (operation_to_dict x))])))
           candidate_id [x] hashes now provider_id)))"

definition stated_or :: "string \<Rightarrow> string \<Rightarrow> string" where
  "stated_or s t = (if s = [] then t else s)"

definition lists_or :: "string list \<Rightarrow> string list \<Rightarrow> string list" where
  "lists_or xs ys = (if xs = [] then ys else xs)"

definition cwd_digest :: "change_env \<Rightarrow> pydict \<Rightarrow> string" where
  "cwd_digest env d = (case item_of d ''cwd_fingerprint'' of
     PStr s \<Rightarrow> if hash_re s then s else (case item_of d ''cwd'' of PStr c \<Rightarrow> if c = [] then [] else ''sha256:'' @ digest_by env c | _ \<Rightarrow> [])
   | _ \<Rightarrow> (case item_of d ''cwd'' of PStr c \<Rightarrow> if c = [] then [] else ''sha256:'' @ digest_by env c | _ \<Rightarrow> []))"

definition base_fields :: "change_env \<Rightarrow> pydict \<Rightarrow> string \<Rightarrow> string list \<Rightarrow> string \<Rightarrow> pydict" where
  "base_fields env d provider_id given source_identity =
     (let claim = text_at d [''claim'', ''candidate_claim'']; domain = stated_or (text_at d [''domain'']) ''general'';
          evidence = map (hash_of env) (list_at d [''evidence_refs'', ''evidence_ids'']);
          provenances = map (hash_of env) (lists_or (list_at d [''provenances'', ''provenance_refs'']) evidence);
          hashes = (if given = [] then unique (lists_or (lists_or evidence provenances) [hash_of env claim]) else given);
          benefit = text_at d [''benefit''];
          classification = str_by env (value_or (get_default d ''classification'' (PStr ''private-reusable'')) (PStr ''private-reusable''));
          exceptions = list_at d [''exceptions'']
      in [(''actor'', PStr ''external-intelligence''), (''provider_id'', PStr provider_id), (''classification'', PStr classification),
          (''source_hashes'', text_list hashes), (''title'', PStr (take 160 (text_at d [''title'', ''candidate_title'']))), (''claim'', PStr claim),
          (''rule'', PStr (take 1200 (text_at d [''rule'', ''claim'', ''candidate_claim'']))),
          (''precondition'', PStr (stated_or (text_at d [''precondition'']) ''The same problem structure is observed again'')),
          (''failure_mode'', PStr (stated_or (text_at d [''failure_mode'', ''outcome_status'']) ''Repeated investigation or rework is required'')),
          (''exception'', PStr (stated_or (text_at d [''exception'']) (case exceptions of x # _ \<Rightarrow> x | [] \<Rightarrow> []))),
          (''version_constraint'', (if text_at d [''version_constraint''] = [] then PNone else PStr (text_at d [''version_constraint'']))),
          (''domain'', PStr domain), (''scopes'', text_list (lists_or (list_at d [''scopes'', ''scope'']) [domain])),
          (''applicability'', text_list (lists_or (list_at d [''applicability'', ''scope_tags'']) [domain])),
          (''evidence_refs'', text_list (lists_or evidence hashes)), (''provenances'', text_list (lists_or provenances hashes)),
          (''benefit'', PStr benefit), (''benefit_count'', PInt (if benefit = [] then 0 else 1)),
          (''source_kind'', PStr (stated_or (text_at d [''source_kind'']) classification)), (''source_ref'', PStr source_identity),
          (''outcome_status'', PStr (stated_or (text_at d [''outcome_status'']) ''observed''))]
         @ (if cwd_digest env d = [] then [] else [(''cwd_fingerprint'', PStr (cwd_digest env d))]))"

definition base_payload :: "change_env \<Rightarrow> pydict \<Rightarrow> string \<Rightarrow> string list \<Rightarrow> pydict result" where
  "base_payload env d provider_id given =
     (let source_ref = stated_or (text_at d [''source_ref'']) ''curator'' in
      rbind (if hash_re source_ref then Inr source_ref else domain_hash env source_ref ''source-ref'') (\<lambda>source_identity.
        Inr (base_fields env d provider_id given source_identity @ curated_hosts d)))"

subsection \<open>Matching\<close>

datatype index_input = IndexItems "pydict list" | IndexDocument pyval

definition mapping_items :: "pyval list \<Rightarrow> pydict list" where
  "mapping_items xs = concat (map (\<lambda>v. case v of PDict d \<Rightarrow> [d] | _ \<Rightarrow> []) xs)"

definition patterns_of :: "index_input \<Rightarrow> pydict list" where
  "patterns_of index =
     (let listed = (\<lambda>v. case seq_items v of Some xs \<Rightarrow> mapping_items xs | None \<Rightarrow> []) in
      case index of
        IndexItems items \<Rightarrow> items
      | IndexDocument (PDict d) \<Rightarrow> (case get_default d ''patterns'' (get_default d ''items'' (PTuple [])) of
            PDict named \<Rightarrow> concat (map (\<lambda>(k, v). case v of PDict x \<Rightarrow> [dict_set ''pattern_id'' (PStr k) x] | _ \<Rightarrow> []) named)
          | v \<Rightarrow> listed v)
      | IndexDocument v \<Rightarrow> listed v)"

definition primary_text :: "pydict \<Rightarrow> string" where
  "primary_text d = text_at d [''claim'', ''rule'', ''title'']"

definition pattern_text :: "change_env \<Rightarrow> pydict \<Rightarrow> string" where
  "pattern_text env d = (let part = (\<lambda>k. str_by env (get_default d k (PStr []))) in
     part ''rule'' @ '' '' @ part ''claim'' @ '' '' @ part ''title'' @ '' '' @ part ''domain'')"

definition pattern_applicability :: "pydict \<Rightarrow> HostApplicability option" where
  "pattern_applicability d =
     (if \<not> list_ex (has_key d) HOST_APPLICABILITY_FIELDS then Some \<lparr>ha_scope = Universal, ha_host_ids = [], ha_host_families = []\<rparr>
      else case validate_host_applicability_mapping (PDict
          [(''source_host_id'', get_default d ''source_host_id'' (PStr [])), (''source_host_family'', get_default d ''source_host_family'' (PStr [])),
           (''applicability_scope'', get_default d ''applicability_scope'' (PStr ''universal'')),
           (''applicable_host_ids'', get_default d ''applicable_host_ids'' (PTuple [])),
           (''applicable_host_families'', get_default d ''applicable_host_families'' (PTuple []))]) False False of
        Inr a \<Rightarrow> Some a | Inl _ \<Rightarrow> None)"

definition applicability_compatible :: "HostApplicability option \<Rightarrow> HostApplicability option \<Rightarrow> bool" where
  "applicability_compatible target candidate = (case (target, candidate) of
     (Some t, Some c) \<Rightarrow>
       if ha_scope t = Universal \<or> ha_scope c = Universal then True
       else if ha_scope t \<noteq> ha_scope c then False
       else if ha_scope t = Family then list_ex (\<lambda>f. f \<in> set (ha_host_families c)) (ha_host_families t)
       else list_ex (\<lambda>i. i \<in> set (ha_host_ids c)) (ha_host_ids t)
   | _ \<Rightarrow> False)"

definition pattern_status :: "change_env \<Rightarrow> pydict \<Rightarrow> string" where
  "pattern_status env d = casefold (str_by env (get_default d ''status'' (PStr ''active'')))"

definition can_match :: "change_env \<Rightarrow> HostApplicability option \<Rightarrow> pydict \<Rightarrow> bool" where
  "can_match env scope d \<longleftrightarrow> pattern_status env d \<in> {''active'', ''candidate''} \<and> truthy (item_of d ''pattern_id'')
     \<and> applicability_compatible (pattern_applicability d) scope"

definition pattern_names :: "change_env \<Rightarrow> pydict \<Rightarrow> string \<times> string" where
  "pattern_names env d = (str_by env (item_of d ''pattern_id''), str_by env (get_default d ''cluster_id'' (PStr [])))"

definition match_score :: "change_env \<Rightarrow> string \<Rightarrow> pydict \<Rightarrow> rat" where
  "match_score env claim d =
     (let target = pattern_text env d; score = similarity (digest_by env) (folded_by env) claim target
      in if alias_match (folded_by env) claim target then max score (65 / 100) else score)"

datatype match = Exact pydict | Similar pydict

definition match_pattern :: "change_env \<Rightarrow> pydict list \<Rightarrow> string \<Rightarrow> HostApplicability option \<Rightarrow> match option" where
  "match_pattern env patterns claim scope =
     (let eligible = filter (can_match env scope) patterns;
          exact = sort_key (pattern_names env) (filter (\<lambda>d. normalize_claim (folded_by env) claim = normalize_claim (folded_by env) (primary_text d)) eligible);
          scored = sort_key (\<lambda>d. (- round_units 12 (match_score env claim d), pattern_names env d))
            (filter (\<lambda>d. match_score env claim d \<ge> 45 / 100) eligible)
      in case exact of d # _ \<Rightarrow> Some (Exact d) | [] \<Rightarrow> (case scored of d # _ \<Rightarrow> Some (Similar d) | [] \<Rightarrow> None))"

subsection \<open>Curation\<close>

definition hosts_of_payload :: "pydict \<Rightarrow> pydict" where
  "hosts_of_payload d = map (\<lambda>k. (k, item_of d k)) HOST_APPLICABILITY_FIELDS"

definition evidence_payload :: "change_env \<Rightarrow> pydict \<Rightarrow> pydict \<Rightarrow> string list \<Rightarrow> string \<Rightarrow> pydict \<Rightarrow> pydict" where
  "evidence_payload env target base hashes provider_id extra =
     [(''actor'', PStr ''external-intelligence''), (''provider_id'', PStr provider_id),
      (''classification'', PStr (str_by env (get_default target ''classification'' (item_of base ''classification'')))),
      (''source_hash'', PStr (hd hashes)), (''source_hashes'', text_list hashes), (''evidence_refs'', text_list (unique hashes))]
     @ extra @ hosts_of_payload base"

definition curated :: "change_env \<Rightarrow> string \<Rightarrow> string \<Rightarrow> ChangeOperation list \<Rightarrow> string list \<Rightarrow> string \<Rightarrow> ChangeSet result" where
  "curated env now candidate_id operations hashes provider_id =
     (let known = unique (filter hash_re hashes); used = (if known = [] then [''sha256:'' @ replicate 64 (CHR ''0'')] else known) in
      rbind (rmap make_operation operations) (\<lambda>xs.
        make_changeset env (curated_set (''cs_'' @ take 24 (stable_hash (digest_by env) (repr_by env)
            (PDict [(''candidate_id'', PStr candidate_id), (''operations'', PList (map (\<lambda>x. PDict (operation_to_dict x)) xs)), (''source_hashes'', text_list used)])))
          candidate_id xs used now provider_id)))"

definition attach_operation :: "change_env \<Rightarrow> pydict \<Rightarrow> pydict \<Rightarrow> string list \<Rightarrow> string \<Rightarrow> string \<Rightarrow> ChangeOperation" where
  "attach_operation env target base hashes provider_id kind =
     \<lparr>op_operation = ''ATTACH_EVIDENCE'', op_target_id = Some (str_by env (item_of target ''pattern_id'')),
      op_payload = evidence_payload env target base hashes provider_id [(''provenances'', text_list (unique hashes)), (''match_kind'', PStr kind)]\<rparr>"

definition contradiction_operation :: "change_env \<Rightarrow> pydict \<Rightarrow> pydict \<Rightarrow> string list \<Rightarrow> string \<Rightarrow> int \<Rightarrow> ChangeOperation" where
  "contradiction_operation env target base hashes provider_id prior =
     (let target_id = Some (str_by env (item_of target ''pattern_id'')) in
      if prior + 1 \<ge> 3 \<and> pattern_status env target = ''active'' then
        \<lparr>op_operation = ''DEPRECATE_PATTERN'', op_target_id = target_id,
         op_payload = evidence_payload env target base hashes provider_id [(''reason_code'', PStr ''CONTRADICTION_REVIEW'')]\<rparr>
      else
        \<lparr>op_operation = ''REVISE_PATTERN'', op_target_id = target_id,
         op_payload = fold (\<lambda>(k, v) d. dict_set k v d) [(''source_hash'', PStr (hd hashes)), (''proposal_only'', PBool True),
           (''reason_code'', PStr ''CONTRADICTION_REVIEW''), (''contradiction_count'', PInt (prior + 1))] base\<rparr>)"

definition new_operations :: "change_env \<Rightarrow> PromotionPolicy \<Rightarrow> string \<Rightarrow> pydict \<Rightarrow> string list \<Rightarrow> ChangeOperation list" where
  "new_operations env policy candidate_id base hashes =
     (let hashed = stable_hash (digest_by env) (repr_by env); rule = the_str (item_of base ''rule'');
          provenances = (case seq_items (item_of base ''provenances'') of Some xs \<Rightarrow> map the_str xs | None \<Rightarrow> []);
          observation = \<lparr>op_operation = ''CREATE_OBSERVATION'',
            op_target_id = Some (''obs_'' @ take 20 (hashed (PDict [(''candidate_id'', PStr candidate_id), (''source'', PStr (hd hashes))]))), op_payload = base\<rparr>;
          candidate = \<lparr>op_operation = ''CREATE_CANDIDATE'',
            op_target_id = Some (''pat_'' @ take 20 (hashed (PStr (normalize_claim (folded_by env) rule)))), op_payload = base\<rparr>
      in if int (length (unique provenances)) \<ge> pp_independent_provenance_count policy \<and> int (length rule) \<le> pp_max_rule_chars policy
         then [observation, candidate] else [observation])"

definition gate_accepted :: "curator_input \<Rightarrow> bool" where
  "gate_accepted c = (case c of
     Decided g \<Rightarrow> gd_decision g = ''YES''
   | Fields d \<Rightarrow> item_of d ''decision'' \<in> {PNone, PStr ''YES''}
   | Attributes _ \<Rightarrow> True)"

definition candidate_hashes :: "change_env \<Rightarrow> pydict \<Rightarrow> string list" where
  "candidate_hashes env d = unique (map (hash_of env) (list_at d [''evidence_refs'', ''source_hashes'', ''source_hash'']))"

definition curated_operations :: "change_env \<Rightarrow> PromotionPolicy \<Rightarrow> pydict list \<Rightarrow> string \<Rightarrow> string \<Rightarrow> pydict \<Rightarrow> string list \<Rightarrow> string \<Rightarrow> ChangeOperation list result" where
  "curated_operations env policy patterns claim candidate_id base hashes provider_id =
     (case match_pattern env patterns claim (pattern_applicability base) of
        Some (Exact target) \<Rightarrow> Inr [attach_operation env target base hashes provider_id ''exact'']
      | Some (Similar target) \<Rightarrow>
          if classify_polarity (folded_by env) claim \<noteq> classify_polarity (folded_by env) (pattern_text env target) then
            rbind (int_value env (value_or (get_default target ''contradiction_count'' (PInt 0)) (PInt 0))) (\<lambda>prior.
              Inr [contradiction_operation env target base hashes provider_id prior])
          else Inr [attach_operation env target base hashes provider_id ''similar'']
      | None \<Rightarrow> Inr (new_operations env policy candidate_id base hashes))"

definition curate_candidate ::
  "change_env \<Rightarrow> string \<Rightarrow> curator_input \<Rightarrow> index_input \<Rightarrow> pydict \<Rightarrow> PromotionPolicy \<Rightarrow> ChangeSet result" where
  "curate_candidate env now candidate index provider policy =
     (if \<not> gate_accepted candidate then Inl (ValueError ''CURATOR_REQUIRES_GATE_YES'')
      else let d = candidate_data candidate; provider_id = curating_provider provider; claim = text_at d [''claim'', ''candidate_claim''];
          hashes = candidate_hashes env d
        in if claim = [] \<or> length claim < 20 \<or> hashes = [] \<or> \<not> curation_privacy env d then
             no_change env now d provider_id (if claim = [] \<or> hashes = [] then ''NO_EVIDENCE'' else ''PRIVACY_REJECTED'')
               (if hashes = [] then [hash_of env (stated_or claim (text_at d [''title'', ''candidate_title'']))] else hashes)
           else rbind (base_payload env d provider_id hashes) (\<lambda>base.
             let candidate_id = ''cand_'' @ take 20 (stable_hash (digest_by env) (repr_by env)
                   (PDict [(''claim'', PStr (normalize_claim (folded_by env) claim)), (''hashes'', text_list hashes)]))
             in rbind (curated_operations env policy (patterns_of index) claim candidate_id base hashes provider_id) (\<lambda>operations.
                  curated env now candidate_id operations hashes provider_id)))"
end
