(* ===== verification/Curator_Laws.thy ===== *)
theory Curator_Laws
  imports Curator Change_Laws
begin

section \<open>Laws of the curator\<close>

text \<open>
  The applicability of a candidate is never widened, a candidate that fails the privacy policy leaves none
  of its texts behind, and what the curator may do with existing patterns is limited. A candidate without a
  source pair can be curated, but its change set cannot be applied.
\<close>

subsection \<open>Applicability\<close>

lemma host_label_iff: "host_label v = Some s \<longleftrightarrow> v = PStr s \<and> valid_label s"
proof (cases "validate_host_label v ''host'' False")
  case (Inl e)
  then have "\<not> (v = PStr s \<and> valid_label s)" using validate_host_label_iff [of v "''host''" False s] by (metis Inl_Inr_False)
  with Inl show ?thesis by (simp add: host_label_def)
next
  case (Inr t)
  then show ?thesis using validate_host_label_iff [of v "''host''" False t] by (auto simp: host_label_def)
qed

lemma host_label_PStr: "valid_label s \<Longrightarrow> host_label (PStr s) = Some s"
  by (simp add: host_label_iff)

lemma label_or_empty_valid: "label_or_empty v = [] \<or> valid_label (label_or_empty v)"
  by (auto simp: label_or_empty_def host_label_iff split: option.splits)

lemma labels_of_found:
  "labels_of vs found = Some out \<Longrightarrow> distinct found \<Longrightarrow> list_all valid_label found \<Longrightarrow> distinct out \<and> list_all valid_label out \<and> set found \<subseteq> set out"
  by (induction vs found rule: labels_of.induct) (auto simp: host_label_iff list_all_iff split: option.splits if_splits)

lemma host_labels_valid: "host_labels v = Some xs \<Longrightarrow> valid_labels xs"
  using labels_of_found [of _ "[]"]
  by (fastforce simp: host_labels_def valid_labels_def MAX_HOST_TARGETS_def list_all_iff split: option.splits if_splits)

text \<open>What the statement of a candidate has to be for a scope other than the source host.\<close>

definition stated :: "pydict \<Rightarrow> host_scope \<Rightarrow> string list \<Rightarrow> string list \<Rightarrow> bool" where
  "stated d scope ids families \<longleftrightarrow> item_of d ''applicability_scope'' = PStr (scope_name scope)
     \<and> host_labels (get_default d ''applicable_host_ids'' (PTuple [])) = Some ids
     \<and> host_labels (get_default d ''applicable_host_families'' (PTuple [])) = Some families"

lemma normalized_cases:
  assumes "a = normalize_host_applicability (PDict d) source_id source_family"
  shows "a = source_fallback (label_or_empty source_id) (label_or_empty source_family)
    \<or> stated d (ha_scope a) (ha_host_ids a) (ha_host_families a)
      \<and> (case ha_scope a of
           Universal \<Rightarrow> ha_host_ids a = [] \<and> ha_host_families a = [] \<and> has_key d ''applicable_host_ids'' \<and> has_key d ''applicable_host_families''
         | Family \<Rightarrow> ha_host_ids a = [] \<and> label_or_empty source_family \<in> set (ha_host_families a) \<and> label_or_empty source_family \<noteq> []
         | Host \<Rightarrow> ha_host_families a = [] \<and> label_or_empty source_id \<in> set (ha_host_ids a) \<and> label_or_empty source_id \<noteq> [])"
proof (cases "item_of d ''applicability_scope''")
  case (PStr s)
  note stated_scope = this
  show ?thesis
  proof (cases "scope_of s")
    case None
    with assms PStr show ?thesis by (simp add: normalize_host_applicability_def Let_def)
  next
    case (Some scope)
    then have "s = scope_name scope" by (simp add: scope_of_eq_Some)
    with PStr Some assms show ?thesis
      by (cases "host_labels (get_default d ''applicable_host_ids'' (PTuple []))"; cases "host_labels (get_default d ''applicable_host_families'' (PTuple []))"; cases scope)
        (auto simp: normalize_host_applicability_def Let_def stated_def split: if_splits)
  qed
qed (use assms in \<open>simp_all add: normalize_host_applicability_def Let_def\<close>)

text \<open>
  C20. The applicability of a candidate never widens: with a trusted source pair the result is the source
  host alone, unless the candidate itself states another scope in full, and then it is exactly that scope,
  which for a family or for hosts contains the source; and the result is well formed.
\<close>

theorem applicability_never_widens:
  assumes "a = normalize_host_applicability (PDict d) (PStr i) (PStr f)" "valid_label i" "valid_label f"
  shows "wf_applicability i f a
    \<and> (a = \<lparr>ha_scope = Host, ha_host_ids = [i], ha_host_families = []\<rparr> \<or> stated d (ha_scope a) (ha_host_ids a) (ha_host_families a))
    \<and> (ha_scope a = Universal \<longrightarrow> item_of d ''applicability_scope'' = PStr ''universal'' \<and> has_key d ''applicable_host_ids'' \<and> has_key d ''applicable_host_families'')
    \<and> (ha_scope a = Family \<longrightarrow> f \<in> set (ha_host_families a)) \<and> (ha_scope a = Host \<longrightarrow> i \<in> set (ha_host_ids a))"
proof -
  have "label_or_empty (PStr i) = i" "label_or_empty (PStr f) = f" "i \<noteq> []" "f \<noteq> []"
    using assms(2,3) by (auto simp: label_or_empty_def host_label_PStr)
  note source = this
  have fallback: "source_fallback i f = \<lparr>ha_scope = Host, ha_host_ids = [i], ha_host_families = []\<rparr>"
    using source by (simp add: source_fallback_def)
  show ?thesis
    using normalized_cases [OF assms(1)] unfolding source fallback
  proof
    assume "a = \<lparr>ha_scope = Host, ha_host_ids = [i], ha_host_families = []\<rparr>"
    then show ?thesis using assms(2,3) source by (simp add: wf_applicability_def valid_labels_def contradictory_def)
  next
    assume a: "stated d (ha_scope a) (ha_host_ids a) (ha_host_families a) \<and> (case ha_scope a of
           Universal \<Rightarrow> ha_host_ids a = [] \<and> ha_host_families a = [] \<and> has_key d ''applicable_host_ids'' \<and> has_key d ''applicable_host_families''
         | Family \<Rightarrow> ha_host_ids a = [] \<and> f \<in> set (ha_host_families a) \<and> f \<noteq> []
         | Host \<Rightarrow> ha_host_families a = [] \<and> i \<in> set (ha_host_ids a) \<and> i \<noteq> [])"
    then have "valid_labels (ha_host_ids a)" "valid_labels (ha_host_families a)" by (auto simp: stated_def dest: host_labels_valid)
    with a source show ?thesis
      by (cases "ha_scope a") (auto simp: wf_applicability_def contradictory_def stated_def)
  qed
qed

subsection \<open>What the curator produces\<close>

lemma make_changeset_same: "make_changeset env c = Inr c' \<Longrightarrow> c' = c"
  by (auto simp: make_changeset_def result_simps split: if_splits)

lemma make_operation_same: "make_operation x = Inr y \<Longrightarrow> y = x"
  by (auto simp: make_operation_def split: if_splits)

lemma make_operations_same: "rmap make_operation xs = Inr ys \<Longrightarrow> ys = xs"
  by (induction xs arbitrary: ys) (auto simp: result_simps dest: make_operation_same)

lemma curated_set_operations [simp]: "cs_operations (curated_set i c xs hs now p) = xs"
  by (simp add: curated_set_def changeset_hosts_from_def)

lemma no_change_operations:
  "no_change env now d provider_id reason hashes = Inr c \<Longrightarrow> cs_operations c = [\<lparr>op_operation = ''NO_CHANGE'', op_target_id = None,
     op_payload = no_change_payload d provider_id (if SAFE_REASON reason then reason else ''NO_CHANGE'') hashes\<rparr>]"
  unfolding no_change_def Let_def by (auto simp: result_simps dest!: make_changeset_same make_operation_same)

lemma curated_operations_same: "curated env now candidate_id xs hashes provider_id = Inr c \<Longrightarrow> cs_operations c = xs"
  unfolding curated_def Let_def by (auto simp: result_simps dest!: make_changeset_same make_operations_same)

lemma curate_cases:
  assumes "curate_candidate env now candidate index provider policy = Inr c"
  obtains (refused) reason hashes where "reason \<in> {''NO_EVIDENCE'', ''PRIVACY_REJECTED''}" "\<forall>h \<in> set hashes. \<exists>s. h = hash_of env s"
      "cs_operations c = [\<lparr>op_operation = ''NO_CHANGE'', op_target_id = None,
        op_payload = no_change_payload (candidate_data candidate) (curating_provider provider) reason hashes\<rparr>]"
  | (accepted) base candidate_id xs where "curation_privacy env (candidate_data candidate)"
      "base_payload env (candidate_data candidate) (curating_provider provider) (candidate_hashes env (candidate_data candidate)) = Inr base"
      "curated_operations env policy (patterns_of index) (text_at (candidate_data candidate) [''claim'', ''candidate_claim'']) candidate_id base
        (candidate_hashes env (candidate_data candidate)) (curating_provider provider) = Inr xs" "cs_operations c = xs"
proof (cases "text_at (candidate_data candidate) [''claim'', ''candidate_claim''] = [] \<or> length (text_at (candidate_data candidate) [''claim'', ''candidate_claim'']) < 20
    \<or> candidate_hashes env (candidate_data candidate) = [] \<or> \<not> curation_privacy env (candidate_data candidate)")
  case True
  define reason where "reason = (if text_at (candidate_data candidate) [''claim'', ''candidate_claim''] = [] \<or> candidate_hashes env (candidate_data candidate) = []
    then ''NO_EVIDENCE'' else ''PRIVACY_REJECTED'')"
  define hashes where "hashes = (if candidate_hashes env (candidate_data candidate) = []
    then [hash_of env (stated_or (text_at (candidate_data candidate) [''claim'', ''candidate_claim'']) (text_at (candidate_data candidate) [''title'', ''candidate_title'']))]
    else candidate_hashes env (candidate_data candidate))"
  have "no_change env now (candidate_data candidate) (curating_provider provider) reason hashes = Inr c"
    using assms True by (auto simp: curate_candidate_def Let_def reason_def hashes_def split: if_splits)
  then have "cs_operations c = [\<lparr>op_operation = ''NO_CHANGE'', op_target_id = None,
        op_payload = no_change_payload (candidate_data candidate) (curating_provider provider) (if SAFE_REASON reason then reason else ''NO_CHANGE'') hashes\<rparr>]"
    by (rule no_change_operations)
  moreover have "SAFE_REASON reason" "reason \<in> {''NO_EVIDENCE'', ''PRIVACY_REJECTED''}"
    by (simp_all add: reason_def SAFE_REASON_def ascii_digit_def)
  moreover have "\<forall>h \<in> set hashes. \<exists>s. h = hash_of env s" by (auto simp: hashes_def candidate_hashes_def)
  ultimately show ?thesis using refused by simp
next
  case False
  then show ?thesis using assms accepted curated_operations_same
    by (auto simp: curate_candidate_def Let_def result_simps split: if_splits)
qed

subsection \<open>Privacy\<close>

definition label_value :: "pyval \<Rightarrow> bool" where
  "label_value v \<longleftrightarrow> (\<exists>s. v = PStr s \<and> (s = [] \<or> valid_label s)) \<or> (\<exists>xs. v = text_list xs \<and> valid_labels xs)"

lemma valid_scope_name: "valid_label (scope_name s)"
proof -
  have "valid_label ''universal''" "valid_label ''family''" "valid_label ''host''" by code_simp+
  then show ?thesis by (cases s) simp_all
qed

lemma source_fallback_labels:
  "i = [] \<or> valid_label i \<Longrightarrow> valid_labels (ha_host_ids (source_fallback i f)) \<and> valid_labels (ha_host_families (source_fallback i f))"
  by (auto simp: source_fallback_def valid_labels_def)

lemma curated_hosts_labels: "(k, v) \<in> set (curated_hosts d) \<Longrightarrow> k \<in> set HOST_APPLICABILITY_FIELDS \<and> label_value v"
proof -
  assume kv: "(k, v) \<in> set (curated_hosts d)"
  define i f where "i = label_or_empty (item_of d ''source_host_id'')" and "f = label_or_empty (item_of d ''source_host_family'')"
  define a where "a = normalize_host_applicability (PDict d) (PStr i) (PStr f)"
  have labels: "label_or_empty (PStr i) = [] \<or> valid_label (label_or_empty (PStr i))" "i = [] \<or> valid_label i" "f = [] \<or> valid_label f"
    using label_or_empty_valid by (auto simp: i_def f_def)
  have "valid_labels (ha_host_ids a) \<and> valid_labels (ha_host_families a)"
    using normalized_cases [OF a_def] source_fallback_labels [OF labels(1), of "label_or_empty (PStr f)"]
    by (auto simp: stated_def dest: host_labels_valid)
  then show ?thesis using kv labels valid_scope_name
    by (auto simp: curated_hosts_def Let_def HOST_APPLICABILITY_FIELDS_def label_value_def simp flip: i_def f_def a_def)
qed


subsection \<open>Existing patterns\<close>

lemma first_sorted: "sort_key f (filter P (filter Q xs)) = t # ts \<Longrightarrow> t \<in> set xs \<and> Q t"
proof -
  assume "sort_key f (filter P (filter Q xs)) = t # ts"
  then have "t \<in> set (sort_key f (filter P (filter Q xs)))" by simp
  then show ?thesis by simp
qed

lemma match_pattern_member:
  assumes "match_pattern env patterns claim scope = Some m"
  shows "(case m of Exact t \<Rightarrow> t \<in> set patterns \<and> can_match env scope t | Similar t \<Rightarrow> t \<in> set patterns \<and> can_match env scope t)"
  using assms unfolding match_pattern_def Let_def
  by (auto split: list.splits simp del: filter_filter dest: first_sorted)

lemma get_default_dict_set: "get_default (dict_set k v d) l w = (if l = k then v else get_default d l w)"
  by (simp add: get_default_def dict_simps)

text \<open>The operation says by which hosts the pattern was matched.\<close>

lemma pattern_applicability_cong:
  "(\<And>k. k \<in> set HOST_APPLICABILITY_FIELDS \<Longrightarrow> map_of d k = map_of e k) \<Longrightarrow> pattern_applicability d = pattern_applicability e"
  by (simp add: pattern_applicability_def has_key_def get_default_def HOST_APPLICABILITY_FIELDS_def)

lemma base_fields_hosts: "k \<in> set HOST_APPLICABILITY_FIELDS \<Longrightarrow> map_of (base_fields env d provider_id given i) k = None"
proof -
  assume k: "k \<in> set HOST_APPLICABILITY_FIELDS"
  have "list_all (\<lambda>k. k \<notin> set HOST_APPLICABILITY_FIELDS) (map fst (base_fields env d provider_id given i))"
    by (simp add: base_fields_def Let_def HOST_APPLICABILITY_FIELDS_def)
  then have "k \<notin> fst ` set (base_fields env d provider_id given i)" using k by (auto simp: list_all_iff)
  then show ?thesis by (simp add: map_of_eq_None_iff)
qed

lemma base_hosts:
  assumes "base_payload env d provider_id hashes = Inr base" "k \<in> set HOST_APPLICABILITY_FIELDS"
  shows "map_of base k = map_of (curated_hosts d) k"
  using assms(1) base_fields_hosts [OF assms(2)]
  by (auto simp: base_payload_def Let_def result_simps map_add_def split: option.splits if_splits)

lemma hosts_of_payload_item:
  assumes "base_payload env d provider_id hashes = Inr base" "k \<in> set HOST_APPLICABILITY_FIELDS"
  shows "map_of (hosts_of_payload base) k = map_of base k"
proof -
  have "map_of (hosts_of_payload base) k = Some (item_of base k)"
    using assms(2) by (auto simp: hosts_of_payload_def HOST_APPLICABILITY_FIELDS_def)
  moreover have "map_of base k \<noteq> None"
    using base_hosts [OF assms] assms(2) by (auto simp: curated_hosts_def Let_def HOST_APPLICABILITY_FIELDS_def)
  ultimately show ?thesis by (auto simp: get_default_def)
qed

lemma evidence_hosts:
  assumes "base_payload env d provider_id hashes = Inr base" "k \<in> set HOST_APPLICABILITY_FIELDS" "map_of extra k = None"
  shows "map_of (evidence_payload env target base used provider_id extra) k = map_of base k"
  using assms(2,3) hosts_of_payload_item [OF assms(1,2)]
  by (auto simp: evidence_payload_def HOST_APPLICABILITY_FIELDS_def map_add_def)

definition operation_hosts :: "pydict \<Rightarrow> pydict \<Rightarrow> bool" where
  "operation_hosts payload base \<longleftrightarrow> (\<forall>k \<in> set HOST_APPLICABILITY_FIELDS. map_of payload k = map_of base k)"

lemma curated_operation_hosts:
  assumes "base_payload env d provider_id given = Inr base"
    and "curated_operations env policy patterns claim candidate_id base hashes provider_id = Inr xs" "x \<in> set xs"
  shows "operation_hosts (op_payload x) base"
proof -
  have "operation_hosts (evidence_payload env target base hashes provider_id extra) base" if "\<forall>k \<in> set HOST_APPLICABILITY_FIELDS. map_of extra k = None" for target extra
    using evidence_hosts [OF assms(1)] that by (simp add: operation_hosts_def)
  moreover have "operation_hosts (fold (\<lambda>(k, v) d. dict_set k v d) [(''source_hash'', h), (''proposal_only'', b), (''reason_code'', r), (''contradiction_count'', n)] base) base" for h b r n
    by (simp add: operation_hosts_def HOST_APPLICABILITY_FIELDS_def dict_simps)
  moreover have "operation_hosts base base" by (simp add: operation_hosts_def)
  ultimately show ?thesis using assms(2,3)
    by (auto simp: curated_operations_def attach_operation_def contradiction_operation_def new_operations_def Let_def result_simps
        HOST_APPLICABILITY_FIELDS_def split: option.splits match.splits if_splits)
qed

text \<open>
  C8. The curator never promotes, buries or redacts. What it changes is a pattern of the index that is active
  or a candidate and whose hosts are compatible with those the operation names; a revision is always marked
  as a proposal, and only an active pattern that was contradicted twice before is deprecated.
\<close>

theorem curator_respects_patterns:
  assumes "curate_candidate env now candidate index provider policy = Inr c" "x \<in> set (cs_operations c)"
  shows "op_operation x \<in> {''NO_CHANGE'', ''CREATE_OBSERVATION'', ''CREATE_CANDIDATE''}
    \<or> (\<exists>t \<in> set (patterns_of index). op_target_id x = Some (str_by env (item_of t ''pattern_id''))
        \<and> pattern_status env t \<in> {''active'', ''candidate''}
        \<and> applicability_compatible (pattern_applicability t) (pattern_applicability (op_payload x))
        \<and> (op_operation x = ''ATTACH_EVIDENCE''
          \<or> op_operation x = ''REVISE_PATTERN'' \<and> item_of (op_payload x) ''proposal_only'' = PBool True
          \<or> op_operation x = ''DEPRECATE_PATTERN'' \<and> pattern_status env t = ''active''
            \<and> (\<exists>prior \<ge> 2. int_value env (value_or (get_default t ''contradiction_count'' (PInt 0)) (PInt 0)) = Inr prior)))"
  using assms(1)
proof (cases rule: curate_cases)
  case refused
  then show ?thesis using assms(2) by simp
next
  case (accepted base candidate_id xs)
  have member: "x \<in> set xs" using assms(2) accepted(4) by simp
  have "operation_hosts (op_payload x) base" using curated_operation_hosts [OF accepted(2,3) member] .
  then have scope: "pattern_applicability (op_payload x) = pattern_applicability base"
    by (intro pattern_applicability_cong) (simp add: operation_hosts_def)
  let ?match = "match_pattern env (patterns_of index) (text_at (candidate_data candidate) [''claim'', ''candidate_claim'']) (pattern_applicability base)"
  show ?thesis
  proof (cases ?match)
    case None
    then have "xs = new_operations env policy candidate_id base (candidate_hashes env (candidate_data candidate))"
      using accepted(3) by (simp add: curated_operations_def)
    then show ?thesis using member by (auto simp: new_operations_def Let_def split: if_splits)
  next
    case (Some m)
    define t where "t = (case m of Exact t \<Rightarrow> t | Similar t \<Rightarrow> t)"
    have t: "t \<in> set (patterns_of index)" "can_match env (pattern_applicability base) t"
      using match_pattern_member [OF Some] by (auto simp: t_def split: match.splits)
    have "op_target_id x = Some (str_by env (item_of t ''pattern_id''))
        \<and> (op_operation x = ''ATTACH_EVIDENCE''
          \<or> op_operation x = ''REVISE_PATTERN'' \<and> item_of (op_payload x) ''proposal_only'' = PBool True
          \<or> op_operation x = ''DEPRECATE_PATTERN'' \<and> pattern_status env t = ''active''
            \<and> (\<exists>prior \<ge> 2. int_value env (value_or (get_default t ''contradiction_count'' (PInt 0)) (PInt 0)) = Inr prior))"
      using accepted(3) member Some
      by (cases m) (auto simp: t_def curated_operations_def attach_operation_def contradiction_operation_def Let_def result_simps
          get_default_dict_set split: if_splits)
    then show ?thesis using t scope by (auto simp: can_match_def)
  qed
qed

subsection \<open>Candidates without a source\<close>

text \<open>
  C38. A candidate without a source pair (the legacy case the curator provides for) is curated, but what comes
  out can never be applied: its operations carry the host fields with an empty source, which the inspection
  of payloads refuses, so the change set is invalid on every journal.
\<close>

theorem unpaired_candidate_is_never_valid:
  assumes "curate_candidate env now candidate index provider policy = Inr c"
    and "label_or_empty (item_of (candidate_data candidate) ''source_host_id'') = [] \<or> label_or_empty (item_of (candidate_data candidate) ''source_host_family'') = []"
    and "validate_changeset env settings (Built c) j = Inr v"
  shows "\<not> vr_valid v"
proof
  assume valid: "vr_valid v"
  obtain c' policy' events st where c': "coerced env (Built c) = Inr c'"
    "checked_operations env settings policy' c' (cs_operations c') (projected_states st) = Inr []"
    using valid_changeset [OF assms(3) valid] by metis
  then have "list_all (operation_clean env c) (cs_operations c)" using checked_refines by (auto simp: coerced_def)
  moreover have "\<exists>x \<in> set (cs_operations c). operation_hosts (op_payload x) (curated_hosts (candidate_data candidate))"
    using assms(1)
  proof (cases rule: curate_cases)
    case (refused reason hashes)
    have "operation_hosts (no_change_payload d p r hs) (curated_hosts d)" for d p r hs
      by (simp add: operation_hosts_def no_change_payload_def HOST_APPLICABILITY_FIELDS_def)
    then show ?thesis using refused(3) by simp
  next
    case (accepted base candidate_id xs)
    have "xs \<noteq> []"
      using accepted(3) by (auto simp: curated_operations_def new_operations_def Let_def result_simps split: option.splits match.splits if_splits)
    then obtain x where "x \<in> set xs" by (cases xs) auto
    moreover from this have "operation_hosts (op_payload x) (curated_hosts (candidate_data candidate))"
      using curated_operation_hosts [OF accepted(2,3)] base_hosts [OF accepted(2)] by (simp add: operation_hosts_def)
    ultimately show ?thesis using accepted(4) by blast
  qed
  ultimately obtain x where "x \<in> set (cs_operations c)" "operation_clean env c x"
    and hosts: "operation_hosts (op_payload x) (curated_hosts (candidate_data candidate))" unfolding list_all_iff by blast
  then have x: "in_valid (inspected_payload env (op_payload x))" by (simp add: operation_clean_def)
  have fields: "map_of (op_payload x) ''source_host_id'' = Some (PStr (label_or_empty (item_of (candidate_data candidate) ''source_host_id'')))"
    "map_of (op_payload x) ''source_host_family'' = Some (PStr (label_or_empty (item_of (candidate_data candidate) ''source_host_family'')))"
    using hosts by (simp_all add: operation_hosts_def HOST_APPLICABILITY_FIELDS_def curated_hosts_def Let_def)
  have "\<not> isl (validate_host_applicability_mapping (PDict (op_payload x)) False True)" "list_ex (has_key (op_payload x)) HOST_APPLICABILITY_FIELDS"
    using x fields by (auto simp: inspected_payload_def inspect_changeset_payload_def valid_iff HOST_APPLICABILITY_FIELDS_def has_key_def)
  then obtain a i f where "encodes (op_payload x) i f a" "valid_source True i f"
    using validate_mapping_iff by (cases "validate_host_applicability_mapping (PDict (op_payload x)) False True") auto
  then show False using fields assms(2) by (auto simp: encodes_def valid_source_def)
qed
subsection \<open>Samples\<close>

definition curator_env :: change_env where
  "curator_env = sample_change_env\<lparr>cx_journal := (cx_journal sample_change_env)\<lparr>jo_sha256 := (\<lambda>_. replicate 64 (CHR ''a''))\<rparr>\<rparr>"

lemma curator_env_simps [simp]:
  "digest_by curator_env = (\<lambda>_. replicate 64 (CHR ''a''))" "folded_by curator_env = (\<lambda>s. s)" "repr_by curator_env = (\<lambda>_. ''0.5'')"
  "str_by curator_env (PStr s) = s" "timestamp_check curator_env ''20260101T000000Z'' = Inr ()"
  by (simp_all add: curator_env_def sample_change_env_def text_value_def timestamp_check_def)

lemma curator_digests: "sha256_texts curator_env"
proof -
  have "hex_lower (CHR ''a'')" by code_simp
  then show ?thesis by (simp add: sha256_texts_def list_all_iff)
qed

lemma curator_hash [simp]: "stable_hash (digest_by curator_env) r v = replicate 64 (CHR ''a'')"
  by (simp add: stable_hash_def)

theorem applicability_never_widens_witness:
  "wf_applicability ''codex-cli'' ''codex'' (normalize_host_applicability (PDict [(''applicability_scope'', PStr ''family''),
     (''applicable_host_families'', PList [PStr ''qwen'', PStr ''codex''])]) (PStr ''codex-cli'') (PStr ''codex''))"
proof -
  have "valid_label ''codex-cli''" "valid_label ''codex''" by code_simp+
  from applicability_never_widens [OF refl this] show ?thesis by blast
qed

text \<open>A refused candidate, and one that repeats the claim of a pattern.\<close>

definition refused_candidate :: curator_input where
  "refused_candidate = Fields [(''claim'', PStr ''A claim''), (''classification'', PStr ''secret'')]"

definition repeated_candidate :: curator_input where
  "repeated_candidate = Fields [(''claim'', PStr ''retry the failed upload''), (''evidence_refs'', PList [PStr sample_source]),
     (''source_host_id'', PStr ''codex-cli''), (''source_host_family'', PStr ''codex'')]"

definition known_pattern :: pydict where
  "known_pattern = [(''pattern_id'', PStr ''pat_1''), (''claim'', PStr ''retry the failed upload'')]"

lemma safe_ids: "SAFE_CHANGE_ID (''cs_'' @ take 24 (replicate 64 (CHR ''a'')))" "SAFE_CHANGE_ID (''cand_'' @ take 20 (replicate 64 (CHR ''a'')))"
  "SAFE_HOST_LABEL_RE ''deterministic-curator''" "hash_re (''sha256:'' @ replicate 64 (CHR ''a''))"
  by code_simp+

lemma refused_curated: "\<exists>c. curate_candidate curator_env ''20260101T000000Z'' refused_candidate (IndexItems []) [] default_promotion_policy = Inr c"
proof -
  define d where "d = candidate_data refused_candidate"
  have facts: "gate_accepted refused_candidate" "curating_provider [] = ''deterministic-curator''" "text_at d [''claim'', ''candidate_claim''] = ''A claim''"
    "candidate_hashes curator_env d = []" "\<not> hash_re ''A claim''" "SAFE_REASON ''NO_EVIDENCE''"
    "curated_hosts d = [(''source_host_id'', PStr []), (''source_host_family'', PStr []), (''applicability_scope'', PStr ''universal''),
       (''applicable_host_ids'', PList []), (''applicable_host_families'', PList [])]"
    "''NO_CHANGE'' \<in> set OPERATIONS"
    unfolding d_def by code_simp+
  have "\<not> isl (validate_host_applicability_mapping (PDict [(''source_host_id'', PStr []), (''source_host_family'', PStr []), (''applicability_scope'', PStr ''universal''),
       (''applicable_host_ids'', PList []), (''applicable_host_families'', PList [])]) True False)" by code_simp
  then have "\<exists>c. no_change curator_env ''20260101T000000Z'' d ''deterministic-curator'' ''NO_EVIDENCE'' [''sha256:'' @ replicate 64 (CHR ''a'')] = Inr c"
    using safe_ids unfolding no_change_def Let_def make_operation_def curator_hash
    by (simp add: facts no_change_payload_def curated_set_def changeset_hosts_from_def make_changeset_def changeset_hosts_def has_hosts_def
        get_default_def text_list_def)
  then show ?thesis using facts unfolding curate_candidate_def d_def [symmetric] Let_def by (simp add: hash_of_def stated_or_def)
qed


lemma no_change_validated:
  assumes "cs_operations c = [x]" "op_operation x = ''NO_CHANGE''" "get_default (op_payload x) ''classification'' (PStr ''private-reusable'') = PStr s"
  shows "\<exists>v. validate_changeset curator_env sample_change_settings (Built c) [] = Inr v"
proof -
  have "\<exists>found. class_reasons curator_env (op_payload x) = Inr found" by (simp add: class_reasons_def assms(3) Let_def)
  then obtain found where found: "operation_reasons curator_env (default_promotion_policy\<lparr>pp_independent_provenance_count := 1\<rparr>) c x = Inr found"
    by (auto simp: operation_reasons_def Let_def)
  have "journal_events curator_env [] = Inr []" "pattern_states curator_env [] = Inr \<lparr>ss_names = [], ss_cells = []\<rparr>"
    "sg_policy sample_change_settings = Inr (default_promotion_policy\<lparr>pp_independent_provenance_count := 1\<rparr>)"
    by (simp_all add: journal_events_def iter_events_def pattern_states_def sample_change_settings_def)
  then show ?thesis using assms(1,2) found by (simp add: validate_changeset_def coerced_def transition_def Let_def)
qed

theorem unpaired_candidate_is_never_valid_witness:
  "\<exists>c v. curate_candidate curator_env ''20260101T000000Z'' refused_candidate (IndexItems []) [] default_promotion_policy = Inr c
    \<and> validate_changeset curator_env sample_change_settings (Built c) [] = Inr v \<and> \<not> vr_valid v"
proof -
  obtain c where c: "curate_candidate curator_env ''20260101T000000Z'' refused_candidate (IndexItems []) [] default_promotion_policy = Inr c"
    using refused_curated by blast
  have "\<not> 20 \<le> length (text_at (candidate_data refused_candidate) [''claim'', ''candidate_claim''])"
    "label_or_empty (item_of (candidate_data refused_candidate) ''source_host_id'') = []" by code_simp+
  note short = this
  obtain x where x: "cs_operations c = [x]" "op_operation x = ''NO_CHANGE''" "get_default (op_payload x) ''classification'' (PStr ''private-reusable'') = PStr ''private-reusable''"
    using c
  proof (cases rule: curate_cases)
    case (refused reason hashes)
    then show ?thesis by (intro that [of "hd (cs_operations c)"]) (simp_all add: no_change_payload_def get_default_def)
  next
    case (accepted base candidate_id xs)
    have "str_by curator_env (get_default (candidate_data refused_candidate) ''classification'' (PStr ''private-reusable'')) \<notin> set WRITABLE" by code_simp
    then show ?thesis using accepted(1) by (simp add: curation_privacy_def Let_def)
  qed
  from no_change_validated [OF x] obtain v where v: "validate_changeset curator_env sample_change_settings (Built c) [] = Inr v" by blast
  from unpaired_candidate_is_never_valid [OF c disjI1 [OF short(2)] v] c v show ?thesis by blast
qed

lemma sample_curated: "\<exists>c. curate_candidate curator_env ''20260101T000000Z'' repeated_candidate (IndexItems [known_pattern]) [] default_promotion_policy = Inr c
  \<and> map op_operation (cs_operations c) = [''ATTACH_EVIDENCE'']"
proof -
  define d where "d = candidate_data repeated_candidate"
  have hosts: "curated_hosts d = [(''source_host_id'', PStr ''codex-cli''), (''source_host_family'', PStr ''codex''), (''applicability_scope'', PStr ''host''),
       (''applicable_host_ids'', PList [PStr ''codex-cli'']), (''applicable_host_families'', PList [])]"
    unfolding d_def by code_simp
  have facts: "gate_accepted repeated_candidate" "curating_provider [] = ''deterministic-curator''" "text_at d [''claim'', ''candidate_claim''] = ''retry the failed upload''"
    "candidate_hashes curator_env d = [sample_source]" "hash_re sample_source" "text_at d [''source_ref''] = []" "\<not> hash_re ''curator''"
    "''ATTACH_EVIDENCE'' \<in> set OPERATIONS" "primary_text known_pattern = ''retry the failed upload''" "pattern_status curator_env known_pattern = ''active''"
    "truthy (item_of known_pattern ''pattern_id'')" "pattern_applicability known_pattern = Some \<lparr>ha_scope = Universal, ha_host_ids = [], ha_host_families = []\<rparr>"
    unfolding d_def by code_simp+
  have permitted: "curation_privacy curator_env d"
  proof -
    define m where "m = join_lines (map (\<lambda>k. str_by curator_env (get_default d k (PStr []))) [''title'', ''claim'', ''rule'', ''benefit'', ''precondition'', ''failure_mode''])"
    have "plain_text m" "int (length m) \<le> 2000000"
      "str_by curator_env (get_default d ''classification'' (PStr ''private-reusable'')) = ''private-reusable''"
      "str_by curator_env (get_default d ''source_ref'' (PStr ''curator'')) = ''curator''" "''private-reusable'' \<in> set WRITABLE"
      "forbidden_path_reason (\<lambda>s. s) ''curator'' = None" "classify_source ''private-reusable'' \<in> {PUBLIC, PRIVATE_REUSABLE}"
      unfolding d_def m_def by code_simp+
    note known = this
    have "pd_reason_code (inspect_text (\<lambda>s. s) m ''private-reusable'' ''curator'') = ''CLASSIFIED''"
      by (rule plain_inspected [OF plain_secret_free [OF known(1)] known(2,6,7)])
    then show ?thesis using known(5) unfolding curation_privacy_def Let_def known(3,4) m_def [symmetric] by (simp add: privacy_reusable_def)
  qed
  define h where "h = ''sha256:'' @ replicate 64 (CHR ''a'')"
  have "\<exists>base. base_payload curator_env d ''deterministic-curator'' [sample_source] = Inr base"
    by (simp add: base_payload_def Let_def facts(6,7) stated_or_def domain_hash_def strip_def is_space_def)
  then obtain base where base: "base_payload curator_env d ''deterministic-curator'' [sample_source] = Inr base" by blast
  have fields: "map_of base k = map_of (curated_hosts d) k" if "k \<in> set HOST_APPLICABILITY_FIELDS" for k using base_hosts [OF base that] .
  have "pattern_applicability (curated_hosts d) = Some \<lparr>ha_scope = Host, ha_host_ids = [''codex-cli''], ha_host_families = []\<rparr>"
    unfolding d_def by code_simp
  then have scope: "pattern_applicability base = Some \<lparr>ha_scope = Host, ha_host_ids = [''codex-cli''], ha_host_families = []\<rparr>"
    using pattern_applicability_cong [OF fields] by simp
  have "can_match curator_env (pattern_applicability base) known_pattern"
    by (simp add: can_match_def facts scope applicability_compatible_def)
  then have match: "match_pattern curator_env [known_pattern] ''retry the failed upload'' (pattern_applicability base) = Some (Exact known_pattern)"
    by (simp add: match_pattern_def Let_def facts(9))
  define x where "x = attach_operation curator_env known_pattern base [sample_source] ''deterministic-curator'' ''exact''"
  have x: "op_operation x = ''ATTACH_EVIDENCE''" by (simp add: x_def attach_operation_def)
  have "map_of (op_payload x) k = map_of (curated_hosts d) k" if "k \<in> set HOST_APPLICABILITY_FIELDS" for k
    using evidence_hosts [OF base that] fields [OF that] that by (auto simp: x_def attach_operation_def HOST_APPLICABILITY_FIELDS_def)
  then have items: "item_of (op_payload x) k = item_of (curated_hosts d) k" if "k \<in> set HOST_APPLICABILITY_FIELDS" for k
    using that by (simp add: get_default_def)
  have "\<not> isl (validate_host_applicability_mapping (PDict (curated_hosts d)) True True)"
    "\<not> isl (validate_host_label (PStr ''codex-cli'') ''source_host_id'' True)" "\<not> isl (validate_host_label (PStr ''codex'') ''source_host_family'' True)"
    unfolding d_def by code_simp+
  then obtain c where c: "curated curator_env ''20260101T000000Z'' (''cand_'' @ take 20 (replicate 64 (CHR ''a''))) [x] [sample_source] ''deterministic-curator'' = Inr c"
    using safe_ids facts(5,8) items unfolding curated_def Let_def make_operation_def curator_hash
    by (simp add: x hosts curated_set_def changeset_hosts_from_def make_changeset_def changeset_hosts_def has_hosts_def unique_def
        HOST_APPLICABILITY_FIELDS_def get_default_def [of "[_, _, _, _, _]"] text_list_def)
  have "curate_candidate curator_env ''20260101T000000Z'' repeated_candidate (IndexItems [known_pattern]) [] default_promotion_policy = Inr c"
    using facts(1-4) permitted base match c unfolding curate_candidate_def d_def [symmetric] Let_def curator_hash
    by (simp add: patterns_of_def Let_def curated_operations_def x_def)
  then show ?thesis using curated_operations_same [OF c] x by simp
qed

lemma known_patterns: "patterns_of (IndexItems [known_pattern]) = [known_pattern]"
  by (simp add: patterns_of_def Let_def)

lemma known_pattern_id: "str_by curator_env (item_of known_pattern ''pattern_id'') = ''pat_1''"
  by code_simp

lemma other_kind: "k \<in> A \<or> (\<exists>t \<in> S. P t \<and> Q t) \<Longrightarrow> k \<notin> A \<Longrightarrow> \<exists>t \<in> S. P t"
  by blast

theorem curator_respects_patterns_witness:
  "\<exists>c x. curate_candidate curator_env ''20260101T000000Z'' repeated_candidate (IndexItems [known_pattern]) [] default_promotion_policy = Inr c
    \<and> x \<in> set (cs_operations c) \<and> op_operation x = ''ATTACH_EVIDENCE'' \<and> op_target_id x = Some ''pat_1''"
proof -
  obtain c where c: "curate_candidate curator_env ''20260101T000000Z'' repeated_candidate (IndexItems [known_pattern]) [] default_promotion_policy = Inr c"
    "map op_operation (cs_operations c) = [''ATTACH_EVIDENCE'']"
    using sample_curated by (elim exE conjE) (rule that, assumption+)
  have "cs_operations c \<noteq> []"
  proof
    assume "cs_operations c = []"
    then show False using c(2) by simp
  qed
  then obtain x xs where cons: "cs_operations c = x # xs" by (cases "cs_operations c") simp_all
  have kind: "op_operation x = ''ATTACH_EVIDENCE''" using c(2) unfolding cons list.map by (rule conjunct1 [OF list.inject [THEN iffD1]])
  have x: "x \<in> set (cs_operations c)" unfolding cons by (rule list.set_intros)
  have "op_operation x \<notin> {''NO_CHANGE'', ''CREATE_OBSERVATION'', ''CREATE_CANDIDATE''}" unfolding kind by simp
  from other_kind [OF curator_respects_patterns [OF c(1) x] this] obtain t where
    t: "t \<in> set [known_pattern]" "op_target_id x = Some (str_by curator_env (item_of t ''pattern_id''))" unfolding known_patterns by (elim bexE)
  have "t = known_pattern" using t(1) by (simp only: list.set singleton_iff)
  then have target: "op_target_id x = Some ''pat_1''" using t(2) known_pattern_id by (simp only:)
  show ?thesis by (intro exI conjI, rule c(1), rule x, rule kind, rule target)
qed
end
