(* ===== verification/Recall_Context.thy ===== *)
theory Recall_Context
  imports Retrieval Knowledge_Models
begin

section \<open>The context that is injected\<close>

text \<open>
  \<^verbatim>\<open>src/src/ei/context.py\<close>: the hits of a recall become a text for the host, under the budget of
  the caller and the cap of the layer. The first hit that does not fit is tried in a shorter form and ends
  the text.
\<close>

definition LAYER_CAPS :: "int dict" where
  "LAYER_CAPS = [(''on-demand'', 5000), (''prompt'', 5000), (''session_start'', 2000), (''session-start'', 2000),
     (''always-on'', 12000), (''always_on'', 12000)]"

definition layer_name :: "string \<Rightarrow> string" where
  "layer_name layer = map (\<lambda>c. if c = CHR ''_'' then CHR ''-'' else c) (casefold layer)"

definition context_header :: "string \<Rightarrow> string" where
  "context_header layer =
     (let normalized = layer_name layer in
      if normalized \<in> {''on-demand'', ''prompt''} then ''## External Intelligence (data-only)'' @ [CHR 0x0A]
      else ''## External Intelligence ('' @ normalized @ '';data-only)'' @ [CHR 0x0A])"

definition date_text :: "string \<Rightarrow> string" where
  "date_text s = (if s = [] then ''unknown'' else take 10 s)"

fun comma_joined :: "string list \<Rightarrow> string" where
  "comma_joined [] = []"
| "comma_joined [x] = x"
| "comma_joined (x # xs) = x @ '', '' @ comma_joined xs"

definition applies_text :: "RetrievalHit \<Rightarrow> string" where
  "applies_text h = (let s = comma_joined (rh_applicability h) in if s = [] then ''general'' else s)"

definition scope_text :: "RetrievalHit \<Rightarrow> string" where
  "scope_text h = (if rh_knowledge_scope h \<in> {''personal'', ''team''} then rh_knowledge_scope h else ''personal'')"

definition render_hit :: "bool \<Rightarrow> RetrievalHit \<Rightarrow> string" where
  "render_hit brief h =
     (let evidence = decimal_text (rh_evidence_count h); updated = date_text (rh_updated_at h);
          line = (if brief then ''Scope: '' @ scope_text h @ '' | E:'' @ evidence @ '' U:'' @ updated
            else ''  Scope: '' @ scope_text h @ '' | Evidence: '' @ evidence @ '' independent observations | Updated: '' @ updated);
          applies = (if brief then ''A:'' else ''  Applies: '') @ applies_text h
      in ''- ['' @ rh_pattern_id h @ ''] '' @ rh_rule h @ CHR 0x0A # applies @ CHR 0x0A # line @ [CHR 0x0A])"

text \<open>The loop over the hits; \<open>out\<close> is the text so far.\<close>

fun context_lines :: "RetrievalHit list \<Rightarrow> int \<Rightarrow> string \<Rightarrow> string" where
  "context_lines [] budget out = out"
| "context_lines (h # hs) budget out =
     (let full = render_hit False h; brief = render_hit True h in
      if int (length out) + int (length full) \<le> budget then context_lines hs budget (out @ full)
      else if int (length out) + int (length brief) \<le> budget then out @ brief
      else out)"

definition without_final_newlines :: "string \<Rightarrow> string" where
  "without_final_newlines s = rev (dropWhile (\<lambda>c. c = CHR 0x0A) (rev s))"

definition build_context :: "RetrievalHit list \<Rightarrow> pyval \<Rightarrow> string \<Rightarrow> string result" where
  "build_context hits max_chars layer = (case max_chars of
     PInt n \<Rightarrow>
       (if n \<le> 0 then Inl (ValueError ''CONTEXT_BUDGET_INVALID'')
        else case map_of LAYER_CAPS (layer_name layer) of
          None \<Rightarrow> Inl (ValueError ''CONTEXT_LAYER_INVALID'')
        | Some cap \<Rightarrow>
            let budget = min n cap; header = context_header (layer_name layer) in
            if budget < int (length header) then Inr []
            else Inr (without_final_newlines (context_lines hits budget header)))
   | _ \<Rightarrow> Inl (ValueError ''CONTEXT_BUDGET_INVALID''))"

subsection \<open>What is in the context\<close>

definition rendered :: "RetrievalHit list \<Rightarrow> string" where
  "rendered hs = concat (map (render_hit False) hs)"

lemma rendered_simps [simp]: "rendered [] = []" "rendered (h # hs) = render_hit False h @ rendered hs"
  by (simp_all add: rendered_def)

text \<open>The hits before the first that does not fit, and that one in its short form if it fits so.\<close>

fun fitting :: "RetrievalHit list \<Rightarrow> int \<Rightarrow> RetrievalHit list \<times> RetrievalHit list" where
  "fitting [] room = ([], [])"
| "fitting (h # hs) room =
     (let n = int (length (render_hit False h)) in
      if n \<le> room then (let (full, rest) = fitting hs (room - n) in (h # full, rest))
      else ([], if int (length (render_hit True h)) \<le> room then [h] else []))"

lemma context_lines_fitting:
  "context_lines hs budget out =
     (let (full, short) = fitting hs (budget - int (length out)) in out @ rendered full @ concat (map (render_hit True) short))"
proof (induction hs arbitrary: out)
  case Nil
  then show ?case by simp
next
  case (Cons h hs)
  have "budget - int (length (out @ render_hit False h)) = budget - int (length out) - int (length (render_hit False h))" by simp
  note tail = Cons.IH [of "out @ render_hit False h", unfolded this]
  show ?case by (auto simp: Let_def tail split: prod.splits)
qed

lemma fitting_prefix:
  "fitting hs room = (full, short) \<Longrightarrow> \<exists>rest. hs = full @ rest \<and> int (length (rendered full @ concat (map (render_hit True) short))) \<le> max 0 room
     \<and> (rest = [] \<longrightarrow> short = [])
     \<and> (rest \<noteq> [] \<longrightarrow> int (length (rendered full)) + int (length (render_hit False (hd rest))) > room \<and> (short = [] \<or> short = [hd rest]))"
proof (induction hs arbitrary: room full short)
  case Nil
  then show ?case by simp
next
  case (Cons h hs)
  show ?case
  proof (cases "int (length (render_hit False h)) \<le> room")
    case True
    obtain f s where fs: "fitting hs (room - int (length (render_hit False h))) = (f, s)" by fastforce
    with True Cons.prems have "full = h # f" "short = s" by (simp_all add: Let_def)
    moreover obtain rest where rest: "hs = f @ rest" "int (length (rendered f @ concat (map (render_hit True) s))) \<le> max 0 (room - int (length (render_hit False h)))"
      "rest = [] \<longrightarrow> s = []"
      "rest \<noteq> [] \<longrightarrow> int (length (rendered f)) + int (length (render_hit False (hd rest))) > room - int (length (render_hit False h)) \<and> (s = [] \<or> s = [hd rest])"
      using Cons.IH [OF fs] by blast
    ultimately show ?thesis using True by (intro exI [of _ rest]) auto
  next
    case False
    with Cons.prems show ?thesis by (auto simp: Let_def split: if_splits)
  qed
qed

lemma without_final_newlines_prefix: "\<exists>n. s = without_final_newlines s @ replicate n (CHR 0x0A)"
proof -
  have "rev s = takeWhile (\<lambda>c. c = CHR 0x0A) (rev s) @ dropWhile (\<lambda>c. c = CHR 0x0A) (rev s)" by simp
  then have "s = without_final_newlines s @ rev (takeWhile (\<lambda>c. c = CHR 0x0A) (rev s))"
    unfolding without_final_newlines_def by (metis rev_append rev_rev_ident)
  moreover have "takeWhile (\<lambda>c. c = CHR 0x0A) (rev s) = replicate (length (takeWhile (\<lambda>c. c = CHR 0x0A) (rev s))) (CHR 0x0A)"
    by (rule replicate_length_same [symmetric]) (auto dest: set_takeWhileD)
  ultimately show ?thesis by (metis rev_replicate)
qed

lemma without_final_newlines_length: "length (without_final_newlines s) \<le> length s"
  using without_final_newlines_prefix [of s] by (metis le_add1 length_append)

text \<open>
  C37. The context stays within the budget of the caller and the cap of its layer, and what it holds is
  determined: the header, then the best hits in their order and in full up to the first that does not fit,
  then that one in its short form if that fits, and nothing of the hits behind it.
\<close>

theorem context_is_ranked_prefix:
  assumes "build_context hits (PInt n) layer = Inr s" "s \<noteq> []"
  shows "int (length s) \<le> n \<and> (\<exists>cap full short rest k. map_of LAYER_CAPS (layer_name layer) = Some cap \<and> int (length s) \<le> cap
    \<and> hits = full @ rest \<and> s @ replicate k (CHR 0x0A) = context_header (layer_name layer) @ rendered full @ concat (map (render_hit True) short)
    \<and> set short \<subseteq> set (take 1 rest)
    \<and> (rest \<noteq> [] \<longrightarrow> int (length (context_header (layer_name layer) @ rendered (full @ take 1 rest))) > min n cap))"
proof -
  let ?header = "context_header (layer_name layer)"
  obtain cap where cap: "map_of LAYER_CAPS (layer_name layer) = Some cap" "n > 0"
    "s = without_final_newlines (context_lines hits (min n cap) ?header)" "int (length ?header) \<le> min n cap"
    using assms by (cases "map_of LAYER_CAPS (layer_name layer)") (auto simp: build_context_def Let_def not_le not_less split: if_splits)
  obtain full short where fit: "fitting hits (min n cap - int (length ?header)) = (full, short)" by fastforce
  then have out: "context_lines hits (min n cap) ?header = ?header @ rendered full @ concat (map (render_hit True) short)"
    by (simp add: context_lines_fitting)
  obtain rest where rest: "hits = full @ rest" "int (length (rendered full @ concat (map (render_hit True) short))) \<le> max 0 (min n cap - int (length ?header))"
    "rest = [] \<longrightarrow> short = []"
    "rest \<noteq> [] \<longrightarrow> int (length (rendered full)) + int (length (render_hit False (hd rest))) > min n cap - int (length ?header) \<and> (short = [] \<or> short = [hd rest])"
    using fitting_prefix [OF fit] by blast
  have "int (length (context_lines hits (min n cap) ?header)) = int (length ?header) + int (length (rendered full @ concat (map (render_hit True) short)))"
    by (simp add: out)
  then have "int (length (context_lines hits (min n cap) ?header)) \<le> min n cap" using rest(2) cap(4) by linarith
  moreover have "int (length s) \<le> int (length (context_lines hits (min n cap) ?header))" using cap(3) without_final_newlines_length by simp
  ultimately have len: "int (length s) \<le> min n cap" by linarith
  obtain k where "context_lines hits (min n cap) ?header = s @ replicate k (CHR 0x0A)" using without_final_newlines_prefix cap(3) by blast
  then have "s @ replicate k (CHR 0x0A) = ?header @ rendered full @ concat (map (render_hit True) short)" by (simp add: out)
  moreover have "set short \<subseteq> set (take 1 rest)" using rest(3,4) by (cases rest) auto
  moreover have "rest \<noteq> [] \<longrightarrow> int (length (?header @ rendered (full @ take 1 rest))) > min n cap"
    using rest(4) by (cases rest) (auto simp: rendered_def)
  ultimately show ?thesis using len cap(1) rest(1)
    by (intro conjI exI [of _ cap] exI [of _ full] exI [of _ short] exI [of _ rest] exI [of _ k]) simp_all
qed

definition sample_hit :: "string \<Rightarrow> RetrievalHit" where
  "sample_hit rule = \<lparr>rh_pattern_id = ''p'', rh_cluster_id = ''c'', rh_score = 1, rh_rule = rule, rh_applicability = [''git''],
     rh_evidence_count = 2, rh_updated_at = [], rh_knowledge_scope = ''team'', rh_claim_fingerprint = [], rh_supersedes = [],
     rh_precondition = [], rh_failure_mode = []\<rparr>"

theorem context_is_ranked_prefix_witness:
  "\<exists>s. build_context [sample_hit ''Retry'', sample_hit ''Wait''] (PInt 160) ''on-demand'' = Inr s \<and> int (length s) \<le> 160"
proof -
  obtain s where s: "build_context [sample_hit ''Retry'', sample_hit ''Wait''] (PInt 160) ''on-demand'' = Inr s" "s \<noteq> []"
  proof -
    have "case build_context [sample_hit ''Retry'', sample_hit ''Wait''] (PInt 160) ''on-demand'' of Inr s \<Rightarrow> s \<noteq> [] | Inl _ \<Rightarrow> False"
      by code_simp
    then show thesis using that by (auto split: sum.splits)
  qed
  with context_is_ranked_prefix [OF s] show ?thesis by blast
qed
end
