(* ===== verification/Projection_State.thy ===== *)
theory Projection_State
  imports Change_Set
begin

section \<open>Freshness of the projections\<close>

text \<open>
  \<^verbatim>\<open>src/src/ei/projection_state.py\<close>: an index of the knowledge records the state of the journal it
  was made from, the number of the events it depends on and a digest of them; the freshness of the index
  compares that with the journal now.
\<close>

definition exact_int :: "pyval \<Rightarrow> int option" where
  "exact_int v = (case v of PInt i \<Rightarrow> Some i | _ \<Rightarrow> None)"

definition validate_source_state :: "pyval \<Rightarrow> unit result" where
  "validate_source_state v = (case v of
     PDict d \<Rightarrow>
       (if exact_int (item_of d ''schema_version'') = Some 1
           \<and> (case exact_int (item_of d ''event_count'') of Some n \<Rightarrow> n \<ge> 0 | None \<Rightarrow> False)
           \<and> (case item_of d ''digest'' of PStr s \<Rightarrow> hash_re s | _ \<Rightarrow> False)
        then Inr () else Inl (ValueError ''PROJECTION_SOURCE_STATE_INVALID''))
   | _ \<Rightarrow> Inl (ValueError ''PROJECTION_SOURCE_STATE_INVALID''))"

definition feeds_projection :: "Event \<Rightarrow> bool" where
  "feeds_projection e \<longleftrightarrow> ev_event_type e = ''observation.recorded'' \<or> starts_with ''pattern.'' (ev_event_type e)"

definition projection_source_state :: "change_env \<Rightarrow> Event list \<Rightarrow> pydict" where
  "projection_source_state env events =
     (let rows = map (\<lambda>e. PDict (event_to_dict e)) (sort_key ev_event_id (filter feeds_projection events)) in
      [(''schema_version'', PInt 1), (''event_count'', PInt (int (length rows))),
       (''digest'', PStr (''sha256:'' @ digest_by env (canonical_json (repr_by env) (PList rows))))])"

text \<open>Both states have passed the validation when they are compared: integers and texts.\<close>

definition projection_freshness :: "pyval option \<Rightarrow> pyval \<Rightarrow> string result" where
  "projection_freshness recorded current =
     rbind (validate_source_state current) (\<lambda>_. case recorded of
       None \<Rightarrow> Inr ''UNKNOWN''
     | Some r \<Rightarrow> rbind (validate_source_state r) (\<lambda>_. case (r, current) of
         (PDict a, PDict b) \<Rightarrow> Inr (if item_of a ''event_count'' = item_of b ''event_count'' \<and> item_of a ''digest'' = item_of b ''digest''
           then ''CURRENT'' else ''STALE'')
       | _ \<Rightarrow> Inr ''STALE''))"

definition freshness_reason :: "string \<Rightarrow> pyval" where
  "freshness_reason s = (if s = ''CURRENT'' then PNone else if s = ''STALE'' then PStr ''PROJECTION_STALE''
     else PStr ''PROJECTION_FRESHNESS_UNKNOWN'')"

text \<open>The values of a set: of equal ones the first stays.\<close>

fun distinct_values :: "pyval list \<Rightarrow> pyval list \<Rightarrow> pyval list" where
  "distinct_values kept [] = kept"
| "distinct_values kept (v # vs) = distinct_values (if list_ex (py_eq v) kept then kept else kept @ [v]) vs"

definition observation_names :: "Event list \<Rightarrow> pyval list" where
  "observation_names events = map (\<lambda>e. get_default (ev_payload e) ''observation_id'' (PStr (ev_event_id e)))
     (filter (\<lambda>e. ev_event_type e = ''observation.recorded'') events)"

text \<open>The document of the index has been read and parsed.\<close>

definition projection_freshness_report :: "change_env \<Rightarrow> pyval \<Rightarrow> Event list \<Rightarrow> pydict result" where
  "projection_freshness_report env document events = (case document of
     PDict d \<Rightarrow>
       rbind (if has_key d ''source_state'' then validate_source_state (item_of d ''source_state'') else Inr ()) (\<lambda>_.
       let current = projection_source_state env events in
       rbind (projection_freshness (case item_of d ''source_state'' of PNone \<Rightarrow> None | v \<Rightarrow> Some v) (PDict current)) (\<lambda>freshness.
       let names = observation_names events in
       if \<not> list_all can_hash names then Inl (TypeError ''unhashable type'')
       else Inr [(''freshness'', PStr freshness), (''reason_code'', freshness_reason freshness),
         (''source_event_count'', item_of current ''event_count''),
         (''source_observation_count'', PInt (int (length (distinct_values [] names))))]))
   | _ \<Rightarrow> Inl (ValueError ''INDEX_JSON_INVALID''))"

subsection \<open>The freshness is exact on a journal that only grows\<close>

lemma source_state_items:
  "item_of (projection_source_state env es) ''schema_version'' = PInt 1"
  "item_of (projection_source_state env es) ''event_count'' = PInt (int (length (filter feeds_projection es)))"
  "item_of (projection_source_state env es) ''digest'' = PStr (''sha256:'' @ digest_by env (canonical_json (repr_by env)
     (PList (map (\<lambda>e. PDict (event_to_dict e)) (sort_key ev_event_id (filter feeds_projection es))))))"
  by (simp_all add: projection_source_state_def Let_def get_default_def)

lemma source_state_valid: "sha256_texts env \<Longrightarrow> validate_source_state (PDict (projection_source_state env es)) = Inr ()"
  by (simp add: validate_source_state_def source_state_items exact_int_def sha256_hash_re [simplified] del: canonical_json.simps)

lemma source_state_cong:
  assumes "mset (filter feeds_projection xs) = mset (filter feeds_projection ys)" "distinct (map ev_event_id xs)"
  shows "projection_source_state env xs = projection_source_state env ys"
proof -
  have "inj_on ev_event_id (set (filter feeds_projection xs))" using assms(2) by (auto simp: distinct_map intro: inj_on_subset)
  then have "sort_key ev_event_id (filter feeds_projection xs) = sort_key ev_event_id (filter feeds_projection ys)"
    using assms(1) by (intro sort_key_inj_key_eq) simp_all
  then show ?thesis by (simp add: projection_source_state_def)
qed

text \<open>
  C36. The freshness of an index is exact on a journal that only grows: in whatever order the events are
  listed, an index is current if none of the events that came since feeds a projection, and stale if one
  does; without a recorded state it is unknown.
\<close>

theorem freshness_follows_the_journal:
  assumes "sha256_texts env" "distinct (map ev_event_id ys)" "mset ys = mset xs + mset extra"
  shows "projection_freshness (Some (PDict (projection_source_state env xs))) (PDict (projection_source_state env ys)) =
      Inr (if list_ex feeds_projection extra then ''STALE'' else ''CURRENT'')
    \<and> projection_freshness None (PDict (projection_source_state env ys)) = Inr ''UNKNOWN''"
proof -
  have feeding: "mset (filter feeds_projection ys) = mset (filter feeds_projection xs) + mset (filter feeds_projection extra)"
    using assms(3) by simp
  then have count: "length (filter feeds_projection ys) = length (filter feeds_projection xs) + length (filter feeds_projection extra)"
    by (metis size_mset size_union)
  have "projection_source_state env ys = projection_source_state env xs" if "\<not> list_ex feeds_projection extra"
  proof (rule source_state_cong [OF _ assms(2)])
    have "filter feeds_projection extra = []" using that by (simp add: filter_empty_conv list_ex_iff)
    then show "mset (filter feeds_projection ys) = mset (filter feeds_projection xs)" using feeding by simp
  qed
  moreover have "length (filter feeds_projection ys) \<noteq> length (filter feeds_projection xs)" if "list_ex feeds_projection extra"
    using that by (auto simp: count filter_empty_conv list_ex_iff)
  ultimately show ?thesis
    using source_state_valid [OF assms(1), of xs] source_state_valid [OF assms(1), of ys]
    by (cases "list_ex feeds_projection extra") (simp_all add: projection_freshness_def source_state_items del: canonical_json.simps)
qed

definition projection_env :: change_env where
  "projection_env = \<lparr>cx_journal = \<lparr>jo_sha256 = (\<lambda>s. replicate 64 (hex_digit (length s mod 16))), jo_repr = (\<lambda>_. []), jo_nfkc = (\<lambda>s. s),
     jo_str = (\<lambda>_. []), jo_aware = (\<lambda>_. True), jo_partition = (\<lambda>_. None)\<rparr>, cx_parse_int = (\<lambda>_. None), cx_machine = ''m''\<rparr>"

definition projection_event :: "string \<Rightarrow> string \<Rightarrow> Event" where
  "projection_event kind i = create_event kind ''2026-01-01T00:00:00Z'' ''ei'' ''m'' [] i"

theorem freshness_follows_the_journal_witness:
  "projection_freshness (Some (PDict (projection_source_state projection_env [projection_event ''pattern.promoted'' ''b'', projection_event ''exposure'' ''a''])))
     (PDict (projection_source_state projection_env [projection_event ''exposure'' ''a'', projection_event ''pattern.revised'' ''c'',
       projection_event ''pattern.promoted'' ''b''])) = Inr ''STALE''"
proof -
  have "hex_lower (hex_digit n)" if "n < 16" for n
  proof -
    have "list_all (\<lambda>n. hex_lower (hex_digit n)) [0..<16]" by code_simp
    then show ?thesis using that by (simp add: list_all_iff)
  qed
  then have "sha256_texts projection_env" by (simp add: sha256_texts_def projection_env_def list_all_iff)
  moreover have "list_ex feeds_projection [projection_event ''pattern.revised'' ''c'']" by code_simp
  ultimately show ?thesis
    using freshness_follows_the_journal [of projection_env "[projection_event ''exposure'' ''a'', projection_event ''pattern.revised'' ''c'',
      projection_event ''pattern.promoted'' ''b'']" "[projection_event ''pattern.promoted'' ''b'', projection_event ''exposure'' ''a'']"
      "[projection_event ''pattern.revised'' ''c'']"]
    by (simp add: projection_event_def create_event_def)
qed
end
