(* ===== verification/Setup_Plan.thy ===== *)
theory Setup_Plan
  imports Event_Journal
begin

section \<open>Planning a setup\<close>

text \<open>
  \<^verbatim>\<open>src/src/ei/setup_reconciliation.py\<close>: the desired state of an installation is made from the
  current one and the options of the user, and compared with it and with a probe of the machine. The
  planner answers with the actions the installer has to take, or with the error that blocks them. States
  are JSON values; paths are texts.
\<close>

record setup_env =
  su_sha256 :: "string \<Rightarrow> string"
  su_repr :: "rat \<Rightarrow> string"
  su_str :: "pyval \<Rightarrow> string"
  su_windows :: bool

abbreviation field_of_dict :: "pydict \<Rightarrow> string \<Rightarrow> pyval" where
  "field_of_dict d k \<equiv> get_default d k PNone"

fun as_mapping :: "pyval \<Rightarrow> pydict option" where
  "as_mapping (PDict d) = Some d"
| "as_mapping _ = None"

definition mapping_or_raise :: "pyval \<Rightarrow> pydict result" where
  "mapping_or_raise v = (case as_mapping v of Some d \<Rightarrow> Inr d | None \<Rightarrow> Inl (ValueError ''SETUP_STATE_INVALID''))"

definition dict_or_none :: "pydict option \<Rightarrow> pyval" where
  "dict_or_none d = (case d of Some x \<Rightarrow> PDict x | None \<Rightarrow> PNone)"

definition dict_or_empty :: "pydict option \<Rightarrow> pydict" where
  "dict_or_empty d = (case d of Some x \<Rightarrow> x | None \<Rightarrow> [])"

subsection \<open>Actions and plans\<close>

definition ACTION_ORDER :: "int dict" where
  "ACTION_ORDER = [(''prepare-personal'', 10), (''prepare-team'', 20), (''remove-host'', 30), (''write-managed'', 40),
     (''install-skill'', 50), (''write-binding'', 60), (''scheduler-enable'', 70), (''scheduler-disable'', 70), (''write-manifest'', 80)]"

record ReconciliationAction =
  ra_kind :: string
  ra_target :: string
  ra_before_hash :: "string option"
  ra_after_hash :: "string option"
  ra_owned :: bool

definition valid_action :: "ReconciliationAction \<Rightarrow> bool" where
  "valid_action a \<longleftrightarrow> has_key ACTION_ORDER (ra_kind a) \<and> ra_target a \<noteq> []"

definition hash_value :: "string option \<Rightarrow> pyval" where
  "hash_value h = (case h of Some s \<Rightarrow> PStr s | None \<Rightarrow> PNone)"

definition action_to_dict :: "ReconciliationAction \<Rightarrow> pydict" where
  "action_to_dict a = [(''kind'', PStr (ra_kind a)), (''target'', PStr (ra_target a)), (''before_hash'', hash_value (ra_before_hash a)),
     (''after_hash'', hash_value (ra_after_hash a)), (''owned'', PBool (ra_owned a))]"

record SetupReconciliationPlan =
  sp_status :: string
  sp_desired_state_digest :: string
  sp_live_state_digest :: string
  sp_actions :: "ReconciliationAction list"
  sp_changed_paths :: "string list"
  sp_retained_paths :: "string list"
  sp_errors :: "pydict list"

definition valid_plan :: "SetupReconciliationPlan \<Rightarrow> bool" where
  "valid_plan p \<longleftrightarrow> sp_status p \<in> {''CREATED'', ''UPDATED'', ''ALREADY_CURRENT'', ''BLOCKED''}
     \<and> starts_with ''sha256:'' (sp_desired_state_digest p) \<and> starts_with ''sha256:'' (sp_live_state_digest p)"

definition plan_to_dict :: "SetupReconciliationPlan \<Rightarrow> pydict" where
  "plan_to_dict p = [(''status'', PStr (sp_status p)), (''desired_state_digest'', PStr (sp_desired_state_digest p)),
     (''live_state_digest'', PStr (sp_live_state_digest p)), (''actions'', PList (map (\<lambda>a. PDict (action_to_dict a)) (sp_actions p))),
     (''changed_paths'', PList (map PStr (sp_changed_paths p))), (''retained_paths'', PList (map PStr (sp_retained_paths p))),
     (''errors'', PList (map PDict (sp_errors p)))]"

text \<open>The constructors of the actions and of the plan.\<close>

definition make_plan :: "SetupReconciliationPlan \<Rightarrow> SetupReconciliationPlan result" where
  "make_plan p = (if \<not> list_all valid_action (sp_actions p) then Inl (ValueError ''SETUP_ACTION_INVALID'')
     else if \<not> valid_plan p then Inl (ValueError ''SETUP_PLAN_INVALID'') else Inr p)"

subsection \<open>Digests of states\<close>

definition VOLATILE_KEYS :: "string list" where
  "VOLATILE_KEYS = [''timestamp'', ''timestamps'', ''occurred_at'', ''created_at'', ''installed_at'', ''uninstalled_at'', ''generated_at'',
     ''started_at'', ''updated_at'', ''completed_at'', ''transaction_id'', ''transaction_ids'', ''receipt'', ''receipt_path'',
     ''receipt_paths'', ''receipt_sha256'', ''operation_receipt'', ''diagnostic'', ''diagnostics'', ''diagnostic_output'',
     ''desired_state_digest'', ''live_state_digest'']"

definition has_suffix :: "string \<Rightarrow> string \<Rightarrow> bool" where
  "has_suffix p s \<longleftrightarrow> starts_with (rev p) (rev s)"

definition volatile_key :: "string \<Rightarrow> bool" where
  "volatile_key k = (let lowered = casefold k in lowered \<in> set VOLATILE_KEYS
     \<or> has_suffix ''_receipt_path'' lowered \<or> has_suffix ''_diagnostics'' lowered)"

fun without_volatile :: "pyval \<Rightarrow> pyval" where
  "without_volatile (PDict d) = PDict (concat (map (\<lambda>(k, v). if volatile_key k then [] else [(k, without_volatile v)]) d))"
| "without_volatile (PList xs) = PList (map without_volatile xs)"
| "without_volatile (PTuple xs) = PList (map without_volatile xs)"
| "without_volatile v = v"

definition text_digest :: "setup_env \<Rightarrow> pyval \<Rightarrow> string" where
  "text_digest env v = ''sha256:'' @ su_sha256 env (canonical_json (su_repr env) v)"

definition state_digest :: "setup_env \<Rightarrow> pydict \<Rightarrow> string" where
  "state_digest env d = text_digest env (without_volatile (PDict d))"

definition value_hash :: "setup_env \<Rightarrow> pyval \<Rightarrow> string" where
  "value_hash env v = text_digest env (jsonify v)"

definition differs :: "pyval \<Rightarrow> pyval \<Rightarrow> bool" where
  "differs v w \<longleftrightarrow> \<not> py_eq (without_volatile v) (without_volatile w)"

subsection \<open>Reading a state\<close>

text \<open>The loop over the final slashes of a path.\<close>

function without_final_slashes :: "string \<Rightarrow> string" where
  "without_final_slashes s = (if length s > 1 \<and> last s = CHR ''/'' then without_final_slashes (butlast s) else s)"
  by pat_completeness auto
termination by (relation "measure length") auto

declare without_final_slashes.simps [simp del]

definition normal_path :: "setup_env \<Rightarrow> pyval \<Rightarrow> string option" where
  "normal_path env v = (case v of
     PStr s \<Rightarrow>
       (if s = [] then None
        else let n = without_final_slashes (map (\<lambda>c. if c = CHR 0x5C then CHR ''/'' else c) s)
          in Some (if su_windows env then casefold n else n))
   | _ \<Rightarrow> None)"

definition nested_mapping :: "pydict \<Rightarrow> string \<Rightarrow> pydict option" where
  "nested_mapping d k = as_mapping (field_of_dict d k)"

text \<open>A state and the manifest inside it, in the order they are asked.\<close>

definition state_sources :: "pydict \<Rightarrow> pydict list" where
  "state_sources state = state # (case nested_mapping state ''manifest'' of Some m \<Rightarrow> [m] | None \<Rightarrow> [])"

fun first_present :: "string list \<Rightarrow> pydict \<Rightarrow> pyval option" where
  "first_present [] d = None"
| "first_present (k # ks) d = (case map_of d k of Some v \<Rightarrow> Some v | None \<Rightarrow> first_present ks d)"

fun first_answer :: "('a \<Rightarrow> 'b option) \<Rightarrow> 'a list \<Rightarrow> 'b option" where
  "first_answer f [] = None"
| "first_answer f (x # xs) = (case f x of Some y \<Rightarrow> Some y | None \<Rightarrow> first_answer f xs)"

definition state_value :: "pydict \<Rightarrow> string list \<Rightarrow> pyval" where
  "state_value state keys = (case first_answer (first_present keys) (state_sources state) of Some v \<Rightarrow> v | None \<Rightarrow> PNone)"

definition personal_in :: "pydict \<Rightarrow> pydict option" where
  "personal_in d = (case nested_mapping d ''personal'' of
     Some x \<Rightarrow> Some x
   | None \<Rightarrow> (case Option.bind (nested_mapping d ''knowledge_stores'') (\<lambda>stores. nested_mapping stores ''personal'') of
         Some x \<Rightarrow> Some x
       | None \<Rightarrow> nested_mapping d ''knowledge_repository''))"

definition personal_store :: "pydict \<Rightarrow> pydict option" where
  "personal_store state = first_answer personal_in (state_sources state)"

text \<open>A source that names a team, or has stores, is the last one asked.\<close>

definition team_in :: "pydict \<Rightarrow> pydict option option" where
  "team_in d = (if has_key d ''team'' then Some (nested_mapping d ''team'')
     else map_option (\<lambda>stores. nested_mapping stores ''team'') (nested_mapping d ''knowledge_stores''))"

definition team_store :: "pydict \<Rightarrow> pydict option" where
  "team_store state = (case first_answer team_in (state_sources state) of Some answer \<Rightarrow> answer | None \<Rightarrow> None)"

datatype root_kind = Personal | Team | Runtime

definition root_keys :: "root_kind \<Rightarrow> string list" where
  "root_keys kind = (case kind of
     Personal \<Rightarrow> [''personal_knowledge_root'', ''personal_root'', ''knowledge_root'']
   | Team \<Rightarrow> [''team_knowledge_root'', ''team_root'']
   | Runtime \<Rightarrow> [''runtime_root''])"

definition store_of :: "root_kind \<Rightarrow> pydict \<Rightarrow> pydict option" where
  "store_of kind state = (case kind of Personal \<Rightarrow> personal_store state | Team \<Rightarrow> team_store state | Runtime \<Rightarrow> None)"

definition state_root :: "pydict \<Rightarrow> root_kind \<Rightarrow> pyval" where
  "state_root state kind = (let v = state_value state (root_keys kind) in
     if v \<noteq> PNone then v else case store_of kind state of Some store \<Rightarrow> field_of_dict store ''root'' | None \<Rightarrow> PNone)"

definition PERSONAL_IDENTITY_KEYS :: "string list" where
  "PERSONAL_IDENTITY_KEYS = [''mode'', ''remote_name'', ''remote_fingerprint'', ''remote_classification'', ''branch'']"

definition personal_identity :: "pydict \<Rightarrow> pydict" where
  "personal_identity state = (let store = dict_or_empty (personal_store state) in map (\<lambda>k. (k, field_of_dict store k)) PERSONAL_IDENTITY_KEYS)"

definition enabled_flag :: "pydict option \<Rightarrow> bool option" where
  "enabled_flag store = (case store of None \<Rightarrow> None | Some d \<Rightarrow> (case field_of_dict d ''enabled'' of PBool b \<Rightarrow> Some b | _ \<Rightarrow> None))"

subsection \<open>The desired state\<close>

fun merge_fields :: "pydict \<Rightarrow> pydict \<Rightarrow> pydict" where
  "merge_fields out [] = out"
| "merge_fields out ((k, PDict u) # us) =
     merge_fields (dict_set k (case map_of out k of Some (PDict r) \<Rightarrow> PDict (merge_fields r u) | _ \<Rightarrow> PDict u) out) us"
| "merge_fields out ((k, v) # us) = merge_fields (dict_set k v out) us"

definition set_store :: "string \<Rightarrow> pydict option \<Rightarrow> pydict \<Rightarrow> pydict" where
  "set_store kind v state =
     (let s1 = dict_set kind (dict_or_none v) state;
          s2 = (case nested_mapping s1 ''knowledge_stores'' of
              Some stores \<Rightarrow> dict_set ''knowledge_stores'' (PDict (dict_set kind (dict_or_none v) stores)) s1
            | None \<Rightarrow> s1)
      in case nested_mapping s2 ''manifest'' of
           None \<Rightarrow> s2
         | Some manifest \<Rightarrow> dict_set ''manifest'' (PDict (case nested_mapping manifest ''knowledge_stores'' of
               Some stores \<Rightarrow> dict_set ''knowledge_stores'' (PDict (dict_set kind (dict_or_none v) stores)) manifest
             | None \<Rightarrow> dict_set kind (dict_or_none v) manifest)) s2)"

definition set_if_missing :: "string \<Rightarrow> pyval \<Rightarrow> pydict \<Rightarrow> pydict" where
  "set_if_missing k v d = (if has_key d k then d else dict_set k v d)"

definition set_personal_root :: "pyval \<Rightarrow> pydict \<Rightarrow> pydict" where
  "set_personal_root v state =
     (let s1 = dict_set ''personal_knowledge_root'' v state;
          s2 = (if has_key s1 ''knowledge_root'' \<or> \<not> has_key s1 ''personal_root'' then dict_set ''knowledge_root'' v s1 else s1);
          personal = set_if_missing ''enabled'' (PBool True) (dict_set ''root'' v (dict_or_empty (personal_store s2)))
      in set_store ''personal'' (Some personal) s2)"

definition set_team_field :: "string \<Rightarrow> pyval \<Rightarrow> pydict \<Rightarrow> pydict" where
  "set_team_field k v state =
     (let team = dict_set k v (dict_or_empty (team_store state));
          team' = (if k = ''enabled'' then dict_set ''status'' (PStr (if v = PBool True then ''READY'' else ''DISABLED'')) team else team)
      in set_store ''team'' (Some team') state)"

definition set_personal_field :: "string \<Rightarrow> pyval \<Rightarrow> pydict \<Rightarrow> pydict" where
  "set_personal_field k v state = set_store ''personal'' (Some (dict_set k v (dict_or_empty (personal_store state)))) state"

definition set_stores :: "pydict \<Rightarrow> pydict \<Rightarrow> pydict result" where
  "set_stores stores state =
     rbind (if has_key stores ''personal''
         then rbind (mapping_or_raise (field_of_dict stores ''personal'')) (\<lambda>p. Inr (set_store ''personal'' (Some p) state)) else Inr state) (\<lambda>s.
     Inr (if has_key stores ''team'' then set_store ''team'' (as_mapping (field_of_dict stores ''team'')) s else s))"

definition merged_value :: "string \<Rightarrow> pyval \<Rightarrow> pydict \<Rightarrow> pyval" where
  "merged_value k v state = (case (v, nested_mapping state k) of (PDict u, Some old) \<Rightarrow> PDict (merge_fields old u) | _ \<Rightarrow> v)"

text \<open>One option; the flag says whether the team store is to be enabled in the end.\<close>

definition apply_option :: "string \<times> pyval \<Rightarrow> pydict \<times> bool \<Rightarrow> (pydict \<times> bool) result" where
  "apply_option x s = (let (k, v) = x; (state, enable) = s in
     if k \<in> {''desired_state_digest'', ''no_team_knowledge'', ''team_knowledge'', ''team_enabled''} then Inr (state, enable)
     else if k \<in> {''personal_root'', ''personal_knowledge_root'', ''knowledge_root''} then Inr (set_personal_root v state, enable)
     else if k \<in> {''team_root'', ''team_knowledge_root''} then Inr (set_team_field ''root'' v state, True)
     else if k = ''team_member_id'' then Inr (set_team_field ''team_member_id'' v state, enable)
     else if k \<in> {''remote_fingerprint'', ''personal_remote_fingerprint''} then Inr (set_personal_field ''remote_fingerprint'' v state, enable)
     else if k \<in> {''sync'', ''sync_enabled''} then Inr (set_personal_field ''sync_enabled'' v (dict_set ''sync_enabled'' v state), enable)
     else if k = ''experiment'' then Inr (dict_set ''experiment_enabled'' v state, enable)
     else if k \<in> {''scheduler'', ''hosts'', ''managed_targets'', ''providers'', ''privacy_profile'', ''engine_root'', ''runtime_root''} then
       Inr (dict_set k v state, enable)
     else if k = ''personal'' then
       rbind (mapping_or_raise v) (\<lambda>u. Inr (set_store ''personal'' (Some (merge_fields (dict_or_empty (personal_store state)) u)) state, enable))
     else if k = ''team'' then
       (if v = PNone then Inr (set_store ''team'' None state, enable)
        else rbind (mapping_or_raise v) (\<lambda>u. Inr (set_store ''team'' (Some (merge_fields (dict_or_empty (team_store state)) u)) state, enable)))
     else if k = ''knowledge_stores'' then
       rbind (mapping_or_raise v) (\<lambda>stores. rbind (set_stores stores state) (\<lambda>s'. Inr (s', enable)))
     else Inr (dict_set k (merged_value k v state) state, enable))"

fun apply_options :: "pydict \<Rightarrow> pydict \<times> bool \<Rightarrow> (pydict \<times> bool) result" where
  "apply_options [] s = Inr s"
| "apply_options (x # xs) s = rbind (apply_option x s) (apply_options xs)"

definition apply_explicit :: "pydict \<Rightarrow> pydict \<Rightarrow> pydict result" where
  "apply_explicit explicit state =
     (let disable = field_of_dict explicit ''no_team_knowledge'' = PBool True \<or> field_of_dict explicit ''team_knowledge'' = PBool False
            \<or> field_of_dict explicit ''team_enabled'' = PBool False;
          enable = field_of_dict explicit ''team_knowledge'' = PBool True \<or> field_of_dict explicit ''team_enabled'' = PBool True
      in rbind (apply_options explicit (state, enable)) (\<lambda>(s, enable').
         Inr (if team_store s = None then s
           else if disable then set_team_field ''enabled'' (PBool False) s
           else if enable' then set_team_field ''enabled'' (PBool True) s else s)))"

definition first_setup :: pydict where
  "first_setup = [(''personal'', PDict [(''enabled'', PBool True)]), (''team'', PNone), (''providers'', PList []),
     (''privacy_profile'', PStr ''private-reusable''), (''experiment_enabled'', PBool False), (''hosts'', PDict []),
     (''scheduler'', PDict [(''enabled'', PBool False)])]"

definition build_desired_state :: "setup_env \<Rightarrow> pydict option \<Rightarrow> pydict option \<Rightarrow> pydict result" where
  "build_desired_state env current explicit =
     rbind (apply_explicit (dict_or_empty explicit) (if dict_or_empty current = [] then first_setup else dict_or_empty current)) (\<lambda>s1.
       let s2 = set_if_missing ''personal'' (PDict [(''enabled'', PBool True)]) s1;
           s3 = set_if_missing ''team'' (dict_or_none (team_store s2)) s2;
           digest = PStr (state_digest env s3); s4 = dict_set ''desired_state_digest'' digest s3
       in Inr (case nested_mapping s4 ''reconciliation'' of
           None \<Rightarrow> s4
         | Some r \<Rightarrow> dict_set ''reconciliation'' (PDict (dict_set ''desired_state_digest'' digest r)) s4))"

subsection \<open>Errors\<close>

definition ERROR_TEXTS :: "(bool \<times> bool \<times> string \<times> string) dict" where
  "ERROR_TEXTS = [
     (''PERSONAL_ROOT_CHANGE_REQUIRES_MIGRATION'', False, True, ''Run an explicit personal-root migration.'', ''ei migrate plan''),
     (''PERSONAL_REMOTE_CHANGE_REQUIRES_MIGRATION'', False, True, ''Run an explicit personal-remote migration.'', ''ei migrate plan''),
     (''TEAM_ROOT_CHANGE_REQUIRES_MIGRATION'', False, True, ''Run an explicit team-store reattach or migration.'', ''ei migrate plan''),
     (''RUNTIME_ROOT_CHANGE_REQUIRES_MIGRATION'', False, True, ''Run an explicit runtime migration.'', ''ei migrate plan''),
     (''MANAGED_TARGET_CONFLICT'', False, True, ''Review the managed target and approve a fresh setup plan.'', ''ei setup --check-only''),
     (''ACTIVE_RUNTIME_MISMATCH'', False, True, ''Repair or remove the binding owned by the other runtime.'', ''ei setup --check-only''),
     (''TEAM_ROOT_CONTRACT_INVALID'', True, True, ''Repair the selected team store and retry setup.'', ''ei setup --check-only''),
     (''TEAM_STORE_MANIFEST_INVALID'', True, True, ''Repair the selected team store manifest and retry setup.'', ''ei setup --check-only''),
     (''TEAM_STORE_ID_MISMATCH'', False, True, ''Use the original team store or run an explicit migration.'', ''ei migrate plan''),
     (''TEAM_ROOT_UNAVAILABLE'', True, False, ''Make the selected team store available and retry setup.'', ''ei setup --check-only''),
     (''SETUP_PLAN_STALE'', True, False, ''Re-run setup planning before applying changes.'', ''ei setup --check-only''),
     (''LIVE_STATE_MISMATCH'', True, False, ''Re-read the live state and create a fresh plan.'', ''ei setup --check-only'')]"

definition setup_error :: "string \<Rightarrow> string \<Rightarrow> pydict" where
  "setup_error code target_kind =
     (let (retryable, risk, action, command) = get_default ERROR_TEXTS code
            (False, True, ''Review the setup state and create a fresh plan.'', ''ei setup --check-only'')
      in [(''error_code'', PStr code), (''retryable'', PBool retryable), (''data_loss_risk'', PBool risk), (''user_action'', PStr action),
          (''recovery_command'', PStr command), (''target_kind'', PStr target_kind)])"

subsection \<open>What blocks a setup\<close>

definition managed_records :: "pydict \<Rightarrow> pydict" where
  "managed_records state = (case first_answer (nested_mapping state) [''managed_targets'', ''managed'', ''target_hashes''] of
     Some d \<Rightarrow> d
   | None \<Rightarrow> dict_or_empty (Option.bind (nested_mapping state ''manifest'') (\<lambda>m. nested_mapping m ''managed_targets'')))"

definition record_hash :: "pyval \<Rightarrow> pyval" where
  "record_hash record = (case Option.bind (as_mapping record) (first_present [''hash'', ''live_hash'', ''current_hash'', ''installed_hash'']) of
     Some v \<Rightarrow> v | None \<Rightarrow> record)"

definition ownership_hash :: "pyval \<Rightarrow> pyval" where
  "ownership_hash record = (case Option.bind (as_mapping record) (first_present [''ownership_hash'', ''manifest_hash'', ''owned_hash'', ''expected_hash'']) of
     Some v \<Rightarrow> v | None \<Rightarrow> PNone)"

definition owned_record :: "pyval \<Rightarrow> bool" where
  "owned_record record \<longleftrightarrow> (case as_mapping record of Some d \<Rightarrow> field_of_dict d ''owned'' = PBool True | None \<Rightarrow> False)"

definition hash_conflict :: "pyval \<Rightarrow> pyval \<Rightarrow> bool" where
  "hash_conflict expected actual \<longleftrightarrow> expected \<noteq> PNone \<and> actual \<noteq> PNone \<and> \<not> py_eq actual expected"

definition managed_conflict :: "pydict \<Rightarrow> pydict \<Rightarrow> bool" where
  "managed_conflict current live \<longleftrightarrow>
     list_ex (\<lambda>(t, r). owned_record r \<and> hash_conflict (ownership_hash r) (record_hash (get_default (managed_records live) t r))) (managed_records current)
   \<or> list_ex (\<lambda>(t, r). owned_record r \<and> hash_conflict (ownership_hash r) (record_hash r)) (managed_records live)"

definition mapping_values :: "pydict \<Rightarrow> string \<Rightarrow> pyval list" where
  "mapping_values d k = (case nested_mapping d k of Some m \<Rightarrow> map snd m | None \<Rightarrow> [])"

definition bound_elsewhere :: "setup_env \<Rightarrow> string \<Rightarrow> pyval \<Rightarrow> bool" where
  "bound_elsewhere env runtime v = (case Option.bind (as_mapping v) (first_present [''runtime_root'', ''binding_runtime_root'', ''bound_runtime_root'', ''runtime'']) of
     None \<Rightarrow> False | Some bound \<Rightarrow> bound \<noteq> PNone \<and> normal_path env bound \<noteq> Some runtime)"

definition binding_runtime_mismatch :: "setup_env \<Rightarrow> pydict \<Rightarrow> pydict \<Rightarrow> bool" where
  "binding_runtime_mismatch env desired live = (case normal_path env (state_root desired Runtime) of
     None \<Rightarrow> False
   | Some runtime \<Rightarrow> list_ex (bound_elsewhere env runtime) (mapping_values live ''hosts'' @ mapping_values live ''bindings''))"

definition team_identity_changed :: "setup_env \<Rightarrow> pydict \<Rightarrow> pydict \<Rightarrow> bool" where
  "team_identity_changed env current desired = (case (team_store current, team_store desired) of
     (Some c, Some d) \<Rightarrow>
       normal_path env (field_of_dict c ''root'') \<noteq> normal_path env (field_of_dict d ''root'')
       \<or> hash_conflict (field_of_dict d ''store_id'') (field_of_dict c ''store_id'')
   | _ \<Rightarrow> False)"

definition root_moved :: "setup_env \<Rightarrow> pydict \<Rightarrow> pydict \<Rightarrow> root_kind \<Rightarrow> bool" where
  "root_moved env current desired kind = (case (normal_path env (state_root current kind), normal_path env (state_root desired kind)) of
     (Some c, Some d) \<Rightarrow> c \<noteq> d | _ \<Rightarrow> False)"

definition identity_error :: "setup_env \<Rightarrow> pydict \<Rightarrow> pydict \<Rightarrow> pydict option" where
  "identity_error env current desired =
     (if root_moved env current desired Personal then Some (setup_error ''PERSONAL_ROOT_CHANGE_REQUIRES_MIGRATION'' ''personal-root'')
      else if team_identity_changed env current desired then Some (setup_error ''TEAM_ROOT_CHANGE_REQUIRES_MIGRATION'' ''team-store'')
      else if root_moved env current desired Runtime then Some (setup_error ''RUNTIME_ROOT_CHANGE_REQUIRES_MIGRATION'' ''runtime-root'')
      else if personal_store current \<noteq> None \<and> \<not> py_eq (PDict (personal_identity current)) (PDict (personal_identity desired))
        then Some (setup_error ''PERSONAL_REMOTE_CHANGE_REQUIRES_MIGRATION'' ''personal-remote'')
      else None)"

definition LIVE_TEAM_ERRORS :: "string list" where
  "LIVE_TEAM_ERRORS = [''TEAM_ROOT_CONTRACT_INVALID'', ''TEAM_STORE_MANIFEST_INVALID'', ''TEAM_STORE_ID_MISMATCH'', ''TEAM_ROOT_UNAVAILABLE'']"

definition live_team_error :: "pydict \<Rightarrow> pydict option" where
  "live_team_error live = (case team_store live of
     None \<Rightarrow> None
   | Some team \<Rightarrow> (case field_of_dict team ''live_error'' of
         PStr code \<Rightarrow> Some (setup_error (if code \<in> set LIVE_TEAM_ERRORS then code else ''TEAM_ROOT_CONTRACT_INVALID'') ''team-store'')
       | _ \<Rightarrow> None))"

text \<open>The first check that fails blocks the setup.\<close>

definition blocking_error :: "setup_env \<Rightarrow> pydict \<Rightarrow> pydict \<Rightarrow> pydict \<Rightarrow> pydict option" where
  "blocking_error env current desired live = (case identity_error env current desired of
     Some e \<Rightarrow> Some e
   | None \<Rightarrow>
       if binding_runtime_mismatch env desired live then Some (setup_error ''ACTIVE_RUNTIME_MISMATCH'' ''host-binding'')
       else (case live_team_error live of
           Some e \<Rightarrow> Some e
         | None \<Rightarrow> if managed_conflict current live then Some (setup_error ''MANAGED_TARGET_CONFLICT'' ''managed-target'') else None))"

subsection \<open>The actions\<close>

definition field_or :: "pydict \<Rightarrow> string \<Rightarrow> pyval \<Rightarrow> pyval" where
  "field_or state k other = (let v = state_value state [k] in if v = PNone then other else v)"

definition host_map :: "pydict \<Rightarrow> pydict" where
  "host_map state = dict_or_empty (as_mapping (state_value state [''hosts'']))"

definition live_target_missing :: "pydict \<Rightarrow> pyval \<Rightarrow> pyval \<Rightarrow> bool" where
  "live_target_missing live target expected = (case (target, expected) of
     (PStr t, PStr _) \<Rightarrow> t \<noteq> [] \<and> (case as_mapping (field_of_dict (managed_records live) t) of
         Some r \<Rightarrow> field_of_dict r ''hash'' = PNone | None \<Rightarrow> False)
   | _ \<Rightarrow> False)"

definition action :: "string \<Rightarrow> string \<Rightarrow> string option \<Rightarrow> string option \<Rightarrow> bool \<Rightarrow> ReconciliationAction" where
  "action kind target before after owned = \<lparr>ra_kind = kind, ra_target = target, ra_before_hash = before, ra_after_hash = after, ra_owned = owned\<rparr>"

definition host_path :: "string \<Rightarrow> string \<Rightarrow> string" where
  "host_path host part = ''hosts/'' @ host @ part"

definition field_changed :: "pydict \<Rightarrow> pydict \<Rightarrow> string \<Rightarrow> bool" where
  "field_changed c d k \<longleftrightarrow> \<not> py_eq (field_of_dict c k) (field_of_dict d k)"

text \<open>A host that is in both states: the actions, whether it is reported, and whether its settings changed.\<close>

definition kept_host :: "setup_env \<Rightarrow> pydict \<Rightarrow> string \<Rightarrow> pyval \<Rightarrow> pyval \<Rightarrow> ReconciliationAction list \<times> bool \<times> bool" where
  "kept_host env live host c d =
     (let repair = (\<lambda>path hash. case (as_mapping c, as_mapping d) of
            (Some cm, Some _) \<Rightarrow> live_target_missing live (field_of_dict cm path) (field_of_dict cm hash) | _ \<Rightarrow> False);
          repair_binding = repair ''skill_binding_path'' ''skill_binding_hash'';
          repair_skill = repair ''skill_destination'' ''installed_skill_hash''
      in if \<not> differs c d \<and> \<not> (repair_binding \<or> repair_skill) then ([], False, False)
         else (case (as_mapping c, as_mapping d) of
             (Some cm, Some dm) \<Rightarrow>
               (if field_changed cm dm ''skill_binding_hash'' \<or> field_changed cm dm ''binding_hash'' \<or> repair_binding
                then [action ''write-binding'' (host_path host ''/binding'') (if repair_binding then None else Some (value_hash env c)) (Some (value_hash env d)) True]
                else [])
             @ (if field_changed cm dm ''installed_skill_hash'' \<or> field_changed cm dm ''skill_hash'' \<or> repair_skill
                then [action ''install-skill'' (host_path host ''/skill'') (if repair_skill then None else Some (value_hash env c)) (Some (value_hash env d)) True]
                else [])
           | _ \<Rightarrow> [], True, differs c d))"

definition removed_hosts :: "pydict \<Rightarrow> pydict \<Rightarrow> string list" where
  "removed_hosts current desired = sorted_set (filter (\<lambda>h. \<not> has_key desired h) (map fst current))"

definition shared_hosts :: "pydict \<Rightarrow> pydict \<Rightarrow> string list" where
  "shared_hosts current desired = sorted_set (filter (has_key desired) (map fst current))"

definition host_action_changes :: "setup_env \<Rightarrow> pydict \<Rightarrow> pydict \<Rightarrow> pydict \<Rightarrow> ReconciliationAction list \<times> string list \<times> bool" where
  "host_action_changes env current desired live =
     (let c = host_map current; d = host_map desired; removed = removed_hosts c d; added = removed_hosts d c;
          kept = map (\<lambda>h. (h, kept_host env live h (field_of_dict c h) (field_of_dict d h))) (shared_hosts c d);
          after = (\<lambda>h. Some (value_hash env (field_of_dict d h)))
      in (map (\<lambda>h. action ''remove-host'' (host_path h []) (Some (value_hash env (field_of_dict c h))) None True) removed
        @ concat (map (\<lambda>h. [action ''install-skill'' (host_path h ''/skill'') None (after h) True,
            action ''write-binding'' (host_path h ''/binding'') None (after h) True]) added)
        @ concat (map (\<lambda>(h, actions, _). actions) kept),
          map (\<lambda>h. host_path h []) (removed @ added) @ concat (map (\<lambda>(h, _, reported, _). if reported then [host_path h []] else []) kept),
          list_ex (\<lambda>(_, _, _, settings). settings) kept))"

definition settings_changes :: "pydict \<Rightarrow> pydict \<Rightarrow> string list" where
  "settings_changes current desired =
     filter (\<lambda>k. differs (field_or current k PNone) (field_or desired k PNone))
       [''providers'', ''privacy_profile'', ''experiment_enabled'', ''engine_root'', ''sync_enabled'']
   @ (if enabled_flag (team_store current) \<noteq> enabled_flag (team_store desired) then [''team''] else [])
   @ (case (team_store current, team_store desired) of
        (Some c, Some d) \<Rightarrow> if field_changed c d ''team_member_id'' then [''team_member_id''] else [] | _ \<Rightarrow> [])"

definition settings_of :: "pydict \<Rightarrow> string list \<Rightarrow> pydict" where
  "settings_of state changes =
     map (\<lambda>k. (k, field_or state k PNone)) (filter (\<lambda>k. k \<notin> {''team'', ''team_member_id'', ''hosts''}) changes)
   @ [(''team'', dict_or_none (team_store state)), (''hosts'', PDict (host_map state))]"

definition retained_in :: "pydict \<Rightarrow> string list" where
  "retained_in state = (case seq_items (field_of_dict state ''retained_paths'') of Some xs \<Rightarrow> map the_str (filter is_str xs) | None \<Rightarrow> [])"

definition root_texts :: "setup_env \<Rightarrow> pydict \<Rightarrow> string list" where
  "root_texts env state = concat (map (\<lambda>kind. case state_root state kind of PNone \<Rightarrow> [] | PStr s \<Rightarrow> [s] | v \<Rightarrow> [su_str env v]) [Personal, Team])"

definition retained_paths :: "setup_env \<Rightarrow> pydict \<Rightarrow> pydict \<Rightarrow> string list" where
  "retained_paths env current desired = unique (retained_in current @ retained_in desired @ root_texts env current @ root_texts env desired)"

definition scheduler_enabled :: "pyval \<Rightarrow> bool" where
  "scheduler_enabled v = (case v of PDict d \<Rightarrow> field_of_dict d ''enabled'' = PBool True | _ \<Rightarrow> v = PBool True)"

definition store_actions :: "setup_env \<Rightarrow> pydict \<Rightarrow> pydict \<Rightarrow> (ReconciliationAction \<times> string) list" where
  "store_actions env current desired =
     (case (personal_store current, personal_store desired) of
        (None, Some p) \<Rightarrow> [(action ''prepare-personal'' ''personal'' None (Some (value_hash env (PDict p))) False, ''personal'')] | _ \<Rightarrow> [])
   @ (case team_store desired of
        Some t \<Rightarrow> if enabled_flag (Some t) = Some True \<and> enabled_flag (team_store current) \<noteq> Some True
          then [(action ''prepare-team'' ''team'' None (Some (value_hash env (PDict t))) False, ''team'')] else []
      | None \<Rightarrow> [])"

definition scheduler_actions :: "setup_env \<Rightarrow> pydict \<Rightarrow> pydict \<Rightarrow> (ReconciliationAction \<times> string) list" where
  "scheduler_actions env current desired =
     (let c = field_or current ''scheduler'' (PDict []); d = field_or desired ''scheduler'' (PDict []) in
      if scheduler_enabled c = scheduler_enabled d then []
      else [(action (if scheduler_enabled d then ''scheduler-enable'' else ''scheduler-disable'') ''scheduler''
        (Some (value_hash env c)) (Some (value_hash env d)) True, ''scheduler'')])"

definition plan_changes :: "setup_env \<Rightarrow> pydict \<Rightarrow> pydict \<Rightarrow> pydict \<Rightarrow> ReconciliationAction list \<times> string list" where
  "plan_changes env current desired live =
     (let stores = store_actions env current desired;
          (host_actions, host_changed, host_managed) = host_action_changes env current desired live;
          changes = settings_changes current desired @ (if host_managed then [''hosts''] else []);
          settings = (if changes = [] then [] else [action ''write-managed'' ''managed-settings''
            (Some (value_hash env (PDict (settings_of current changes)))) (Some (value_hash env (PDict (settings_of desired changes)))) True]);
          scheduler = scheduler_actions env current desired
      in (map fst stores @ host_actions @ settings @ map fst scheduler,
          map snd stores @ host_changed @ changes @ map snd scheduler))"

definition action_rank :: "ReconciliationAction \<Rightarrow> int \<times> string" where
  "action_rank a = (get_default ACTION_ORDER (ra_kind a) 0, ra_target a)"

definition blocked_plan :: "string \<Rightarrow> string \<Rightarrow> string list \<Rightarrow> pydict \<Rightarrow> SetupReconciliationPlan" where
  "blocked_plan desired_digest live_digest retained error = \<lparr>sp_status = ''BLOCKED'', sp_desired_state_digest = desired_digest,
     sp_live_state_digest = live_digest, sp_actions = [], sp_changed_paths = [], sp_retained_paths = retained, sp_errors = [error]\<rparr>"

definition plan_setup_reconciliation :: "setup_env \<Rightarrow> pydict \<Rightarrow> pydict \<Rightarrow> pydict \<Rightarrow> SetupReconciliationPlan result" where
  "plan_setup_reconciliation env current desired live =
     (let desired_digest = state_digest env desired; live_digest = state_digest env live; retained = retained_paths env current desired in
      case blocking_error env current desired live of
        Some e \<Rightarrow> make_plan (blocked_plan desired_digest live_digest retained e)
      | None \<Rightarrow>
          let (found, changed) = plan_changes env current desired live; ordered = sort_key action_rank found;
              actions = (if ordered = [] then [] else ordered @ [action ''write-manifest'' ''install-manifest''
                (Some (state_digest env current)) (Some desired_digest) True]);
              status = (if actions = [] then ''ALREADY_CURRENT'' else if current = [] then ''CREATED'' else ''UPDATED'')
          in make_plan \<lparr>sp_status = status, sp_desired_state_digest = desired_digest, sp_live_state_digest = live_digest,
            sp_actions = actions, sp_changed_paths = unique (changed @ (if actions = [] then [] else [''install-manifest''])),
            sp_retained_paths = retained, sp_errors = []\<rparr>)"

definition assert_plan_current :: "setup_env \<Rightarrow> SetupReconciliationPlan \<Rightarrow> pydict option \<Rightarrow> pydict option \<Rightarrow> SetupReconciliationPlan result" where
  "assert_plan_current env plan live maybe_live = (case (if maybe_live \<noteq> None then maybe_live else live) of
     None \<Rightarrow> Inl (ValueError ''SETUP_PLAN_INVALID'')
   | Some candidate \<Rightarrow> if state_digest env candidate \<noteq> sp_live_state_digest plan then Inl (ValueError ''SETUP_PLAN_STALE'') else Inr plan)"
end
