(* ===== verification/Setup_Laws.thy ===== *)
theory Setup_Laws
  imports Setup_Plan
begin

section \<open>Laws of the setup planner\<close>

text \<open>
  A plan never moves a store, it is complete and ends with the manifest that commits it, and a state that
  has been reached needs no further action.
\<close>

subsection \<open>Equality of values\<close>

text \<open>The keys of a dictionary are distinct, as in every parsed JSON document.\<close>

fun well_keyed :: "pyval \<Rightarrow> bool" where
  "well_keyed (PDict d) \<longleftrightarrow> distinct (map fst d) \<and> list_all (\<lambda>(_, v). well_keyed v) d"
| "well_keyed (PList xs) = list_all well_keyed xs"
| "well_keyed (PTuple xs) = list_all well_keyed xs"
| "well_keyed _ = True"

lemma eq_items_refl: "(\<And>x. x \<in> set xs \<Longrightarrow> py_eq x x) \<Longrightarrow> eq_items xs xs"
  by (induction xs) auto

lemma py_eq_refl: "well_keyed v \<Longrightarrow> py_eq v v"
proof (induction v)
  case (PDict d)
  have "map_of d k = Some v \<and> py_eq v v" if "(k, v) \<in> set d" for k v
  proof -
    have "map_of d k = Some v" using PDict.prems that by simp
    moreover have "py_eq v v" using PDict.prems that by (intro PDict.IH) (auto simp: list_all_iff)
    ultimately show ?thesis ..
  qed
  then show ?case by (auto simp: eq_fields_iff)
qed (auto simp: list_all_iff intro: eq_items_refl)

lemma distinct_kept_keys: "distinct (map fst d) \<Longrightarrow> distinct (map fst (concat (map (\<lambda>(k, v). if P k then [] else [(k, f v)]) d)))"
proof (induction d)
  case (Cons a d)
  define kept where "kept = concat (map (\<lambda>(k, v). if P k then [] else [(k, f v)]) d)"
  have "fst ` set kept \<subseteq> fst ` set d" unfolding kept_def by (force split: if_splits)
  moreover have "distinct (map fst kept)" using Cons by (simp add: kept_def)
  ultimately show ?case using Cons.prems by (cases a) (auto simp flip: kept_def)
qed simp

lemma well_keyed_without_volatile: "well_keyed v \<Longrightarrow> well_keyed (without_volatile v)"
proof (induction v)
  case (PDict d)
  then have "distinct (map fst (concat (map (\<lambda>(k, v). if volatile_key k then [] else [(k, without_volatile v)]) d)))"
    by (intro distinct_kept_keys) simp
  moreover have "well_keyed (without_volatile v)" if "(k, v) \<in> set d" for k v
    using PDict.prems that by (intro PDict.IH) (auto simp: list_all_iff)
  ultimately show ?case by (auto simp: list_all_iff split: if_splits)
qed (auto simp: list_all_iff)

lemma not_differs: "well_keyed v \<Longrightarrow> \<not> differs v v"
  by (simp add: differs_def py_eq_refl well_keyed_without_volatile)

subsection \<open>The parts of a state\<close>

lemma well_keyed_value: "well_keyed (PDict d) \<Longrightarrow> map_of d k = Some v \<Longrightarrow> well_keyed v"
  by (auto simp: list_all_iff dest: map_of_SomeD)

lemma well_keyed_field: "well_keyed (PDict d) \<Longrightarrow> well_keyed (field_of_dict d k)"
  by (auto simp: get_default_def split: option.splits intro: well_keyed_value)

lemma as_mapping_iff: "as_mapping v = Some d \<longleftrightarrow> v = PDict d"
  by (cases v) auto

lemma well_keyed_nested: "well_keyed (PDict d) \<Longrightarrow> nested_mapping d k = Some e \<Longrightarrow> well_keyed (PDict e)"
  unfolding nested_mapping_def as_mapping_iff using well_keyed_field by metis

lemma well_keyed_sources: "well_keyed (PDict s) \<Longrightarrow> d \<in> set (state_sources s) \<Longrightarrow> well_keyed (PDict d)"
  unfolding state_sources_def by (cases "nested_mapping s ''manifest''") (auto simp del: well_keyed.simps dest: well_keyed_nested)

lemma first_present_value: "first_present ks d = Some v \<Longrightarrow> \<exists>k \<in> set ks. map_of d k = Some v"
  by (induction ks) (auto split: option.splits)

lemma first_answer_value: "first_answer f xs = Some y \<Longrightarrow> \<exists>x \<in> set xs. f x = Some y"
  by (induction xs) (auto split: option.splits)

lemma well_keyed_state_value: "well_keyed (PDict s) \<Longrightarrow> well_keyed (state_value s ks)"
  unfolding state_value_def
  by (auto split: option.splits dest!: first_answer_value first_present_value simp del: well_keyed.simps
      intro: well_keyed_value well_keyed_sources) (simp add: well_keyed.simps)

lemma well_keyed_team: "well_keyed (PDict s) \<Longrightarrow> team_store s = Some t \<Longrightarrow> well_keyed (PDict t)"
  unfolding team_store_def team_in_def
  by (auto split: option.splits if_splits dest!: first_answer_value simp del: well_keyed.simps)
    (meson well_keyed_sources well_keyed_nested)+

lemma well_keyed_personal: "well_keyed (PDict s) \<Longrightarrow> personal_store s = Some t \<Longrightarrow> well_keyed (PDict t)"
  unfolding personal_store_def personal_in_def
  by (auto split: option.splits simp: bind_eq_Some_conv dest!: first_answer_value simp del: well_keyed.simps)
    (meson well_keyed_sources well_keyed_nested)+

lemma well_keyed_hosts: "well_keyed (PDict s) \<Longrightarrow> well_keyed (PDict (host_map s))"
  using well_keyed_state_value [of s "[''hosts'']"]
  by (cases "state_value s [''hosts'']") (simp_all add: host_map_def dict_or_empty_def del: well_keyed.simps, simp_all)

lemma well_keyed_identity: "well_keyed (PDict s) \<Longrightarrow> well_keyed (PDict (personal_identity s))"
proof -
  assume s: "well_keyed (PDict s)"
  have "well_keyed (PDict (dict_or_empty (personal_store s)))"
    using well_keyed_personal [OF s] by (cases "personal_store s") (auto simp: dict_or_empty_def)
  then show ?thesis
    using well_keyed_field by (auto simp: personal_identity_def PERSONAL_IDENTITY_KEYS_def Let_def simp del: well_keyed.simps(1)) (simp add: well_keyed.simps(1))
qed

lemma well_keyed_field_or: "well_keyed (PDict s) \<Longrightarrow> well_keyed w \<Longrightarrow> well_keyed (field_or s k w)"
  by (simp add: field_or_def Let_def well_keyed_state_value del: well_keyed.simps)

subsection \<open>The shape of a plan\<close>

definition planned_kinds :: "string list" where
  "planned_kinds = [''prepare-personal'', ''prepare-team'', ''remove-host'', ''write-managed'', ''install-skill'', ''write-binding'',
     ''scheduler-enable'', ''scheduler-disable'']"

definition planned :: "ReconciliationAction \<Rightarrow> bool" where
  "planned a \<longleftrightarrow> ra_kind a \<in> set planned_kinds \<and> ra_target a \<noteq> []"

lemma planned_valid: "planned a \<Longrightarrow> valid_action a"
  by (auto simp: planned_def planned_kinds_def valid_action_def ACTION_ORDER_def has_key_def)

lemma planned_rank: "planned a \<Longrightarrow> fst (action_rank a) < 80"
  by (auto simp: planned_def planned_kinds_def action_rank_def ACTION_ORDER_def get_default_def)

lemma planned_no_manifest: "planned a \<Longrightarrow> ra_kind a \<noteq> ''write-manifest''"
  by (auto simp: planned_def planned_kinds_def)

lemma planned_action [simp]: "planned (action k t b f w) \<longleftrightarrow> k \<in> set planned_kinds \<and> t \<noteq> []"
  by (simp add: planned_def action_def)

lemma host_path_nonempty [simp]: "host_path h s \<noteq> []"
  by (simp add: host_path_def)

lemma kept_host_planned: "a \<in> set (fst (kept_host env live h c d)) \<Longrightarrow> planned a"
  by (auto simp: kept_host_def Let_def planned_kinds_def split: if_splits option.splits)

lemma host_actions_planned: "a \<in> set (fst (host_action_changes env current desired live)) \<Longrightarrow> planned a"
proof -
  assume "a \<in> set (fst (host_action_changes env current desired live))"
  then have "planned a \<or> (\<exists>h c d. a \<in> set (fst (kept_host env live h c d)))"
    by (auto simp: host_action_changes_def Let_def planned_kinds_def fst_def split: prod.splits)
  then show "planned a" using kept_host_planned by blast
qed

lemma plan_changes_planned: "list_all planned (fst (plan_changes env current desired live))"
proof -
  have "planned a" if "a \<in> fst ` set (store_actions env current desired)" for a
    using that by (auto simp: store_actions_def planned_kinds_def split: option.splits if_splits)
  moreover have "planned a" if "a \<in> fst ` set (scheduler_actions env current desired)" for a
    using that by (auto simp: scheduler_actions_def planned_kinds_def Let_def split: if_splits)
  moreover have "planned (action ''write-managed'' ''managed-settings'' b f True)" for b f by (simp add: planned_kinds_def)
  moreover obtain found changed managed where "host_action_changes env current desired live = (found, changed, managed)" by (cases "host_action_changes env current desired live")
  moreover from this have "planned a" if "a \<in> set found" for a using host_actions_planned that by (metis fst_conv)
  ultimately show ?thesis by (auto simp: plan_changes_def Let_def list_all_iff)
qed

lemma state_digest_marked [simp]: "starts_with ''sha256:'' (state_digest env d)"
  unfolding state_digest_def text_digest_def by (rule starts_with_append)

text \<open>The plan as the constructors accept it.\<close>

lemma plan_cases:
  assumes "plan_setup_reconciliation env current desired live = Inr p"
  obtains (blocked) e where "blocking_error env current desired live = Some e" "sp_status p = ''BLOCKED''" "sp_actions p = []"
      "sp_changed_paths p = []" "sp_errors p = [e]"
  | (planned) found changed where "blocking_error env current desired live = None" "plan_changes env current desired live = (found, changed)"
      "sp_errors p = []" "sp_actions p = (if found = [] then [] else sort_key action_rank found @ [action ''write-manifest'' ''install-manifest''
                (Some (state_digest env current)) (Some (state_digest env desired)) True])"
      "sp_status p = (if found = [] then ''ALREADY_CURRENT'' else if current = [] then ''CREATED'' else ''UPDATED'')"
      "sp_changed_paths p = unique (changed @ (if found = [] then [] else [''install-manifest'']))"
proof (cases "blocking_error env current desired live")
  case (Some e)
  with assms blocked show ?thesis by (auto simp: plan_setup_reconciliation_def Let_def make_plan_def blocked_plan_def split: if_splits)
next
  case None
  obtain found changed where pc: "plan_changes env current desired live = (found, changed)" by fastforce
  have "sort_key action_rank found = [] \<longleftrightarrow> found = []" by (metis set_empty set_sort)
  with assms None pc planned show ?thesis
    unfolding plan_setup_reconciliation_def make_plan_def Let_def None pc option.case prod.case by (auto split: if_splits)
qed

lemma plan_exists: "\<exists>p. plan_setup_reconciliation env current desired live = Inr p"
proof (cases "blocking_error env current desired live")
  case (Some e)
  then show ?thesis by (simp add: plan_setup_reconciliation_def Let_def make_plan_def blocked_plan_def valid_plan_def)
next
  case None
  obtain found changed where pc: "plan_changes env current desired live = (found, changed)" by fastforce
  then have "list_all valid_action (sort_key action_rank found)"
    using plan_changes_planned [of env current desired live] planned_valid by (auto simp: list_all_iff)
  moreover have "valid_action (action ''write-manifest'' ''install-manifest'' b f True)" for b f
    by (simp add: valid_action_def action_def ACTION_ORDER_def has_key_def)
  ultimately show ?thesis by (simp add: plan_setup_reconciliation_def Let_def make_plan_def None pc valid_plan_def)
qed

text \<open>
  C17. Planning always ends with a plan: a blocked one that names one error and does nothing, or one whose
  actions are in the order of their kinds and end with the only write of the manifest, which commits the
  digest of the desired state; without an action there is nothing to write.
\<close>

theorem plan_commits_last:
  "\<exists>p. plan_setup_reconciliation env current desired live = Inr p
    \<and> (sp_status p = ''BLOCKED'' \<longleftrightarrow> blocking_error env current desired live \<noteq> None)
    \<and> (if sp_status p = ''BLOCKED'' then sp_actions p = [] \<and> sp_changed_paths p = [] \<and> length (sp_errors p) = 1
       else sp_errors p = [] \<and> (sp_status p = ''ALREADY_CURRENT'' \<longleftrightarrow> sp_actions p = [])
         \<and> (sp_actions p = [] \<or> sorted (map action_rank (sp_actions p))
           \<and> \<not> list_ex (\<lambda>a. ra_kind a = ''write-manifest'') (butlast (sp_actions p))
           \<and> ra_kind (last (sp_actions p)) = ''write-manifest'' \<and> ra_after_hash (last (sp_actions p)) = Some (state_digest env desired)))"
proof -
  obtain p where p: "plan_setup_reconciliation env current desired live = Inr p" using plan_exists by blast
  moreover have "list_all planned found" if "plan_changes env current desired live = (found, changed)" for found changed
    using plan_changes_planned [of env current desired live] that by simp
  then have "sorted (map action_rank (sort_key action_rank found @ [action ''write-manifest'' t b f w]))" "\<not> list_ex (\<lambda>a. ra_kind a = ''write-manifest'') found"
    if "plan_changes env current desired live = (found, changed)" for found changed t b f w
    using that planned_rank planned_no_manifest
    by (force simp: sorted_append list_all_iff list_ex_iff action_rank_def action_def ACTION_ORDER_def get_default_def less_eq_prod_def)+
  moreover have "list_ex P (sort_key action_rank found) \<longleftrightarrow> list_ex P found" for P found by (simp add: list_ex_iff)
  ultimately show ?thesis
    by (cases rule: plan_cases [OF p]) (auto simp: action_def)
qed

subsection \<open>Stores stay where they are\<close>


subsection \<open>A reached state is current\<close>

definition all_targets_found :: "pydict \<Rightarrow> bool" where
  "all_targets_found live \<longleftrightarrow> list_all (\<lambda>(_, r). case as_mapping r of Some d \<Rightarrow> field_of_dict d ''hash'' \<noteq> PNone | None \<Rightarrow> True) (managed_records live)"

lemma found_not_missing:
  assumes "all_targets_found live"
  shows "\<not> live_target_missing live t e"
proof
  assume "live_target_missing live t e"
  then obtain k r where r: "as_mapping (field_of_dict (managed_records live) k) = Some r" "field_of_dict r ''hash'' = PNone"
    by (cases t; cases e) (auto simp: live_target_missing_def split: option.splits)
  then have "map_of (managed_records live) k = Some (PDict r)"
    by (auto simp: as_mapping_iff get_default_def split: option.splits)
  then have "(k, PDict r) \<in> set (managed_records live)" by (rule map_of_SomeD)
  then show False using assms r(2) by (auto simp: all_targets_found_def list_all_iff)
qed

lemma kept_host_unchanged:
  "all_targets_found live \<Longrightarrow> well_keyed v \<Longrightarrow> kept_host env live h v v = ([], False, False)"
  by (simp add: kept_host_def Let_def not_differs found_not_missing split: option.splits)

lemma removed_hosts_same [simp]: "removed_hosts c c = []"
proof -
  have "filter (\<lambda>h. \<not> has_key c h) (map fst c) = []"
    by (auto simp: filter_empty_conv has_key_def map_of_eq_None_iff)
  then show ?thesis by (simp add: removed_hosts_def sorted_set_eq_Nil)
qed

lemma host_actions_settled:
  assumes "all_targets_found live" "well_keyed (PDict s)"
  shows "host_action_changes env s s live = ([], [], False)"
proof -
  have "kept_host env live h (field_of_dict (host_map s) h) (field_of_dict (host_map s) h) = ([], False, False)" for h
    using kept_host_unchanged [OF assms(1) well_keyed_field [OF well_keyed_hosts [OF assms(2)]]] .
  then show ?thesis by (simp add: host_action_changes_def Let_def list_ex_iff)
qed

lemma settings_settled: "well_keyed (PDict s) \<Longrightarrow> settings_changes s s = []"
  by (auto simp: settings_changes_def field_changed_def not_differs well_keyed_field_or py_eq_refl well_keyed_field well_keyed_team
      split: option.splits simp del: well_keyed.simps(1))

lemma plan_changes_settled:
  "all_targets_found live \<Longrightarrow> well_keyed (PDict s) \<Longrightarrow> plan_changes env s s live = ([], [])"
  by (auto simp: plan_changes_def host_actions_settled settings_settled store_actions_def scheduler_actions_def Let_def
      split: option.splits simp del: well_keyed.simps(1))

lemma identity_settled: "well_keyed (PDict s) \<Longrightarrow> identity_error env s s = None"
  by (auto simp: identity_error_def root_moved_def team_identity_changed_def hash_conflict_def py_eq_refl well_keyed_identity
      well_keyed_field well_keyed_team split: option.splits simp del: well_keyed.simps(1) py_eq.simps)

text \<open>
  C19. Setup is idempotent: planning from a state that has been reached to itself finds no identity to
  protect and no action, as long as the probe found every target, and answers that the state is current
  unless the machine itself is in conflict with it.
\<close>

theorem reached_state_is_current:
  assumes "well_keyed (PDict s)" "all_targets_found live" "plan_setup_reconciliation env s s live = Inr p"
  shows "sp_actions p = [] \<and> sp_changed_paths p = [] \<and> identity_error env s s = None
    \<and> sp_status p = (if binding_runtime_mismatch env s live \<or> live_team_error live \<noteq> None \<or> managed_conflict s live
        then ''BLOCKED'' else ''ALREADY_CURRENT'')"
  using assms(3)
proof (cases rule: plan_cases)
  case (blocked e)
  then show ?thesis using identity_settled [OF assms(1), of env]
    by (auto simp: blocking_error_def split: option.splits if_splits)
next
  case (planned found changed)
  then have "found = []" "changed = []" using plan_changes_settled [OF assms(2,1), of env] by simp_all
  then show ?thesis using planned identity_settled [OF assms(1), of env]
    by (auto simp: blocking_error_def unique_eq_Nil split: option.splits if_splits)
qed

subsection \<open>Options\<close>

lemma nested_dict_set: "nested_mapping (dict_set k v d) l = (if l = k then as_mapping v else nested_mapping d l)"
  by (simp add: nested_mapping_def get_default_def dict_simps)

lemma state_value_head: "map_of s k = Some v \<Longrightarrow> state_value s (k # ks) = v"
  by (simp add: state_value_def state_sources_def)

lemma set_store_item: "map_of (set_store kind v s) kind = Some (dict_or_none v)" if "kind \<noteq> ''knowledge_stores''" "kind \<noteq> ''manifest''"
  using that by (auto simp: set_store_def Let_def dict_simps split: option.splits)

lemma set_store_other: "map_of (set_store kind v s) k = map_of s k" if "k \<noteq> kind" "k \<noteq> ''knowledge_stores''" "k \<noteq> ''manifest''"
  using that by (auto simp: set_store_def Let_def dict_simps split: option.splits)

text \<open>The last steps of the construction leave the keys of the stores alone.\<close>

lemma set_if_missing_keeps: "map_of d k = Some v \<Longrightarrow> map_of (set_if_missing l w d) k = Some v"
  by (auto simp: set_if_missing_def has_key_def dict_simps)

lemma desired_item:
  assumes "build_desired_state env (Some s) (Some options) = Inr d" "s \<noteq> []" "apply_explicit options s = Inr s1"
    and "k \<noteq> ''desired_state_digest''" "k \<noteq> ''reconciliation''" "map_of s1 k = Some v"
  shows "map_of d k = Some v"
proof -
  define s3 where "s3 = set_if_missing ''team'' (dict_or_none (team_store (set_if_missing ''personal'' (PDict [(''enabled'', PBool True)]) s1)))
    (set_if_missing ''personal'' (PDict [(''enabled'', PBool True)]) s1)"
  have "map_of s3 k = Some v" unfolding s3_def by (intro set_if_missing_keeps assms(6))
  moreover have "\<exists>r x. d = dict_set ''desired_state_digest'' r s3 \<or> d = dict_set ''reconciliation'' x (dict_set ''desired_state_digest'' r s3)"
    using assms(1,2) unfolding build_desired_state_def dict_or_empty_def option.case Let_def if_not_P [OF assms(2)] assms(3) rbind_Inr s3_def [symmetric]
    by (auto split: option.splits)
  ultimately show ?thesis using assms(4,5) by (auto simp: dict_simps)
qed

text \<open>
  C18. An option that names another personal root never moves the store: whatever state it is applied to and
  whatever the probe of the machine says, the plan is blocked with the request for an explicit migration
  and has no action.
\<close>

theorem root_option_is_blocked:
  assumes "build_desired_state env (Some s) (Some [(''personal_root'', PStr r)]) = Inr d" "s \<noteq> []"
    and "normal_path env (state_root s Personal) = Some old" "normal_path env (PStr r) = Some new" "old \<noteq> new"
  shows "\<exists>p. plan_setup_reconciliation env s d live = Inr p \<and> sp_status p = ''BLOCKED'' \<and> sp_actions p = []
    \<and> sp_errors p = [setup_error ''PERSONAL_ROOT_CHANGE_REQUIRES_MIGRATION'' ''personal-root'']"
proof -
  have "\<exists>s1. apply_explicit [(''personal_root'', PStr r)] s = Inr s1 \<and> map_of s1 ''personal_knowledge_root'' = Some (PStr r)"
    by (simp add: apply_explicit_def apply_option_def Let_def set_personal_root_def set_store_other set_team_field_def get_default_def dict_simps)
  then have "map_of d ''personal_knowledge_root'' = Some (PStr r)" using desired_item [OF assms(1,2)] by auto
  then have "state_root d Personal = PStr r" by (simp add: state_root_def root_keys_def state_value_head)
  then have "root_moved env s d Personal" using assms(3-5) by (simp add: root_moved_def)
  then have "blocking_error env s d live = Some (setup_error ''PERSONAL_ROOT_CHANGE_REQUIRES_MIGRATION'' ''personal-root'')"
    by (simp add: blocking_error_def identity_error_def)
  moreover obtain p where p: "plan_setup_reconciliation env s d live = Inr p" using plan_exists by blast
  ultimately show ?thesis by (cases rule: plan_cases [OF p]) auto
qed

text \<open>
  Disabling the team forgets nothing: the desired state has the team store of the current one with all
  its fields, only not enabled, so that the root and the identity of the store are there when the team is
  enabled again.
\<close>

theorem disabling_keeps_the_team_store:
  assumes "build_desired_state env (Some s) (Some [(''no_team_knowledge'', PBool True)]) = Inr d" "team_store s = Some t" "s \<noteq> []" "well_keyed (PDict s)"
  shows "\<exists>u. team_store d = Some u \<and> enabled_flag (Some u) = Some False \<and> \<not> team_identity_changed env s d
    \<and> (k \<noteq> ''enabled'' \<longrightarrow> k \<noteq> ''status'' \<longrightarrow> field_of_dict u k = field_of_dict t k)"
proof -
  let ?u = "dict_set ''status'' (PStr ''DISABLED'') (dict_set ''enabled'' (PBool False) t)"
  have "apply_explicit [(''no_team_knowledge'', PBool True)] s = Inr (set_store ''team'' (Some ?u) s)"
    using assms(2) by (simp add: apply_explicit_def apply_option_def Let_def set_team_field_def get_default_def dict_or_empty_def)
  then have "map_of d ''team'' = Some (PDict ?u)"
    using desired_item [OF assms(1,3)] by (simp add: set_store_item dict_or_none_def)
  then have team: "team_store d = Some ?u"
    by (simp add: team_store_def state_sources_def team_in_def has_key_def nested_mapping_def get_default_def)
  moreover have field: "field_of_dict ?u k = field_of_dict t k" if "k \<noteq> ''enabled''" "k \<noteq> ''status''" for k
    using that by (simp add: get_default_def dict_simps)
  moreover have "enabled_flag (Some ?u) = Some False" by (simp add: enabled_flag_def get_default_def dict_simps)
  moreover have "py_eq (field_of_dict t ''store_id'') (field_of_dict t ''store_id'')"
    using well_keyed_field [OF well_keyed_team [OF assms(4,2)]] by (rule py_eq_refl)
  then have "\<not> team_identity_changed env s d"
    using assms(2) team by (simp add: team_identity_changed_def field hash_conflict_def del: py_eq.simps)
  ultimately show ?thesis by blast
qed

subsection \<open>A personal store that is found elsewhere is shadowed\<close>

definition nested_state :: pydict where
  "nested_state = [(''knowledge_stores'', PDict [(''personal'', PDict [(''enabled'', PBool True), (''mode'', PStr ''github-existing''),
     (''remote_name'', PStr ''origin'')])])]"


subsection \<open>Samples\<close>

definition sample_setup_env :: setup_env where
  "sample_setup_env = \<lparr>su_sha256 = (\<lambda>s. [hex_digit (length s mod 16)]), su_repr = (\<lambda>_. []), su_str = (\<lambda>_. []), su_windows = True\<rparr>"

definition sample_setup :: "string \<Rightarrow> pydict" where
  "sample_setup provider = [(''personal_knowledge_root'', PStr ''C:/personal''), (''runtime_root'', PStr ''C:/runtime''),
     (''personal'', PDict [(''enabled'', PBool True), (''mode'', PStr ''local'')]),
     (''team'', PDict [(''enabled'', PBool True), (''root'', PStr ''C:/team''), (''store_id'', PStr ''team_1'')]),
     (''providers'', PList [PStr provider]), (''hosts'', PDict [(''codex-cli'', PDict [(''runtime_root'', PStr ''C:/runtime'')])])]"

lemma sample_plan:
  "\<exists>p. plan_setup_reconciliation sample_setup_env (sample_setup ''ollama'') (sample_setup ''openai'') (sample_setup ''ollama'') = Inr p \<and> sp_status p = ''UPDATED''"
proof -
  obtain p where p: "plan_setup_reconciliation sample_setup_env (sample_setup ''ollama'') (sample_setup ''openai'') (sample_setup ''ollama'') = Inr p"
    using plan_exists by blast
  have "blocking_error sample_setup_env (sample_setup ''ollama'') (sample_setup ''openai'') (sample_setup ''ollama'') = None"
    "settings_changes (sample_setup ''ollama'') (sample_setup ''openai'') = [''providers'']" "sample_setup ''ollama'' \<noteq> []"
    by code_simp+
  then have "sp_status p = ''UPDATED''"
    by (cases rule: plan_cases [OF p]) (auto simp: plan_changes_def Let_def split: prod.splits)
  then show ?thesis using p by blast
qed

theorem plan_commits_last_witness:
  "\<exists>p. plan_setup_reconciliation sample_setup_env (sample_setup ''ollama'') (sample_setup ''openai'') (sample_setup ''ollama'') = Inr p
    \<and> sp_status p = ''UPDATED'' \<and> ra_kind (last (sp_actions p)) = ''write-manifest''"
  using plan_commits_last [of sample_setup_env "sample_setup ''ollama''" "sample_setup ''openai''" "sample_setup ''ollama''"] sample_plan
  by (auto split: if_splits)


theorem reached_state_is_current_witness:
  "\<exists>p. plan_setup_reconciliation sample_setup_env (sample_setup ''ollama'') (sample_setup ''ollama'') (sample_setup ''ollama'') = Inr p
    \<and> sp_actions p = []"
proof -
  obtain p where p: "plan_setup_reconciliation sample_setup_env (sample_setup ''ollama'') (sample_setup ''ollama'') (sample_setup ''ollama'') = Inr p"
    using plan_exists by blast
  have "well_keyed (PDict (sample_setup ''ollama''))" "all_targets_found (sample_setup ''ollama'')" by code_simp+
  from reached_state_is_current [OF this p] p show ?thesis by blast
qed

lemma sample_desired:
  "\<exists>d. build_desired_state sample_setup_env (Some (sample_setup ''ollama'')) (Some [(''personal_root'', PStr ''D:/notes'')]) = Inr d"
  "\<exists>d. build_desired_state sample_setup_env (Some (sample_setup ''ollama'')) (Some [(''no_team_knowledge'', PBool True)]) = Inr d"
  by (simp_all add: build_desired_state_def apply_explicit_def apply_option_def dict_or_empty_def Let_def)

theorem root_option_is_blocked_witness:
  "\<exists>d p. build_desired_state sample_setup_env (Some (sample_setup ''ollama'')) (Some [(''personal_root'', PStr ''D:/notes'')]) = Inr d
    \<and> plan_setup_reconciliation sample_setup_env (sample_setup ''ollama'') d [] = Inr p \<and> sp_status p = ''BLOCKED''"
proof -
  obtain d where d: "build_desired_state sample_setup_env (Some (sample_setup ''ollama'')) (Some [(''personal_root'', PStr ''D:/notes'')]) = Inr d"
    using sample_desired by blast
  have "sample_setup ''ollama'' \<noteq> []" "normal_path sample_setup_env (state_root (sample_setup ''ollama'') Personal) = Some ''c:/personal''"
    "normal_path sample_setup_env (PStr ''D:/notes'') = Some ''d:/notes''" by code_simp+
  from root_option_is_blocked [OF d this, of "[]"] d show ?thesis by auto
qed

theorem disabling_keeps_the_team_store_witness:
  "\<exists>d u. build_desired_state sample_setup_env (Some (sample_setup ''ollama'')) (Some [(''no_team_knowledge'', PBool True)]) = Inr d
    \<and> team_store d = Some u \<and> field_of_dict u ''store_id'' = PStr ''team_1''"
proof -
  obtain d where d: "build_desired_state sample_setup_env (Some (sample_setup ''ollama'')) (Some [(''no_team_knowledge'', PBool True)]) = Inr d"
    using sample_desired by blast
  let ?t = "[(''enabled'', PBool True), (''root'', PStr ''C:/team''), (''store_id'', PStr ''team_1'')]"
  have "team_store (sample_setup ''ollama'') = Some ?t" "sample_setup ''ollama'' \<noteq> []" "well_keyed (PDict (sample_setup ''ollama''))"
    "field_of_dict ?t ''store_id'' = PStr ''team_1''" by code_simp+
  with disabling_keeps_the_team_store [OF d this(1-3), of "''store_id''"] d show ?thesis by auto
qed
end
