(* ===== verification/Spec2Isabelle.thy ===== *)
theory Spec2Isabelle
  imports Host_Scope Capture_Ledger Work_Queue Queue_Claims Queue_Bodies Queue_Intake Provider_Base Budget_Ledger
    Setup_Contract Provider_Router Knowledge_Models Text_Patterns Privacy_Policy
    Inheritance_Gate Knowledge_Lifecycle Claim_Text Claim_Clusters Retrieval
    Persistable_Fields Event_Journal Reconciliation Reconcile_Laws Command_Quote Sync_Policy
    Plain_Payloads Change_Set Change_Validation Change_Laws Change_Apply Change_Atomicity
    Curator Curator_Laws Recall_Context Projection_State Setup_Plan Setup_Laws
begin

text \<open>
  A model of the knowledge engine under \<^verbatim>\<open>src/src/ei\<close>, translated from the Python source, and the
  theorems that make it correct.

  \<^bold>\<open>The program.\<close> Command-line assistants (the hosts) run with hooks. What a session leaves behind is
  captured (a receipt in a ledger, an item in a queue, a body in a spool), offered to one configured
  organizer (an inference provider) behind a budget and a privacy policy, and what is worth inheriting
  becomes a candidate. The curator turns a candidate into a change set; applying a change set appends
  events to a journal, which is the only store of knowledge. Reconciliation clusters the observations of
  the journal, promotes, revises, deprecates and buries patterns. Retrieval reads the patterns back for a
  host and builds the text that is injected there. Setup plans the installation, and synchronization plans
  which files of the stores are committed.

  \<^bold>\<open>Theories and sources.\<close> Definitions have the names of the source where Isabelle allows it; the fields of
  records have a prefix per record.

  \<^item> \<open>Ei_Prelude\<close>: exceptions as values and the result type \<open>exn + 'a\<close> with \<open>rbind\<close> and \<open>rmap\<close>; JSON-like
    values (\<open>pyval\<close>), dictionaries with insertion order, sorted sets, identifiers, rounding; the locales
    \<open>merge_log\<close> and \<open>invariant_system\<close>.
  \<^item> \<open>Host_Scope\<close>, \<open>Knowledge_Models\<close> (\<^verbatim>\<open>models.py\<close>, \<^verbatim>\<open>ids.py\<close>): host applicability; events, patterns,
    policies and canonical JSON.
  \<^item> \<open>Text_Patterns\<close>, \<open>Privacy_Policy\<close> (\<^verbatim>\<open>privacy.py\<close>): regular expressions with their meaning as an inductive
    relation and a matcher proved equal to it; secrets, paths and source classes.
  \<^item> \<open>Capture_Ledger\<close> (\<^verbatim>\<open>capture_contract.py\<close>, \<^verbatim>\<open>capture_ledger.py\<close>, \<^verbatim>\<open>hooks/base.py\<close>): identities, receipts and
    their monotone merge.
  \<^item> \<open>Work_Queue\<close>, \<open>Queue_Claims\<close>, \<open>Queue_Bodies\<close>, \<open>Queue_Intake\<close> (\<^verbatim>\<open>queue.py\<close>, \<^verbatim>\<open>spool.py\<close>,
    \<^verbatim>\<open>runtime_catalog.py\<close>): a world is what is durable on disk; an operation that writes several times returns
    the worlds in between, so that a crash is one of them. Leases, ownership of bodies as an invariant of the
    step relation \<open>queue_step\<close>, exactly-once intake and recovery.
  \<^item> \<open>Provider_Base\<close>, \<open>Budget_Ledger\<close>, \<open>Setup_Contract\<close>, \<open>Provider_Router\<close> (\<^verbatim>\<open>inference/\<close>,
    \<^verbatim>\<open>setup_contract.py\<close>): results and errors of providers, admission and settlement, the choice of the organizer,
    and the guarded call.
  \<^item> \<open>Inheritance_Gate\<close> (\<^verbatim>\<open>gate.py\<close>): the decision whether a candidate is inherited.
  \<^item> \<open>Claim_Text\<close>, \<open>Claim_Clusters\<close> (\<^verbatim>\<open>dedup.py\<close>, \<^verbatim>\<open>cluster.py\<close>): the comparison of claims and the assignment
    of observations to clusters.
  \<^item> \<open>Knowledge_Lifecycle\<close>, \<open>Reconciliation\<close>, \<open>Reconcile_Laws\<close> (\<^verbatim>\<open>lifecycle.py\<close>, \<^verbatim>\<open>reconciliation.py\<close>): promotion,
    deprecation and burial, and the run that writes the events.
  \<^item> \<open>Retrieval\<close>, \<open>Recall_Context\<close> (\<^verbatim>\<open>retrieve.py\<close>, \<^verbatim>\<open>context.py\<close>): eligibility, ranking, merging of hits and the
    injected text.
  \<^item> \<open>Persistable_Fields\<close>, \<open>Event_Journal\<close> (\<^verbatim>\<open>persistable_fields.py\<close>, \<^verbatim>\<open>journal.py\<close>): the closed registries of
    payload fields and the journal of sealed events.
  \<^item> \<open>Change_Set\<close>, \<open>Change_Validation\<close>, \<open>Change_Apply\<close> (\<^verbatim>\<open>changeset.py\<close>, \<^verbatim>\<open>redaction.py\<close>): change sets, their
    validation against the states of the patterns and their application; \<open>Change_Laws\<close> and \<open>Change_Atomicity\<close>
    hold the refinement of the lifecycle and the atomicity, \<open>Plain_Payloads\<close> what evaluates samples.
  \<^item> \<open>Curator\<close>, \<open>Curator_Laws\<close> (\<^verbatim>\<open>curator.py\<close>): from a candidate to a change set.
  \<^item> \<open>Projection_State\<close> (\<^verbatim>\<open>projection_state.py\<close>): the freshness of an index against the journal.
  \<^item> \<open>Command_Quote\<close> (\<^verbatim>\<open>command_quote.py\<close>): hook commands for Windows and POSIX shells.
  \<^item> \<open>Setup_Plan\<close>, \<open>Setup_Laws\<close> (\<^verbatim>\<open>setup_reconciliation.py\<close>): the desired state and the plan of a setup.
  \<^item> \<open>Sync_Policy\<close> (\<^verbatim>\<open>sync_policy.py\<close>, the plan of \<^verbatim>\<open>sync.py\<close>): what may be committed.

  \<^bold>\<open>Interfaces.\<close> \<open>merge_log\<close> (an idempotent, growing merge) is interpreted by the receipts of the capture
  ledger; \<open>invariant_system\<close> (an invariant of a step relation holds in every reachable state) by the budget
  ledger and by the queue; \<open>grouping\<close> (groups of related things, merged one by one) by the hits of retrieval.
  \<open>QueueState\<close> is an instance of \<open>enum\<close>.

  \<^bold>\<open>What the lemmas show.\<close> \<^emph>\<open>Nothing is lost or done twice\<close>: bodies of live items, envelopes, receipts,
  enqueueing, appending, settlement. \<^emph>\<open>Nothing happens without permission\<close>: provider calls, admission
  within the limits, leases, lifecycle events, the operations of a change set (a run of an abstract lifecycle
  machine), what the curator may touch, what setup may move. \<^emph>\<open>Nothing private gets out\<close>: secrets, refused
  candidates, closed payloads, host scopes in recall and curation. \<^emph>\<open>All or nothing\<close>: readers of the journal see
  a change set whole or not at all; a discarded queue item explains at every interruption which of its bodies
  are gone. \<^emph>\<open>Exact inverses and references\<close>: quoting, event round trips, the secret search. Some theorems state
  what the code does against its intention: an accepted event that no reader accepts, a candidate that can be
  curated and never applied, a setup that blocks itself.

  \<^bold>\<open>Parameters.\<close> What the standard library computes outside the scope of the model is an argument: SHA-256
  (where it matters, that a digest has 64 hexadecimal digits, \<open>sha256_texts\<close>), NFKC, \<open>repr\<close> and \<open>str\<close> of values that
  are no texts, the parsing of integers and of ISO timestamps, the time zone and month of a timestamp, random
  identifiers, the clock, paths of the operating system, the machine id and the answers of providers.

  \<^bold>\<open>Bounds and termination.\<close> Every operation is a total function: recursion is structural or has a measure
  (the length of the remaining text, for the replacements of \<open>Claim_Text\<close>, \<open>strip_markers\<close>, \<open>version_parts\<close> and
  \<open>without_final_slashes\<close>), and there is no fuel. Python integers are \<open>int\<close>, costs are integers in the unit of the
  ledger, instants are microseconds; there is no machine arithmetic in the source. Floats are rationals, so a
  score is exact where the code rounds binary fractions. Texts range over the code points 0 to 255 (one
  \<open>char\<close> each); Japanese words, which some tables of the source list, cannot occur in one.

  \<^bold>\<open>Not modelled.\<close> Locks, deadlines of operations, file formats and failures of the file system; the
  installer, the wizard and the command line; processes (git, gh, schedulers, notifications, back ends of
  inference); cryptography and key stores; migration of earlier stores; the certification and publication of
  releases; the adapters of hosts; and the rendering of indexes and projections. Nearly every step of these
  is an effect of the operating system or of a third-party program. Of the modelled files, these parts are left
  out: reading policies and providers from configuration files, the checks of real paths, exposure records,
  schemas of other records than events and change sets, and the proof of an application.
\<close>

end
